(* ===== verification/Prelude.thy ===== *)
theory Prelude
  imports Main "HOL-Library.Multiset" "HOL-Library.AList"
begin

text \<open>
  Shared vocabulary of the development.

  \<^item> \<open>res\<close>: what a Go call can do. \<open>Ok x\<close> is a normal return, \<open>Err e\<close> a return with a
    non-nil \<open>error\<close>, \<open>Panic m\<close> a run-time panic (failed type assertion, index out of
    range, a reflect call on the wrong kind). Every early return and every panic of the source
    is one of the last two.
  \<^item> \<open>rbind\<close>, \<open>mapM\<close>, \<open>foldM\<close>: sequencing, and the two shapes of Go \<open>for range\<close> loops that
    stop at the first error.
  \<^item> Go maps are association lists. The order of the list is the order in which a
    \<open>for range\<close> over the map happens to visit the keys; Go leaves it unspecified, so theorems
    quantify over the list. Lookup is \<open>map_of\<close>, assignment \<open>m[k] = v\<close> is \<open>AList.update k v m\<close>.
  \<^item> \<open>swap_remove\<close>: the idiom \<open>xs[i] = xs[len(xs)-1]; xs = xs[:len(xs)-1]\<close>.
\<close>

named_theorems res_elims \<open>inversion of successful computations\<close>
named_theorems go_map \<open>facts on association lists as Go maps\<close>

section \<open>Outcomes of Go calls\<close>

datatype ('a, 'e) res = Ok 'a | Err 'e | Panic string

fun rbind :: "('a, 'e) res \<Rightarrow> ('a \<Rightarrow> ('b, 'e) res) \<Rightarrow> ('b, 'e) res" where
  "rbind (Ok x) f = f x"
| "rbind (Err e) f = Err e"
| "rbind (Panic m) f = Panic m"

lemma rbind_cong [fundef_cong]:
  "m = m' \<Longrightarrow> (\<And>x. m' = Ok x \<Longrightarrow> f x = f' x) \<Longrightarrow> rbind m f = rbind m' f'"
  by (cases m') auto

lemma rbind_eq_Ok [simp, res_elims]:
  "rbind m f = Ok y \<longleftrightarrow> (\<exists>x. m = Ok x \<and> f x = Ok y)"
  by (cases m) auto

lemma rbind_eq_Err:
  "rbind m f = Err e \<longleftrightarrow> m = Err e \<or> (\<exists>x. m = Ok x \<and> f x = Err e)"
  by (cases m) auto

lemma rbind_Ok_right [simp]: "rbind m Ok = m"
  by (cases m) auto

lemma rbind_assoc: "rbind (rbind m f) g = rbind m (\<lambda>x. rbind (f x) g)"
  by (cases m) auto

fun mapM :: "('a \<Rightarrow> ('b, 'e) res) \<Rightarrow> 'a list \<Rightarrow> ('b list, 'e) res" where
  "mapM f [] = Ok []"
| "mapM f (x # xs) = rbind (f x) (\<lambda>y. rbind (mapM f xs) (\<lambda>ys. Ok (y # ys)))"

lemma mapM_cong [fundef_cong]:
  "xs = ys \<Longrightarrow> (\<And>x. x \<in> set ys \<Longrightarrow> f x = g x) \<Longrightarrow> mapM f xs = mapM g ys"
proof (induction ys arbitrary: xs)
  case (Cons y ys)
  then show ?case by (auto intro!: rbind_cong)
qed simp

lemma mapM_eq_Ok: "mapM f xs = Ok ys \<longleftrightarrow> list_all2 (\<lambda>x y. f x = Ok y) xs ys"
proof (induction xs arbitrary: ys)
  case (Cons x xs)
  then show ?case by (cases ys) auto
qed auto

lemma mapM_Ok_length [res_elims]: "mapM f xs = Ok ys \<Longrightarrow> length ys = length xs"
  by (auto simp: mapM_eq_Ok dest: list_all2_lengthD)

lemma mapM_Ok_nth:
  "mapM f xs = Ok ys \<Longrightarrow> i < length xs \<Longrightarrow> f (xs ! i) = Ok (ys ! i)"
  by (auto simp: mapM_eq_Ok list_all2_conv_all_nth)

lemma mapM_Ok_set:
  assumes "mapM f xs = Ok ys" and "y \<in> set ys"
  shows "\<exists>x\<in>set xs. f x = Ok y"
proof -
  from assms(2) obtain i where i: "i < length ys" "y = ys ! i"
    by (auto simp: in_set_conv_nth)
  with assms(1) have "i < length xs" by (simp add: mapM_Ok_length)
  with mapM_Ok_nth [OF assms(1) this] i show ?thesis by auto
qed

lemma mapM_pure [simp]: "mapM (\<lambda>x. Ok (f x)) xs = Ok (map f xs)"
  by (induction xs) auto

fun foldM :: "('s \<Rightarrow> 'a \<Rightarrow> ('s, 'e) res) \<Rightarrow> 's \<Rightarrow> 'a list \<Rightarrow> ('s, 'e) res" where
  "foldM f s [] = Ok s"
| "foldM f s (x # xs) = rbind (f s x) (\<lambda>s'. foldM f s' xs)"

lemma foldM_cong [fundef_cong]:
  "s = s' \<Longrightarrow> xs = ys \<Longrightarrow> (\<And>t x. x \<in> set ys \<Longrightarrow> f t x = g t x) \<Longrightarrow> foldM f s xs = foldM g s' ys"
proof (induction ys arbitrary: xs s s')
  case (Cons y ys)
  then show ?case by (auto intro!: rbind_cong)
qed simp

lemma foldM_append: "foldM f s (xs @ ys) = rbind (foldM f s xs) (\<lambda>s'. foldM f s' ys)"
  by (induction xs arbitrary: s) (auto simp: rbind_assoc)

text \<open>The loop rule: an invariant kept by every iteration that returns holds at the end.\<close>

lemma foldM_invariant:
  assumes "foldM f s xs = Ok s'" and "P s"
    and "\<And>t x t'. x \<in> set xs \<Longrightarrow> P t \<Longrightarrow> f t x = Ok t' \<Longrightarrow> P t'"
  shows "P s'"
  using assms
proof (induction xs arbitrary: s)
  case (Cons x xs)
  then obtain t where "f s x = Ok t" and t: "foldM f t xs = Ok s'" by auto
  with Cons.prems have "P t" by (meson list.set_intros(1))
  with Cons.IH [OF t this] Cons.prems(3) show ?case by (meson list.set_intros(2))
qed simp

lemma foldM_pure [simp]: "foldM (\<lambda>s x. Ok (f s x)) s xs = Ok (foldl f s xs)"
  by (induction xs arbitrary: s) auto

section \<open>Go maps as association lists\<close>

type_synonym ('k, 'v) gomap = "('k \<times> 'v) list"

abbreviation gokeys :: "('k, 'v) gomap \<Rightarrow> 'k list" where
  "gokeys m \<equiv> map fst m"

definition gomap_wf :: "('k, 'v) gomap \<Rightarrow> bool" where
  "gomap_wf m \<longleftrightarrow> distinct (gokeys m)"

definition gohas :: "('k, 'v) gomap \<Rightarrow> 'k \<Rightarrow> bool" where
  "gohas m k \<longleftrightarrow> map_of m k \<noteq> None"

lemma gohas_iff [simp]: "gohas m k \<longleftrightarrow> k \<in> set (gokeys m)"
  by (auto simp: gohas_def map_of_eq_None_iff)

text \<open>\<open>for k, v := range src { dst[k] = v }\<close>\<close>

definition gomerge :: "('k, 'v) gomap \<Rightarrow> ('k, 'v) gomap \<Rightarrow> ('k, 'v) gomap" where
  "gomerge dst src = foldl (\<lambda>m (k, v). AList.update k v m) dst src"

lemma map_of_update [simp, go_map]: "map_of (AList.update k v m) = (map_of m)(k \<mapsto> v)"
  by (rule update_conv')

lemma gomap_wf_Nil [simp]: "gomap_wf []"
  by (simp add: gomap_wf_def)

lemma gomap_wf_update [simp]: "gomap_wf m \<Longrightarrow> gomap_wf (AList.update k v m)"
  unfolding gomap_wf_def by (rule distinct_update)

lemma gokeys_update [go_map]:
  "gokeys (AList.update k v m) = (if k \<in> set (gokeys m) then gokeys m else gokeys m @ [k])"
  by (induction m) auto

lemma gomerge_simps [simp]:
  "gomerge dst [] = dst"
  "gomerge dst ((k, v) # src) = gomerge (AList.update k v dst) src"
  by (simp_all add: gomerge_def)

lemma gomap_wf_gomerge [simp]: "gomap_wf dst \<Longrightarrow> gomap_wf (gomerge dst src)"
proof (induction src arbitrary: dst)
  case (Cons kv src)
  then show ?case by (cases kv) simp
qed simp

lemma map_of_gomerge [go_map]:
  assumes "gomap_wf src"
  shows "map_of (gomerge dst src) k = (case map_of src k of None \<Rightarrow> map_of dst k | Some v \<Rightarrow> Some v)"
  using assms
proof (induction src arbitrary: dst)
  case (Cons kv src)
  obtain k' v' where kv: "kv = (k', v')" by (cases kv)
  with Cons.prems have notin: "map_of src k' = None" and wf: "gomap_wf src"
    by (auto simp: gomap_wf_def map_of_eq_None_iff)
  show ?case
    using Cons.IH [OF wf, of "AList.update k' v' dst"] notin
    by (auto simp: kv split: option.splits)
qed simp

lemma set_gokeys_gomerge [go_map]:
  "set (gokeys (gomerge dst src)) = set (gokeys dst) \<union> set (gokeys src)"
proof (induction src arbitrary: dst)
  case (Cons kv src)
  obtain k v where [simp]: "kv = (k, v)" by (cases kv)
  have "set (gokeys (AList.update k v dst)) = insert k (set (gokeys dst))"
    by (auto simp: gokeys_update)
  then show ?case using Cons.IH [of "AList.update k v dst"] by auto
qed simp

lemma map_of_filter_keys [go_map]:
  "map_of (filter (\<lambda>(k, v). P k) m) k = (if P k then map_of m k else None)"
  by (induction m) auto

lemma gomap_wf_filter [simp]: "gomap_wf m \<Longrightarrow> gomap_wf (filter P m)"
  by (auto simp: gomap_wf_def intro: distinct_map_filter)

lemma map_of_map_snd [go_map]: "map_of (map (\<lambda>(k, v). (k, f v)) m) k = map_option f (map_of m k)"
  by (induction m) auto

lemma gokeys_map_snd [simp]: "gokeys (map (\<lambda>(k, v). (k, f v)) m) = gokeys m"
  by (induction m) auto

section \<open>Removing an element by swapping in the last one\<close>

definition swap_remove :: "nat \<Rightarrow> 'a list \<Rightarrow> 'a list" where
  "swap_remove i xs = butlast (xs[i := last xs])"

lemma length_swap_remove [simp]: "length (swap_remove i xs) = length xs - 1"
  by (simp add: swap_remove_def)

lemma mset_swap_remove:
  assumes "i < length xs"
  shows "mset xs = add_mset (xs ! i) (mset (swap_remove i xs))"
proof -
  let ?ys = "xs[i := last xs]"
  from assms have ne: "?ys \<noteq> []" by auto
  have "last ?ys = last xs"
    using assms ne by (cases xs rule: rev_cases) (auto simp: list_update_append split: nat.splits)
  with ne have "?ys = swap_remove i xs @ [last xs]"
    by (metis append_butlast_last_id swap_remove_def)
  then have "mset ?ys = add_mset (last xs) (mset (swap_remove i xs))"
    by simp
  moreover have "mset ?ys = add_mset (last xs) (mset xs - {#xs ! i#})"
    using assms by (simp add: mset_update)
  ultimately have "mset (swap_remove i xs) = mset xs - {#xs ! i#}" by simp
  with assms show ?thesis by simp
qed

lemma set_swap_remove_subset: "i < length xs \<Longrightarrow> set (swap_remove i xs) \<subseteq> set xs"
  by (metis mset_swap_remove set_mset_add_mset_insert set_mset_mset subset_insertI)

end
