(* ===== verification/GoStrings.thy ===== *)
theory GoStrings
  imports Prelude
begin

text \<open>
  The parts of Go's \<open>strings\<close>, \<open>strconv\<close> and \<open>regexp/syntax\<close> character classes that the
  program uses. A Go string is a byte sequence; here it is a \<open>string\<close> (a list of 8-bit
  characters), so lengths, indices and slices count bytes as they do in Go.

  \<open>atoi\<close> is \<open>strconv.Atoi\<close> on a 64-bit platform: an optional sign, at least one decimal
  digit, nothing else, and the value must fit an \<open>int64\<close>. \<open>trimSpace\<close> trims the UTF-8
  encodings of every code point of \<open>unicode.IsSpace\<close>. \<open>equalFold\<close> is \<open>strings.EqualFold\<close>
  for arguments of which at least one is ASCII (method names and the literal \<open>host\<close>): besides
  ASCII case it knows the two non-ASCII code points that fold to an ASCII letter, U+017F and
  U+212A.
\<close>

named_theorems go_str \<open>rewriting of string operations\<close>

section \<open>Characters\<close>

definition codepoint :: "char \<Rightarrow> nat" where
  "codepoint c = of_char c"

definition isDigit :: "char \<Rightarrow> bool" where
  "isDigit c \<longleftrightarrow> 48 \<le> codepoint c \<and> codepoint c \<le> 57"

text \<open>The class \<open>\s\<close> of Go regular expressions: \<open>[\t\n\f\r ]\<close>.\<close>

definition rxSpace :: "char \<Rightarrow> bool" where
  "rxSpace c \<longleftrightarrow> c \<in> {CHR 0x09, CHR 0x0A, CHR 0x0C, CHR 0x0D, CHR '' ''}"

text \<open>The class \<open>\w\<close> of Go regular expressions: \<open>[0-9A-Za-z_]\<close>.\<close>

definition rxWord :: "char \<Rightarrow> bool" where
  "rxWord c \<longleftrightarrow> isDigit c \<or> (65 \<le> codepoint c \<and> codepoint c \<le> 90)
     \<or> (97 \<le> codepoint c \<and> codepoint c \<le> 122) \<or> c = CHR ''_''"

definition asciiLower :: "char \<Rightarrow> char" where
  "asciiLower c = (if 65 \<le> codepoint c \<and> codepoint c \<le> 90 then char_of (codepoint c + 32) else c)"

definition asciiUpper :: "char \<Rightarrow> char" where
  "asciiUpper c = (if 97 \<le> codepoint c \<and> codepoint c \<le> 122 then char_of (codepoint c - 32) else c)"

section \<open>Prefixes, searching, trimming\<close>

definition hasPrefix :: "string \<Rightarrow> string \<Rightarrow> bool" where
  "hasPrefix s p \<longleftrightarrow> take (length p) s = p"

definition hasSuffix :: "string \<Rightarrow> string \<Rightarrow> bool" where
  "hasSuffix s p \<longleftrightarrow> length p \<le> length s \<and> drop (length s - length p) s = p"

lemma hasPrefix_iff: "hasPrefix s p \<longleftrightarrow> (\<exists>t. s = p @ t)"
  by (auto simp: hasPrefix_def) (metis append_take_drop_id)

lemma hasPrefix_append [simp, go_str]: "hasPrefix (p @ s) p"
  by (simp add: hasPrefix_def)

lemma hasSuffix_iff: "hasSuffix s p \<longleftrightarrow> (\<exists>t. s = t @ p)"
  by (auto simp: hasSuffix_def) (metis append_take_drop_id)

fun contains :: "string \<Rightarrow> string \<Rightarrow> bool" where
  "contains [] sub \<longleftrightarrow> sub = []"
| "contains (c # s) sub \<longleftrightarrow> hasPrefix (c # s) sub \<or> contains s sub"

lemma contains_iff: "contains s sub \<longleftrightarrow> (\<exists>pre post. s = pre @ sub @ post)"
proof (induction s)
  case (Cons c s)
  show ?case
  proof
    assume "contains (c # s) sub"
    then consider "hasPrefix (c # s) sub" | "contains s sub" by auto
    then show "\<exists>pre post. c # s = pre @ sub @ post"
    proof cases
      case 1
      then show ?thesis by (metis append_Nil hasPrefix_iff)
    next
      case 2
      then show ?thesis using Cons.IH by (metis append_Cons)
    qed
  next
    assume "\<exists>pre post. c # s = pre @ sub @ post"
    then obtain pre post where eq: "c # s = pre @ sub @ post" by blast
    show "contains (c # s) sub"
    proof (cases pre)
      case Nil
      with eq have "hasPrefix (c # s) sub" by (simp add: hasPrefix_iff)
      then show ?thesis by simp
    next
      case (Cons d pre')
      with eq Cons.IH show ?thesis by auto
    qed
  qed
qed simp

definition trimLeft :: "char \<Rightarrow> string \<Rightarrow> string" where
  "trimLeft c s = dropWhile (\<lambda>x. x = c) s"

definition trimRight :: "char \<Rightarrow> string \<Rightarrow> string" where
  "trimRight c s = rev (dropWhile (\<lambda>x. x = c) (rev s))"

text \<open>UTF-8 encodings of the code points of \<open>unicode.IsSpace\<close>.\<close>

definition spaceEncodings :: "string list" where
  "spaceEncodings =
     [[CHR 0x09], [CHR 0x0A], [CHR 0x0B], [CHR 0x0C], [CHR 0x0D], [CHR '' ''],
      [CHR 0xC2, CHR 0x85], [CHR 0xC2, CHR 0xA0], [CHR 0xE1, CHR 0x9A, CHR 0x80],
      [CHR 0xE2, CHR 0x80, CHR 0x80], [CHR 0xE2, CHR 0x80, CHR 0x81], [CHR 0xE2, CHR 0x80, CHR 0x82],
      [CHR 0xE2, CHR 0x80, CHR 0x83], [CHR 0xE2, CHR 0x80, CHR 0x84], [CHR 0xE2, CHR 0x80, CHR 0x85],
      [CHR 0xE2, CHR 0x80, CHR 0x86], [CHR 0xE2, CHR 0x80, CHR 0x87], [CHR 0xE2, CHR 0x80, CHR 0x88],
      [CHR 0xE2, CHR 0x80, CHR 0x89], [CHR 0xE2, CHR 0x80, CHR 0x8A], [CHR 0xE2, CHR 0x80, CHR 0xA8],
      [CHR 0xE2, CHR 0x80, CHR 0xA9], [CHR 0xE2, CHR 0x80, CHR 0xAF], [CHR 0xE2, CHR 0x81, CHR 0x9F],
      [CHR 0xE3, CHR 0x80, CHR 0x80]]"

lemma spaceEncodings_nonempty: "e \<in> set spaceEncodings \<Longrightarrow> 0 < length e"
  by (auto simp: spaceEncodings_def)

text \<open>Strip one of the given non-empty strings from the front, as often as possible.\<close>

function stripFront :: "string list \<Rightarrow> string \<Rightarrow> string" where
  "stripFront encs s =
     (case find (\<lambda>e. e \<noteq> [] \<and> hasPrefix s e) encs of
        None \<Rightarrow> s | Some e \<Rightarrow> stripFront encs (drop (length e) s))"
  by pat_completeness auto
termination
proof (relation "measure (\<lambda>(encs, s). length s)", goal_cases)
  case (2 encs s e)
  then have "e \<noteq> []" and "hasPrefix s e" by (auto simp: find_Some_iff)
  then show ?case by (auto simp: hasPrefix_iff)
qed simp

declare stripFront.simps [simp del]

definition trimSpace :: "string \<Rightarrow> string" where
  "trimSpace s = rev (stripFront (map rev spaceEncodings) (rev (stripFront spaceEncodings s)))"

lemma stripFront_id:
  "(\<And>e. e \<in> set encs \<Longrightarrow> e \<noteq> [] \<Longrightarrow> \<not> hasPrefix s e) \<Longrightarrow> stripFront encs s = s"
  by (subst stripFront.simps) (auto simp: find_None_iff split: option.split dest!: find_Some_iff [THEN iffD1])

text \<open>A printable ASCII string that contains no space is left alone.\<close>

definition visible :: "char \<Rightarrow> bool" where
  "visible c \<longleftrightarrow> 33 \<le> codepoint c \<and> codepoint c \<le> 126"

lemma spaceEncodings_invisible:
  "e \<in> set spaceEncodings \<Longrightarrow> e \<noteq> [] \<and> \<not> visible (hd e) \<and> \<not> visible (last e)"
  by (auto simp: spaceEncodings_def visible_def codepoint_def)

lemma stripFront_visible:
  assumes "\<And>e. e \<in> set encs \<Longrightarrow> e \<noteq> [] \<and> \<not> visible (hd e)" and "s \<noteq> [] \<Longrightarrow> visible (hd s)"
  shows "stripFront encs s = s"
  by (rule stripFront_id) (use assms in \<open>fastforce simp: hasPrefix_iff\<close>)

lemma trimSpace_visible:
  assumes "s \<noteq> [] \<Longrightarrow> visible (hd s) \<and> visible (last s)"
  shows "trimSpace s = s"
proof -
  have "stripFront spaceEncodings s = s"
    using assms by (intro stripFront_visible) (auto dest: spaceEncodings_invisible)
  moreover have "stripFront (map rev spaceEncodings) (rev s) = rev s"
    using assms by (intro stripFront_visible) (auto simp: hd_rev dest: spaceEncodings_invisible)
  ultimately show ?thesis by (simp add: trimSpace_def)
qed

section \<open>Splitting, joining, replacing\<close>

fun splitOn :: "char \<Rightarrow> string \<Rightarrow> string list" where
  "splitOn c [] = [[]]"
| "splitOn c (x # s) =
     (if x = c then [] # splitOn c s
      else (case splitOn c s of [] \<Rightarrow> [[x]] | w # ws \<Rightarrow> (x # w) # ws))"

lemma splitOn_nonempty [simp]: "splitOn c s \<noteq> []"
  by (induction s) (auto split: list.splits)

lemma splitOn_notin: "c \<notin> set s \<Longrightarrow> splitOn c s = [s]"
  by (induction s) auto

lemma splitOn_append: "c \<notin> set s \<Longrightarrow> splitOn c (s @ c # t) = s # splitOn c t"
  by (induction s) auto

text \<open>\<open>strings.SplitN(s, c, 2)\<close>: one part when the separator does not occur.\<close>

definition splitN2 :: "char \<Rightarrow> string \<Rightarrow> string list" where
  "splitN2 c s = (if c \<in> set s then [takeWhile (\<lambda>x. x \<noteq> c) s, tl (dropWhile (\<lambda>x. x \<noteq> c) s)] else [s])"

lemma splitN2_append [simp]: "c \<notin> set s \<Longrightarrow> splitN2 c (s @ c # t) = [s, t]"
  by (induction s) (auto simp: splitN2_def)

fun join :: "string \<Rightarrow> string list \<Rightarrow> string" where
  "join sep [] = []"
| "join sep [w] = w"
| "join sep (w # ws) = w @ sep @ join sep ws"

lemma join_splitOn: "join [c] (splitOn c s) = s"
proof (induction s)
  case (Cons x s)
  then show ?case by (cases "splitOn c s" rule: list.exhaust; cases "tl (splitOn c s)") auto
qed simp

text \<open>\<open>strings.ReplaceAll\<close> for a non-empty \<open>old\<close>.\<close>

function replaceAll :: "string \<Rightarrow> string \<Rightarrow> string \<Rightarrow> string" where
  "replaceAll [] old new = []"
| "replaceAll (c # s) old new =
     (if old \<noteq> [] \<and> hasPrefix (c # s) old then new @ replaceAll (drop (length old) (c # s)) old new
      else c # replaceAll s old new)"
  by pat_completeness auto
termination
  by (relation "measure (\<lambda>(s, old, new). length s)") (auto simp: neq_Nil_conv)

lemma replaceAll_char:
  "replaceAll s [c] new = concat (map (\<lambda>x. if x = c then new else [x]) s)"
  by (induction s) (auto simp: hasPrefix_def)

definition foldCase :: "string \<Rightarrow> string" where
  "foldCase s =
     map asciiLower
       (replaceAll (replaceAll s [CHR 0xC5, CHR 0xBF] ''s'') [CHR 0xE2, CHR 0x84, CHR 0xAA] ''k'')"

definition equalFold :: "string \<Rightarrow> string \<Rightarrow> bool" where
  "equalFold s t \<longleftrightarrow> foldCase s = foldCase t"

lemma equalFold_refl [simp]: "equalFold s s"
  by (simp add: equalFold_def)

lemma equalFold_sym: "equalFold s t \<longleftrightarrow> equalFold t s"
  by (auto simp: equalFold_def)

section \<open>Decimal numbers\<close>

fun itoaNat :: "nat \<Rightarrow> string" where
  "itoaNat n = (if n < 10 then [char_of (48 + n)] else itoaNat (n div 10) @ [char_of (48 + n mod 10)])"

declare itoaNat.simps [simp del]

definition itoa :: "int \<Rightarrow> string" where
  "itoa i = (if i < 0 then CHR ''-'' # itoaNat (nat (- i)) else itoaNat (nat i))"

definition digitsVal :: "string \<Rightarrow> nat" where
  "digitsVal s = foldl (\<lambda>n c. 10 * n + (codepoint c - 48)) 0 s"

definition maxInt :: int where "maxInt = 2 ^ 63 - 1"

definition atoi :: "string \<Rightarrow> int option" where
  "atoi s =
     (let neg = (s \<noteq> [] \<and> hd s = CHR ''-'');
          body = (if s \<noteq> [] \<and> (hd s = CHR ''-'' \<or> hd s = CHR ''+'') then tl s else s);
          n = int (digitsVal body);
          v = (if neg then - n else n)
      in if body \<noteq> [] \<and> list_all isDigit body \<and> - maxInt - 1 \<le> v \<and> v \<le> maxInt then Some v else None)"

lemma codepoint_digit: "d < (10::nat) \<Longrightarrow> codepoint (char_of (48 + d)) = 48 + d"
  by (simp add: codepoint_def)

lemma isDigit_digit: "d < (10::nat) \<Longrightarrow> isDigit (char_of (48 + d))"
  by (simp add: isDigit_def codepoint_digit)

lemma itoaNat_digits: "list_all isDigit (itoaNat n)"
  by (induction n rule: itoaNat.induct) (subst itoaNat.simps, auto simp: isDigit_digit)

lemma itoaNat_nonempty [simp]: "itoaNat n \<noteq> []"
  by (subst itoaNat.simps) simp

lemma digitsVal_snoc: "digitsVal (s @ [c]) = 10 * digitsVal s + (codepoint c - 48)"
  by (simp add: digitsVal_def)

lemma digitsVal_itoaNat [simp]: "digitsVal (itoaNat n) = n"
proof (induction n rule: itoaNat.induct)
  case (1 n)
  show ?case
  proof (cases "n < 10")
    case True
    then show ?thesis by (simp add: itoaNat.simps [of n] digitsVal_def codepoint_digit)
  next
    case False
    with 1 show ?thesis by (simp add: itoaNat.simps [of n] digitsVal_snoc codepoint_digit)
  qed
qed

lemma isDigit_not_sign: "isDigit c \<Longrightarrow> c \<noteq> CHR ''-'' \<and> c \<noteq> CHR ''+''"
  by (auto simp: isDigit_def codepoint_def)

lemma atoi_itoa:
  assumes "0 \<le> i" and "i \<le> maxInt"
  shows "atoi (itoa i) = Some i"
proof -
  let ?s = "itoaNat (nat i)"
  have "isDigit (hd ?s)"
    using itoaNat_digits [of "nat i"] by (cases ?s) auto
  then have "hd ?s \<noteq> CHR ''-''" "hd ?s \<noteq> CHR ''+''" by (auto dest: isDigit_not_sign)
  with assms show ?thesis by (simp add: atoi_def itoa_def itoaNat_digits maxInt_def)
qed

lemma itoa_visible: "0 \<le> i \<Longrightarrow> c \<in> set (itoa i) \<Longrightarrow> isDigit c \<and> visible c"
  using itoaNat_digits [of "nat i"] by (auto simp: itoa_def list_all_iff isDigit_def visible_def)

lemma itoa_nonempty [simp]: "itoa i \<noteq> []"
  by (simp add: itoa_def)

lemma atoi_not_digit: "c \<in> set (tl s) \<Longrightarrow> \<not> isDigit c \<Longrightarrow> atoi s = None"
  by (cases s) (auto simp: atoi_def Let_def list_all_iff)

lemma atoi_bounds: "atoi s = Some v \<Longrightarrow> - maxInt - 1 \<le> v \<and> v \<le> maxInt"
  by (auto simp: atoi_def Let_def split: if_splits)

end
