(* ===== verification/Values.thy ===== *)
theory Values
  imports GoStrings "HOL-Library.Word"
begin

text \<open>
  The dynamic values the program passes around as \<open>interface{}\<close>, and its errors.

  \<^item> \<open>jval\<close>: what \<open>json.Unmarshal\<close> into an \<open>interface{}\<close> and \<open>xmlparsing.Parse\<close> build, and
    what \<open>compare.Compare\<close> walks over. \<open>JByte\<close> is the \<open>uint8\<close> that indexing a Go string
    through \<open>reflect\<close> yields.
  \<^item> \<open>yval\<close>: what \<open>yaml.Unmarshal\<close> (yaml.v2) builds: mappings are
    \<open>map[interface{}]interface{}\<close>, so their keys are values too.
  \<^item> \<open>float64\<close>: the IEEE-754 bit pattern, with Go's \<open>==\<close> as \<open>f64_eq\<close> (NaN differs from
    itself, the two zeros are equal).
  \<^item> \<open>goerror\<close>: an error by how it was made: \<open>EFmt\<close> is \<open>errors.New\<close> or \<open>fmt.Errorf\<close> with the
    format (up to quotation marks and line breaks) and its arguments, \<open>EWrap\<close> a \<open>fmt.Errorf\<close> with \<open>%w\<close> (or one that prints the
    cause's text), and one constructor per error struct of the program.

  Third-party or very large library code is a parameter: \<open>regexp_engine\<close> is \<open>regexp.Compile\<close>
  together with \<open>MatchString\<close>; \<open>formatter\<close> is \<open>fmt.Sprintf("%v", x)\<close>.
\<close>

section \<open>Floating-point numbers\<close>

type_synonym float64 = "64 word"

definition f64_abs :: "float64 \<Rightarrow> nat" where
  "f64_abs w = unat w mod 2 ^ 63"

definition f64_isNaN :: "float64 \<Rightarrow> bool" where
  "f64_isNaN w \<longleftrightarrow> 9218868437227405312 < f64_abs w"

definition f64_eq :: "float64 \<Rightarrow> float64 \<Rightarrow> bool" where
  "f64_eq a b \<longleftrightarrow> \<not> f64_isNaN a \<and> \<not> f64_isNaN b \<and> (a = b \<or> f64_abs a = 0 \<and> f64_abs b = 0)"

lemma f64_eq_refl_iff [simp]: "f64_eq a a \<longleftrightarrow> \<not> f64_isNaN a"
  by (auto simp: f64_eq_def)

lemma f64_eq_sym: "f64_eq a b \<longleftrightarrow> f64_eq b a"
  by (auto simp: f64_eq_def)

lemma f64_eq_trans: "f64_eq a b \<Longrightarrow> f64_eq b c \<Longrightarrow> f64_eq a c"
  by (auto simp: f64_eq_def)

section \<open>JSON and YAML values\<close>

datatype jval =
    JNil
  | JBool bool
  | JNum float64
  | JStr string
  | JByte char
  | JArr "jval list"
  | JMap "(string \<times> jval) list"

datatype yval =
    YNil
  | YBool bool
  | YInt int
  | YFloat float64
  | YStr string
  | YArr "yval list"
  | YMap "(yval \<times> yval) list"

text \<open>A size that also makes the bytes of a string smaller than the string.\<close>

fun jsize :: "jval \<Rightarrow> nat" where
  "jsize (JArr xs) = Suc (sum_list (map (\<lambda>x. Suc (jsize x)) xs))"
| "jsize (JMap kvs) = Suc (sum_list (map (\<lambda>kv. Suc (jsize (snd kv))) kvs))"
| "jsize (JStr s) = 1"
| "jsize _ = 0"

lemma jsize_elem: "x \<in> set xs \<Longrightarrow> jsize x < jsize (JArr xs)"
  using member_le_sum_list [of "Suc (jsize x)" "map (\<lambda>x. Suc (jsize x)) xs"] by auto

lemma jsize_field: "(k, v) \<in> set kvs \<Longrightarrow> jsize v < jsize (JMap kvs)"
  using member_le_sum_list [of "Suc (jsize v)" "map (\<lambda>kv. Suc (jsize (snd kv))) kvs"] by force

section \<open>Errors\<close>

datatype goerror =
    EFmt string "shown list"
  | EWrap string "shown list" goerror
  | ECompare string string shown shown
  | ECheck string string string "goerror option"
  | EMock goerror string
  | EConstraint goerror string string string
  | ECalls string int int string
and shown =
    ShNil
  | ShStr string
  | ShInt int
  | ShVal jval
  | ShYaml yval
  | ShErr goerror
  | ShStrs "string list"

abbreviation errNew :: "string \<Rightarrow> goerror" where
  "errNew s \<equiv> EFmt s []"

type_synonym 'a gores = "('a, goerror) res"

section \<open>State and errors\<close>

text \<open>Sequencing of steps that change the state and may fail.\<close>

definition sbind :: "'s \<times> 'a gores \<Rightarrow> ('s \<Rightarrow> 'a \<Rightarrow> 's \<times> 'b gores) \<Rightarrow> 's \<times> 'b gores" where
  "sbind m k =
     (case snd m of Ok x \<Rightarrow> k (fst m) x | Err e \<Rightarrow> (fst m, Err e) | Panic p \<Rightarrow> (fst m, Panic p))"

lemma sbind_simps [simp, code]:
  "sbind (s, Ok x) k = k s x" "sbind (s, Err e) k = (s, Err e)" "sbind (s, Panic p) k = (s, Panic p)"
  by (simp_all add: sbind_def)

lemma sbind_fst:
  assumes "P (fst m)" and "\<And>s x. P s \<Longrightarrow> P (fst (k s x))"
  shows "P (fst (sbind m k))"
  using assms by (auto simp: sbind_def split: res.split)

lemma sbind_cong_snd:
  "(\<And>s x. snd (k s x) = snd (k' s x)) \<Longrightarrow> snd (sbind m k) = snd (sbind m k')"
  by (simp add: sbind_def split: res.split)

lemma sbind_assoc: "sbind (sbind m f) g = sbind m (\<lambda>s x. sbind (f s x) g)"
  by (simp add: sbind_def split: res.split)

lemma sbind_Ok: "snd (sbind m k) = Ok r \<longleftrightarrow> (\<exists>x. snd m = Ok x \<and> snd (k (fst m) x) = Ok r)"
  by (cases "snd m") (auto simp: sbind_def)

lemma sbind_eq_Ok: "sbind m k = (s', Ok r) \<longleftrightarrow> (\<exists>s x. m = (s, Ok x) \<and> k s x = (s', Ok r))"
  by (cases m; cases "snd m") (auto simp: sbind_def)

section \<open>Parameters\<close>

type_synonym regexp_engine = "string \<Rightarrow> (string \<Rightarrow> bool) option"
type_synonym formatter = "jval \<Rightarrow> string"

end
