(* ===== verification/Compare.thy ===== *)
theory Compare
  imports Values
begin

text \<open>
  Model of \<open>compare/compare.go\<close>: \<open>Compare\<close> walks an expected and an actual value in parallel and
  returns the list of differences. \<open>compareBranch\<close> and \<open>getUnmatchedArrays\<close> call each other; here
  the loops (\<open>compareItems\<close>, \<open>compareKeys\<close>, \<open>getUnmatchedArrays\<close>, \<open>findMatch\<close>) take the
  recursive call as an argument, and \<open>compareBranch\<close> ties the knot; it terminates because
  the expected value shrinks.

  Parameters: \<open>rx\<close> is the regular-expression engine, \<open>fv\<close> the \<open>%v\<close> formatting.
\<close>

section \<open>Parameters and match types\<close>

record Params =
  IgnoreValues :: bool
  IgnoreArraysOrdering :: bool
  DisallowExtraFields :: bool
  IgnoreDbOrdering :: bool
  failFast :: bool

definition zeroParams :: Params where
  "zeroParams = \<lparr>IgnoreValues = False, IgnoreArraysOrdering = False, DisallowExtraFields = False,
     IgnoreDbOrdering = False, failFast = False\<rparr>"

datatype leafsMatchType = pure | regex | arrayLen

text \<open>
  \<open>^\$matchRegexp\((.+)\)$\<close>: the body is everything between the prefix and the last character,
  which must be a closing bracket; it is non-empty and \<open>.\<close> does not match a newline.
\<close>

definition regexExprRx :: "string \<Rightarrow> string option" where
  "regexExprRx s =
     (let p = ''$matchRegexp(''; body = butlast (drop (length p) s)
      in if hasPrefix s p \<and> length p < length s \<and> last s = CHR '')'' \<and> body \<noteq> [] \<and> CHR 0x0A \<notin> set body
         then Some body else None)"

text \<open>\<open>^\$matchArrayLen\(([^)]*)\)$\<close>: the body may be empty and contains no closing bracket.\<close>

definition arrayLenExprRx :: "string \<Rightarrow> string option" where
  "arrayLenExprRx s =
     (let p = ''$matchArrayLen(''; body = butlast (drop (length p) s)
      in if hasPrefix s p \<and> length p < length s \<and> last s = CHR '')'' \<and> CHR '')'' \<notin> set body
         then Some body else None)"

definition leafMatchType :: "jval \<Rightarrow> leafsMatchType" where
  "leafMatchType expected =
     (case expected of
        JStr val \<Rightarrow>
          (if regexExprRx val \<noteq> None then regex
           else if arrayLenExprRx val \<noteq> None then arrayLen else pure)
      | _ \<Rightarrow> pure)"

definition retrieveRegexStr :: "string \<Rightarrow> string" where
  "retrieveRegexStr expr = (case regexExprRx expr of Some m \<Rightarrow> m | None \<Rightarrow> [])"

definition makeError :: "string \<Rightarrow> string \<Rightarrow> shown \<Rightarrow> shown \<Rightarrow> goerror" where
  "makeError path msg expected actual = ECompare path msg expected actual"

section \<open>Types of values\<close>

fun getType :: "jval \<Rightarrow> string" where
  "getType JNil = ''nil''"
| "getType (JArr _) = ''array''"
| "getType (JMap _) = ''map''"
| "getType (JBool _) = ''bool''"
| "getType (JNum _) = ''float64''"
| "getType (JStr _) = ''string''"
| "getType (JByte _) = ''uint8''"

definition isScalarType :: "string \<Rightarrow> bool" where
  "isScalarType t \<longleftrightarrow> \<not> (t = ''array'' \<or> t = ''map'')"

text \<open>
  \<open>reflect.ValueOf(x).Len()\<close> and \<open>.Index(i)\<close> work on slices and on strings, whose elements are
  \<open>uint8\<close>; on other kinds they panic.
\<close>

fun convertToArray :: "jval \<Rightarrow> jval list gores" where
  "convertToArray (JArr xs) = Ok xs"
| "convertToArray (JStr s) = Ok (map JByte s)"
| "convertToArray (JMap []) = Ok []"
| "convertToArray (JMap _) = Panic ''reflect: call of reflect.Value.Index on map Value''"
| "convertToArray _ = Panic ''reflect: call of reflect.Value.Len on scalar Value''"

section \<open>Leaves\<close>

text \<open>Go's \<open>==\<close> on interface values; comparing two slices or two maps panics.\<close>

fun ifaceEq :: "jval \<Rightarrow> jval \<Rightarrow> bool gores" where
  "ifaceEq JNil JNil = Ok True"
| "ifaceEq (JBool a) (JBool b) = Ok (a = b)"
| "ifaceEq (JNum a) (JNum b) = Ok (f64_eq a b)"
| "ifaceEq (JStr a) (JStr b) = Ok (a = b)"
| "ifaceEq (JByte a) (JByte b) = Ok (a = b)"
| "ifaceEq (JArr _) (JArr _) = Panic ''comparing uncomparable type''"
| "ifaceEq (JMap _) (JMap _) = Panic ''comparing uncomparable type''"
| "ifaceEq _ _ = Ok False"

definition comparePure :: "string \<Rightarrow> jval \<Rightarrow> jval \<Rightarrow> goerror list gores" where
  "comparePure path expected actual =
     rbind (ifaceEq expected actual)
       (\<lambda>eq. Ok (if \<not> eq then [makeError path ''values do not match'' (ShVal expected) (ShVal actual)] else []))"

definition compareRegex :: "regexp_engine \<Rightarrow> formatter \<Rightarrow> string \<Rightarrow> jval \<Rightarrow> jval \<Rightarrow> goerror list" where
  "compareRegex rx fv path expected actual =
     (case expected of
        JStr regexExpr \<Rightarrow>
          (let value = fv actual
           in case rx (retrieveRegexStr regexExpr) of
                None \<Rightarrow> [makeError path ''can not compile regex'' ShNil (ShStr ''error'')]
              | Some matchString \<Rightarrow>
                  if \<not> matchString value
                  then [makeError path ''value does not match regex'' (ShVal expected) (ShVal actual)]
                  else [])
      | _ \<Rightarrow> [makeError path ''type mismatch'' (ShStr ''string'') (ShStr (getType expected))])"

definition compareLeafs :: "regexp_engine \<Rightarrow> formatter \<Rightarrow> string \<Rightarrow> jval \<Rightarrow> jval \<Rightarrow> goerror list gores" where
  "compareLeafs rx fv path expected actual =
     (case leafMatchType expected of
        pure \<Rightarrow> comparePure path expected actual
      | regex \<Rightarrow> Ok (compareRegex rx fv path expected actual)
      | arrayLen \<Rightarrow> Panic ''unknown compare type'')"

section \<open>Array lengths\<close>

record lenSpec =
  minN :: int
  maxN :: int
  haveMin :: bool
  haveMax :: bool

text \<open>One \<open>key=value\<close> part of the specification.\<close>

definition parseLenPart :: "lenSpec \<Rightarrow> string \<Rightarrow> lenSpec gores" where
  "parseLenPart st part =
     (let kv = splitN2 (CHR ''='') part
      in if length kv \<noteq> 2 then Err (EFmt ''expected key=value, got %q'' [ShStr (trimSpace part)])
         else
           (let key = trimSpace (kv ! 0); val = trimSpace (kv ! 1)
            in case atoi val of
                 None \<Rightarrow> Err (EFmt ''%s: not an integer: %q'' [ShStr key, ShStr val])
               | Some n \<Rightarrow>
                   if n < 0 then Err (EFmt ''%s: negative length: %d'' [ShStr key, ShInt n])
                   else if key = ''min'' then
                     (if haveMin st then Err (errNew ''duplicate key: min'')
                      else Ok (st\<lparr>haveMin := True, minN := n\<rparr>))
                   else if key = ''max'' then
                     (if haveMax st then Err (errNew ''duplicate key: max'')
                      else Ok (st\<lparr>haveMax := True, maxN := n\<rparr>))
                   else Err (EFmt ''unknown key: %q'' [ShStr key])))"

definition parseArrayLenSpec :: "string \<Rightarrow> (int \<times> int) gores" where
  "parseArrayLenSpec body0 =
     (let body = trimSpace body0
      in if body = [] then Err (errNew ''empty spec'')
         else (case atoi body of
             Some n \<Rightarrow> if n < 0 then Err (EFmt ''negative length: %d'' [ShInt n]) else Ok (n, n)
           | None \<Rightarrow>
               rbind (foldM parseLenPart \<lparr>minN = 0, maxN = maxInt, haveMin = False, haveMax = False\<rparr>
                        (splitOn (CHR '','') body))
                 (\<lambda>st. if \<not> haveMin st \<and> \<not> haveMax st then Err (errNew ''no constraints specified'')
                       else if minN st > maxN st
                         then Err (EFmt ''min (%d) > max (%d)'' [ShInt (minN st), ShInt (maxN st)])
                       else Ok (minN st, maxN st))))"

definition compareArrayLen :: "string \<Rightarrow> string \<Rightarrow> jval \<Rightarrow> goerror list" where
  "compareArrayLen path expected actual =
     (case arrayLenExprRx expected of
        None \<Rightarrow> [makeError path ''matchArrayLen invalid spec'' (ShStr expected) (ShStr ''could not parse'')]
      | Some m \<Rightarrow>
          (case parseArrayLenSpec m of
             Err err \<Rightarrow> [makeError path ''matchArrayLen invalid spec'' (ShStr expected) (ShErr err)]
           | Panic p \<Rightarrow> []
           | Ok (lo, hi) \<Rightarrow>
               (case actual of
                  JArr xs \<Rightarrow>
                    (let got = int (length xs)
                     in if got < lo \<or> got > hi
                        then [makeError path ''matchArrayLen length out of bounds'' (ShStr expected)
                                (ShErr (EFmt ''array length %d'' [ShInt got]))]
                        else [])
                | _ \<Rightarrow> [makeError path ''matchArrayLen requires array'' (ShStr expected)
                          (ShErr (EFmt ''<%s>'' [ShStr (getType actual)]))])))"

section \<open>Loops\<close>

text \<open>The inner loop of \<open>getUnmatchedArrays\<close>: the first index whose comparison has no errors.\<close>

fun findMatch :: "(jval \<Rightarrow> goerror list gores) \<Rightarrow> nat \<Rightarrow> jval list \<Rightarrow> nat option gores" where
  "findMatch f i [] = Ok None"
| "findMatch f i (a # as) =
     rbind (f a) (\<lambda>errs. if errs = [] then Ok (Some i) else findMatch f (Suc i) as)"

fun getUnmatchedArrays ::
  "bool \<Rightarrow> (jval \<Rightarrow> jval \<Rightarrow> goerror list gores) \<Rightarrow> jval list \<Rightarrow> jval list \<Rightarrow> jval list \<Rightarrow> (jval list \<times> jval list) gores"
where
  "getUnmatchedArrays ff f [] actual expectedError = Ok (expectedError, actual)"
| "getUnmatchedArrays ff f (expectedElem # expected) actual expectedError =
     rbind (findMatch (f expectedElem) 0 actual)
       (\<lambda>found. case found of
          Some i \<Rightarrow> getUnmatchedArrays ff f expected (swap_remove i actual) expectedError
        | None \<Rightarrow>
            if ff then
              (if actual = [] then Panic ''slice bounds out of range'' else Ok (expectedError @ [expectedElem], take 1 actual))
            else getUnmatchedArrays ff f expected actual (expectedError @ [expectedElem]))"

text \<open>The loop over the children of an array; \<open>actualArray[i]\<close> panics when out of range.\<close>

fun compareItems ::
  "bool \<Rightarrow> (nat \<Rightarrow> jval \<Rightarrow> jval \<Rightarrow> goerror list gores) \<Rightarrow> nat \<Rightarrow> jval list \<Rightarrow> jval list \<Rightarrow> goerror list \<Rightarrow> goerror list gores"
where
  "compareItems ff f i [] actualArray errors = Ok errors"
| "compareItems ff f i (item # items) [] errors = Panic ''index out of range''"
| "compareItems ff f i (item # items) (a # as) errors =
     rbind (f i item a)
       (\<lambda>r. let errors' = errors @ r
            in if ff \<and> errors' \<noteq> [] then Ok errors' else compareItems ff f (Suc i) items as errors')"

text \<open>The loop over the keys of the expected map.\<close>

fun compareKeys ::
  "bool \<Rightarrow> string \<Rightarrow> (string \<Rightarrow> jval \<Rightarrow> jval \<Rightarrow> goerror list gores) \<Rightarrow> (string \<times> jval) list \<Rightarrow> (string \<times> jval) list \<Rightarrow> goerror list \<Rightarrow> goerror list gores"
where
  "compareKeys ff path f [] actual errors = Ok errors"
| "compareKeys ff path f ((key, v) # kvs) actual errors =
     (case map_of actual key of
        None \<Rightarrow>
          (let errors' = errors @ [makeError path ''key is missing'' (ShStr key) (ShStr ''<missing>'')]
           in if ff then Ok errors' else compareKeys ff path f kvs actual errors')
      | Some w \<Rightarrow>
          rbind (f key v w)
            (\<lambda>r. let errors' = errors @ r
                 in if ff \<and> errors' \<noteq> [] then Ok errors' else compareKeys ff path f kvs actual errors'))"

lemma findMatch_cong [fundef_cong]:
  "i = i' \<Longrightarrow> as = as' \<Longrightarrow> (\<And>a. a \<in> set as' \<Longrightarrow> f a = g a) \<Longrightarrow> findMatch f i as = findMatch g i' as'"
  by (induction as arbitrary: as' i i') (auto intro!: rbind_cong)

lemma getUnmatchedArrays_cong [fundef_cong]:
  assumes "ff = ff'" "es = es'" "as = as'" "acc = acc'"
    and "\<And>e a. e \<in> set es' \<Longrightarrow> f e a = g e a"
  shows "getUnmatchedArrays ff f es as acc = getUnmatchedArrays ff' g es' as' acc'"
proof -
  have "(\<And>e a. e \<in> set es \<Longrightarrow> f e a = g e a)
      \<Longrightarrow> getUnmatchedArrays ff f es as acc = getUnmatchedArrays ff g es as acc" for es as acc
  proof (induction es arbitrary: as acc)
    case (Cons e es)
    have "findMatch (f e) 0 as = findMatch (g e) 0 as"
      by (rule findMatch_cong) (auto simp: Cons.prems)
    moreover have "\<And>as acc. getUnmatchedArrays ff f es as acc = getUnmatchedArrays ff g es as acc"
      by (rule Cons.IH) (simp add: Cons.prems)
    ultimately show ?case by (auto intro!: rbind_cong split: option.splits)
  qed simp
  with assms show ?thesis by simp
qed

lemma compareItems_cong [fundef_cong]:
  assumes "ff = ff'" "i = i'" "es = es'" "as = as'" "acc = acc'"
    and "\<And>i e a. e \<in> set es' \<Longrightarrow> f i e a = g i e a"
  shows "compareItems ff f i es as acc = compareItems ff' g i' es' as' acc'"
proof -
  have "(\<And>i e a. e \<in> set es \<Longrightarrow> f i e a = g i e a)
      \<Longrightarrow> compareItems ff f i es as acc = compareItems ff g i es as acc" for i es as acc
    by (induction ff f i es as acc rule: compareItems.induct) (auto intro!: rbind_cong simp: Let_def)
  with assms show ?thesis by simp
qed

lemma compareKeys_cong [fundef_cong]:
  assumes "ff = ff'" "p = p'" "kvs = kvs'" "m = m'" "acc = acc'"
    and "\<And>k v w. (k, v) \<in> set kvs' \<Longrightarrow> f k v w = g k v w"
  shows "compareKeys ff p f kvs m acc = compareKeys ff' p' g kvs' m' acc'"
proof -
  have "(\<And>k v w. (k, v) \<in> set kvs \<Longrightarrow> f k v w = g k v w)
      \<Longrightarrow> compareKeys ff p f kvs m acc = compareKeys ff p g kvs m acc" for kvs acc
    by (induction ff p f kvs m acc rule: compareKeys.induct)
      (auto intro!: rbind_cong simp: Let_def split: option.splits)
  with assms show ?thesis by simp
qed

lemma getUnmatchedArrays_subset:
  "getUnmatchedArrays ff f es as acc = Ok (es', as') \<Longrightarrow> set es' \<subseteq> set acc \<union> set es"
proof (induction ff f es as acc arbitrary: es' as' rule: getUnmatchedArrays.induct)
  case (2 ff f e es as acc)
  then show ?case by (fastforce split: option.splits if_splits)
qed auto

lemma convertToArray_smaller: "convertToArray e = Ok xs \<Longrightarrow> x \<in> set xs \<Longrightarrow> jsize x < jsize e"
  by (cases e rule: convertToArray.cases) (auto intro: jsize_elem [simplified])

section \<open>The comparison\<close>

function compareBranch ::
  "regexp_engine \<Rightarrow> formatter \<Rightarrow> Params \<Rightarrow> string \<Rightarrow> jval \<Rightarrow> jval \<Rightarrow> goerror list gores"
where
  "compareBranch rx fv params path expected actual =
     (let expectedType = getType expected; actualType = getType actual; mt = leafMatchType expected
      in
       if mt = arrayLen then
         (case expected of JStr s \<Rightarrow> Ok (compareArrayLen path s actual) | _ \<Rightarrow> Panic ''interface conversion'')
       else if mt \<noteq> regex \<and> expectedType \<noteq> actualType then
         Ok [makeError path ''types do not match'' (ShStr expectedType) (ShStr actualType)]
       else if isScalarType actualType \<and> \<not> IgnoreValues params then
         compareLeafs rx fv path expected actual
       else if actualType = ''array'' then
         rbind (convertToArray expected) (\<lambda>expectedArray.
         rbind (convertToArray actual) (\<lambda>actualArray.
           if length expectedArray \<noteq> length actualArray then
             Ok [makeError path ''array lengths do not match''
                   (ShInt (int (length expectedArray))) (ShInt (int (length actualArray)))]
           else
             rbind (if IgnoreArraysOrdering params
                    then getUnmatchedArrays (failFast params)
                           (\<lambda>e a. compareBranch rx fv (params\<lparr>failFast := True\<rparr>) [] e a)
                           expectedArray actualArray []
                    else Ok (expectedArray, actualArray))
               (\<lambda>ea. compareItems (failFast params)
                  (\<lambda>i e a. compareBranch rx fv params (path @ ''['' @ itoa (int i) @ '']'') e a)
                  0 (fst ea) (snd ea) [])))
       else if actualType = ''map'' then
         (case actual of
            JMap actualRef \<Rightarrow>
              (case expected of
                 JMap expectedRef \<Rightarrow>
                   if DisallowExtraFields params \<and> length expectedRef \<noteq> length actualRef then
                     Ok [makeError path ''map lengths do not match''
                           (ShInt (int (length expectedRef))) (ShInt (int (length actualRef)))]
                   else
                     compareKeys (failFast params) path
                       (\<lambda>key v w. compareBranch rx fv params (path @ ''.'' @ key) v w)
                       expectedRef actualRef []
               | JStr s \<Rightarrow>
                   if DisallowExtraFields params \<and> length s \<noteq> length actualRef then
                     Ok [makeError path ''map lengths do not match''
                           (ShInt (int (length s))) (ShInt (int (length actualRef)))]
                   else Panic ''reflect: call of reflect.Value.MapKeys on string Value''
               | _ \<Rightarrow> Panic ''reflect: call of reflect.Value.MapKeys on non-map Value'')
          | _ \<Rightarrow> Ok [])
       else Ok [])"
  by pat_completeness auto
termination
proof (relation "measure (\<lambda>(rx, fv, params, path, e, a). jsize e)", goal_cases)
  case (3 rx fv params path e a x xa xb xs ys ea i e' a')
  have "set (fst ea) \<subseteq> set xs"
    using 3 getUnmatchedArrays_subset [of _ _ xs ys "[]" "fst ea" "snd ea"]
    by (auto split: if_splits)
  with 3 show ?case by (auto dest: convertToArray_smaller)
qed (auto dest: convertToArray_smaller jsize_field simp del: jsize.simps)

declare compareBranch.simps [simp del]

definition Compare :: "regexp_engine \<Rightarrow> formatter \<Rightarrow> jval \<Rightarrow> jval \<Rightarrow> Params \<Rightarrow> goerror list gores" where
  "Compare rx fv expected actual params = compareBranch rx fv params ''$'' expected actual"

end
