(* ===== verification/CompareSpec.thy ===== *)
theory CompareSpec
  imports Compare
begin

text \<open>
  What \<open>Compare\<close> promises. \<open>conforms\<close> is the declarative meaning of an expected value:
  patterns, equal leaves, arrays position by position or up to a permutation, maps key by key.

  \<^item> \<open>compareBranch_clean_iff\<close>: whether a comparison is clean (no differences) depends neither on
    the path nor on \<open>failFast\<close>; this is why the fail-fast search of \<open>getUnmatchedArrays\<close> may
    stand in for the full comparison.
  \<^item> A clean comparison implies \<open>conforms\<close>; without \<open>ignoreArraysOrdering\<close> the converse
    holds too. With it the converse fails: the matching is greedy.
  \<^item> Without \<open>$matchRegexp\<close> patterns the comparison never panics.
\<close>

section \<open>The branches of the comparison\<close>

lemma leafMatchType_arrayLen: "leafMatchType e = arrayLen \<Longrightarrow> \<exists>s. e = JStr s"
  by (auto simp: leafMatchType_def split: jval.splits)

lemma leafMatchType_regex: "leafMatchType e = regex \<Longrightarrow> \<exists>s. e = JStr s \<and> regexExprRx s \<noteq> None"
  by (auto simp: leafMatchType_def split: jval.splits if_splits)

lemma getType_map: "getType a = ''map'' \<longleftrightarrow> (\<exists>m. a = JMap m)"
  by (cases a) auto

lemma getType_array: "getType a = ''array'' \<longleftrightarrow> (\<exists>xs. a = JArr xs)"
  by (cases a) auto

lemma isScalarType_iff: "isScalarType (getType a) \<longleftrightarrow> \<not> (\<exists>xs. a = JArr xs) \<and> \<not> (\<exists>m. a = JMap m)"
  by (auto simp: isScalarType_def getType_map getType_array)

lemma compareBranch_arrayLen:
  "leafMatchType (JStr s) = arrayLen \<Longrightarrow>
     compareBranch rx fv p path (JStr s) a = Ok (compareArrayLen path s a)"
  by (simp add: compareBranch.simps)

lemma compareBranch_mismatch:
  "leafMatchType e \<noteq> arrayLen \<Longrightarrow> leafMatchType e \<noteq> regex \<Longrightarrow> getType e \<noteq> getType a \<Longrightarrow>
     compareBranch rx fv p path e a =
       Ok [makeError path ''types do not match'' (ShStr (getType e)) (ShStr (getType a))]"
  by (simp add: compareBranch.simps)

lemma compareBranch_scalar:
  "leafMatchType e \<noteq> arrayLen \<Longrightarrow> leafMatchType e = regex \<or> getType e = getType a \<Longrightarrow>
   isScalarType (getType a) \<Longrightarrow>
     compareBranch rx fv p path e a = (if IgnoreValues p then Ok [] else compareLeafs rx fv path e a)"
  by (auto simp: compareBranch.simps isScalarType_def Let_def)

lemma compareBranch_array:
  "leafMatchType e \<noteq> arrayLen \<Longrightarrow> leafMatchType e = regex \<or> getType e = ''array'' \<Longrightarrow>
   convertToArray e = Ok es \<Longrightarrow>
     compareBranch rx fv p path e (JArr as) =
       (if length es \<noteq> length as
        then Ok [makeError path ''array lengths do not match'' (ShInt (int (length es))) (ShInt (int (length as)))]
        else
          rbind (if IgnoreArraysOrdering p
                 then getUnmatchedArrays (failFast p) (compareBranch rx fv (p\<lparr>failFast := True\<rparr>) []) es as []
                 else Ok (es, as))
            (\<lambda>ea. compareItems (failFast p) (\<lambda>i. compareBranch rx fv p (path @ ''['' @ itoa (int i) @ '']''))
               0 (fst ea) (snd ea) []))"
  by (subst compareBranch.simps) (auto simp: isScalarType_def Let_def)

lemma compareBranch_map:
  "compareBranch rx fv p path (JMap kvs) (JMap m) =
     (if DisallowExtraFields p \<and> length kvs \<noteq> length m
      then Ok [makeError path ''map lengths do not match'' (ShInt (int (length kvs))) (ShInt (int (length m)))]
      else compareKeys (failFast p) path (\<lambda>k. compareBranch rx fv p (path @ ''.'' @ k)) kvs m [])"
  by (subst compareBranch.simps) (auto simp: isScalarType_def leafMatchType_def Let_def)

lemma compareBranch_regex_map:
  "leafMatchType (JStr s) = regex \<Longrightarrow>
     compareBranch rx fv p path (JStr s) (JMap m) =
       (if DisallowExtraFields p \<and> length s \<noteq> length m
        then Ok [makeError path ''map lengths do not match'' (ShInt (int (length s))) (ShInt (int (length m)))]
        else Panic ''reflect: call of reflect.Value.MapKeys on string Value'')"
  by (subst compareBranch.simps) (auto simp: isScalarType_def Let_def)

lemmas compareBranch_eqs =
  compareBranch_arrayLen compareBranch_mismatch compareBranch_scalar compareBranch_array
  compareBranch_map compareBranch_regex_map

section \<open>The loops\<close>

lemma compareItems_extends:
  "compareItems ff f i es as errs = Ok r \<Longrightarrow> \<exists>s. r = errs @ s"
  by (induction ff f i es as errs arbitrary: r rule: compareItems.induct)
    (fastforce simp: Let_def split: if_splits)+

lemma compareItems_clean_acc: "compareItems ff f i es as errs = Ok [] \<Longrightarrow> errs = []"
  by (auto dest: compareItems_extends)

lemma compareItems_clean:
  "compareItems ff f i es as [] = Ok [] \<longleftrightarrow>
     length es \<le> length as \<and> (\<forall>j < length es. f (i + j) (es ! j) (as ! j) = Ok [])"
proof (induction es arbitrary: i as)
  case (Cons e es)
  show ?case
  proof (cases as)
    case (Cons a as')
    have "compareItems ff f i (e # es) (a # as') [] = Ok [] \<longleftrightarrow>
        f i e a = Ok [] \<and> compareItems ff f (Suc i) es as' [] = Ok []"
      by (cases "f i e a") (auto simp: Let_def dest: compareItems_clean_acc)
    also have "\<dots> \<longleftrightarrow> f i e a = Ok [] \<and> length es \<le> length as' \<and>
        (\<forall>j < length es. f (Suc i + j) (es ! j) (as' ! j) = Ok [])"
      by (simp add: Cons.IH)
    finally show ?thesis by (auto simp: Cons less_Suc_eq_0_disj)
  qed simp
qed simp

lemma compareKeys_extends:
  "compareKeys ff p f kvs m errs = Ok r \<Longrightarrow> \<exists>s. r = errs @ s"
  by (induction ff p f kvs m errs arbitrary: r rule: compareKeys.induct)
    (fastforce simp: Let_def split: if_splits option.splits)+

lemma compareKeys_clean_acc: "compareKeys ff p f kvs m errs = Ok [] \<Longrightarrow> errs = []"
  by (auto dest: compareKeys_extends)

lemma compareKeys_clean:
  "compareKeys ff p f kvs m [] = Ok [] \<longleftrightarrow>
     (\<forall>(k, v) \<in> set kvs. \<exists>w. map_of m k = Some w \<and> f k v w = Ok [])"
proof (induction kvs)
  case (Cons kv kvs)
  obtain k v where [simp]: "kv = (k, v)" by (cases kv)
  show ?case
  proof (cases "map_of m k")
    case None
    then show ?thesis by (auto simp: Let_def dest: compareKeys_extends)
  next
    case (Some w)
    have "compareKeys ff p f (kv # kvs) m [] = Ok [] \<longleftrightarrow>
        f k v w = Ok [] \<and> compareKeys ff p f kvs m [] = Ok []"
      by (cases "f k v w") (auto simp: Let_def Some dest: compareKeys_clean_acc)
    with Cons.IH Some show ?thesis by auto
  qed
qed simp

text \<open>\<open>greedyAll\<close>: every expected element finds a match in what is left of the actual array.\<close>

fun greedyAll :: "(jval \<Rightarrow> jval \<Rightarrow> goerror list gores) \<Rightarrow> jval list \<Rightarrow> jval list \<Rightarrow> bool" where
  "greedyAll f [] as = True"
| "greedyAll f (e # es) as =
     (case findMatch (f e) 0 as of Ok (Some i) \<Rightarrow> greedyAll f es (swap_remove i as) | _ \<Rightarrow> False)"

lemma findMatch_Some:
  "findMatch f i as = Ok (Some j) \<Longrightarrow> i \<le> j \<and> j < i + length as \<and> f (as ! (j - i)) = Ok []"
proof (induction as arbitrary: i)
  case (Cons a as)
  then show ?case by (fastforce split: if_splits simp: nth_Cons')
qed simp

lemma findMatch_None: "findMatch f i as = Ok None \<Longrightarrow> a \<in> set as \<Longrightarrow> f a \<noteq> Ok []"
  by (induction as arbitrary: i) (auto split: if_splits)

lemma greedyAll_permutation:
  "greedyAll f es as \<Longrightarrow>
     \<exists>bs cs. mset as = mset bs + mset cs \<and> list_all2 (\<lambda>e b. f e b = Ok []) es bs"
proof (induction f es as rule: greedyAll.induct)
  case (1 f as)
  then show ?case by (intro exI [of _ "[]"] exI [of _ as]) auto
next
  case (2 f e es as)
  then obtain i where i: "findMatch (f e) 0 as = Ok (Some i)" and g: "greedyAll f es (swap_remove i as)"
    by (auto split: res.splits option.splits)
  then obtain bs cs where bs: "mset (swap_remove i as) = mset bs + mset cs"
      "list_all2 (\<lambda>e b. f e b = Ok []) es bs"
    using 2 by blast
  have "i < length as" "f e (as ! i) = Ok []" using findMatch_Some [OF i] by auto
  then show ?case
    using bs mset_swap_remove [of i as] by (intro exI [of _ "(as ! i) # bs"] exI [of _ cs]) auto
qed

lemma getUnmatchedArrays_acc:
  "getUnmatchedArrays ff f es as acc = Ok (es', as') \<Longrightarrow> \<exists>s. es' = acc @ s"
  by (induction ff f es as acc arbitrary: es' as' rule: getUnmatchedArrays.induct)
    (fastforce split: option.splits if_splits)+

lemma getUnmatchedArrays_length:
  assumes "getUnmatchedArrays ff f es as acc = Ok (es', as')" and "length es \<le> length as"
  shows "(if ff \<and> es' \<noteq> acc then length es' = Suc (length acc) \<and> length as' = 1
          else length es' + length as = length acc + length es + length as' \<and> length acc \<le> length es')"
  using assms
proof (induction ff f es as acc arbitrary: es' as' rule: getUnmatchedArrays.induct)
  case (2 ff f e es as acc)
  from "2.prems" obtain r where r: "findMatch (f e) 0 as = Ok r" by auto
  show ?case
  proof (cases r)
    case None
    then show ?thesis
      using "2.IH"(1) [OF r None] "2.prems" r
      by (auto split: if_splits dest: getUnmatchedArrays_acc)
  next
    case (Some i)
    have "i < length as" using findMatch_Some r Some by fastforce
    moreover from this "2.prems"(2) have le: "length es \<le> length (swap_remove i as)" by simp
    have "getUnmatchedArrays ff f es (swap_remove i as) acc = Ok (es', as')"
      using "2.prems"(1) r Some by simp
    note "2.IH"(2) [OF r Some this le]
    ultimately show ?thesis using "2.prems"(2) by (auto split: if_splits)
  qed
qed auto

text \<open>The first expected element left over matches nothing that is left of the actual array.\<close>

lemma getUnmatchedArrays_first:
  assumes "getUnmatchedArrays ff f es as [] = Ok (e # es', as')" and "a \<in> set as'"
  shows "f e a \<noteq> Ok []"
proof -
  have sub: "getUnmatchedArrays ff f es as acc = Ok (es', as') \<Longrightarrow> length es \<le> length as \<or> True \<Longrightarrow>
      set as' \<subseteq> set as" for ff f es as acc es' as'
  proof (induction ff f es as acc arbitrary: es' as' rule: getUnmatchedArrays.induct)
    case (2 ff f e es as acc)
    then show ?case
      by (fastforce split: option.splits if_splits dest: findMatch_Some in_set_takeD
          dest!: set_swap_remove_subset [THEN subsetD, rotated])
  qed auto
  from assms show ?thesis
  proof (induction ff f es as "[] :: jval list" arbitrary: rule: getUnmatchedArrays.induct)
    case (2 ff f x es as)
    from "2.prems" obtain r where r: "findMatch (f x) 0 as = Ok r" by auto
    show ?case
    proof (cases r)
      case None
      show ?thesis
      proof (cases ff)
        case True
        with None r "2.prems" show ?thesis
          by (auto split: if_splits dest: findMatch_None in_set_takeD)
      next
        case False
        with None r "2.prems" have "getUnmatchedArrays ff f es as [x] = Ok (e # es', as')" by simp
        with sub getUnmatchedArrays_acc have "e = x" "a \<in> set as" using "2.prems" by fastforce+
        with None r show ?thesis by (auto dest: findMatch_None)
      qed
    next
      case (Some i)
      with "2.hyps"(2) [OF r Some] "2.prems" r show ?thesis by simp
    qed
  qed simp
qed

section \<open>Clean comparisons\<close>

text \<open>
  One level of a clean comparison, in terms of the comparison of the children by \<open>f\<close> (the
  fail-fast comparison with the empty path).
\<close>

definition cleanStep ::
  "regexp_engine \<Rightarrow> formatter \<Rightarrow> (jval \<Rightarrow> jval \<Rightarrow> goerror list gores) \<Rightarrow> Params \<Rightarrow> jval \<Rightarrow> jval \<Rightarrow> bool"
where
  "cleanStep rx fv f p e a \<longleftrightarrow>
     (if leafMatchType e = arrayLen then (\<exists>s. e = JStr s \<and> compareArrayLen [] s a = [])
      else if leafMatchType e \<noteq> regex \<and> getType e \<noteq> getType a then False
      else if isScalarType (getType a) then IgnoreValues p \<or> compareLeafs rx fv [] e a = Ok []
      else if getType a = ''array'' then
        (\<exists>es as. convertToArray e = Ok es \<and> convertToArray a = Ok as \<and> length es = length as \<and>
           (if IgnoreArraysOrdering p then greedyAll f es as
            else list_all2 (\<lambda>x y. f x y = Ok []) es as))
      else
        (\<exists>kvs m. e = JMap kvs \<and> a = JMap m \<and> (DisallowExtraFields p \<longrightarrow> length kvs = length m) \<and>
           (\<forall>(k, v) \<in> set kvs. \<exists>w. map_of m k = Some w \<and> f v w = Ok [])))"

lemma compareArrayLen_path: "compareArrayLen path s a = [] \<longleftrightarrow> compareArrayLen [] s a = []"
  by (simp add: compareArrayLen_def Let_def split: option.split res.split jval.split prod.split)

lemma compareLeafs_path: "compareLeafs rx fv path e a = Ok [] \<longleftrightarrow> compareLeafs rx fv [] e a = Ok []"
  by (simp add: compareLeafs_def comparePure_def compareRegex_def Let_def
      split: leafsMatchType.split jval.split option.split)

text \<open>The arrays left by the search compare clean exactly when nothing is left.\<close>

lemma unmatched_clean_iff:
  assumes len: "length es = length as"
    and same: "\<And>e a i. e \<in> set es \<Longrightarrow> g i e a = Ok [] \<longleftrightarrow> f e a = Ok []"
  shows "rbind (getUnmatchedArrays ff f es as [])
           (\<lambda>ea. compareItems ff g 0 (fst ea) (snd ea) []) = Ok [] \<longleftrightarrow> greedyAll f es as"
proof
  assume "rbind (getUnmatchedArrays ff f es as []) (\<lambda>ea. compareItems ff g 0 (fst ea) (snd ea) []) = Ok []"
  then obtain es' as' where u: "getUnmatchedArrays ff f es as [] = Ok (es', as')"
      and c: "compareItems ff g 0 es' as' [] = Ok []"
    by fastforce
  have "es' = []"
  proof (cases es')
    case (Cons e es'')
    with c have ne: "as' \<noteq> []" and "g 0 e (as' ! 0) = Ok []"
      by (auto simp: compareItems_clean dest!: spec [of _ 0])
    then have "g 0 e (hd as') = Ok []" by (simp add: hd_conv_nth)
    moreover have "e \<in> set es" using getUnmatchedArrays_subset [OF u] Cons by auto
    ultimately have "f e (hd as') = Ok []" "hd as' \<in> set as'" using ne by (auto simp: same)
    with getUnmatchedArrays_first [of ff f es as e es'' as' "hd as'"] u Cons show ?thesis by simp
  qed simp
  have "getUnmatchedArrays ff f es as acc = Ok (acc, as') \<Longrightarrow> greedyAll f es as" for es as acc as'
  proof (induction ff f es as acc arbitrary: as' rule: getUnmatchedArrays.induct)
    case (2 ff f e es as acc)
    from "2.prems" obtain r where r: "findMatch (f e) 0 as = Ok r" by auto
    show ?case
    proof (cases r)
      case None
      with r "2.prems" show ?thesis by (auto split: if_splits dest: getUnmatchedArrays_acc)
    next
      case (Some i)
      with "2.IH"(2) [OF r Some] "2.prems" r show ?thesis by simp
    qed
  qed simp
  with u \<open>es' = []\<close> show "greedyAll f es as" by blast
next
  have "greedyAll f es as \<Longrightarrow> \<exists>as'. getUnmatchedArrays ff f es as acc = Ok (acc, as')" for es as acc
    by (induction f es as rule: greedyAll.induct) (auto split: res.splits option.splits)
  moreover assume "greedyAll f es as"
  ultimately obtain as' where "getUnmatchedArrays ff f es as [] = Ok ([], as')" by blast
  then show "rbind (getUnmatchedArrays ff f es as []) (\<lambda>ea. compareItems ff g 0 (fst ea) (snd ea) []) = Ok []"
    by simp
qed

lemma compareBranch_clean_array:
  assumes sub: "\<And>x y path. jsize x < jsize e \<Longrightarrow>
      compareBranch rx fv (p\<lparr>failFast := b\<rparr>) path x y = Ok [] \<longleftrightarrow> compareBranch rx fv (p\<lparr>failFast := True\<rparr>) [] x y = Ok []"
    and e: "leafMatchType e \<noteq> arrayLen" "leafMatchType e = regex \<or> getType e = ''array''" and es: "convertToArray e = Ok es"
  shows "compareBranch rx fv (p\<lparr>failFast := b\<rparr>) path e (JArr as) = Ok [] \<longleftrightarrow> length es = length as \<and>
    (if IgnoreArraysOrdering p then greedyAll (compareBranch rx fv (p\<lparr>failFast := True\<rparr>) []) es as
     else list_all2 (\<lambda>x y. compareBranch rx fv (p\<lparr>failFast := True\<rparr>) [] x y = Ok []) es as)"
proof -
  let ?f = "compareBranch rx fv (p\<lparr>failFast := True\<rparr>) []"
  let ?c = "compareBranch rx fv (p\<lparr>failFast := b\<rparr>)"
  have small: "x \<in> set es \<Longrightarrow> jsize x < jsize e" for x using es by (rule convertToArray_smaller)
  have items: "compareItems b (\<lambda>i. ?c (path @ ''['' @ itoa (int i) @ '']'')) 0 es as [] = Ok []
      \<longleftrightarrow> list_all2 (\<lambda>x y. ?f x y = Ok []) es as" if "length es = length as"
    using that by (simp add: compareItems_clean list_all2_conv_all_nth sub small)
  have unm: "rbind (getUnmatchedArrays b ?f es as [])
      (\<lambda>ea. compareItems b (\<lambda>i. ?c (path @ ''['' @ itoa (int i) @ '']'')) 0 (fst ea) (snd ea) []) = Ok []
      \<longleftrightarrow> greedyAll ?f es as" if "length es = length as"
    using that by (rule unmatched_clean_iff) (simp add: sub small)
  show ?thesis
    using e items unm by (subst compareBranch_array [OF e(1) _ es]) (auto simp del: rbind_eq_Ok)
qed

lemma compareBranch_clean_map:
  assumes sub: "\<And>x y path. jsize x < jsize (JMap kvs) \<Longrightarrow>
      compareBranch rx fv (p\<lparr>failFast := b\<rparr>) path x y = Ok [] \<longleftrightarrow> compareBranch rx fv (p\<lparr>failFast := True\<rparr>) [] x y = Ok []"
  shows "compareKeys b path (\<lambda>k. compareBranch rx fv (p\<lparr>failFast := b\<rparr>) (path @ ''.'' @ k)) kvs m [] = Ok []
    \<longleftrightarrow> (\<forall>(k, v) \<in> set kvs. \<exists>w. map_of m k = Some w \<and> compareBranch rx fv (p\<lparr>failFast := True\<rparr>) [] v w = Ok [])"
  unfolding compareKeys_clean using jsize_field [of _ _ kvs] by (auto simp: sub split_beta)

lemma compareBranch_cleanStep:
  assumes IH: "\<And>e' a' path b. jsize e' < jsize e \<Longrightarrow>
      compareBranch rx fv (p\<lparr>failFast := b\<rparr>) path e' a' = Ok []
        \<longleftrightarrow> compareBranch rx fv (p\<lparr>failFast := True\<rparr>) [] e' a' = Ok []"
  shows "compareBranch rx fv (p\<lparr>failFast := b\<rparr>) path e a = Ok []
     \<longleftrightarrow> cleanStep rx fv (compareBranch rx fv (p\<lparr>failFast := True\<rparr>) []) p e a"
proof -
  let ?f = "compareBranch rx fv (p\<lparr>failFast := True\<rparr>) []"
  let ?c = "compareBranch rx fv (p\<lparr>failFast := b\<rparr>)"
  have sub: "jsize x < jsize e \<Longrightarrow> ?c path' x y = Ok [] \<longleftrightarrow> ?f x y = Ok []" for x y path'
    by (rule IH)
  consider (len) "leafMatchType e = arrayLen"
    | (mismatch) "leafMatchType e \<noteq> arrayLen" "leafMatchType e \<noteq> regex" "getType e \<noteq> getType a"
    | (leaf) "leafMatchType e \<noteq> arrayLen" "leafMatchType e = regex \<or> getType e = getType a"
        "isScalarType (getType a)"
    | (arr) as where "leafMatchType e \<noteq> arrayLen" "leafMatchType e = regex \<or> getType e = getType a" "a = JArr as"
    | (map) m where "leafMatchType e \<noteq> arrayLen" "leafMatchType e = regex \<or> getType e = getType a" "a = JMap m"
    by (metis isScalarType_iff)
  then show ?thesis
  proof cases
    case len
    then obtain s where "e = JStr s" by (auto dest: leafMatchType_arrayLen)
    with len show ?thesis by (simp add: compareBranch_eqs cleanStep_def compareArrayLen_path [of path])
  next
    case mismatch
    then show ?thesis by (simp add: compareBranch_eqs cleanStep_def)
  next
    case leaf
    then show ?thesis
      by (auto simp: compareBranch_scalar cleanStep_def compareLeafs_path [of rx fv path])
  next
    case arr
    then obtain es where es: "convertToArray e = Ok es"
      by (metis convertToArray.simps(1,2) getType_array leafMatchType_regex)
    from arr have "leafMatchType e = regex \<or> getType e = ''array''" by simp
    from compareBranch_clean_array [OF sub arr(1) this es, where path = path and as = as]
    show ?thesis using arr es by (auto simp: cleanStep_def isScalarType_def)
  next
    case map
    then consider (str) s where "e = JStr s" "leafMatchType e = regex" | (obj) kvs where "e = JMap kvs"
      by (metis getType.simps(3) getType_map leafMatchType_regex)
    then show ?thesis
    proof cases
      case str
      with map show ?thesis by (auto simp: compareBranch_regex_map cleanStep_def isScalarType_def)
    next
      case obj
      from compareBranch_clean_map [OF sub [unfolded obj], where path = path and m = m] map obj show ?thesis
        by (auto simp: compareBranch_map cleanStep_def isScalarType_def leafMatchType_def)
    qed
  qed
qed

lemma compareBranch_clean_iff:
  "compareBranch rx fv (p\<lparr>failFast := b\<rparr>) path e a = Ok []
     \<longleftrightarrow> compareBranch rx fv (p\<lparr>failFast := True\<rparr>) [] e a = Ok []"
proof (induction e arbitrary: a path b rule: measure_induct_rule [where f = jsize])
  case (less e)
  have "compareBranch rx fv (p\<lparr>failFast := c\<rparr>) q e a = Ok []
      \<longleftrightarrow> cleanStep rx fv (compareBranch rx fv (p\<lparr>failFast := True\<rparr>) []) p e a" for c q
    by (rule compareBranch_cleanStep) (rule less)
  then show ?case by blast
qed

lemma compareBranch_clean_step:
  "compareBranch rx fv p path e a = Ok []
     \<longleftrightarrow> cleanStep rx fv (compareBranch rx fv (p\<lparr>failFast := True\<rparr>) []) p e a"
proof -
  have "compareBranch rx fv (p\<lparr>failFast := failFast p\<rparr>) path e a = Ok []
     \<longleftrightarrow> cleanStep rx fv (compareBranch rx fv (p\<lparr>failFast := True\<rparr>) []) p e a"
    by (rule compareBranch_cleanStep) (rule compareBranch_clean_iff)
  then show ?thesis by simp
qed

section \<open>The meaning of an expected value\<close>

inductive conforms :: "regexp_engine \<Rightarrow> formatter \<Rightarrow> Params \<Rightarrow> jval \<Rightarrow> jval \<Rightarrow> bool"
  for rx fv p
where
  conf_len: "leafMatchType (JStr s) = arrayLen \<Longrightarrow> arrayLenExprRx s = Some spec \<Longrightarrow>
     parseArrayLenSpec spec = Ok (lo, hi) \<Longrightarrow> lo \<le> int (length xs) \<Longrightarrow> int (length xs) \<le> hi \<Longrightarrow>
     conforms rx fv p (JStr s) (JArr xs)"
| conf_regex: "leafMatchType (JStr s) = regex \<Longrightarrow> isScalarType (getType a) \<Longrightarrow>
     IgnoreValues p \<or> (\<exists>matches. rx (retrieveRegexStr s) = Some matches \<and> matches (fv a)) \<Longrightarrow>
     conforms rx fv p (JStr s) a"
| conf_leaf: "leafMatchType e = pure \<Longrightarrow> getType e = getType a \<Longrightarrow> isScalarType (getType a) \<Longrightarrow>
     IgnoreValues p \<or> ifaceEq e a = Ok True \<Longrightarrow> conforms rx fv p e a"
| conf_array: "leafMatchType e = regex \<or> getType e = ''array'' \<Longrightarrow> convertToArray e = Ok es \<Longrightarrow>
     \<not> IgnoreArraysOrdering p \<Longrightarrow> list_all2 (conforms rx fv p) es as \<Longrightarrow> conforms rx fv p e (JArr as)"
| conf_permuted: "leafMatchType e = regex \<or> getType e = ''array'' \<Longrightarrow> convertToArray e = Ok es \<Longrightarrow>
     IgnoreArraysOrdering p \<Longrightarrow> mset bs = mset as \<Longrightarrow> list_all2 (conforms rx fv p) es bs \<Longrightarrow>
     conforms rx fv p e (JArr as)"
| conf_map: "(DisallowExtraFields p \<longrightarrow> length kvs = length m) \<Longrightarrow>
     (\<forall>(k, v) \<in> set kvs. \<exists>w. map_of m k = Some w \<and> conforms rx fv p v w) \<Longrightarrow>
     conforms rx fv p (JMap kvs) (JMap m)"

lemma foldM_no_panic:
  "(\<And>s x. \<forall>m. f s x \<noteq> Panic m) \<Longrightarrow> foldM f s xs \<noteq> Panic m"
proof (induction xs arbitrary: s)
  case (Cons x xs)
  then show ?case by (cases "f s x") auto
qed simp

lemma parseArrayLenSpec_no_panic: "parseArrayLenSpec b \<noteq> Panic m"
proof -
  have "parseLenPart st part \<noteq> Panic m" for st part m
    by (simp add: parseLenPart_def Let_def split: option.split)
  then have "foldM parseLenPart st parts \<noteq> Panic m" for st parts m
    by (intro foldM_no_panic) simp
  then show ?thesis
    by (auto simp: parseArrayLenSpec_def Let_def split: option.split if_splits elim!: rbind.elims)
qed

lemma compareArrayLen_clean:
  "compareArrayLen [] s a = [] \<longleftrightarrow>
     (\<exists>m lo hi xs. arrayLenExprRx s = Some m \<and> parseArrayLenSpec m = Ok (lo, hi) \<and> a = JArr xs
        \<and> lo \<le> int (length xs) \<and> int (length xs) \<le> hi)"
  using parseArrayLenSpec_no_panic
  by (auto simp: compareArrayLen_def Let_def not_less split: option.split res.split jval.split prod.split)

lemma compareLeafs_clean:
  "leafMatchType e \<noteq> arrayLen \<Longrightarrow>
   compareLeafs rx fv [] e a = Ok [] \<longleftrightarrow>
     (case leafMatchType e of
        regex \<Rightarrow> (\<exists>s matches. e = JStr s \<and> rx (retrieveRegexStr s) = Some matches \<and> matches (fv a))
      | _ \<Rightarrow> ifaceEq e a = Ok True)"
  by (auto simp: compareLeafs_def comparePure_def compareRegex_def Let_def
      split: leafsMatchType.split jval.split option.split if_splits dest: leafMatchType_regex)

lemma cleanStep_conforms_array:
  assumes sub: "\<And>x y. jsize x < jsize e \<Longrightarrow> f x y = Ok [] \<Longrightarrow> conforms rx fv p x y"
    and es: "convertToArray e = Ok es" "length es = length as" "leafMatchType e = regex \<or> getType e = ''array''" "leafMatchType e \<noteq> arrayLen"
    and step: "if IgnoreArraysOrdering p then greedyAll f es as else list_all2 (\<lambda>x y. f x y = Ok []) es as"
  shows "conforms rx fv p e (JArr as)"
proof -
  have sub': "list_all2 (conforms rx fv p) es bs" if "list_all2 (\<lambda>x y. f x y = Ok []) es bs" for bs
    using that by (rule list.rel_mono_strong) (auto intro: sub convertToArray_smaller [OF es(1)])
  show ?thesis
  proof (cases "IgnoreArraysOrdering p")
    case True
    with step obtain bs cs where bs: "mset as = mset bs + mset cs" "list_all2 (\<lambda>x y. f x y = Ok []) es bs"
      by (auto dest: greedyAll_permutation)
    then have "length bs = length as" using es(2) by (auto dest: list_all2_lengthD)
    with bs(1) have "mset bs = mset as" by (metis add_cancel_left_right size_eq_0_iff_empty size_mset size_union)
    with True es sub' [OF bs(2)] show ?thesis by (auto intro: conf_permuted)
  next
    case False
    with es step sub' show ?thesis by (auto intro: conf_array)
  qed
qed

lemma cleanStep_conforms:
  assumes step: "cleanStep rx fv f p e a"
    and sub: "\<And>x y. jsize x < jsize e \<Longrightarrow> f x y = Ok [] \<Longrightarrow> conforms rx fv p x y"
  shows "conforms rx fv p e a"
proof (cases "leafMatchType e = arrayLen")
  case True
  then obtain s where "e = JStr s" by (auto dest: leafMatchType_arrayLen)
  with True step show ?thesis by (auto simp: cleanStep_def compareArrayLen_clean intro: conf_len)
next
  case nlen: False
  show ?thesis
  proof (cases "isScalarType (getType a)")
    case True
    with nlen step show ?thesis
      by (cases "leafMatchType e")
        (auto simp: cleanStep_def compareLeafs_clean intro: conf_regex conf_leaf dest: leafMatchType_regex
          split: if_splits)
  next
    case False
    then consider (arr) as where "a = JArr as" | (map) m where "a = JMap m" by (auto simp: isScalarType_iff)
    then show ?thesis
    proof cases
      case arr
      with nlen False step obtain es where es: "convertToArray e = Ok es" "length es = length as"
          "leafMatchType e = regex \<or> getType e = ''array''"
          "if IgnoreArraysOrdering p then greedyAll f es as else list_all2 (\<lambda>x y. f x y = Ok []) es as"
        by (auto simp: cleanStep_def split: if_splits)
      from cleanStep_conforms_array [OF sub es(1-3) nlen es(4)] arr show ?thesis by simp
    next
      case map
      with nlen False step obtain kvs where kvs: "e = JMap kvs" "DisallowExtraFields p \<longrightarrow> length kvs = length m"
          "\<forall>(k, v) \<in> set kvs. \<exists>w. map_of m k = Some w \<and> f v w = Ok []"
        by (auto simp: cleanStep_def split: if_splits)
      then have "\<forall>(k, v) \<in> set kvs. \<exists>w. map_of m k = Some w \<and> conforms rx fv p v w"
        using sub jsize_field [of _ _ kvs] by fastforce
      with kvs map show ?thesis by (auto intro: conf_map)
    qed
  qed
qed

lemma compareBranch_clean_conforms:
  "compareBranch rx fv p path e a = Ok [] \<Longrightarrow> conforms rx fv p e a"
proof (induction e arbitrary: a path rule: measure_induct_rule [where f = jsize])
  case (less e)
  then have step: "cleanStep rx fv (compareBranch rx fv (p\<lparr>failFast := True\<rparr>) []) p e a"
    by (simp add: compareBranch_clean_step)
  have "compareBranch rx fv (p\<lparr>failFast := True\<rparr>) [] x y = Ok [] \<Longrightarrow> conforms rx fv p x y"
    if "jsize x < jsize e" for x y
    using less.IH [OF that, of "[]" y] compareBranch_clean_iff [where p = p and b = "failFast p" and path = "[]" and e = x and a = y]
    by simp
  with step show ?case by (blast intro: cleanStep_conforms)
qed

lemma conforms_clean_ordered:
  assumes "conforms rx fv p e a" and "\<not> IgnoreArraysOrdering p"
  shows "compareBranch rx fv (p\<lparr>failFast := True\<rparr>) [] e a = Ok []"
  using assms
proof (induction rule: conforms.induct)
  case (conf_len s spec lo hi xs)
  then show ?case by (simp add: compareBranch_eqs compareArrayLen_clean)
next
  case (conf_regex s a)
  then show ?case by (auto simp: compareBranch_scalar compareLeafs_clean)
next
  case (conf_leaf e a)
  then show ?case by (auto simp: compareBranch_scalar compareLeafs_clean)
next
  case (conf_array e es as)
  then have "list_all2 (\<lambda>x y. compareBranch rx fv (p\<lparr>failFast := True\<rparr>) [] x y = Ok []) es as"
    by (auto elim!: list.rel_mono_strong)
  moreover have "leafMatchType e \<noteq> arrayLen"
    using conf_array(1) by (auto simp: leafMatchType_def getType_array)
  ultimately show ?case
    using conf_array by (subst compareBranch_clean_step)
      (auto simp: cleanStep_def isScalarType_def dest: list_all2_lengthD)
next
  case (conf_map kvs m)
  then show ?case
    by (subst compareBranch_clean_step)
      (fastforce simp: cleanStep_def isScalarType_def leafMatchType_def)
qed auto

section \<open>Absence of panics\<close>

text \<open>No string of the value is a \<open>$matchRegexp(...)\<close> pattern.\<close>

fun noRegex :: "jval \<Rightarrow> bool" where
  "noRegex (JStr s) \<longleftrightarrow> regexExprRx s = None"
| "noRegex (JArr xs) \<longleftrightarrow> (\<forall>x \<in> set xs. noRegex x)"
| "noRegex (JMap kvs) \<longleftrightarrow> (\<forall>kv \<in> set kvs. noRegex (snd kv))"
| "noRegex _ \<longleftrightarrow> True"

lemma noRegex_leaf: "noRegex e \<Longrightarrow> leafMatchType e \<noteq> regex"
  by (cases e) (auto simp: leafMatchType_def)

abbreviation returns :: "('a, 'e) res \<Rightarrow> bool" where
  "returns m \<equiv> \<exists>x. m = Ok x"

lemma findMatch_returns: "(\<And>a. a \<in> set as \<Longrightarrow> returns (f a)) \<Longrightarrow> returns (findMatch f i as)"
proof (induction as arbitrary: i)
  case (Cons a as)
  then obtain r where "f a = Ok r" by (meson list.set_intros(1))
  moreover have "returns (findMatch f (Suc i) as)" using Cons by (meson list.set_intros(2))
  ultimately show ?case by simp
qed simp

lemma getUnmatchedArrays_returns:
  assumes "\<And>e a. e \<in> set es \<Longrightarrow> returns (f e a)" and "length es \<le> length as"
  shows "returns (getUnmatchedArrays ff f es as acc)"
  using assms
proof (induction ff f es as acc rule: getUnmatchedArrays.induct)
  case (2 ff f e es as acc)
  then obtain r where r: "findMatch (f e) 0 as = Ok r"
    using findMatch_returns [of as "f e"] by (meson list.set_intros(1))
  show ?case
  proof (cases r)
    case None
    show ?thesis
    proof (cases ff)
      case True
      moreover have "as \<noteq> []" using "2.prems"(2) by auto
      ultimately show ?thesis using r None by simp
    next
      case False
      with "2.IH"(1) [OF r None] "2.prems" r None show ?thesis by auto
    qed
  next
    case (Some i)
    with "2.IH"(2) [OF r Some] "2.prems" r show ?thesis by auto
  qed
qed simp

lemma compareItems_returns:
  assumes "\<And>i e a. e \<in> set es \<Longrightarrow> returns (f i e a)" and "length es \<le> length as"
  shows "returns (compareItems ff f i es as errs)"
  using assms
proof (induction ff f i es as errs rule: compareItems.induct)
  case (3 ff f i e es a as errs)
  then obtain r where "f i e a = Ok r" by (meson list.set_intros(1))
  with 3 show ?case by (auto simp: Let_def)
qed auto

lemma compareKeys_returns:
  assumes "\<And>k v w. (k, v) \<in> set kvs \<Longrightarrow> returns (f k v w)"
  shows "returns (compareKeys ff p f kvs m errs)"
  using assms
proof (induction ff p f kvs m errs rule: compareKeys.induct)
  case (2 ff p f k v kvs m errs)
  show ?case
  proof (cases "map_of m k")
    case None
    with 2 show ?thesis by (auto simp: Let_def)
  next
    case (Some w)
    obtain r where "f k v w = Ok r" using "2.prems" by (meson list.set_intros(1))
    with 2 Some show ?thesis by (auto simp: Let_def)
  qed
qed simp

lemma ifaceEq_returns: "isScalarType (getType a) \<Longrightarrow> returns (ifaceEq e a)"
  by (cases "(e, a)" rule: ifaceEq.cases) (auto simp: isScalarType_def)

lemma compareLeafs_returns:
  assumes "leafMatchType e \<noteq> arrayLen" and "isScalarType (getType a)"
  shows "returns (compareLeafs rx fv path e a)"
  using assms ifaceEq_returns [OF assms(2), of e]
  by (auto simp: compareLeafs_def comparePure_def split: leafsMatchType.split)

lemma compareBranch_array_returns:
  assumes sub: "\<And>x q pa y. x \<in> set es \<Longrightarrow> returns (compareBranch rx fv q pa x y)"
  shows "returns (compareBranch rx fv p path (JArr es) (JArr as))"
proof (cases "length es = length as")
  case True
  let ?f = "compareBranch rx fv (p\<lparr>failFast := True\<rparr>) []"
  let ?u = "if IgnoreArraysOrdering p then getUnmatchedArrays (failFast p) ?f es as [] else Ok (es, as)"
  have "returns ?u" using getUnmatchedArrays_returns [of es] sub True by auto
  then obtain es' as' where u: "?u = Ok (es', as')" by fastforce
  have "length es' \<le> length as'" and "set es' \<subseteq> set es"
    using u True getUnmatchedArrays_length [of "failFast p" ?f es as "[]" es' as'] getUnmatchedArrays_subset [of "failFast p" ?f es as "[]" es' as']
    by (auto split: if_splits)
  then have "returns (compareItems (failFast p) (\<lambda>i. compareBranch rx fv p (path @ ''['' @ itoa (int i) @ '']'')) 0 es' as' [])"
    by (intro compareItems_returns) (auto intro: sub)
  with True u show ?thesis by (simp add: compareBranch_array [of "JArr es" es] leafMatchType_def)
next
  case False
  then show ?thesis by (simp add: compareBranch_array [of "JArr es" es] leafMatchType_def)
qed

lemma compareBranch_returns:
  "noRegex e \<Longrightarrow> returns (compareBranch rx fv p path e a)"
proof (induction e arbitrary: a p path rule: measure_induct_rule [where f = jsize])
  case (less e)
  have nrx: "leafMatchType e \<noteq> regex" using less.prems by (rule noRegex_leaf)
  consider (len) "leafMatchType e = arrayLen" | (mismatch) "leafMatchType e \<noteq> arrayLen" "getType e \<noteq> getType a"
    | (leaf) "leafMatchType e \<noteq> arrayLen" "getType e = getType a" "isScalarType (getType a)"
    | (arr) es as where "e = JArr es" "a = JArr as" | (map) kvs m where "e = JMap kvs" "a = JMap m"
    by (metis isScalarType_iff getType.simps(2,3) getType_array getType_map)
  then show ?case
  proof cases
    case len
    then obtain s where "e = JStr s" by (auto dest: leafMatchType_arrayLen)
    with len show ?thesis by (simp add: compareBranch_arrayLen)
  next
    case mismatch
    with nrx show ?thesis by (simp add: compareBranch_mismatch)
  next
    case leaf
    then show ?thesis by (simp add: compareBranch_scalar compareLeafs_returns)
  next
    case arr
    have sub: "returns (compareBranch rx fv q pa x y)" if "x \<in> set es" for q pa x y
      using that less arr jsize_elem [OF that] by simp
    from compareBranch_array_returns [OF this] arr show ?thesis by simp
  next
    case map
    have "returns (compareKeys (failFast p) path (\<lambda>k. compareBranch rx fv p (path @ ''.'' @ k)) kvs m [])"
      using less map jsize_field [of _ _ kvs] by (intro compareKeys_returns) fastforce
    with map show ?thesis by (simp add: compareBranch_map)
  qed
qed

section \<open>Array length specifications\<close>

text \<open>What every iteration over the \<open>key=value\<close> parts keeps.\<close>

definition lenSpec_ok :: "lenSpec \<Rightarrow> bool" where
  "lenSpec_ok st \<longleftrightarrow> 0 \<le> minN st \<and> 0 \<le> maxN st \<and> maxN st \<le> maxInt"

lemma parseLenPart_ok: "lenSpec_ok st \<Longrightarrow> parseLenPart st part = Ok st' \<Longrightarrow> lenSpec_ok st'"
  by (auto simp: parseLenPart_def lenSpec_ok_def Let_def split: if_splits option.splits dest: atoi_bounds)

lemma lenSpec_ok_init: "lenSpec_ok \<lparr>minN = 0, maxN = maxInt, haveMin = False, haveMax = False\<rparr>"
  by (simp add: lenSpec_ok_def maxInt_def)

lemma parseArrayLenSpec_range:
  assumes "parseArrayLenSpec body = Ok (lo, hi)"
  shows "0 \<le> lo \<and> lo \<le> hi \<and> hi \<le> maxInt"
proof (cases "atoi (trimSpace body)")
  case None
  with assms obtain st where st: "foldM parseLenPart
        \<lparr>minN = 0, maxN = maxInt, haveMin = False, haveMax = False\<rparr> (splitOn (CHR '','') (trimSpace body)) = Ok st"
      and res: "minN st \<le> maxN st" "lo = minN st" "hi = maxN st"
    by (auto simp: parseArrayLenSpec_def Let_def split: if_splits)
  have "lenSpec_ok st"
    using st lenSpec_ok_init by (rule foldM_invariant) (rule parseLenPart_ok)
  with res show ?thesis by (simp add: lenSpec_ok_def)
next
  case (Some n)
  with assms show ?thesis
    by (auto simp: parseArrayLenSpec_def Let_def split: if_splits dest: atoi_bounds)
qed

lemma itoa_no_sep: "0 \<le> i \<Longrightarrow> CHR '','' \<notin> set (itoa i) \<and> CHR ''='' \<notin> set (itoa i)"
  using itoa_visible [of i] by (fastforce simp: isDigit_def codepoint_def)

lemma trimSpace_itoa: "0 \<le> i \<Longrightarrow> trimSpace (itoa i) = itoa i"
  by (rule trimSpace_visible) (simp add: itoa_visible)

lemma trimSpace_min_max [simp]: "trimSpace ''min'' = ''min''" "trimSpace ''max'' = ''max''"
  by (rule trimSpace_visible, simp add: visible_def codepoint_def)+

lemma parseLenPart_min:
  "0 \<le> n \<Longrightarrow> n \<le> maxInt \<Longrightarrow> \<not> haveMin st \<Longrightarrow>
     parseLenPart st (''min='' @ itoa n) = Ok (st\<lparr>haveMin := True, minN := n\<rparr>)"
  using splitN2_append [of "CHR ''=''" "''min''" "itoa n"]
  by (simp add: parseLenPart_def trimSpace_itoa atoi_itoa)

lemma parseLenPart_max:
  "0 \<le> n \<Longrightarrow> n \<le> maxInt \<Longrightarrow> \<not> haveMax st \<Longrightarrow>
     parseLenPart st (''max='' @ itoa n) = Ok (st\<lparr>haveMax := True, maxN := n\<rparr>)"
  using splitN2_append [of "CHR ''=''" "''max''" "itoa n"]
  by (simp add: parseLenPart_def trimSpace_itoa atoi_itoa)

text \<open>The four documented forms of a specification, as printed text.\<close>

fun showLenSpec :: "int option \<Rightarrow> int option \<Rightarrow> string" where
  "showLenSpec (Some lo) (Some hi) = (if lo = hi then itoa lo else ''min='' @ itoa lo @ '',max='' @ itoa hi)"
| "showLenSpec (Some lo) None = ''min='' @ itoa lo"
| "showLenSpec None (Some hi) = ''max='' @ itoa hi"
| "showLenSpec None None = []"

lemma trim_keyed:
  "0 \<le> n \<Longrightarrow> trimSpace (''min='' @ s @ itoa n) = ''min='' @ s @ itoa n"
  "0 \<le> n \<Longrightarrow> trimSpace (''max='' @ s @ itoa n) = ''max='' @ s @ itoa n"
  by (rule trimSpace_visible, simp add: itoa_visible, simp add: visible_def codepoint_def)+

lemma atoi_keyed: "atoi (''min='' @ s) = None" "atoi (''max='' @ s) = None"
  by (rule atoi_not_digit [of "CHR ''=''"], simp, simp add: isDigit_def codepoint_def)+

lemma parse_exact: "0 \<le> n \<Longrightarrow> n \<le> maxInt \<Longrightarrow> parseArrayLenSpec (itoa n) = Ok (n, n)"
  by (simp add: parseArrayLenSpec_def trimSpace_itoa atoi_itoa)

lemma parse_min: "0 \<le> n \<Longrightarrow> n \<le> maxInt \<Longrightarrow> parseArrayLenSpec (''min='' @ itoa n) = Ok (n, maxInt)"
  using trim_keyed(1) [of n "[]"] splitOn_notin [of "CHR '',''" "''min='' @ itoa n"] itoa_no_sep [of n]
    atoi_keyed(1) [of "itoa n"] parseLenPart_min [of n]
  by (simp add: parseArrayLenSpec_def)

lemma parse_max: "0 \<le> n \<Longrightarrow> n \<le> maxInt \<Longrightarrow> parseArrayLenSpec (''max='' @ itoa n) = Ok (0, n)"
  using trim_keyed(2) [of n "[]"] splitOn_notin [of "CHR '',''" "''max='' @ itoa n"] itoa_no_sep [of n]
    atoi_keyed(2) [of "itoa n"] parseLenPart_max [of n]
  by (simp add: parseArrayLenSpec_def)

lemma parse_range:
  assumes "0 \<le> lo" and "lo \<le> hi" and "hi \<le> maxInt"
  shows "parseArrayLenSpec (''min='' @ itoa lo @ '',max='' @ itoa hi) = Ok (lo, hi)"
proof -
  have "splitOn (CHR '','') (''min='' @ itoa lo @ '',max='' @ itoa hi) = [''min='' @ itoa lo, ''max='' @ itoa hi]"
    using splitOn_append [of "CHR '',''" "''min='' @ itoa lo" "''max='' @ itoa hi"]
      splitOn_notin [of "CHR '',''" "''max='' @ itoa hi"] itoa_no_sep [of lo] itoa_no_sep [of hi] assms
    by simp
  then show ?thesis
    using trim_keyed(1) [of hi "itoa lo @ '',max=''"] atoi_keyed(1) [of "itoa lo @ '',max='' @ itoa hi"]
      parseLenPart_min [of lo] parseLenPart_max [of hi] assms
    by (simp add: parseArrayLenSpec_def)
qed

lemma Compare_ordered:
  assumes "\<not> IgnoreArraysOrdering params"
  shows "Compare rx fv expected actual params = Ok [] \<longleftrightarrow> conforms rx fv params expected actual"
proof
  assume "Compare rx fv expected actual params = Ok []"
  then show "conforms rx fv params expected actual"
    unfolding Compare_def by (rule compareBranch_clean_conforms)
next
  assume "conforms rx fv params expected actual"
  then have "compareBranch rx fv (params\<lparr>failFast := True\<rparr>) [] expected actual = Ok []"
    using assms by (rule conforms_clean_ordered)
  then show "Compare rx fv expected actual params = Ok []"
    unfolding Compare_def
    using compareBranch_clean_iff [where p = params and b = "failFast params" and path = "''$''"] by simp
qed

section \<open>Properties\<close>

text \<open>
  C1. Without \<open>ignoreArraysOrdering\<close>, \<open>Compare\<close> reports no difference exactly when the actual
  value conforms to the expected one: leaves equal (or only of the same type under
  \<open>ignoreValues\<close>), patterns matched, arrays of the same length conforming position by position,
  every expected key present with a conforming value, and no extra keys under
  \<open>disallowExtraFields\<close>.
\<close>

theorem Compare_clean_iff_conforms:
  assumes "\<not> IgnoreArraysOrdering params"
  shows "Compare rx fv expected actual params = Ok [] \<longleftrightarrow> conforms rx fv params expected actual"
  using assms by (rule Compare_ordered)

theorem Compare_clean_iff_conforms_witness:
  "\<not> IgnoreArraysOrdering zeroParams \<and>
   conforms (\<lambda>_. None) (\<lambda>_. []) zeroParams
     (JMap [(''id'', JStr ''a''), (''n'', JArr [JNil, JBool True])])
     (JMap [(''n'', JArr [JNil, JBool True]), (''x'', JNil), (''id'', JStr ''a'')])"
proof -
  have o: "\<not> IgnoreArraysOrdering zeroParams" by (simp add: zeroParams_def)
  have "Compare (\<lambda>_. None) (\<lambda>_. []) (JMap [(''id'', JStr ''a''), (''n'', JArr [JNil, JBool True])])
     (JMap [(''n'', JArr [JNil, JBool True]), (''x'', JNil), (''id'', JStr ''a'')]) zeroParams = Ok []"
    by code_simp
  with Compare_clean_iff_conforms [OF o] o show ?thesis by blast
qed

text \<open>
  C16. Whatever the parameters, a comparison that reports no difference is right: the actual
  value conforms to the expected one; with \<open>ignoreArraysOrdering\<close> this means that some
  rearrangement of every actual array conforms element by element, each actual element being
  used once.
\<close>

theorem Compare_clean_conforms:
  assumes "Compare rx fv expected actual params = Ok []"
  shows "conforms rx fv params expected actual"
  using assms unfolding Compare_def by (rule compareBranch_clean_conforms)

theorem Compare_clean_conforms_witness:
  "Compare (\<lambda>_. None) (\<lambda>_. []) (JArr [JBool True, JStr ''x'', JNil]) (JArr [JNil, JBool True, JStr ''x''])
      (zeroParams\<lparr>IgnoreArraysOrdering := True\<rparr>) = Ok [] \<and>
   conforms (\<lambda>_. None) (\<lambda>_. []) (zeroParams\<lparr>IgnoreArraysOrdering := True\<rparr>)
     (JArr [JBool True, JStr ''x'', JNil]) (JArr [JNil, JBool True, JStr ''x''])"
proof -
  have c: "Compare (\<lambda>_. None) (\<lambda>_. []) (JArr [JBool True, JStr ''x'', JNil]) (JArr [JNil, JBool True, JStr ''x''])
      (zeroParams\<lparr>IgnoreArraysOrdering := True\<rparr>) = Ok []"
    by code_simp
  show ?thesis using c Compare_clean_conforms [OF c] by blast
qed

text \<open>
  C17. Stopping at the first difference never changes the verdict: the fail-fast comparison
  that \<open>getUnmatchedArrays\<close> uses to test candidates is clean exactly when the full comparison is,
  at any path.
\<close>

theorem compareBranch_failFast_equiv:
  "compareBranch rx fv (params\<lparr>failFast := True\<rparr>) path expected actual = Ok []
     \<longleftrightarrow> compareBranch rx fv (params\<lparr>failFast := False\<rparr>) path' expected actual = Ok []"
  using compareBranch_clean_iff [where p = params and b = True and path = path]
    compareBranch_clean_iff [where p = params and b = False and path = path'] by blast

text \<open>
  C18. Without \<open>$matchRegexp\<close> patterns in the expected value \<open>Compare\<close> always returns: no index
  into the unmatched arrays is out of range, the \<open>unknown compare type\<close> panic is dead code and
  \<open>reflect\<close> is never called on the wrong kind.
\<close>

theorem Compare_returns:
  assumes "noRegex expected"
  shows "\<exists>errs. Compare rx fv expected actual params = Ok errs"
  unfolding Compare_def using assms by (rule compareBranch_returns)

theorem Compare_returns_witness:
  "noRegex (JArr [JStr ''$matchArrayLen(x)'', JMap [(''a'', JNil)]]) \<and>
   (\<exists>errs. Compare (\<lambda>_. None) (\<lambda>_. []) (JArr [JStr ''$matchArrayLen(x)'', JMap [(''a'', JNil)]])
      (JArr [JNil, JMap []]) (zeroParams\<lparr>IgnoreArraysOrdering := True\<rparr>) = Ok errs)"
proof -
  have n: "noRegex (JArr [JStr ''$matchArrayLen(x)'', JMap [(''a'', JNil)]])" by code_simp
  show ?thesis using n Compare_returns [OF n] by blast
qed

text \<open>
  A \<open>$matchRegexp\<close> pattern compared with a JSON object panics (\<open>reflect.Value.MapKeys\<close> is
  called on the pattern string), unless \<open>disallowExtraFields\<close> and different lengths return a
  length error first.
\<close>

theorem Compare_regex_object_panics:
  assumes "regexExprRx pattern \<noteq> None" and "\<not> DisallowExtraFields params"
  shows "Compare rx fv (JStr pattern) (JMap m) params
     = Panic ''reflect: call of reflect.Value.MapKeys on string Value''"
  using assms by (simp add: Compare_def compareBranch_regex_map leafMatchType_def)

theorem Compare_regex_object_panics_witness:
  "regexExprRx ''$matchRegexp(.*)'' \<noteq> None \<and> \<not> DisallowExtraFields zeroParams \<and>
   Compare (\<lambda>_. Some (\<lambda>_. True)) (\<lambda>_. []) (JStr ''$matchRegexp(.*)'') (JMap []) zeroParams
     = Panic ''reflect: call of reflect.Value.MapKeys on string Value''"
proof -
  have h: "regexExprRx ''$matchRegexp(.*)'' \<noteq> None" "\<not> DisallowExtraFields zeroParams" by code_simp+
  show ?thesis using h Compare_regex_object_panics [OF h] by blast
qed

text \<open>
  With \<open>ignoreArraysOrdering\<close> the search for a matching element is greedy: a conforming
  actual array can be reported as different. The pattern \<open>$matchRegexp(.*)\<close> takes the first
  actual element \<open>"a"\<close> and leaves \<open>"b"\<close> for the expected \<open>"a"\<close>, although
  the other assignment conforms.
\<close>

theorem Compare_greedy_incomplete:
  "\<exists>expected actual params. conforms (\<lambda>_. Some (\<lambda>_. True)) (\<lambda>_. []) params expected actual \<and>
     Compare (\<lambda>_. Some (\<lambda>_. True)) (\<lambda>_. []) expected actual params \<noteq> Ok []"
proof (intro exI conjI)
  let ?p = "zeroParams\<lparr>IgnoreArraysOrdering := True\<rparr>"
  have pat: "leafMatchType (JStr ''$matchRegexp(.*)'') = regex" "leafMatchType (JStr ''a'') = pure" by code_simp+
  show "conforms (\<lambda>_. Some (\<lambda>_. True)) (\<lambda>_. []) ?p (JArr [JStr ''$matchRegexp(.*)'', JStr ''a''])
      (JArr [JStr ''a'', JStr ''b''])"
  proof (rule conf_permuted [where bs = "[JStr ''b'', JStr ''a'']" and es = "[JStr ''$matchRegexp(.*)'', JStr ''a'']"])
    have "conforms (\<lambda>_. Some (\<lambda>_. True)) (\<lambda>_. []) ?p (JStr ''$matchRegexp(.*)'') (JStr ''b'')"
      by (rule conf_regex) (simp_all add: pat isScalarType_def)
    moreover have "conforms (\<lambda>_. Some (\<lambda>_. True)) (\<lambda>_. []) ?p (JStr ''a'') (JStr ''a'')"
      by (rule conf_leaf) (simp_all add: pat isScalarType_def)
    ultimately show "list_all2 (conforms (\<lambda>_. Some (\<lambda>_. True)) (\<lambda>_. []) ?p)
        [JStr ''$matchRegexp(.*)'', JStr ''a''] [JStr ''b'', JStr ''a'']" by simp
  qed simp_all
  show "Compare (\<lambda>_. Some (\<lambda>_. True)) (\<lambda>_. []) (JArr [JStr ''$matchRegexp(.*)'', JStr ''a''])
      (JArr [JStr ''a'', JStr ''b'']) ?p \<noteq> Ok []"
    by code_simp
qed

text \<open>
  Every printed specification of an array length is read back: \<open>N\<close>, \<open>min=N\<close>, \<open>max=M\<close> and
  \<open>min=N,max=M\<close> parse to the range they denote, an absent bound becoming 0 or the largest \<open>int\<close>.
\<close>

theorem parseArrayLenSpec_show:
  assumes "lo = None \<or> (\<exists>n. lo = Some n \<and> 0 \<le> n \<and> n \<le> maxInt)"
    and "hi = None \<or> (\<exists>n. hi = Some n \<and> 0 \<le> n \<and> n \<le> maxInt)"
    and "lo \<noteq> None \<or> hi \<noteq> None"
    and "lo \<noteq> None \<and> hi \<noteq> None \<longrightarrow> the lo \<le> the hi"
  shows "parseArrayLenSpec (showLenSpec lo hi)
     = Ok (case lo of None \<Rightarrow> 0 | Some n \<Rightarrow> n, case hi of None \<Rightarrow> maxInt | Some n \<Rightarrow> n)"
  using assms by (cases lo; cases hi) (auto simp: parse_exact parse_min parse_max parse_range
      simp del: append.simps append_Cons)

theorem parseArrayLenSpec_show_witness:
  "parseArrayLenSpec (showLenSpec (Some 3) (Some 10)) = Ok (3, 10) \<and> showLenSpec (Some 3) (Some 10) = ''min=3,max=10''"
proof -
  have "parseArrayLenSpec (showLenSpec (Some 3) (Some 10)) = Ok (3, 10)"
    using parseArrayLenSpec_show [of "Some 3" "Some 10"] by (simp add: maxInt_def)
  moreover have "showLenSpec (Some 3) (Some 10) = ''min=3,max=10''" by code_simp
  ultimately show ?thesis by blast
qed

text \<open>
  C37. A specification that is accepted always denotes a non-empty range of lengths within the
  machine integers: the bounds are non-negative, ordered, and at most the largest \<open>int\<close>.
\<close>

theorem parseArrayLenSpec_bounds:
  assumes "parseArrayLenSpec body = Ok (lo, hi)"
  shows "0 \<le> lo \<and> lo \<le> hi \<and> hi \<le> maxInt"
  using assms by (rule parseArrayLenSpec_range)

theorem parseArrayLenSpec_bounds_witness:
  "parseArrayLenSpec ''min=2,max=7'' = Ok (2, 7) \<and> (0::int) \<le> 2 \<and> (2::int) \<le> 7 \<and> 7 \<le> maxInt"
proof -
  have "''min=2,max=7'' = ''min='' @ itoa 2 @ '',max='' @ itoa 7" by code_simp
  then have p: "parseArrayLenSpec ''min=2,max=7'' = Ok (2, 7)"
    using parse_range [of 2 7] by (simp add: maxInt_def)
  show ?thesis using p parseArrayLenSpec_bounds [OF p] by blast
qed

end
