(* ===== verification/CompareQuery.thy ===== *)
theory CompareQuery
  imports CompareSpec
begin

text \<open>
  Model of \<open>compare/compare_query.go\<close>: \<open>Query\<close> decides whether the values of a query parameter
  match the expected values in any order; an expected value may be a \<open>$matchRegexp(...)\<close>
  pattern. The working copies lose one matched pair per round of the outer loop, by swapping in
  the last element.
\<close>

definition queryMatch :: "regexp_engine \<Rightarrow> string \<Rightarrow> string \<Rightarrow> bool gores" where
  "queryMatch rx expectedValue actualValue =
     (case regexExprRx expectedValue of
        Some m \<Rightarrow> (case rx m of None \<Rightarrow> Err (EFmt ''error parsing regexp'' [ShStr m]) | Some f \<Rightarrow> Ok (f actualValue))
      | None \<Rightarrow> Ok (expectedValue = actualValue))"

text \<open>The loop over \<open>j\<close>: the first actual value that matches.\<close>

fun queryInner :: "regexp_engine \<Rightarrow> string \<Rightarrow> nat \<Rightarrow> string list \<Rightarrow> nat option gores" where
  "queryInner rx ev j [] = Ok None"
| "queryInner rx ev j (av # avs) =
     rbind (queryMatch rx ev av) (\<lambda>found. if found then Ok (Some j) else queryInner rx ev (Suc j) avs)"

text \<open>The loop over \<open>i\<close>: the first expected value for which the inner loop finds one.\<close>

fun queryOuter :: "regexp_engine \<Rightarrow> nat \<Rightarrow> string list \<Rightarrow> string list \<Rightarrow> (nat \<times> nat) option gores" where
  "queryOuter rx i [] avs = Ok None"
| "queryOuter rx i (ev # evs) avs =
     rbind (queryInner rx ev 0 avs)
       (\<lambda>r. case r of Some j \<Rightarrow> Ok (Some (i, j)) | None \<Rightarrow> queryOuter rx (Suc i) evs avs)"

lemma queryInner_Some:
  "queryInner rx ev j avs = Ok (Some k) \<Longrightarrow> j \<le> k \<and> k < j + length avs \<and> queryMatch rx ev (avs ! (k - j)) = Ok True"
  by (induction avs arbitrary: j) (fastforce split: if_splits simp: nth_Cons')+

lemma queryOuter_Some:
  "queryOuter rx i evs avs = Ok (Some (k, j)) \<Longrightarrow>
     i \<le> k \<and> k < i + length evs \<and> j < length avs \<and> queryMatch rx (evs ! (k - i)) (avs ! j) = Ok True"
proof (induction evs arbitrary: i)
  case (Cons ev evs)
  then obtain r where r: "queryInner rx ev 0 avs = Ok r" by auto
  with Cons show ?case
    by (cases r) (fastforce dest: queryInner_Some simp: nth_Cons')+
qed simp

function queryLoop :: "regexp_engine \<Rightarrow> string list \<Rightarrow> string list \<Rightarrow> bool gores" where
  "queryLoop rx evs avs =
     (if evs = [] then Ok True
      else rbind (queryOuter rx 0 evs avs)
        (\<lambda>r. case r of None \<Rightarrow> Ok False | Some (i, j) \<Rightarrow> queryLoop rx (swap_remove i evs) (swap_remove j avs)))"
  by pat_completeness auto
termination
  by (relation "measure (\<lambda>(rx, evs, avs). length evs)") auto

declare queryLoop.simps [simp del]

definition Query :: "regexp_engine \<Rightarrow> string list \<Rightarrow> string list \<Rightarrow> bool gores" where
  "Query rx expected actual =
     (if length expected \<noteq> length actual
      then Err (errNew ''expected and actual query params have different lengths'')
      else queryLoop rx expected actual)"

section \<open>Correctness\<close>

lemma queryLoop_sound:
  assumes "queryLoop rx evs avs = Ok True" and "length evs = length avs"
  shows "\<exists>ps. mset (map fst ps) = mset evs \<and> mset (map snd ps) = mset avs
     \<and> (\<forall>(e, a) \<in> set ps. queryMatch rx e a = Ok True)"
  using assms
proof (induction rx evs avs rule: queryLoop.induct)
  case (1 rx evs avs)
  show ?case
  proof (cases "evs = []")
    case True
    with 1 show ?thesis by (intro exI [of _ "[]"]) auto
  next
    case False
    with "1.prems" obtain i j where ij: "queryOuter rx 0 evs avs = Ok (Some (i, j))"
        and rest: "queryLoop rx (swap_remove i evs) (swap_remove j avs) = Ok True"
      by (auto simp: queryLoop.simps [of rx evs] split: option.splits)
    from queryOuter_Some [OF ij] have b: "i < length evs" "j < length avs"
      and m: "queryMatch rx (evs ! i) (avs ! j) = Ok True" by auto
    from "1.IH" [OF False ij _ _ rest] "1.prems" obtain ps where
      ps: "mset (map fst ps) = mset (swap_remove i evs)" "mset (map snd ps) = mset (swap_remove j avs)"
        "\<forall>(e, a) \<in> set ps. queryMatch rx e a = Ok True" by auto
    show ?thesis
      using ps m mset_swap_remove [OF b(1)] mset_swap_remove [OF b(2)]
      by (intro exI [of _ "(evs ! i, avs ! j) # ps"]) auto
  qed
qed

abbreviation literals :: "string list \<Rightarrow> bool" where
  "literals evs \<equiv> \<forall>e \<in> set evs. regexExprRx e = None"

lemma queryMatch_literal: "regexExprRx e = None \<Longrightarrow> queryMatch rx e a = Ok (e = a)"
  by (simp add: queryMatch_def)

lemma queryInner_literal:
  "regexExprRx e = None \<Longrightarrow> \<exists>r. queryInner rx e j avs = Ok r \<and> (r = None \<longleftrightarrow> e \<notin> set avs)"
  by (induction avs arbitrary: j) (auto simp: queryMatch_literal)

lemma queryOuter_literal:
  "literals evs \<Longrightarrow> \<exists>r. queryOuter rx i evs avs = Ok r \<and> (r = None \<longleftrightarrow> set evs \<inter> set avs = {})"
proof (induction evs arbitrary: i)
  case (Cons e evs)
  obtain r where r: "queryInner rx e 0 avs = Ok r" "r = None \<longleftrightarrow> e \<notin> set avs"
    using queryInner_literal [of e rx 0 avs] Cons.prems by auto
  obtain q where "queryOuter rx (Suc i) evs avs = Ok q" "q = None \<longleftrightarrow> set evs \<inter> set avs = {}"
    using Cons.IH [of "Suc i"] Cons.prems by (meson list.set_intros(2))
  with r show ?case by (cases r) auto
qed simp

lemma literals_swap_remove: "literals evs \<Longrightarrow> i < length evs \<Longrightarrow> literals (swap_remove i evs)"
  using set_swap_remove_subset by blast

lemma queryLoop_literal:
  "literals evs \<Longrightarrow> length evs = length avs \<Longrightarrow> queryLoop rx evs avs = Ok (mset evs = mset avs)"
proof (induction rx evs avs rule: queryLoop.induct)
  case (1 rx evs avs)
  show ?case
  proof (cases "evs = []")
    case True
    with 1 show ?thesis by (simp add: queryLoop.simps)
  next
    case False
    obtain r where r: "queryOuter rx 0 evs avs = Ok r" and none: "r = None \<longleftrightarrow> set evs \<inter> set avs = {}"
      using queryOuter_literal [OF "1.prems"(1)] by blast
    show ?thesis
    proof (cases r)
      case None
      with none False have "mset evs \<noteq> mset avs"
        by (metis Int_absorb list.set_sel(1) empty_iff mset_eq_setD)
      with r None False show ?thesis by (simp add: queryLoop.simps)
    next
      case (Some ij)
      obtain i j where ij: "ij = (i, j)" by (cases ij)
      from queryOuter_Some [of rx 0 evs avs i j] r Some ij
      have b: "i < length evs" "j < length avs" and "queryMatch rx (evs ! i) (avs ! j) = Ok True" by auto
      then have eq: "evs ! i = avs ! j"
        using "1.prems"(1) by (simp add: queryMatch_literal)
      have "queryLoop rx (swap_remove i evs) (swap_remove j avs)
          = Ok (mset (swap_remove i evs) = mset (swap_remove j avs))"
        using "1.IH" [OF False r Some ij [symmetric]] "1.prems" literals_swap_remove [OF _ b(1)] by simp
      with mset_swap_remove [OF b(1)] mset_swap_remove [OF b(2)] eq r Some ij False
      show ?thesis by (simp add: queryLoop.simps)
    qed
  qed
qed

section \<open>Properties\<close>

text \<open>
  A query parameter accepted by \<open>Query\<close> really matches: there is a one-to-one pairing of the
  expected with the actual values in which every pair matches (equal, or the pattern accepts
  the value).
\<close>

theorem Query_sound:
  assumes "Query rx expected actual = Ok True"
  shows "\<exists>ps. mset (map fst ps) = mset expected \<and> mset (map snd ps) = mset actual
     \<and> (\<forall>(e, a) \<in> set ps. queryMatch rx e a = Ok True)"
proof (rule queryLoop_sound)
  show "queryLoop rx expected actual = Ok True" "length expected = length actual"
    using assms by (simp_all add: Query_def split: if_splits)
qed

theorem Query_sound_witness:
  "Query (\<lambda>_. Some (\<lambda>s. s = ''c'')) [''a'', ''$matchRegexp(c)''] [''c'', ''a''] = Ok True \<and>
   (\<exists>ps. mset (map fst ps) = mset [''a'', ''$matchRegexp(c)''] \<and> mset (map snd ps) = mset [''c'', ''a'']
     \<and> (\<forall>(e, a) \<in> set ps. queryMatch (\<lambda>_. Some (\<lambda>s. s = ''c'')) e a = Ok True))"
proof -
  have q: "Query (\<lambda>_. Some (\<lambda>s. s = ''c'')) [''a'', ''$matchRegexp(c)''] [''c'', ''a''] = Ok True"
    by code_simp
  show ?thesis using q Query_sound [OF q] by blast
qed

text \<open>
  For literal expected values \<open>Query\<close> always returns, and it is exactly multiset equality of
  the two lists of values; different lengths are an error.
\<close>

theorem Query_literal:
  assumes "\<forall>e \<in> set expected. regexExprRx e = None"
  shows "Query rx expected actual =
    (if length expected \<noteq> length actual
     then Err (errNew ''expected and actual query params have different lengths'')
     else Ok (mset expected = mset actual))"
  using assms by (simp add: Query_def queryLoop_literal)

theorem Query_literal_witness:
  "Query (\<lambda>_. None) [''1'', ''2'', ''1''] [''2'', ''1'', ''1''] = Ok True"
proof -
  have "\<forall>e \<in> set [''1'', ''2'', ''1'']. regexExprRx e = None" by code_simp
  from Query_literal [OF this, of "\<lambda>_. None" "[''2'', ''1'', ''1'']"] show ?thesis by simp
qed

end
