(* ===== verification/XmlParsing.thy ===== *)
theory XmlParsing
  imports Values
begin

text \<open>
  Model of \<open>xmlparsing/parser.go\<close>: an XML document, already decoded into \<open>node\<close>s by
  \<open>encoding/xml\<close> (the parameter \<open>unmarshal\<close>), becomes the same kind of value as a JSON
  document, so that \<open>compare.Compare\<close> can be used on it.
\<close>

record xmlName =
  Space :: string
  Local :: string

type_synonym xmlAttr = "xmlName \<times> string"

datatype node = Node (XMLName: xmlName) (Attrs: "xmlAttr list") (Content: string) (Children: "node list")

definition joinXMLName :: "xmlName \<Rightarrow> string" where
  "joinXMLName n = (if Space n \<noteq> [] then Space n @ '':'' @ Local n else Local n)"

definition buildAttributes :: "xmlAttr list \<Rightarrow> (string \<times> jval) list" where
  "buildAttributes attrs = foldl (\<lambda>m (n, v). AList.update (joinXMLName n) (JStr v) m) [] attrs"

definition regroupNodesByName :: "node list \<Rightarrow> (string \<times> node list) list" where
  "regroupNodesByName nodes =
     foldl (\<lambda>grouped n.
        let name = joinXMLName (XMLName n);
            grouped1 = (if gohas grouped name then grouped else AList.update name [] grouped)
        in AList.update name ((case map_of grouped1 name of Some g \<Rightarrow> g | None \<Rightarrow> []) @ [n]) grouped1)
       [] nodes"

abbreviation sameName :: "string \<Rightarrow> node list \<Rightarrow> node list" where
  "sameName name nodes \<equiv> filter (\<lambda>n. joinXMLName (XMLName n) = name) nodes"

lemma regroupNodesByName_snoc:
  "regroupNodesByName (ns @ [n]) =
     (let g = regroupNodesByName ns; name = joinXMLName (XMLName n);
          g1 = (if gohas g name then g else AList.update name [] g)
      in AList.update name ((case map_of g1 name of Some x \<Rightarrow> x | None \<Rightarrow> []) @ [n]) g1)"
  by (simp add: regroupNodesByName_def Let_def del: gohas_iff)

lemma regroupNodesByName_lookup:
  "map_of (regroupNodesByName ns) name = (if sameName name ns = [] then None else Some (sameName name ns))"
proof (induction ns arbitrary: name rule: rev_induct)
  case Nil
  then show ?case by (simp add: regroupNodesByName_def)
next
  case (snoc n ns)
  have has: "gohas (regroupNodesByName ns) x \<longleftrightarrow> sameName x ns \<noteq> []" for x
    using snoc by (simp add: gohas_def del: gohas_iff)
  then show ?case
    using snoc by (auto simp: regroupNodesByName_snoc Let_def simp del: gohas_iff)
qed

lemma regroupNodesByName_wf: "gomap_wf (regroupNodesByName ns)"
  by (induction ns rule: rev_induct) (auto simp: regroupNodesByName_snoc Let_def regroupNodesByName_def)

lemma regroupNodesByName_entry:
  assumes "(name, g) \<in> set (regroupNodesByName ns)"
  shows "g = sameName name ns \<and> g \<noteq> []"
proof -
  have "map_of (regroupNodesByName ns) name = Some g"
    using assms regroupNodesByName_wf by (simp add: gomap_wf_def)
  then show ?thesis by (simp add: regroupNodesByName_lookup split: if_splits)
qed

lemma node_size_less: "n \<in> set nodes \<Longrightarrow> 2 * size (n::node) - 1 < 2 * size_list size nodes"
  using size_list_estimation' [of n nodes "size n" size] by (cases n) auto

function buildMap :: "node list \<Rightarrow> (string \<times> jval) list"
  and buildNode :: "node \<Rightarrow> jval"
where
  "buildMap nodes =
     map (\<lambda>(name, group). (name, if length group = 1 then buildNode (hd group) else JArr (map buildNode group)))
       (filter (\<lambda>(name, group). length group \<noteq> 0) (regroupNodesByName nodes))"
| "buildNode n =
     (let hasAttrs = Attrs n \<noteq> []; hasChildren = Children n \<noteq> []
      in if hasAttrs \<and> hasChildren then
           JMap (AList.update ''-attrs'' (JMap (buildAttributes (Attrs n))) (buildMap (Children n)))
         else if hasAttrs then
           JMap [(''-attrs'', JMap (buildAttributes (Attrs n))), (''content'', JStr (Content n))]
         else if hasChildren then JMap (buildMap (Children n))
         else JStr (Content n))"
  by pat_completeness auto
termination
proof (relation "measure (case_sum (\<lambda>ns. 2 * size_list size ns) (\<lambda>n. 2 * size n - 1))", goal_cases)
  case (2 nodes kg name group)
  then have "group = sameName name nodes" "group \<noteq> []" by (auto dest: regroupNodesByName_entry)
  then have "hd group \<in> set nodes" by (metis filter_is_subset hd_in_set subsetD)
  from node_size_less [OF this] show ?case by simp
next
  case (3 nodes kg name group x)
  then have "group = sameName name nodes" by (auto dest: regroupNodesByName_entry)
  with 3 have "x \<in> set nodes" by auto
  from node_size_less [OF this] show ?case by simp
next
  case (4 n)
  then show ?case by (cases n) auto
next
  case (5 n)
  then show ?case by (cases n) auto
qed auto

declare buildMap.simps [simp del] buildNode.simps [simp del]

definition buildArray :: "node list \<Rightarrow> jval list" where
  "buildArray nodes = map buildNode nodes"

definition Parse :: "(string \<Rightarrow> node gores) \<Rightarrow> string \<Rightarrow> jval gores" where
  "Parse unmarshal rawXML = rbind (unmarshal rawXML) (\<lambda>n. Ok (JMap (buildMap [n])))"

section \<open>Properties\<close>

lemma buildMap_lookup:
  "map_of (buildMap nodes) name =
     (case sameName name nodes of
        [] \<Rightarrow> None
      | [n] \<Rightarrow> Some (buildNode n)
      | ns \<Rightarrow> Some (JArr (buildArray ns)))"
proof -
  let ?f = "\<lambda>group. if length group = 1 then buildNode (hd group) else JArr (map buildNode group)"
  have f: "filter (\<lambda>(name, group). length group \<noteq> 0) (regroupNodesByName nodes) = regroupNodesByName nodes"
    by (rule filter_True) (auto dest: regroupNodesByName_entry)
  have "map_of (buildMap nodes) name = map_option ?f (map_of (regroupNodesByName nodes) name)"
    unfolding buildMap.simps f by (rule map_of_map_snd)
  then show ?thesis
    by (auto simp: regroupNodesByName_lookup buildArray_def split: list.split)
qed

lemma buildMap_wf: "gomap_wf (buildMap nodes)"
proof -
  have "gokeys (buildMap nodes) = gokeys (filter (\<lambda>(name, group). length group \<noteq> 0) (regroupNodesByName nodes))"
    unfolding buildMap.simps by (rule gokeys_map_snd)
  moreover have "gomap_wf (filter (\<lambda>(name, group). length group \<noteq> 0) (regroupNodesByName nodes))"
    using regroupNodesByName_wf by (rule gomap_wf_filter)
  ultimately show ?thesis by (simp add: gomap_wf_def)
qed

text \<open>
  The value built for a list of sibling elements has one entry per element name: a name that
  occurs once maps to that element's value, a name that occurs several times maps to the array
  of their values in document order, and no other name is present.
\<close>

theorem buildMap_groups:
  "gomap_wf (buildMap nodes) \<and>
   map_of (buildMap nodes) name =
     (case filter (\<lambda>n. joinXMLName (XMLName n) = name) nodes of
        [] \<Rightarrow> None
      | [n] \<Rightarrow> Some (buildNode n)
      | ns \<Rightarrow> Some (JArr (buildArray ns)))"
  using buildMap_wf buildMap_lookup by blast

end
