(* ===== verification/Http.thy ===== *)
theory Http
  imports Values "HOL-Library.List_Lexorder" "HOL-Library.Char_ord"
begin

text \<open>
  The parts of \<open>net/http\<close>, \<open>net/url\<close> and \<open>net/textproto\<close> that the mocks and checkers use.

  \<^item> A request has its method, the decoded path, the raw query, the headers and a body reader.
    The reader is state: \<open>readAll\<close> is \<open>io.ReadAll(r.Body)\<close> and leaves the reader empty, which
    is why the constraints put a fresh reader back (\<open>restoreBody\<close>).
  \<^item> A handler's effect on its \<open>http.ResponseWriter\<close> is the sequence of calls it makes
    (\<open>wcall\<close>); \<open>hijacker\<close> says whether the writer supports hijacking and how that call ends.
  \<^item> \<open>parseQuery\<close> is \<open>url.ParseQuery\<close>, with its partial result and first error;
    \<open>canonicalKey\<close> is \<open>textproto.CanonicalMIMEHeaderKey\<close>.
\<close>

section \<open>Requests and response writers\<close>

record bodyReader =
  unread :: string
  readError :: "goerror option"

record request =
  Method :: string
  URLPath :: string
  RawQuery :: string
  Header :: "(string, string list) gomap"
  Body :: bodyReader

definition readAll :: "request \<Rightarrow> request \<times> string gores" where
  "readAll r =
     (r\<lparr>Body := (Body r)\<lparr>unread := []\<rparr>\<rparr>,
      case readError (Body r) of Some e \<Rightarrow> Err e | None \<Rightarrow> Ok (unread (Body r)))"

text \<open>\<open>r.Body = io.NopCloser(bytes.NewReader(body))\<close>\<close>

definition restoreBody :: "string \<Rightarrow> request \<Rightarrow> request" where
  "restoreBody body r = r\<lparr>Body := \<lparr>unread = body, readError = None\<rparr>\<rparr>"

abbreviation readable :: "request \<Rightarrow> bool" where
  "readable r \<equiv> readError (Body r) = None"

lemma restoreBody_readAll [simp]:
  "readable r \<Longrightarrow> restoreBody (unread (Body r)) (fst (readAll r)) = r"
  by (simp add: restoreBody_def readAll_def)

datatype wcall = HeaderAdd string string | WriteHeader int | Write string | CloseConn

record respWriter =
  wcalls :: "wcall list"
  hijacker :: "goerror option option"

definition wdo :: "wcall list \<Rightarrow> respWriter \<Rightarrow> respWriter" where
  "wdo cs w = w\<lparr>wcalls := wcalls w @ cs\<rparr>"

record exchange =
  writer :: respWriter
  req :: request

section \<open>Header keys\<close>

text \<open>\<open>validHeaderFieldByte\<close>: the token characters of RFC 7230.\<close>

definition tokenChar :: "char \<Rightarrow> bool" where
  "tokenChar c \<longleftrightarrow> (rxWord c) \<or> c \<in> set ''!#$%&*+-.^`|~'' \<or> c = CHR 0x27"

fun canonicalChars :: "bool \<Rightarrow> string \<Rightarrow> string" where
  "canonicalChars up [] = []"
| "canonicalChars up (c # s) =
     (if up then asciiUpper c else asciiLower c) # canonicalChars (c = CHR ''-'') s"

definition canonicalKey :: "string \<Rightarrow> string" where
  "canonicalKey s = (if list_all tokenChar s then canonicalChars True s else s)"

text \<open>\<open>Header.Get\<close>: the first value of the key, or the empty string.\<close>

definition headerGet :: "(string, string list) gomap \<Rightarrow> string \<Rightarrow> string" where
  "headerGet h k = (case map_of h (canonicalKey k) of Some (v # vs) \<Rightarrow> v | _ \<Rightarrow> [])"

section \<open>Query strings\<close>

definition hexVal :: "char \<Rightarrow> nat option" where
  "hexVal c =
     (if isDigit c then Some (codepoint c - 48)
      else if 97 \<le> codepoint c \<and> codepoint c \<le> 102 then Some (codepoint c - 87)
      else if 65 \<le> codepoint c \<and> codepoint c \<le> 70 then Some (codepoint c - 55)
      else None)"

text \<open>\<open>url.QueryUnescape\<close>.\<close>

fun queryUnescape :: "string \<Rightarrow> string option" where
  "queryUnescape [] = Some []"
| "queryUnescape (c # s) =
     (if c = CHR ''%'' then
        (case s of
           a # b # t \<Rightarrow>
             (case (hexVal a, hexVal b) of
                (Some x, Some y) \<Rightarrow> map_option (\<lambda>u. char_of (16 * x + y) # u) (queryUnescape t)
              | _ \<Rightarrow> None)
         | _ \<Rightarrow> None)
      else map_option (\<lambda>u. (if c = CHR ''+'' then CHR '' '' else c) # u) (queryUnescape s))"

abbreviation valuesAdd :: "string \<Rightarrow> string \<Rightarrow> (string, string list) gomap \<Rightarrow> (string, string list) gomap" where
  "valuesAdd k v m \<equiv> AList.update k ((case map_of m k of Some vs \<Rightarrow> vs | None \<Rightarrow> []) @ [v]) m"

definition parseQueryStep ::
  "(string, string list) gomap \<times> goerror option \<Rightarrow> string \<Rightarrow> (string, string list) gomap \<times> goerror option" where
  "parseQueryStep st key =
     (let (m, err) = st;
          keep = (\<lambda>e. case err of Some _ \<Rightarrow> err | None \<Rightarrow> Some e)
      in if CHR '';'' \<in> set key then (m, Some (errNew ''invalid semicolon separator in query''))
         else if key = [] then st
         else (let parts = splitN2 (CHR ''='') key;
                   rawk = hd parts; rawv = (if length parts = 2 then parts ! 1 else [])
               in case queryUnescape rawk of
                    None \<Rightarrow> (m, keep (EFmt ''invalid URL escape'' [ShStr rawk]))
                  | Some k \<Rightarrow>
                      (case queryUnescape rawv of
                         None \<Rightarrow> (m, keep (EFmt ''invalid URL escape'' [ShStr rawv]))
                       | Some v \<Rightarrow> (valuesAdd k v m, err))))"

definition parseQuery :: "string \<Rightarrow> (string, string list) gomap \<times> goerror option" where
  "parseQuery q = (if q = [] then ([], None) else foldl parseQueryStep ([], None) (splitOn (CHR ''&'') q))"

text \<open>\<open>r.URL.Query()\<close> drops the error.\<close>

definition urlQuery :: "request \<Rightarrow> (string, string list) gomap" where
  "urlQuery r = fst (parseQuery (RawQuery r))"

lemma parseQueryStep_wf: "gomap_wf (fst st) \<Longrightarrow> gomap_wf (fst (parseQueryStep st key))"
  by (auto simp: parseQueryStep_def Let_def split: prod.splits option.splits)

lemma parseQuery_wf: "gomap_wf (fst (parseQuery q))"
proof -
  have "gomap_wf (fst st) \<Longrightarrow> gomap_wf (fst (foldl parseQueryStep st ks))" for st ks
    by (induction ks arbitrary: st) (auto simp: parseQueryStep_wf)
  then show ?thesis by (simp add: parseQuery_def)
qed

end
