(* ===== verification/MockConstraints.thy ===== *)
theory MockConstraints
  imports CompareQuery XmlParsing Http
begin

text \<open>
  Model of \<open>mocks/request_constraint.go\<close>: the \<open>verifier\<close>s of a mock definition, their
  constructors, and \<open>Verify\<close>.

  \<open>Verify\<close> returns the request as it leaves it (the body reader is consumed and put back)
  together with the outcome: the list of errors, or the panic of a comparison.

  The library code the constraints call is collected in \<open>libs\<close>: \<open>json.Unmarshal\<close>,
  \<open>xml.Unmarshal\<close>, \<open>gjson.Get\<close> (the text of the field, if it exists), the regular
  expression engine, \<open>%v\<close> formatting, the text \<open>httputil.DumpRequest\<close> prints, \<open>err.Error()\<close>, and, for
  the reply strategies, \<open>os.ReadFile\<close>, the decoding of a JSON object from a stream, and
  \<open>text/template\<close>: a parsed template is the tree of the calls its execution makes on the
  request object (\<open>templateRun\<close>), each continued by the answer.

  \<open>queryConstraint.Verify\<close> sorts the expected values in place before it compares; since it
  always sorts before it reads them, the order they are left in is never observed.
\<close>

datatype templateRun =
    TDone string
  | TFail goerror
  | TQuery string "string \<Rightarrow> templateRun"
  | TJson "jval gores \<Rightarrow> templateRun"

record libs =
  jsonUnmarshal :: "string \<Rightarrow> jval gores"
  xmlUnmarshal :: "string \<Rightarrow> node gores"
  gjsonGet :: "string \<Rightarrow> string \<Rightarrow> string option"
  regexpCompile :: regexp_engine
  sprintV :: formatter
  dumpText :: "request \<Rightarrow> string"
  errorText :: "goerror \<Rightarrow> string"
  readFile :: "string \<Rightarrow> string gores"
  jsonDecode :: "string \<Rightarrow> jval gores"
  templateParse :: "string \<Rightarrow> templateRun gores"

datatype verifier =
    nopConstraint
  | bodyMatchesXMLConstraint jval Params
  | bodyMatchesJSONConstraint jval Params
  | bodyJSONFieldMatchesJSONConstraint string jval Params
  | methodConstraint string
  | headerConstraint string string "string option"
  | queryConstraint "(string, string list) gomap"
  | queryRegexpConstraint "(string, string list) gomap"
  | pathConstraint string "string option"
  | bodyMatchesTextConstraint string "string option"

text \<open>\<open>reflect.TypeOf(c).String()\<close>\<close>

fun verifierKind :: "verifier \<Rightarrow> string" where
  "verifierKind nopConstraint = ''*mocks.nopConstraint''"
| "verifierKind (bodyMatchesXMLConstraint _ _) = ''*mocks.bodyMatchesXMLConstraint''"
| "verifierKind (bodyMatchesJSONConstraint _ _) = ''*mocks.bodyMatchesJSONConstraint''"
| "verifierKind (bodyJSONFieldMatchesJSONConstraint _ _ _) = ''*mocks.bodyJSONFieldMatchesJSONConstraint''"
| "verifierKind (methodConstraint _) = ''*mocks.methodConstraint''"
| "verifierKind (headerConstraint _ _ _) = ''*mocks.headerConstraint''"
| "verifierKind (queryConstraint _) = ''*mocks.queryConstraint''"
| "verifierKind (queryRegexpConstraint _) = ''*mocks.queryRegexpConstraint''"
| "verifierKind (pathConstraint _ _) = ''*mocks.pathConstraint''"
| "verifierKind (bodyMatchesTextConstraint _ _) = ''*mocks.bodyMatchesTextConstraint''"

section \<open>Constructors\<close>

definition newBodyMatchesXMLConstraint :: "libs \<Rightarrow> string \<Rightarrow> Params \<Rightarrow> verifier gores" where
  "newBodyMatchesXMLConstraint L expected params =
     rbind (Parse (xmlUnmarshal L) expected) (\<lambda>b. Ok (bodyMatchesXMLConstraint b params))"

definition newBodyMatchesJSONConstraint :: "libs \<Rightarrow> string \<Rightarrow> Params \<Rightarrow> verifier gores" where
  "newBodyMatchesJSONConstraint L expected params =
     rbind (jsonUnmarshal L expected) (\<lambda>b. Ok (bodyMatchesJSONConstraint b params))"

definition newBodyJSONFieldMatchesJSONConstraint :: "libs \<Rightarrow> string \<Rightarrow> string \<Rightarrow> Params \<Rightarrow> verifier gores" where
  "newBodyJSONFieldMatchesJSONConstraint L path expected params =
     rbind (jsonUnmarshal L expected) (\<lambda>v. Ok (bodyJSONFieldMatchesJSONConstraint path v params))"

text \<open>The block \<open>if re != "" { reCompiled, err = regexp.Compile(re) }\<close> of three constructors.\<close>

definition compileOptional :: "libs \<Rightarrow> string \<Rightarrow> string option gores" where
  "compileOptional L re =
     (if re \<noteq> [] then
        (case regexpCompile L re of None \<Rightarrow> Err (EFmt ''error parsing regexp'' [ShStr re]) | Some _ \<Rightarrow> Ok (Some re))
      else Ok None)"

definition newHeaderConstraint :: "libs \<Rightarrow> string \<Rightarrow> string \<Rightarrow> string \<Rightarrow> verifier gores" where
  "newHeaderConstraint L header val re =
     rbind (compileOptional L re) (\<lambda>rc. Ok (headerConstraint header val rc))"

definition newQueryConstraint :: "string \<Rightarrow> verifier gores" where
  "newQueryConstraint query =
     (let query = (if hasPrefix query ''?'' then tl query else query)
      in case parseQuery query of
           (pq, None) \<Rightarrow> Ok (queryConstraint pq)
         | (_, Some e) \<Rightarrow> Err e)"

definition newQueryRegexpConstraint :: "string \<Rightarrow> verifier gores" where
  "newQueryRegexpConstraint query =
     (let query = (if hasPrefix query ''?'' then tl query else query)
      in rbind
           (foldM (\<lambda>m rawParam.
               (case splitOn (CHR ''='') rawParam of
                  [k, v] \<Rightarrow>
                    (let m1 = (if gohas m k then m else AList.update k [] m)
                     in Ok (AList.update k ((case map_of m1 k of Some vs \<Rightarrow> vs | None \<Rightarrow> []) @ [v]) m1))
                | parts \<Rightarrow> Err (EFmt ''error parsing query: got %d parts, expected 2'' [ShInt (int (length parts))])))
             [] (splitOn (CHR ''&'') query))
           (\<lambda>m. Ok (queryRegexpConstraint m)))"

definition newPathConstraint :: "libs \<Rightarrow> string \<Rightarrow> string \<Rightarrow> verifier gores" where
  "newPathConstraint L path re = rbind (compileOptional L re) (\<lambda>rc. Ok (pathConstraint path rc))"

definition newBodyMatchesTextConstraint :: "libs \<Rightarrow> string \<Rightarrow> string \<Rightarrow> verifier gores" where
  "newBodyMatchesTextConstraint L body re =
     rbind (compileOptional L re) (\<lambda>rc. Ok (bodyMatchesTextConstraint body rc))"

section \<open>Verification\<close>

text \<open>\<open>c.regexp != nil && !c.regexp.MatchString(s)\<close>: the pattern compiled at construction.\<close>

definition rxRejects :: "libs \<Rightarrow> string option \<Rightarrow> string \<Rightarrow> bool" where
  "rxRejects L rc s =
     (case rc of None \<Rightarrow> False | Some re \<Rightarrow> (case regexpCompile L re of Some f \<Rightarrow> \<not> f s | None \<Rightarrow> False))"

text \<open>
  Reading the body and writing it back for later readers; the continuation is the rest of the
  method. When the read fails its error is the result.
\<close>

definition withBody :: "request \<Rightarrow> (string \<Rightarrow> goerror list gores) \<Rightarrow> request \<times> goerror list gores" where
  "withBody r k =
     (case readAll r of
        (r1, Ok body) \<Rightarrow> (restoreBody body r1, k body)
      | (r1, Err e) \<Rightarrow> (r1, Ok [e])
      | (r1, Panic m) \<Rightarrow> (r1, Panic m))"

text \<open>An error return of a helper becomes a one-element list of errors.\<close>

definition orErr :: "'a gores \<Rightarrow> ('a \<Rightarrow> goerror list gores) \<Rightarrow> goerror list gores" where
  "orErr m k = (case m of Ok x \<Rightarrow> k x | Err e \<Rightarrow> Ok [e] | Panic p \<Rightarrow> Panic p)"

definition verifyXML :: "libs \<Rightarrow> jval \<Rightarrow> Params \<Rightarrow> string \<Rightarrow> goerror list gores" where
  "verifyXML L expected params body =
     (if body = [] then Ok [errNew ''request is empty'']
      else orErr (Parse (xmlUnmarshal L) body)
             (\<lambda>actual. Compare (regexpCompile L) (sprintV L) expected actual params))"

definition verifyJSON :: "libs \<Rightarrow> jval \<Rightarrow> Params \<Rightarrow> string \<Rightarrow> goerror list gores" where
  "verifyJSON L expected params body =
     (if body = [] then Ok [errNew ''request is empty'']
      else orErr (jsonUnmarshal L body)
             (\<lambda>actual. Compare (regexpCompile L) (sprintV L) expected actual params))"

definition verifyJSONField :: "libs \<Rightarrow> string \<Rightarrow> jval \<Rightarrow> Params \<Rightarrow> string \<Rightarrow> goerror list gores" where
  "verifyJSONField L path expected params body =
     (case gjsonGet L body path of
        None \<Rightarrow> Ok [EFmt ''json field %s does not exist'' [ShStr path]]
      | Some v \<Rightarrow>
          if v = [] then Ok [EFmt ''json field %s is empty'' [ShStr path]]
          else orErr (jsonUnmarshal L v)
                 (\<lambda>actual. Compare (regexpCompile L) (sprintV L) expected actual params))"

definition verifyHeader :: "libs \<Rightarrow> string \<Rightarrow> string \<Rightarrow> string option \<Rightarrow> request \<Rightarrow> goerror list" where
  "verifyHeader L header val rc r =
     (let v = headerGet (Header r) header
      in if v = [] then [EFmt ''request doesn't have header %s'' [ShStr header]]
         else if val \<noteq> [] \<and> val \<noteq> v
           then [EFmt ''%s header value %s doesn't match expected %s'' [ShStr header, ShStr v, ShStr val]]
         else if rxRejects L rc v
           then [EFmt ''%s header value %s doesn't match regexp %s'' [ShStr header, ShStr v, ShStr (the rc)]]
         else [])"

definition verifyQuery :: "(string, string list) gomap \<Rightarrow> request \<Rightarrow> goerror list" where
  "verifyQuery expectedQuery r =
     concat (map (\<lambda>(key, want).
        case map_of (urlQuery r) key of
          None \<Rightarrow> [EFmt ''%s parameter is missing in expQuery'' [ShStr key]]
        | Some got \<Rightarrow>
            if sort got = sort want then []
            else [EFmt ''%s parameters are not equal. Got: %s Want: %s''
                    [ShStr key, ShStrs (sort got), ShStrs (sort want)]])
       expectedQuery)"

definition verifyQueryRegexp :: "libs \<Rightarrow> (string, string list) gomap \<Rightarrow> request \<Rightarrow> goerror list gores" where
  "verifyQueryRegexp L expectedQuery r =
     foldM (\<lambda>errs (key, want).
        case map_of (urlQuery r) key of
          None \<Rightarrow> Ok (errs @ [EFmt ''%s parameter is missing in expQuery'' [ShStr key]])
        | Some got \<Rightarrow>
            (case Query (regexpCompile L) want got of
               Err e \<Rightarrow> Ok (errs @ [EFmt ''%s parameters comparison failed. %s'' [ShStr key, ShErr e]])
             | Ok True \<Rightarrow> Ok errs
             | Ok False \<Rightarrow>
                 Ok (errs @ [EFmt ''%s parameters are not equal. Got: %s Want: %s'' [ShStr key, ShStrs got, ShStrs want]])
             | Panic m \<Rightarrow> Panic m))
       [] expectedQuery"

definition verifyPath :: "libs \<Rightarrow> string \<Rightarrow> string option \<Rightarrow> request \<Rightarrow> goerror list" where
  "verifyPath L path rc r =
     (if path \<noteq> [] \<and> path \<noteq> URLPath r
        then [EFmt ''url path %s doesn't match expected %s'' [ShStr (URLPath r), ShStr path]]
      else if rxRejects L rc (URLPath r)
        then [EFmt ''url path %s doesn't match regexp %s'' [ShStr (URLPath r), ShStr (the rc)]]
      else [])"

definition verifyText :: "libs \<Rightarrow> string \<Rightarrow> string option \<Rightarrow> string \<Rightarrow> goerror list" where
  "verifyText L expected rc body =
     (if expected \<noteq> [] \<and> expected \<noteq> body
        then [EFmt ''body value %s doesn't match expected %s'' [ShStr body, ShStr expected]]
      else if rxRejects L rc body
        then [EFmt ''body value %s doesn't match regexp %s'' [ShStr body, ShStr (the rc)]]
      else [])"

fun Verify :: "libs \<Rightarrow> verifier \<Rightarrow> request \<Rightarrow> request \<times> goerror list gores" where
  "Verify L nopConstraint r = (r, Ok [])"
| "Verify L (bodyMatchesXMLConstraint expected params) r = withBody r (verifyXML L expected params)"
| "Verify L (bodyMatchesJSONConstraint expected params) r = withBody r (verifyJSON L expected params)"
| "Verify L (bodyJSONFieldMatchesJSONConstraint path expected params) r =
     withBody r (verifyJSONField L path expected params)"
| "Verify L (methodConstraint method) r =
     (r, Ok (if equalFold (Method r) method then []
             else [EFmt ''method does not match: expected %s, actual %s'' [ShStr (Method r), ShStr method]]))"
| "Verify L (headerConstraint header val rc) r = (r, Ok (verifyHeader L header val rc r))"
| "Verify L (queryConstraint q) r = (r, Ok (verifyQuery q r))"
| "Verify L (queryRegexpConstraint q) r = (r, verifyQueryRegexp L q r)"
| "Verify L (pathConstraint path rc) r = (r, Ok (verifyPath L path rc r))"
| "Verify L (bodyMatchesTextConstraint body rc) r = withBody r (\<lambda>b. Ok (verifyText L body rc b))"

lemma withBody_readable: "readable r \<Longrightarrow> withBody r k = (r, k (unread (Body r)))"
  by (auto simp: withBody_def readAll_def restoreBody_def)

lemma Verify_request: "readable r \<Longrightarrow> fst (Verify L c r) = r"
  by (cases c) (auto simp: withBody_readable)

lemma withBody_meta:
  "fst (withBody r k) = r\<lparr>Body := Body (fst (withBody r k))\<rparr>"
  by (auto simp: withBody_def readAll_def restoreBody_def split: option.splits)

lemma verifyQuery_clean:
  "verifyQuery q r = [] \<longleftrightarrow>
     (\<forall>(key, want) \<in> set q. \<exists>got. map_of (urlQuery r) key = Some got \<and> mset got = mset want)"
proof -
  have sort_eq: "sort got = sort want \<longleftrightarrow> mset got = mset want" for got want :: "string list"
    by (metis mset_sort properties_for_sort sorted_sort)
  show ?thesis
    by (auto simp: verifyQuery_def sort_eq split: option.splits if_splits)
qed

end
