(* ===== verification/MockDefs.thy ===== *)
theory MockDefs
  imports MockConstraints
begin

text \<open>
  Model of \<open>mocks/definition.go\<close>, \<open>mocks/reply_strategy.go\<close> and
  \<open>mocks/template_reply_strategy.go\<close>: a mock definition with its request constraints, its
  reply strategy and its call counter, and the three operations of a running context: handle a
  request, reset, end.

  A definition is a tree: the strategies that dispatch (by URI, by method, by position in a
  sequence, by the first variant whose constraints hold) contain definitions. The
  interface \<open>ReplyStrategy\<close> is the datatype \<open>strategy\<close>, one constructor per implementation;
  \<open>contextAwareStrategy\<close> are the constructors with sub-definitions.

  An operation that handles a request returns the new definition, the exchange (the calls made
  on the response writer and the request as left behind) and the outcome. A panic in a
  comparison is an outcome; the counters updated before it keep their values, as they do in
  the program, where \<open>net/http\<close> recovers the panic. The mutexes only make each of these
  operations atomic: \<open>ServiceMock.ServeHTTP\<close> holds the lock of its service over the whole
  call.
\<close>

section \<open>Definitions and strategies\<close>

datatype mockDefinition =
  Definition (path: string) (requestConstraints: "verifier list") (replyStrategy: "strategy option")
    (serviceName: string) (calls: int) (callsConstraint: int)
and strategy =
    constantReply string int "(string, string) gomap"
  | templateReply templateRun int "(string, string) gomap"
  | dropRequestReply
  | failReply
  | nopReply
  | uriVaryReply string "(string \<times> mockDefinition) list"
  | methodVaryReply "(string \<times> mockDefinition) list"
  | sequentialReply nat "mockDefinition list"
  | basedOnRequestReply "mockDefinition list"

definition CallsNoConstraint :: int where
  "CallsNoConstraint = - 1"

definition NewDefinition :: "string \<Rightarrow> verifier list \<Rightarrow> strategy option \<Rightarrow> int \<Rightarrow> mockDefinition" where
  "NewDefinition p constraints strat cc = Definition p constraints strat [] 0 cc"

fun SetServiceName :: "string \<Rightarrow> mockDefinition \<Rightarrow> mockDefinition" where
  "SetServiceName name (Definition p cs st sn n cc) = Definition p cs st name n cc"

definition NewConstantReplyWithCode :: "string \<Rightarrow> int \<Rightarrow> (string, string) gomap \<Rightarrow> strategy" where
  "NewConstantReplyWithCode content statusCode headers = constantReply content statusCode headers"

definition NewFileReplyWithCode :: "libs \<Rightarrow> string \<Rightarrow> int \<Rightarrow> (string, string) gomap \<Rightarrow> strategy gores" where
  "NewFileReplyWithCode L filename statusCode headers =
     rbind (readFile L filename) (\<lambda>content. Ok (constantReply content statusCode headers))"

definition NewUriVaryReply :: "string \<Rightarrow> (string \<times> mockDefinition) list \<Rightarrow> strategy" where
  "NewUriVaryReply basePath variants = uriVaryReply (trimRight (CHR ''/'') basePath @ ''/'') variants"

definition newTemplateReply :: "libs \<Rightarrow> string \<Rightarrow> int \<Rightarrow> (string, string) gomap \<Rightarrow> strategy gores" where
  "newTemplateReply L content statusCode headers =
     (case templateParse L content of
        Ok t \<Rightarrow> Ok (templateReply t statusCode headers)
      | Err e \<Rightarrow> Err (EWrap ''template syntax error'' [] e)
      | Panic m \<Rightarrow> Panic m)"

section \<open>Replies\<close>

text \<open>\<open>httputil.DumpRequest(r, true)\<close> reads the body and puts it back.\<close>

definition dumpRequest :: "libs \<Rightarrow> request \<Rightarrow> request \<times> string gores" where
  "dumpRequest L r =
     (case readAll r of
        (r1, Ok body) \<Rightarrow> (restoreBody body r1, Ok (dumpText L r))
      | (r1, Err e) \<Rightarrow> (r1, Err e)
      | (r1, Panic m) \<Rightarrow> (r1, Panic m))"

definition unhandledRequestError :: "libs \<Rightarrow> exchange \<Rightarrow> exchange \<times> goerror list gores" where
  "unhandledRequestError L x =
     (let (r, out) = dumpRequest L (req x)
      in (x\<lparr>req := r\<rparr>,
          case out of
            Err e \<Rightarrow> Ok [EFmt ''Gonkey internal error during request dump: %s'' [ShErr e]]
          | Ok content \<Rightarrow> Ok [EFmt ''unhandled request to mock: %s'' [ShStr content]]
          | Panic m \<Rightarrow> Panic m))"

abbreviation addHeaders :: "(string, string) gomap \<Rightarrow> wcall list" where
  "addHeaders headers \<equiv> map (\<lambda>(k, v). HeaderAdd k v) headers"

definition constantHandle :: "string \<Rightarrow> int \<Rightarrow> (string, string) gomap \<Rightarrow> exchange \<Rightarrow> exchange \<times> goerror list gores" where
  "constantHandle body statusCode headers x =
     (x\<lparr>writer := wdo (addHeaders headers @ [WriteHeader statusCode, Write body]) (writer x)\<rparr>, Ok [])"

definition dropHandle :: "exchange \<Rightarrow> exchange \<times> goerror list gores" where
  "dropHandle x =
     (case hijacker (writer x) of
        None \<Rightarrow> (x, Ok [errNew ''Gonkey internal error during drop request: webserver doesn't support hijacking''])
      | Some (Some e) \<Rightarrow> (x, Ok [EFmt ''Gonkey internal error during connection hijacking: %s'' [ShErr e]])
      | Some None \<Rightarrow> (x\<lparr>writer := wdo [CloseConn] (writer x)\<rparr>, Ok []))"

definition nopHandle :: "exchange \<Rightarrow> exchange \<times> goerror list gores" where
  "nopHandle x = (x\<lparr>writer := wdo [WriteHeader 204] (writer x)\<rparr>, Ok [])"

subsection \<open>Templates\<close>

record templateRequest =
  tr_r :: request
  jsonOnce :: bool
  jsonData :: jval

definition templateQuery :: "templateRequest \<Rightarrow> string \<Rightarrow> string" where
  "templateQuery tr key = (case map_of (urlQuery (tr_r tr)) key of Some (v # vs) \<Rightarrow> v | _ \<Rightarrow> [])"

text \<open>
  \<open>Json\<close>: the error variable is local to the call and only the first call runs the function
  given to \<open>sync.Once\<close>.
\<close>

definition templateJson :: "libs \<Rightarrow> templateRequest \<Rightarrow> templateRequest \<times> jval gores" where
  "templateJson L tr =
     (if jsonOnce tr then (tr, Ok (jsonData tr))
      else
        let (r, out) = readAll (tr_r tr);
            tr1 = tr\<lparr>tr_r := r, jsonOnce := True\<rparr>
        in case rbind out (jsonDecode L) of
             Ok v \<Rightarrow> (tr1\<lparr>jsonData := v\<rparr>, Ok v)
           | Err e \<Rightarrow> (tr1, Err (EWrap ''failed to parse request as Json'' [] e))
           | Panic m \<Rightarrow> (tr1, Panic m))"

primrec runTemplate :: "libs \<Rightarrow> templateRun \<Rightarrow> templateRequest \<Rightarrow> templateRequest \<times> string gores" where
  "runTemplate L (TDone s) tr = (tr, Ok s)"
| "runTemplate L (TFail e) tr = (tr, Err e)"
| "runTemplate L (TQuery key k) tr = runTemplate L (k (templateQuery tr key)) tr"
| "runTemplate L (TJson k) tr = runTemplate L (k (snd (templateJson L tr))) (fst (templateJson L tr))"

definition executeResponseTemplate :: "libs \<Rightarrow> templateRun \<Rightarrow> request \<Rightarrow> request \<times> string gores" where
  "executeResponseTemplate L t r =
     (let (tr, out) = runTemplate L t \<lparr>tr_r = r, jsonOnce = False, jsonData = JNil\<rparr>
      in (tr_r tr,
          case out of
            Ok s \<Rightarrow> Ok s
          | Err e \<Rightarrow> Err (EWrap ''template mock error'' [] e)
          | Panic m \<Rightarrow> Panic m))"

definition templateHandle ::
  "libs \<Rightarrow> templateRun \<Rightarrow> int \<Rightarrow> (string, string) gomap \<Rightarrow> exchange \<Rightarrow> exchange \<times> goerror list gores" where
  "templateHandle L t statusCode headers x =
     (let x1 = x\<lparr>writer := wdo (addHeaders headers) (writer x)\<rparr>;
          (r, out) = executeResponseTemplate L t (req x1);
          x2 = x1\<lparr>req := r\<rparr>
      in case out of
           Ok body \<Rightarrow> (x2\<lparr>writer := wdo [WriteHeader statusCode, Write body] (writer x2)\<rparr>, Ok [])
         | Err e \<Rightarrow> (x2, Ok [e])
         | Panic m \<Rightarrow> (x2, Panic m))"

section \<open>Request constraints of a definition\<close>

text \<open>The loop over the constraints; each error is wrapped with the constraint's kind.\<close>

fun constraintErrors ::
  "libs \<Rightarrow> string \<Rightarrow> string \<Rightarrow> verifier list \<Rightarrow> request \<Rightarrow> request \<times> goerror list gores" where
  "constraintErrors L dump endpoint [] r = (r, Ok [])"
| "constraintErrors L dump endpoint (c # cs) r =
     (case Verify L c r of
        (r1, Ok errs) \<Rightarrow>
          (case constraintErrors L dump endpoint cs r1 of
             (r2, Ok rest) \<Rightarrow> (r2, Ok (map (\<lambda>e. EConstraint e (verifierKind c) dump endpoint) errs @ rest))
           | other \<Rightarrow> other)
      | other \<Rightarrow> other)"

text \<open>In \<open>Execute\<close>: a failed dump is printed and the dump is empty.\<close>

definition executeConstraints ::
  "libs \<Rightarrow> verifier list \<Rightarrow> request \<Rightarrow> string \<Rightarrow> request \<times> goerror list gores" where
  "executeConstraints L cs r endpoint =
     (if cs = [] then (r, Ok [])
      else case dumpRequest L r of
             (r1, Ok dump) \<Rightarrow> constraintErrors L dump endpoint cs r1
           | (r1, Err e) \<Rightarrow> constraintErrors L [] endpoint cs r1
           | (r1, Panic m) \<Rightarrow> (r1, Panic m))"

text \<open>In \<open>basedOnRequestReply\<close>: the text of a dump error goes into the report instead of the dump.\<close>

definition verifyRequestConstraints ::
  "libs \<Rightarrow> verifier list \<Rightarrow> request \<Rightarrow> string \<Rightarrow> request \<times> goerror list gores" where
  "verifyRequestConstraints L cs r endpoint =
     (if cs = [] then (r, Ok [])
      else case dumpRequest L r of
             (r1, Ok dump) \<Rightarrow> constraintErrors L dump endpoint cs r1
           | (r1, Err e) \<Rightarrow> constraintErrors L (''failed to dump request: '' @ errorText L e) endpoint cs r1
           | (r1, Panic m) \<Rightarrow> (r1, Panic m))"

section \<open>Handling a request\<close>

text \<open>
  \<open>Execute\<close> counts the call, verifies the constraints and then always lets the strategy reply;
  the errors of both are returned. The helpers are the loops of the four dispatching
  strategies over their variants.
\<close>

fun Execute :: "libs \<Rightarrow> exchange \<Rightarrow> mockDefinition \<Rightarrow> mockDefinition \<times> exchange \<times> goerror list gores"
  and ExecuteWithoutVerifying :: "libs \<Rightarrow> exchange \<Rightarrow> mockDefinition \<Rightarrow> mockDefinition \<times> exchange \<times> goerror list gores"
  and HandleRequest :: "libs \<Rightarrow> exchange \<Rightarrow> strategy \<Rightarrow> strategy \<times> exchange \<times> goerror list gores"
  and varyHandle :: "libs \<Rightarrow> exchange \<Rightarrow> (string \<Rightarrow> bool) \<Rightarrow> (string \<times> mockDefinition) list
     \<Rightarrow> (string \<times> mockDefinition) list \<times> exchange \<times> goerror list gores"
  and sequenceHandle :: "libs \<Rightarrow> exchange \<Rightarrow> nat \<Rightarrow> mockDefinition list
     \<Rightarrow> mockDefinition list \<times> exchange \<times> goerror list gores"
  and basedHandle :: "libs \<Rightarrow> exchange \<Rightarrow> goerror list \<Rightarrow> mockDefinition list
     \<Rightarrow> mockDefinition list \<times> exchange \<times> goerror list gores"
where
  "Execute L x (Definition p cs st sn n cc) =
     (case executeConstraints L cs (req x) p of
        (r1, Ok errors) \<Rightarrow>
          (case st of
             None \<Rightarrow> (Definition p cs st sn (n + 1) cc, x\<lparr>req := r1\<rparr>, Ok errors)
           | Some s \<Rightarrow>
               (case HandleRequest L (x\<lparr>req := r1\<rparr>) s of
                  (s1, x1, out) \<Rightarrow>
                    (Definition p cs (Some s1) sn (n + 1) cc, x1, rbind out (\<lambda>more. Ok (errors @ more)))))
      | (r1, bad) \<Rightarrow> (Definition p cs st sn (n + 1) cc, x\<lparr>req := r1\<rparr>, bad))"
| "ExecuteWithoutVerifying L x (Definition p cs st sn n cc) =
     (case st of
        None \<Rightarrow> (Definition p cs st sn (n + 1) cc, x, Ok [errNew ''reply strategy undefined''])
      | Some s \<Rightarrow>
          (case HandleRequest L x s of
             (s1, x1, out) \<Rightarrow> (Definition p cs (Some s1) sn (n + 1) cc, x1, out)))"
| "HandleRequest L x (constantReply body code headers) = (constantReply body code headers, constantHandle body code headers x)"
| "HandleRequest L x (templateReply t code headers) = (templateReply t code headers, templateHandle L t code headers x)"
| "HandleRequest L x dropRequestReply = (dropRequestReply, dropHandle x)"
| "HandleRequest L x failReply = (failReply, unhandledRequestError L x)"
| "HandleRequest L x nopReply = (nopReply, nopHandle x)"
| "HandleRequest L x (uriVaryReply basePath variants) =
     (case varyHandle L x (\<lambda>uri. basePath @ trimLeft (CHR ''/'') uri = URLPath (req x)) variants of
        (vs, rest) \<Rightarrow> (uriVaryReply basePath vs, rest))"
| "HandleRequest L x (methodVaryReply variants) =
     (case varyHandle L x (\<lambda>method. equalFold (Method (req x)) method) variants of
        (vs, rest) \<Rightarrow> (methodVaryReply vs, rest))"
| "HandleRequest L x (sequentialReply cnt sequence) =
     (if cnt \<ge> length sequence then (sequentialReply cnt sequence, unhandledRequestError L x)
      else (case sequenceHandle L x cnt sequence of (ds, rest) \<Rightarrow> (sequentialReply (cnt + 1) ds, rest)))"
| "HandleRequest L x (basedOnRequestReply variants) =
     (case basedHandle L x [] variants of (vs, rest) \<Rightarrow> (basedOnRequestReply vs, rest))"
| "varyHandle L x matches [] = ([], unhandledRequestError L x)"
| "varyHandle L x matches ((key, d) # vs) =
     (if matches key then (case Execute L x d of (d1, rest) \<Rightarrow> ((key, d1) # vs, rest))
      else (case varyHandle L x matches vs of (vs1, rest) \<Rightarrow> ((key, d) # vs1, rest)))"
| "sequenceHandle L x i [] = ([], x, Panic ''index out of range'')"
| "sequenceHandle L x i (d # ds) =
     (case i of
        0 \<Rightarrow> (case Execute L x d of (d1, rest) \<Rightarrow> (d1 # ds, rest))
      | Suc j \<Rightarrow> (case sequenceHandle L x j ds of (ds1, rest) \<Rightarrow> (d # ds1, rest)))"
| "basedHandle L x errors [] =
     (case unhandledRequestError L x of (x1, out) \<Rightarrow> ([], x1, rbind out (\<lambda>more. Ok (errors @ more))))"
| "basedHandle L x errors (d # ds) =
     (case verifyRequestConstraints L (requestConstraints d) (req x) (path d) of
        (r1, Ok []) \<Rightarrow> (case ExecuteWithoutVerifying L (x\<lparr>req := r1\<rparr>) d of (d1, rest) \<Rightarrow> (d1 # ds, rest))
      | (r1, Ok errs) \<Rightarrow>
          (case basedHandle L (x\<lparr>req := r1\<rparr>) (errors @ errs) ds of (ds1, rest) \<Rightarrow> (d # ds1, rest))
      | (r1, bad) \<Rightarrow> (d # ds, x\<lparr>req := r1\<rparr>, bad))"

section \<open>Running context\<close>

fun ResetRunningContext :: "mockDefinition \<Rightarrow> mockDefinition"
  and resetStrategy :: "strategy \<Rightarrow> strategy"
where
  "ResetRunningContext (Definition p cs st sn n cc) = Definition p cs (map_option resetStrategy st) sn 0 cc"
| "resetStrategy (uriVaryReply b vs) = uriVaryReply b (map (\<lambda>(k, d). (k, ResetRunningContext d)) vs)"
| "resetStrategy (methodVaryReply vs) = methodVaryReply (map (\<lambda>(k, d). (k, ResetRunningContext d)) vs)"
| "resetStrategy (sequentialReply c ds) = sequentialReply 0 (map ResetRunningContext ds)"
| "resetStrategy (basedOnRequestReply ds) = basedOnRequestReply (map ResetRunningContext ds)"
| "resetStrategy s = s"

fun EndRunningContext :: "mockDefinition \<Rightarrow> goerror list"
  and endStrategy :: "strategy \<Rightarrow> goerror list"
where
  "EndRunningContext (Definition p cs st sn n cc) =
     (case st of None \<Rightarrow> [] | Some s \<Rightarrow> endStrategy s) @
     (if cc \<noteq> CallsNoConstraint \<and> n \<noteq> cc then [ECalls p cc n sn] else [])"
| "endStrategy (uriVaryReply b vs) = concat (map (\<lambda>(k, d). EndRunningContext d) vs)"
| "endStrategy (methodVaryReply vs) = concat (map (\<lambda>(k, d). EndRunningContext d) vs)"
| "endStrategy (sequentialReply c ds) = concat (map EndRunningContext ds)"
| "endStrategy (basedOnRequestReply ds) = concat (map EndRunningContext ds)"
| "endStrategy s = []"

end
