(* ===== verification/RunningContext.thy ===== *)
theory RunningContext
  imports Prelude
begin

text \<open>
  The contract of everything that has a running context (\<open>contextAwareStrategy\<close> in
  \<open>mocks/reply_strategy.go\<close>, and the services above it): it handles requests, it can be reset,
  and it reports errors at the end. The runner resets the context before a test, lets the
  service under test send requests, and asks for the errors afterwards; what a test can observe
  must not depend on the tests before it.

  \<open>runRequests\<close> is the sequence of requests a component handles between a reset and the end.
\<close>

fun runRequests :: "('i \<Rightarrow> 's \<Rightarrow> 's \<times> 'o) \<Rightarrow> 'i list \<Rightarrow> 's \<Rightarrow> 's \<times> 'o list" where
  "runRequests handle [] s = (s, [])"
| "runRequests handle (i # is) s =
     (let (s1, out) = handle i s; (s2, outs) = runRequests handle is s1 in (s2, out # outs))"

lemma runRequests_Cons [simp]:
  "runRequests handle (i # is) s =
     (fst (runRequests handle is (fst (handle i s))), snd (handle i s) # snd (runRequests handle is (fst (handle i s))))"
  by (simp add: Let_def case_prod_beta)

declare runRequests.simps(2) [simp del]

lemma runRequests_append:
  "fst (runRequests handle (is @ js) s) = fst (runRequests handle js (fst (runRequests handle is s)))"
  by (induction "is" arbitrary: s) auto

lemma length_runRequests [simp]: "length (snd (runRequests handle is s)) = length is"
  by (induction "is" arbitrary: s) auto

lemma runRequests_invariant:
  assumes "P s" and "\<And>i s. P s \<Longrightarrow> P (fst (handle i s))"
  shows "P (fst (runRequests handle is s))"
  using assms(1) by (induction "is" arbitrary: s) (auto simp: assms(2))

text \<open>A quantity that every request increases by one.\<close>

lemma runRequests_counter:
  assumes "\<And>i s. c (fst (handle i s)) = c s + (1::int)"
  shows "c (fst (runRequests handle is s)) = c s + int (length is)"
  by (induction "is" arbitrary: s) (auto simp: assms)

locale running_context =
  fixes handle :: "'i \<Rightarrow> 's \<Rightarrow> 's \<times> 'o"
    and reset :: "'s \<Rightarrow> 's"
    and finish :: "'s \<Rightarrow> 'e list"
  assumes reset_reset: "reset (reset s) = reset s"
    and reset_handle: "reset (fst (handle i s)) = reset s"
begin

lemma reset_run: "reset (fst (runRequests handle is s)) = reset s"
  by (rule runRequests_invariant) (simp_all add: reset_handle)

lemma run_isolated:
  "runRequests handle js (reset (fst (runRequests handle is s))) = runRequests handle js (reset s)"
  by (simp add: reset_run)

lemma finish_isolated:
  "finish (fst (runRequests handle js (reset (fst (runRequests handle is s)))))
     = finish (fst (runRequests handle js (reset s)))"
  by (simp add: reset_run)

lemma reset_tests:
  "reset (foldl (\<lambda>t is. fst (runRequests handle is (reset t))) s tests) = reset s"
  by (induction tests arbitrary: s) (simp_all add: reset_run reset_reset)

end

end
