(* ===== verification/MockSpec.thy ===== *)
theory MockSpec
  imports MockDefs RunningContext
begin

text \<open>
  Correctness of mock definitions: what a reset forgets and keeps, how requests are dispatched,
  and what the end of a running context reports.
\<close>

section \<open>Reset\<close>

lemma ResetRunningContext_idem:
  "ResetRunningContext (ResetRunningContext d) = ResetRunningContext d"
  "resetStrategy (resetStrategy s) = resetStrategy s"
  by (induction d and s rule: ResetRunningContext_resetStrategy.induct)
     (auto simp: option.map_comp o_def split: option.splits intro!: map_cong option.map_cong)

lemma Execute_reset:
  "ResetRunningContext (fst (Execute L x d)) = ResetRunningContext d"
  "ResetRunningContext (fst (ExecuteWithoutVerifying L x d)) = ResetRunningContext d"
  "resetStrategy (fst (HandleRequest L x s)) = resetStrategy s"
  "map (\<lambda>(k, d). (k, ResetRunningContext d)) (fst (varyHandle L x m vs)) = map (\<lambda>(k, d). (k, ResetRunningContext d)) vs"
  "map ResetRunningContext (fst (sequenceHandle L x i ds)) = map ResetRunningContext ds"
  "map ResetRunningContext (fst (basedHandle L x errs ds)) = map ResetRunningContext ds"
  by (induction L x d and L x d and L x s and L x m vs and L x i ds and L x errs ds
      rule: Execute_ExecuteWithoutVerifying_HandleRequest_varyHandle_sequenceHandle_basedHandle.induct)
     (auto split: prod.splits res.splits option.splits list.splits nat.splits, metis fst_conv)

interpretation def_context: running_context "Execute L" ResetRunningContext EndRunningContext
  by unfold_locales (simp_all add: ResetRunningContext_idem Execute_reset)

interpretation strategy_context: running_context "HandleRequest L" resetStrategy endStrategy
  by unfold_locales (simp_all add: ResetRunningContext_idem Execute_reset)

lemma calls_Execute: "calls (fst (Execute L x d)) = calls d + 1"
  by (cases d) (auto split: prod.splits res.splits option.splits)

lemma Execute_keeps:
  "callsConstraint (fst (Execute L x d)) = callsConstraint d"
  "path (fst (Execute L x d)) = path d"
  "serviceName (fst (Execute L x d)) = serviceName d"
  by (cases d; auto split: prod.splits res.splits option.splits)+

section \<open>Call counts\<close>

text \<open>All definitions of a tree, in the order in which \<open>EndRunningContext\<close> visits them.\<close>

fun subdefs :: "mockDefinition \<Rightarrow> mockDefinition list"
  and strategyDefs :: "strategy \<Rightarrow> mockDefinition list"
where
  "subdefs (Definition p cs st sn n cc) =
     (case st of None \<Rightarrow> [] | Some s \<Rightarrow> strategyDefs s) @ [Definition p cs st sn n cc]"
| "strategyDefs (uriVaryReply b vs) = concat (map (\<lambda>(k, d). subdefs d) vs)"
| "strategyDefs (methodVaryReply vs) = concat (map (\<lambda>(k, d). subdefs d) vs)"
| "strategyDefs (sequentialReply c ds) = concat (map subdefs ds)"
| "strategyDefs (basedOnRequestReply ds) = concat (map subdefs ds)"
| "strategyDefs s = []"

definition callsViolated :: "mockDefinition \<Rightarrow> bool" where
  "callsViolated d \<longleftrightarrow> callsConstraint d \<noteq> CallsNoConstraint \<and> calls d \<noteq> callsConstraint d"

definition callsMismatch :: "mockDefinition \<Rightarrow> goerror" where
  "callsMismatch d = ECalls (path d) (callsConstraint d) (calls d) (serviceName d)"

abbreviation callsReport :: "mockDefinition list \<Rightarrow> goerror list" where
  "callsReport ds \<equiv> map callsMismatch (filter callsViolated ds)"

lemma callsReport_concat:
  "(\<And>x. x \<in> set xs \<Longrightarrow> f x = callsReport (g x)) \<Longrightarrow> concat (map f xs) = callsReport (concat (map g xs))"
  by (induction xs) auto

lemma EndRunningContext_subdefs:
  "EndRunningContext d = callsReport (subdefs d)"
  "endStrategy s = callsReport (strategyDefs s)"
proof (induction d and s rule: EndRunningContext_endStrategy.induct)
  case (1 p cs st sn n cc)
  then show ?case by (auto simp: callsViolated_def callsMismatch_def split: option.splits)
next
  case (2 b vs)
  then show ?case by (auto intro!: callsReport_concat)
next
  case (3 vs)
  then show ?case by (auto intro!: callsReport_concat)
next
  case (4 c ds)
  then show ?case by (auto intro!: callsReport_concat)
next
  case (5 ds)
  then show ?case by (auto intro!: callsReport_concat)
qed simp_all

section \<open>Dispatch\<close>

lemma varyHandle_nth:
  "varyHandle L x m vs =
     (case List.extract (\<lambda>(k, d). m k) vs of
        None \<Rightarrow> (vs, unhandledRequestError L x)
      | Some (pre, (k, d), post) \<Rightarrow> (pre @ (k, fst (Execute L x d)) # post, snd (Execute L x d)))"
  by (induction vs) (auto simp: extract_Cons_code extract_Nil_code split: option.splits prod.splits)

lemma sequenceHandle_nth:
  "i < length ds \<Longrightarrow>
     sequenceHandle L x i ds = (ds[i := fst (Execute L x (ds ! i))], snd (Execute L x (ds ! i)))"
  by (induction ds arbitrary: i) (auto split: nat.splits prod.splits)

lemma sequence_step:
  "HandleRequest L x (sequentialReply c ds) =
     (if c < length ds
      then (sequentialReply (c + 1) (ds[c := fst (Execute L x (ds ! c))]), snd (Execute L x (ds ! c)))
      else (sequentialReply c ds, unhandledRequestError L x))"
  by (auto simp: sequenceHandle_nth)

lemma sequence_run:
  assumes "i < length xs"
  shows "snd (runRequests (HandleRequest L) xs (sequentialReply c ds)) ! i =
     (if c + i < length ds then snd (Execute L (xs ! i) (ds ! (c + i))) else unhandledRequestError L (xs ! i))"
  using assms
proof (induction xs arbitrary: c ds i)
  case (Cons x xs)
  then show ?case
    by (cases i) (auto simp: sequence_step simp del: HandleRequest.simps)
qed simp

lemma sequence_state:
  assumes "c + length xs \<le> length ds"
  shows "fst (runRequests (HandleRequest L) xs (sequentialReply c ds)) =
     sequentialReply (c + length xs)
       (map (\<lambda>j. if c \<le> j \<and> j < c + length xs then fst (Execute L (xs ! (j - c)) (ds ! j)) else ds ! j) [0..<length ds])"
  using assms
proof (induction xs arbitrary: c ds)
  case Nil
  then show ?case by (auto simp: map_nth intro!: nth_equalityI)
next
  case (Cons x xs)
  show ?case
    using Cons.prems Cons.IH [of "Suc c" "ds[c := fst (Execute L x (ds ! c))]"]
    by (auto simp: sequence_step nth_Cons' nth_list_update simp del: HandleRequest.simps intro!: nth_equalityI)
qed

lemma varyHandle_unique:
  assumes "(k, d) \<in> set vs" "m k" "distinct (map fst vs)" "\<forall>k' \<in> set (map fst vs). m k' \<longrightarrow> k' = k"
  shows "snd (varyHandle L x m vs) = snd (Execute L x d)
    \<and> fst (varyHandle L x m vs) = map (\<lambda>(k', d'). (k', if k' = k then fst (Execute L x d) else d')) vs"
  using assms
proof (induction vs)
  case (Cons v vs)
  obtain k0 d0 where v: "v = (k0, d0)" by (cases v)
  have rest: "k0 \<notin> set (map fst vs)" "distinct (map fst vs)" using Cons.prems v by auto
  show ?case
  proof (cases "k0 = k")
    case True
    then have "d0 = d" using Cons.prems(1) rest(1) v by (auto simp: rev_image_eqI)
    moreover have "map (\<lambda>(k', d'). (k', if k' = k then e else d')) vs = vs" for e
      using rest(1) True by (intro map_idI) (auto simp: rev_image_eqI)
    ultimately show ?thesis using True v Cons.prems(2) by (simp split: prod.split)
  next
    case False
    then have "(k, d) \<in> set vs" using Cons.prems(1) v by simp
    moreover have "\<not> m k0" using Cons.prems(4) v False by simp
    moreover have "\<forall>k' \<in> set (map fst vs). m k' \<longrightarrow> k' = k" using Cons.prems(4) by simp
    ultimately show ?thesis
      using Cons.IH [OF _ Cons.prems(2) rest(2)] False v by (simp add: case_prod_beta)
  qed
qed simp

lemma varyHandle_none:
  "\<forall>k \<in> set (map fst vs). \<not> m k \<Longrightarrow> varyHandle L x m vs = (vs, unhandledRequestError L x)"
  by (induction vs) auto

lemma dumpRequest_readable: "readable r \<Longrightarrow> dumpRequest L r = (r, Ok (dumpText L r))"
  by (auto simp: dumpRequest_def readAll_def restoreBody_def)

lemma constraintErrors_request: "readable r \<Longrightarrow> fst (constraintErrors L dump e cs r) = r"
proof (induction cs)
  case (Cons c cs)
  then show ?case using Verify_request [of r L c] by (auto split: prod.splits res.splits)
qed simp

lemma verifyRequestConstraints_request:
  "readable r \<Longrightarrow> fst (verifyRequestConstraints L cs r p) = r"
  by (simp add: verifyRequestConstraints_def dumpRequest_readable constraintErrors_request)

lemma executeConstraints_eq:
  "readable r \<Longrightarrow> executeConstraints L cs r p = verifyRequestConstraints L cs r p"
  by (simp add: verifyRequestConstraints_def executeConstraints_def dumpRequest_readable)

abbreviation rejection :: "libs \<Rightarrow> request \<Rightarrow> mockDefinition \<Rightarrow> goerror list gores" where
  "rejection L r d \<equiv> snd (verifyRequestConstraints L (requestConstraints d) r (path d))"

lemma verify_eta:
  "readable r \<Longrightarrow> verifyRequestConstraints L (requestConstraints d) r (path d) = (r, rejection L r d)"
  by (metis prod.collapse verifyRequestConstraints_request)

lemma basedHandle_accept:
  assumes "readable (req x)" "i < length ds" "rejection L (req x) (ds ! i) = Ok []"
    and "\<forall>j < i. \<exists>e es. rejection L (req x) (ds ! j) = Ok (e # es)"
  shows "basedHandle L x errs ds =
    (ds[i := fst (ExecuteWithoutVerifying L x (ds ! i))], snd (ExecuteWithoutVerifying L x (ds ! i)))"
  using assms
proof (induction ds arbitrary: i errs)
  case (Cons d ds)
  note eta = verify_eta [OF Cons.prems(1), of L d]
  show ?case
  proof (cases i)
    case 0
    with Cons.prems have "rejection L (req x) d = Ok []" by simp
    then show ?thesis using eta 0 by (simp split: prod.split)
  next
    case (Suc k)
    with Cons.prems(4) [rule_format, of 0] obtain e es where rej: "rejection L (req x) d = Ok (e # es)" by auto
    have "basedHandle L x (errs @ e # es) ds =
        (ds[k := fst (ExecuteWithoutVerifying L x (ds ! k))], snd (ExecuteWithoutVerifying L x (ds ! k)))"
      using Cons.prems Suc by (intro Cons.IH) (auto dest: spec [of _ "Suc _"])
    with rej eta Suc show ?thesis by simp
  qed
qed simp

lemma basedHandle_reject:
  assumes "readable (req x)" and "list_all2 (\<lambda>d es. rejection L (req x) d = Ok es \<and> es \<noteq> []) ds ess"
  shows "basedHandle L x errs ds =
    (ds, x, Ok (errs @ concat ess @ [EFmt ''unhandled request to mock: %s'' [ShStr (dumpText L (req x))]]))"
  using assms(2)
proof (induction ds ess arbitrary: errs rule: list_all2_induct)
  case Nil
  then show ?case using assms(1)
    by (simp add: unhandledRequestError_def dumpRequest_readable)
next
  case (Cons d ds es ess)
  then show ?case
    using verify_eta [OF assms(1), of L d] by (cases es) simp_all
qed

section \<open>Properties\<close>

text \<open>Library functions for concrete runs: nothing decodes, patterns and texts are literal.\<close>

definition exampleLibs :: libs where
  "exampleLibs =
     \<lparr>jsonUnmarshal = (\<lambda>s. if s = ''null'' then Ok JNil else Err (errNew ''invalid character'')),
      xmlUnmarshal = (\<lambda>s. Err (errNew ''EOF'')), gjsonGet = (\<lambda>b p. None),
      regexpCompile = (\<lambda>re. Some (\<lambda>s. s = re)), sprintV = (\<lambda>v. []), dumpText = (\<lambda>r. Method r),
      errorText = (\<lambda>e. []), readFile = (\<lambda>f. Ok f), jsonDecode = (\<lambda>s. Ok JNil), templateParse = (\<lambda>s. Ok (TDone s))\<rparr>"

definition exampleExchange :: "string \<Rightarrow> string \<Rightarrow> string \<Rightarrow> exchange" where
  "exampleExchange method p q =
     \<lparr>writer = \<lparr>wcalls = [], hijacker = None\<rparr>,
      req = \<lparr>Method = method, URLPath = p, RawQuery = q, Header = [], Body = \<lparr>unread = ''abc'', readError = None\<rparr>\<rparr>\<rparr>"

abbreviation replyDef :: "verifier list \<Rightarrow> string \<Rightarrow> mockDefinition" where
  "replyDef cs body \<equiv> NewDefinition ''$'' cs (Some (constantReply body 200 [])) CallsNoConstraint"

text \<open>
  Tests are isolated from each other: after a reset, what a mock definition answers to any
  sequence of requests, the state it reaches and the errors it reports at the end do not depend
  on the requests it handled before the reset.
\<close>

theorem mock_runs_isolated:
  "runRequests (Execute L) js (ResetRunningContext (fst (runRequests (Execute L) is d)))
     = runRequests (Execute L) js (ResetRunningContext d)
   \<and> EndRunningContext (fst (runRequests (Execute L) js (ResetRunningContext (fst (runRequests (Execute L) is d)))))
     = EndRunningContext (fst (runRequests (Execute L) js (ResetRunningContext d)))"
  using def_context.run_isolated def_context.finish_isolated by blast

text \<open>
  At the end of a running context a definition reports exactly one call-count error for every
  definition of its tree that has a constraint on the number of calls and was called another
  number of times, with the expected and the actual number, and nothing else.
\<close>

theorem EndRunningContext_reports:
  "EndRunningContext d = map callsMismatch (filter callsViolated (subdefs d))"
  by (rule EndRunningContext_subdefs)

text \<open>
  After a reset and any sequence of requests the call counter is the number of requests, so
  the definition's own count is reported exactly when its constraint is set and differs from
  that number.
\<close>

theorem Execute_counts_requests:
  "EndRunningContext (fst (runRequests (Execute L) xs (ResetRunningContext d))) =
     (case replyStrategy (fst (runRequests (Execute L) xs (ResetRunningContext d))) of
        None \<Rightarrow> [] | Some s \<Rightarrow> endStrategy s) @
     (if callsConstraint d \<noteq> CallsNoConstraint \<and> int (length xs) \<noteq> callsConstraint d
      then [ECalls (path d) (callsConstraint d) (int (length xs)) (serviceName d)] else [])"
proof -
  let ?d' = "fst (runRequests (Execute L) xs (ResetRunningContext d))"
  have n: "calls ?d' = int (length xs)"
    using runRequests_counter [of calls "Execute L" xs "ResetRunningContext d"] calls_Execute
    by (cases d) simp
  have "callsConstraint ?d' = callsConstraint d \<and> path ?d' = path d \<and> serviceName ?d' = serviceName d"
    by (rule runRequests_invariant) (cases d, simp_all add: Execute_keeps)
  with n show ?thesis by (cases ?d') auto
qed

text \<open>
  A sequence answers the i-th request after a reset with its i-th definition, untouched by the
  requests before, and every request beyond its length with an unhandled-request error.
\<close>

theorem sequence_replies_in_order:
  "snd (runRequests (HandleRequest L) xs (sequentialReply 0 ds)) =
     map (\<lambda>i. if i < length ds then snd (Execute L (xs ! i) (ds ! i)) else unhandledRequestError L (xs ! i))
       [0..<length xs]"
  by (rule nth_equalityI) (simp_all add: sequence_run)

text \<open>
  \<open>basedOnRequest\<close> answers with the first variant whose constraints all hold: exactly that
  variant is executed and counted, no constraint error of the skipped variants is reported, and
  the request reaches it with its body intact.
\<close>

theorem basedOnRequest_first_match:
  assumes "readable (req x)" and "i < length ds" and "rejection L (req x) (ds ! i) = Ok []"
    and "\<forall>j < i. \<exists>e es. rejection L (req x) (ds ! j) = Ok (e # es)"
  shows "HandleRequest L x (basedOnRequestReply ds) =
    (basedOnRequestReply (ds[i := fst (ExecuteWithoutVerifying L x (ds ! i))]),
     snd (ExecuteWithoutVerifying L x (ds ! i)))"
  using basedHandle_accept [OF assms] by simp

theorem basedOnRequest_first_match_witness:
  "snd (snd (HandleRequest exampleLibs (exampleExchange ''GET'' ''/'' [])
       (basedOnRequestReply [replyDef [methodConstraint ''POST''] ''a'', replyDef [] ''b'', replyDef [] ''c'']))) = Ok []"
proof -
  let ?x = "exampleExchange ''GET'' ''/'' []"
  let ?ds = "[replyDef [methodConstraint ''POST''] ''a'', replyDef [] ''b'', replyDef [] ''c'']"
  have r: "readable (req ?x)" by code_simp
  have a: "rejection exampleLibs (req ?x) (?ds ! 1) = Ok []" by code_simp
  have "rejection exampleLibs (req ?x) (?ds ! 0)
     = Ok [EConstraint (EFmt ''method does not match: expected %s, actual %s'' [ShStr ''GET'', ShStr ''POST''])
         ''*mocks.methodConstraint'' ''GET'' ''$'']" by code_simp
  then have j: "\<forall>j < 1. \<exists>e es. rejection exampleLibs (req ?x) (?ds ! j) = Ok (e # es)" by simp
  have "1 < length ?ds" by simp
  note eq = basedOnRequest_first_match [OF r this a j]
  have "snd (snd (ExecuteWithoutVerifying exampleLibs ?x (?ds ! 1))) = Ok []" by code_simp
  then show ?thesis unfolding eq by (simp only: snd_conv)
qed

text \<open>
  When every variant of \<open>basedOnRequest\<close> rejects the request, the errors of all variants are
  reported in order, followed by one unhandled-request error; no reply is written and no call
  is counted.
\<close>

theorem basedOnRequest_no_match:
  assumes "readable (req x)" and "list_all2 (\<lambda>d es. rejection L (req x) d = Ok es \<and> es \<noteq> []) ds ess"
  shows "HandleRequest L x (basedOnRequestReply ds) =
    (basedOnRequestReply ds, x,
     Ok (concat ess @ [EFmt ''unhandled request to mock: %s'' [ShStr (dumpText L (req x))]]))"
  using basedHandle_reject [OF assms, of "[]"] by simp

theorem basedOnRequest_no_match_witness:
  "HandleRequest exampleLibs (exampleExchange ''GET'' ''/'' []) (basedOnRequestReply []) =
    (basedOnRequestReply [], exampleExchange ''GET'' ''/'' [],
     Ok [EFmt ''unhandled request to mock: %s'' [ShStr ''GET'']])"
proof -
  have r: "readable (req (exampleExchange ''GET'' ''/'' []))" by code_simp
  have d: "dumpText exampleLibs (req (exampleExchange ''GET'' ''/'' [])) = ''GET''" by code_simp
  show ?thesis using basedOnRequest_no_match [OF r, of exampleLibs "[]" "[]"] d by simp
qed

text \<open>
  URI dispatch: a request whose path is the base path, one slash and the variant's URI without
  its leading slashes is answered by that variant alone, whatever the order in which the map is
  visited and however many slashes the configuration has at the joint.
\<close>

theorem uriVary_routes:
  assumes "distinct (map fst vs)" and "inj_on (trimLeft (CHR ''/'')) (set (map fst vs))"
    and "(uri, d) \<in> set vs"
    and "URLPath (req x) = trimRight (CHR ''/'') basePath @ ''/'' @ trimLeft (CHR ''/'') uri"
  shows "HandleRequest L x (NewUriVaryReply basePath vs) =
    (uriVaryReply (trimRight (CHR ''/'') basePath @ ''/'')
       (map (\<lambda>(u, d'). (u, if u = uri then fst (Execute L x d) else d')) vs),
     snd (Execute L x d))"
proof -
  let ?m = "\<lambda>u. (trimRight (CHR ''/'') basePath @ ''/'') @ trimLeft (CHR ''/'') u = URLPath (req x)"
  have "\<forall>u \<in> set (map fst vs). ?m u \<longrightarrow> u = uri"
  proof (intro ballI impI)
    fix u assume u: "u \<in> set (map fst vs)" and "?m u"
    then have "trimLeft (CHR ''/'') u = trimLeft (CHR ''/'') uri" using assms(4) by simp
    moreover have "uri \<in> set (map fst vs)" using imageI [OF assms(3), of fst] by simp
    ultimately show "u = uri" using assms(2) u by (meson inj_onD)
  qed
  moreover have "?m uri" using assms(4) by simp
  ultimately have "varyHandle L x ?m vs =
      (map (\<lambda>(u, d'). (u, if u = uri then fst (Execute L x d) else d')) vs, snd (Execute L x d))"
    by (intro prod_eqI) (simp_all only: varyHandle_unique [OF assms(3) _ assms(1)] fst_conv snd_conv)
  then show ?thesis unfolding NewUriVaryReply_def HandleRequest.simps by simp
qed

theorem uriVary_routes_witness:
  "snd (HandleRequest exampleLibs (exampleExchange ''GET'' ''/api/b'' [])
       (NewUriVaryReply ''/api//'' [(''/a'', replyDef [] ''1''), (''/b'', replyDef [] ''2'')])) =
   snd (Execute exampleLibs (exampleExchange ''GET'' ''/api/b'' []) (replyDef [] ''2''))"
proof -
  let ?x = "exampleExchange ''GET'' ''/api/b'' []"
  let ?vs = "[(''/a'', replyDef [] ''1''), (''/b'', replyDef [] ''2'')]"
  have p: "URLPath (req ?x) = trimRight (CHR ''/'') ''/api//'' @ ''/'' @ trimLeft (CHR ''/'') ''/b''" by code_simp
  have i: "inj_on (trimLeft (CHR ''/'')) (set (map fst ?vs))" by (simp add: trimLeft_def)
  have "distinct (map fst ?vs)" "(''/b'', replyDef [] ''2'') \<in> set ?vs" by simp_all
  from uriVary_routes [OF this(1) i this(2) p] show ?thesis by simp
qed

text \<open>
  Checking a request constraint does not consume the request: whatever the constraint and its
  verdict, a request whose body can be read is left exactly as it was, also after all
  constraints of a definition and the request dump.
\<close>

theorem Verify_restores_request:
  assumes "readable r"
  shows "fst (Verify L c r) = r \<and> fst (verifyRequestConstraints L cs r p) = r \<and> fst (executeConstraints L cs r p) = r"
  using assms by (simp add: Verify_request verifyRequestConstraints_request executeConstraints_eq)

theorem Verify_restores_request_witness:
  "fst (Verify exampleLibs (bodyMatchesJSONConstraint JNil zeroParams) (req (exampleExchange ''GET'' ''/'' [])))
     = req (exampleExchange ''GET'' ''/'' [])"
proof -
  have "readable (req (exampleExchange ''GET'' ''/'' []))" by code_simp
  from Verify_restores_request [OF this] show ?thesis by blast
qed

text \<open>
  The query constraint holds exactly when every expected parameter is present with the same
  values, in any order but with the same multiplicities; parameters that are not expected are
  ignored.
\<close>

theorem Verify_query_iff:
  "snd (Verify L (queryConstraint q) r) = Ok [] \<longleftrightarrow>
     (\<forall>(key, want) \<in> set q. \<exists>got. map_of (urlQuery r) key = Some got \<and> mset got = mset want)"
  by (simp add: verifyQuery_clean)

theorem Verify_query_iff_witness:
  "snd (Verify exampleLibs (queryConstraint [(''a'', [''2'', ''1''])]) (req (exampleExchange ''GET'' ''/'' ''a=1&b=3&a=2''))) = Ok []"
proof -
  have "map_of (urlQuery (req (exampleExchange ''GET'' ''/'' ''a=1&b=3&a=2''))) ''a'' = Some [''1'', ''2'']" by code_simp
  then show ?thesis by (subst Verify_query_iff) simp
qed

end
