(* ===== verification/Models.thy ===== *)
theory Models
  imports Compare
begin

text \<open>
  Model of \<open>models/\<close> and of the data types of \<open>testloader/yaml_file/\<close>: tests, their
  definitions and cases, results, and the errors of checks.

  A Go pointer, slice or map that the program compares with nil is an \<open>option\<close>; one that it only
  ranges over is a list. \<open>errText\<close> is \<open>err.Error()\<close>; it is a parameter where the text of a
  nested error matters.
\<close>

section \<open>Check errors\<close>

abbreviation ErrorCategoryStatusCode :: string where "ErrorCategoryStatusCode \<equiv> ''status_code''"
abbreviation ErrorCategoryResponseBody :: string where "ErrorCategoryResponseBody \<equiv> ''body''"
abbreviation ErrorCategoryResponseHeader :: string where "ErrorCategoryResponseHeader \<equiv> ''header''"
abbreviation ErrorCategoryDatabase :: string where "ErrorCategoryDatabase \<equiv> ''database''"
abbreviation ErrorCategoryMock :: string where "ErrorCategoryMock \<equiv> ''mock''"

definition NewStatusCodeError :: "int \<Rightarrow> int \<Rightarrow> goerror" where
  "NewStatusCodeError expected actual =
     ECheck ErrorCategoryStatusCode [] (''status code mismatch: expected '' @ itoa expected @ '', got '' @ itoa actual) None"

definition NewBodyError :: "string \<Rightarrow> goerror" where
  "NewBodyError msg = ECheck ErrorCategoryResponseBody [] msg None"

definition NewBodyErrorWithCause :: "goerror \<Rightarrow> string \<Rightarrow> goerror" where
  "NewBodyErrorWithCause err msg = ECheck ErrorCategoryResponseBody [] msg (Some err)"

definition NewHeaderError :: "string \<Rightarrow> goerror" where
  "NewHeaderError msg = ECheck ErrorCategoryResponseHeader [] msg None"

definition NewDatabaseError :: "string \<Rightarrow> goerror" where
  "NewDatabaseError msg = ECheck ErrorCategoryDatabase [] msg None"

definition NewDatabaseErrorWithCause :: "goerror \<Rightarrow> string \<Rightarrow> goerror" where
  "NewDatabaseErrorWithCause err msg = ECheck ErrorCategoryDatabase [] msg (Some err)"

definition NewDatabaseErrorWithIdentifier :: "int \<Rightarrow> string \<Rightarrow> goerror" where
  "NewDatabaseErrorWithIdentifier queryIndex msg = ECheck ErrorCategoryDatabase (itoa queryIndex) msg None"

definition NewMockError :: "string \<Rightarrow> goerror" where
  "NewMockError msg = ECheck ErrorCategoryMock [] msg None"

definition NewMockErrorWithService :: "string \<Rightarrow> string \<Rightarrow> goerror" where
  "NewMockErrorWithService service msg = ECheck ErrorCategoryMock service msg None"

text \<open>
  \<open>CheckError.Error\<close>, \<open>mocks.Error.Error\<close>, \<open>RequestConstraintError.Error\<close> and
  \<open>CallsMismatchError.Error\<close>; \<open>base\<close> prints the errors of \<open>fmt\<close> and \<open>errors\<close>.
\<close>

fun errText :: "(goerror \<Rightarrow> string) \<Rightarrow> goerror \<Rightarrow> string" where
  "errText base (ECheck cat ident msg (Some e)) = msg @ '': '' @ errText base e"
| "errText base (ECheck cat ident msg None) = msg"
| "errText base (EMock e svc) = ''mock '' @ svc @ '': '' @ errText base e"
| "errText base (EConstraint e kind dump endpoint) =
     ''request constraint '' @ kind @ '' failed: '' @ errText base e @ '', request was:'' @ [CHR 0x0A] @ '' '' @ dump"
| "errText base (ECalls p expd act svc) =
     ''at path '' @ p @ '': number of calls does not match: expected '' @ itoa expd @ '', actual '' @ itoa act"
| "errText base e = base e"

text \<open>\<open>errors.As(err, &checkErr)\<close> and \<open>GetCategory\<close>: the first \<open>CheckError\<close> along the chain of causes.\<close>

fun checkCategory :: "goerror \<Rightarrow> string" where
  "checkCategory (ECheck cat ident msg cause) = cat"
| "checkCategory (EWrap f args e) = checkCategory e"
| "checkCategory (EMock e svc) = checkCategory e"
| "checkCategory (EConstraint e kind dump endpoint) = checkCategory e"
| "checkCategory e = []"

section \<open>Tests\<close>

record Form =
  form_Files :: "(string, string) gomap"
  form_Fields :: "(string, string) gomap"

record GrpcProtoSource =
  ps_Type :: string
  ps_ProtosetFile :: string

record Fixture =
  fx_DbName :: string
  fx_Files :: "string list"

record DatabaseCheckDef =
  dc_DbName :: string
  dc_DbQueryTmpl :: string
  dc_DbResponseTmpl :: "string list option"

record scriptParams =
  sp_PathTmpl :: string
  sp_Timeout :: int

record CaseData =
  cd_Name :: string
  cd_Description :: string
  cd_RequestArgs :: "(string, yval) gomap"
  cd_ResponseArgs :: "(int, (string, yval) gomap) gomap"
  cd_BeforeScriptArgs :: "(string, yval) gomap"
  cd_AfterRequestScriptArgs :: "(string, yval) gomap"
  cd_DbQueryArgs :: "(string, yval) gomap"
  cd_DbResponseArgs :: "(string, yval) gomap"
  cd_DbResponse :: "string list option"
  cd_Variables :: "(string, yval) gomap"

record AllureLink =
  ln_Name :: string
  ln_URL :: string
  ln_Type :: string

record AllureLabel =
  lb_Name :: string
  lb_Value :: string

record AllureParameter =
  pm_Name :: string
  pm_Value :: string

record AllureMetadata =
  am_Links :: "AllureLink list"
  am_Labels :: "AllureLabel list"
  am_Parameters :: "AllureParameter list"

record TestDefinition =
  Name :: string
  Description :: string
  Status :: string
  Variables' :: "(string, string) gomap option"
  VariablesToSet :: "(int, (string, string) gomap) gomap option"
  Form' :: "Form option"
  Method' :: string
  RequestURL :: string
  QueryParams :: string
  RequestTmpl :: string
  ResponseTmpls :: "(int, string) gomap"
  td_ResponseHeaders :: "(int, (string, string) gomap) gomap"
  BeforeScriptParams :: scriptParams
  AfterRequestScriptParams :: scriptParams
  HeadersVal :: "(string, string) gomap"
  CookiesVal :: "(string, string) gomap"
  Cases :: "CaseData list"
  ComparisonParams :: Params
  FixtureFiles :: "string list option"
  FixturesListMultiDb :: "Fixture list option"
  MocksDefinition :: "(string, yval) gomap option"
  GrpcMocksDefinition :: "(string, yval) gomap"
  PauseValue :: int
  DbQueryTmpl :: string
  DbResponseTmpl :: "string list option"
  DatabaseChecks :: "DatabaseCheckDef list"
  Allure :: "AllureMetadata option"
  Transport :: string
  ProtoSource :: "GrpcProtoSource option"

record dbCheck =
  ck_dbName :: string
  ck_query :: string
  ck_response :: "string list option"

record Test = TestDefinition +
  Filename :: string
  Request :: string
  Responses :: "(int, string) gomap"
  ResponseHeaders :: "(int, (string, string) gomap) gomap"
  BeforeScript :: string
  AfterRequestScript :: string
  DbName :: string
  DbQuery :: string
  DbResponse :: "string list option"
  CombinedVariables :: "(string, string) gomap"
  DbChecks :: "dbCheck list"

definition SetQuery :: "string \<Rightarrow> Test \<Rightarrow> Test" where
  "SetQuery val t = t\<lparr>QueryParams := (if val \<noteq> [] \<and> hd val \<noteq> CHR ''?'' then ''?'' @ val else val)\<rparr>"

definition GetResponse :: "Test \<Rightarrow> int \<Rightarrow> string option" where
  "GetResponse t code = map_of (Responses t) code"

definition GetResponseHeaders :: "Test \<Rightarrow> int \<Rightarrow> (string, string) gomap option" where
  "GetResponseHeaders t code = map_of (ResponseHeaders t) code"

definition ContentType :: "Test \<Rightarrow> string" where
  "ContentType t = (case map_of (HeadersVal t) ''Content-Type'' of Some v \<Rightarrow> v | None \<Rightarrow> [])"

section \<open>Results\<close>

record DatabaseResult =
  dr_Query :: string
  dr_Response :: "string list"

record Result =
  r_Path :: string
  r_Query :: string
  r_RequestBody :: string
  ResponseStatusCode :: int
  r_ResponseStatus :: string
  ResponseContentType :: string
  ResponseBody :: string
  r_ResponseHeaders :: "(string, string list) gomap"
  GrpcStatusCode :: int
  GrpcStatusMessage :: string
  GrpcTrailers :: "(string, string list) gomap"
  Errors :: "goerror list"
  TestStatus :: string
  r_DatabaseResult :: "DatabaseResult list"

definition Passed :: "Result \<Rightarrow> bool" where
  "Passed r \<longleftrightarrow> length (Errors r) = 0"

definition allureStatus :: "string \<Rightarrow> bool" where
  "allureStatus s \<longleftrightarrow> s = ''passed'' \<or> s = ''failed'' \<or> s = ''broken'' \<or> s = ''skipped''"

definition notRunnedStatus :: "string \<Rightarrow> bool" where
  "notRunnedStatus s \<longleftrightarrow> s = ''broken'' \<or> s = ''skipped''"

text \<open>The report text: one line per error, an empty line where the category changes.\<close>

fun allureText :: "(goerror \<Rightarrow> string) \<Rightarrow> string option \<Rightarrow> goerror list \<Rightarrow> string" where
  "allureText base prev [] = []"
| "allureText base prev (e # es) =
     (let cur = checkCategory e;
          gap = (case prev of None \<Rightarrow> False | Some p \<Rightarrow> p \<noteq> [] \<and> cur \<noteq> p)
      in (if gap then [CHR 0x0A] else []) @ errText base e @ [CHR 0x0A] @ allureText base (Some cur) es)"

definition AllureStatus :: "(goerror \<Rightarrow> string) \<Rightarrow> Result \<Rightarrow> string \<times> goerror option" where
  "AllureStatus base r =
     (if TestStatus r \<noteq> [] \<and> allureStatus (TestStatus r) \<and> notRunnedStatus (TestStatus r) then (TestStatus r, None)
      else if Errors r \<noteq> [] then (''failed'', Some (errNew (allureText base None (Errors r))))
      else (''passed'', None))"

lemma AllureStatus_Passed:
  "\<not> notRunnedStatus (TestStatus r) \<Longrightarrow>
     (fst (AllureStatus base r) = ''passed'' \<longleftrightarrow> Passed r) \<and> (snd (AllureStatus base r) = None \<longleftrightarrow> Passed r)"
  by (simp add: AllureStatus_def Passed_def)

end
