(* ===== verification/Variables.thy ===== *)
theory Variables
  imports Models
begin

text \<open>
  Model of \<open>variables/\<close>: the store of variables, replacing \<open>{{ $name }}\<close> markers in strings, and
  \<open>Apply\<close>, which replaces them in every part of a test.

  The two regular expressions of the package are modelled by what they match at a position:
  \<open>usedAt\<close> for \<open>{{\s*\$(\w+)\s*}}\<close> and \<open>markerAt\<close> for \<open>{{\s*\$NAME\s*}}\<close> with the quoted
  name. White space, \<open>$\<close>, word characters and braces exclude each other, so there is one way
  to match. \<open>getenv\<close>, a parameter, is \<open>os.Getenv\<close>.

  \<open>Apply\<close> works on a clone of the test. The clone shares the nested mock definitions and the
  database checks with the original, and both are changed in place: the result of \<open>Apply\<close> is
  the original as it is left, and the clone.
\<close>

section \<open>Matching markers\<close>

definition openMarker :: "string \<Rightarrow> string option" where
  "openMarker s =
     (if hasPrefix s ''{{''
      then (case dropWhile rxSpace (drop 2 s) of c # t \<Rightarrow> (if c = CHR ''$'' then Some t else None) | [] \<Rightarrow> None)
      else None)"

text \<open>The rest of the string after \<open>\s*}}\<close>.\<close>

definition closeMarker :: "string \<Rightarrow> string option" where
  "closeMarker s = (let t = dropWhile rxSpace s in if hasPrefix t ''}}'' then Some (drop 2 t) else None)"

definition usedAt :: "string \<Rightarrow> (string \<times> string) option" where
  "usedAt s =
     (case openMarker s of
        None \<Rightarrow> None
      | Some t \<Rightarrow>
          (let name = takeWhile rxWord t
           in if name = [] then None
              else map_option (\<lambda>rest. (name, rest)) (closeMarker (dropWhile rxWord t))))"

definition markerAt :: "string \<Rightarrow> string \<Rightarrow> string option" where
  "markerAt name s =
     (case openMarker s of
        None \<Rightarrow> None
      | Some t \<Rightarrow> if hasPrefix t name then closeMarker (drop (length name) t) else None)"

lemma openMarker_shorter: "openMarker s = Some t \<Longrightarrow> length t < length s"
proof -
  assume "openMarker s = Some t"
  then obtain c where "dropWhile rxSpace (drop 2 s) = c # t"
    by (auto simp: openMarker_def split: if_splits list.splits)
  then show ?thesis using length_dropWhile_le [of rxSpace "drop 2 s"] by simp
qed

lemma closeMarker_shorter: "closeMarker s = Some t \<Longrightarrow> length t < length s"
proof -
  assume "closeMarker s = Some t"
  then have "hasPrefix (dropWhile rxSpace s) ''}}''" "t = drop 2 (dropWhile rxSpace s)"
    by (auto simp: closeMarker_def Let_def split: if_splits)
  then have "length t + 2 = length (dropWhile rxSpace s)" by (auto simp: hasPrefix_iff)
  then show ?thesis using length_dropWhile_le [of rxSpace s] by simp
qed

lemma usedAt_shorter: "usedAt s = Some (n, t) \<Longrightarrow> length t < length s"
proof -
  assume "usedAt s = Some (n, t)"
  then obtain u where "openMarker s = Some u" "closeMarker (dropWhile rxWord u) = Some t"
    by (auto simp: usedAt_def Let_def split: option.splits if_splits)
  from openMarker_shorter [OF this(1)] closeMarker_shorter [OF this(2)] length_dropWhile_le [of rxWord u]
  show ?thesis by simp
qed

lemma markerAt_shorter: "markerAt n s = Some t \<Longrightarrow> length t < length s"
proof -
  assume "markerAt n s = Some t"
  then obtain u where "openMarker s = Some u" "closeMarker (drop (length n) u) = Some t"
    by (auto simp: markerAt_def split: option.splits if_splits)
  from openMarker_shorter [OF this(1)] closeMarker_shorter [OF this(2)] show ?thesis by simp
qed

function usedVariables :: "string \<Rightarrow> string list" where
  "usedVariables [] = []"
| "usedVariables (c # s) =
     (case usedAt (c # s) of Some (name, rest) \<Rightarrow> name # usedVariables rest | None \<Rightarrow> usedVariables s)"
  by pat_completeness auto
termination
  by (relation "measure length") (auto dest!: sym [of "Some _"] usedAt_shorter)

function replaceMarkers :: "string \<Rightarrow> string \<Rightarrow> string \<Rightarrow> string" where
  "replaceMarkers name val [] = []"
| "replaceMarkers name val (c # s) =
     (case markerAt name (c # s) of
        Some rest \<Rightarrow> val @ replaceMarkers name val rest
      | None \<Rightarrow> c # replaceMarkers name val s)"
  by pat_completeness auto
termination
  by (relation "measure (\<lambda>(n, v, s). length s)") (auto dest: markerAt_shorter)

section \<open>Variables\<close>

text \<open>\<open>regexp.QuoteMeta\<close>\<close>

definition quoteMeta :: "string \<Rightarrow> string" where
  "quoteMeta s = concat (map (\<lambda>c. if c \<in> set (CHR 0x5C # ''.+*?()|[]{}^$'') then [CHR 0x5C, c] else [c]) s)"

text \<open>\<open>raw\<close> is the name the pattern was built from; the field \<open>name\<close> is the quoted one.\<close>

record Variable =
  v_raw :: string
  v_name :: string
  v_value :: string

definition NewVariable :: "string \<Rightarrow> string \<Rightarrow> Variable" where
  "NewVariable name val = \<lparr>v_raw = name, v_name = quoteMeta name, v_value = val\<rparr>"

definition NewFromEnvironment :: "(string \<Rightarrow> string) \<Rightarrow> string \<Rightarrow> Variable option" where
  "NewFromEnvironment getenv name = (if getenv name = [] then None else Some (NewVariable name (getenv name)))"

definition Perform :: "Variable \<Rightarrow> string \<Rightarrow> string" where
  "Perform v str = replaceMarkers (v_raw v) (v_value v) str"

type_synonym vars = "(string, Variable) gomap"

definition loadVars :: "(string, string) gomap \<Rightarrow> vars \<Rightarrow> vars" where
  "loadVars variables vs = foldl (\<lambda>m (n, v). AList.update n (NewVariable n v) m) vs variables"

definition setVar :: "string \<Rightarrow> string \<Rightarrow> vars \<Rightarrow> vars" where
  "setVar name val vs = AList.update name (NewVariable name val) vs"

definition addVar :: "Variable \<Rightarrow> vars \<Rightarrow> vars" where
  "addVar v vs = AList.update (v_name v) v vs"

definition mergeVars :: "vars \<Rightarrow> vars \<Rightarrow> vars" where
  "mergeVars vs vs2 = gomerge vs vs2"

definition getVar :: "(string \<Rightarrow> string) \<Rightarrow> vars \<Rightarrow> string \<Rightarrow> Variable option" where
  "getVar getenv vs name =
     (case map_of vs name of Some v \<Rightarrow> Some v | None \<Rightarrow> NewFromEnvironment getenv name)"

definition perform :: "(string \<Rightarrow> string) \<Rightarrow> vars \<Rightarrow> string \<Rightarrow> string" where
  "perform getenv vs str =
     foldl (\<lambda>s k. case getVar getenv vs k of Some v \<Rightarrow> Perform v s | None \<Rightarrow> s) str (usedVariables str)"

fun performInterface :: "(string \<Rightarrow> string) \<Rightarrow> vars \<Rightarrow> yval \<Rightarrow> yval" where
  "performInterface getenv vs (YMap kvs) =
     YMap (map (\<lambda>(k, v). (k, case v of YStr s \<Rightarrow> YStr (perform getenv vs s) | _ \<Rightarrow> performInterface getenv vs v)) kvs)"
| "performInterface getenv vs (YArr xs) =
     YArr (map (\<lambda>v. case v of YStr s \<Rightarrow> YStr (perform getenv vs s) | _ \<Rightarrow> performInterface getenv vs v) xs)"
| "performInterface getenv vs v = v"

section \<open>Applying variables to a test\<close>

definition performForm :: "(string \<Rightarrow> string) \<Rightarrow> vars \<Rightarrow> Form \<Rightarrow> Form" where
  "performForm getenv vs form =
     \<lparr>form_Files = map (\<lambda>(k, v). (k, perform getenv vs v)) (form_Files form),
      form_Fields = map (\<lambda>(k, v). (k, perform getenv vs v)) (form_Fields form)\<rparr>"

definition performHeaders :: "(string \<Rightarrow> string) \<Rightarrow> vars \<Rightarrow> (string, string) gomap \<Rightarrow> (string, string) gomap" where
  "performHeaders getenv vs headers = map (\<lambda>(k, v). (k, perform getenv vs v)) headers"

definition performResponses :: "(string \<Rightarrow> string) \<Rightarrow> vars \<Rightarrow> (int, string) gomap \<Rightarrow> (int, string) gomap" where
  "performResponses getenv vs responses = map (\<lambda>(k, v). (k, perform getenv vs v)) responses"

definition performDbResponses :: "(string \<Rightarrow> string) \<Rightarrow> vars \<Rightarrow> string list option \<Rightarrow> string list option" where
  "performDbResponses getenv vs responses = map_option (map (perform getenv vs)) responses"

definition performDbCheck :: "(string \<Rightarrow> string) \<Rightarrow> vars \<Rightarrow> dbCheck \<Rightarrow> dbCheck" where
  "performDbCheck getenv vs c =
     c\<lparr>ck_query := perform getenv vs (ck_query c), ck_response := performDbResponses getenv vs (ck_response c)\<rparr>"

text \<open>The objects shared between a test and its clone, after \<open>Apply\<close>.\<close>

definition applyShared :: "(string \<Rightarrow> string) \<Rightarrow> vars \<Rightarrow> Test \<Rightarrow> Test" where
  "applyShared getenv vs t =
     t\<lparr>DbChecks := map (performDbCheck getenv vs) (DbChecks t),
       MocksDefinition := map_option (map (\<lambda>(k, d). (k, performInterface getenv vs d))) (MocksDefinition t),
       GrpcMocksDefinition := map (\<lambda>(k, d). (k, performInterface getenv vs d)) (GrpcMocksDefinition t)\<rparr>"

definition applyVars :: "(string \<Rightarrow> string) \<Rightarrow> vars \<Rightarrow> Test \<Rightarrow> Test \<times> Test" where
  "applyVars getenv vs t =
     (let shared = applyShared getenv vs t;
          t1 = SetQuery (perform getenv vs (QueryParams shared)) shared;
          t2 = t1\<lparr>Method' := perform getenv vs (Method' t1),
                  RequestURL := perform getenv vs (RequestURL t1),
                  Request := perform getenv vs (Request t1),
                  DbQuery := perform getenv vs (DbQuery t1),
                  DbResponse := performDbResponses getenv vs (DbResponse t1),
                  Responses := performResponses getenv vs (Responses t1),
                  HeadersVal := performHeaders getenv vs (HeadersVal t1),
                  Form' := map_option (performForm getenv vs) (Form' t1)\<rparr>
      in (shared, t2))"

section \<open>Variables from a response\<close>

text \<open>\<open>gjsonGet body path\<close> is \<open>gjson.Get(body, path)\<close>: the text of the value, if it exists.\<close>

definition fromJSON :: "(string \<Rightarrow> string \<Rightarrow> string option) \<Rightarrow> (string, string) gomap \<Rightarrow> string \<Rightarrow> vars gores" where
  "fromJSON gjsonGet varsToSet body =
     foldM (\<lambda>vs (name, path). case gjsonGet body path of
              None \<Rightarrow> Err (EFmt ''path %s doesn't exist in given json'' [ShStr path])
            | Some s \<Rightarrow> Ok (addVar (NewVariable name s) vs))
       [] varsToSet"

definition fromPlainText :: "(string, string) gomap \<Rightarrow> string \<Rightarrow> vars gores" where
  "fromPlainText varsToSet body =
     (case varsToSet of
        [(name, path)] \<Rightarrow> Ok (addVar (NewVariable name body) [])
      | _ \<Rightarrow> Err (EFmt ''count of variables for plain-text response should be 1, %d given'' [ShInt (int (length varsToSet))]))"

definition FromResponse ::
  "(string \<Rightarrow> string \<Rightarrow> string option) \<Rightarrow> (string, string) gomap \<Rightarrow> string \<Rightarrow> bool \<Rightarrow> vars gores" where
  "FromResponse gjsonGet varsToSet body isJSON =
     (if isJSON then fromJSON gjsonGet varsToSet body else fromPlainText varsToSet body)"

end
