(* ===== verification/VariablesSpec.thy ===== *)
theory VariablesSpec
  imports Variables
begin

text \<open>
  Correctness of variable substitution. A template is a list of pieces (\<open>tok\<close>): plain text, in
  which no marker starts, and markers with arbitrary white space inside the braces. Replacing
  the variables one after another in the whole string, as the code does, is the same as
  replacing every marker on its own, as long as no value contains an opening brace.
\<close>

section \<open>Templates\<close>

datatype tok = Txt string | Marker string string string

fun render :: "tok \<Rightarrow> string" where
  "render (Txt t) = t"
| "render (Marker ws1 name ws2) = ''{{'' @ ws1 @ ''$'' @ name @ ws2 @ ''}}''"

abbreviation renders :: "tok list \<Rightarrow> string" where
  "renders ts \<equiv> concat (map render ts)"

text \<open>No marker starts in the text, whatever follows it.\<close>

definition plainText :: "string \<Rightarrow> bool" where
  "plainText t \<longleftrightarrow> \<not> contains t ''{{'' \<and> (t = [] \<or> last t \<noteq> CHR ''{'')"

fun wfTok :: "tok \<Rightarrow> bool" where
  "wfTok (Txt t) \<longleftrightarrow> plainText t"
| "wfTok (Marker ws1 name ws2) \<longleftrightarrow>
     list_all rxSpace ws1 \<and> list_all rxSpace ws2 \<and> name \<noteq> [] \<and> list_all rxWord name"

text \<open>Every marker replaced on its own, simultaneously.\<close>

fun substTok :: "(string \<Rightarrow> string option) \<Rightarrow> tok \<Rightarrow> string" where
  "substTok \<sigma> (Txt t) = t"
| "substTok \<sigma> (Marker ws1 name ws2) =
     (case \<sigma> name of Some v \<Rightarrow> v | None \<Rightarrow> render (Marker ws1 name ws2))"

fun markerNames :: "tok list \<Rightarrow> string list" where
  "markerNames [] = []"
| "markerNames (Txt t # ts) = markerNames ts"
| "markerNames (Marker ws1 name ws2 # ts) = name # markerNames ts"

section \<open>Scanning plain text\<close>

lemma plainText_Cons:
  assumes "plainText (c # t)"
  shows "plainText t" and "\<not> hasPrefix (c # t @ rest) ''{{''"
proof -
  show "plainText t" using assms by (auto simp: plainText_def)
  show "\<not> hasPrefix (c # t @ rest) ''{{''"
    using assms by (cases t) (auto simp: plainText_def hasPrefix_def)
qed

lemma openMarker_None: "\<not> hasPrefix s ''{{'' \<Longrightarrow> openMarker s = None"
  by (simp add: openMarker_def)

lemma scan_text:
  assumes "plainText t"
  shows "usedVariables (t @ rest) = usedVariables rest"
    and "replaceMarkers name val (t @ rest) = t @ replaceMarkers name val rest"
  using assms
  by (induction t) (simp_all add: plainText_Cons openMarker_None usedAt_def markerAt_def)

lemma plainText_nobrace: "CHR ''{'' \<notin> set t \<Longrightarrow> plainText t"
  by (auto simp: plainText_def contains_iff) (metis last_in_set)

lemma dropWhile_all_append: "list_all P ws \<Longrightarrow> dropWhile P (ws @ s) = dropWhile P s"
  by (induction ws) auto

lemma takeWhile_all_append: "list_all P ws \<Longrightarrow> takeWhile P (ws @ s) = ws @ takeWhile P s"
  by (induction ws) auto

lemma dollar_class: "\<not> rxSpace (CHR ''$'')" "\<not> rxSpace (CHR ''}'')" "\<not> rxWord (CHR ''}'')"
    "\<not> rxSpace (CHR ''{'')" "\<not> rxWord (CHR ''{'')"
  by (simp_all add: rxSpace_def rxWord_def isDigit_def codepoint_def)

lemma space_not_word: "rxSpace c \<Longrightarrow> \<not> rxWord c"
  by (auto simp: rxSpace_def rxWord_def isDigit_def codepoint_def)

lemma openMarker_marker:
  "list_all rxSpace ws1 \<Longrightarrow> openMarker (''{{'' @ ws1 @ CHR ''$'' # s) = Some s"
  by (simp add: openMarker_def hasPrefix_def dropWhile_all_append dollar_class)

lemma closeMarker_marker: "list_all rxSpace ws2 \<Longrightarrow> closeMarker (ws2 @ ''}}'' @ s) = Some s"
  by (simp add: closeMarker_def hasPrefix_def dropWhile_all_append dollar_class)

text \<open>After a name the marker goes on with a character that is not a word character.\<close>

lemma word_stops:
  assumes "list_all rxSpace ws2"
  shows "takeWhile rxWord (ws2 @ ''}}'' @ s) = []" "dropWhile rxWord (ws2 @ ''}}'' @ s) = ws2 @ ''}}'' @ s"
  using assms by (cases ws2; simp add: dollar_class space_not_word)+

lemma usedAt_marker:
  assumes "wfTok (Marker ws1 name ws2)"
  shows "usedAt (render (Marker ws1 name ws2) @ s) = Some (name, s)"
  using assms openMarker_marker [of ws1 "name @ ws2 @ ''}}'' @ s"] closeMarker_marker [of ws2 s]
  by (simp add: usedAt_def Let_def takeWhile_all_append dropWhile_all_append word_stops [simplified])

lemma prefix_of_word:
  assumes "list_all rxWord name" "list_all rxWord n" "list_all rxSpace ws2"
    and "hasPrefix (name @ ws2 @ ''}}'' @ s) n" "n \<noteq> name"
  shows "\<exists>m c. name = n @ c # m"
proof -
  from assms(4) obtain t where t: "name @ ws2 @ ''}}'' @ s = n @ t" by (auto simp: hasPrefix_iff)
  then consider us where "name = n @ us" | us where "n = name @ us" "ws2 @ ''}}'' @ s = us @ t"
    by (auto simp: append_eq_append_conv2)
  then show ?thesis
  proof cases
    case 1
    with assms(5) show ?thesis by (cases us) auto
  next
    case 2
    with assms(5) obtain c us' where us: "us = c # us'" by (cases us) auto
    with 2 assms(2) have "rxWord c" by simp
    moreover have "\<not> rxWord c"
      using 2(2) us assms(3) by (cases ws2) (auto simp: dollar_class space_not_word)
    ultimately show ?thesis by blast
  qed
qed

lemma markerAt_marker:
  assumes "wfTok (Marker ws1 name ws2)" and "list_all rxWord n"
  shows "markerAt n (render (Marker ws1 name ws2) @ s) = (if n = name then Some s else None)"
proof -
  have o: "openMarker (render (Marker ws1 name ws2) @ s) = Some (name @ ws2 @ ''}}'' @ s)"
    using assms(1) openMarker_marker [of ws1 "name @ ws2 @ ''}}'' @ s"] by simp
  show ?thesis
  proof (cases "n = name")
    case True
    with o closeMarker_marker [of ws2 s] assms(1) show ?thesis by (simp add: markerAt_def)
  next
    case False
    have "closeMarker (drop (length n) (name @ ws2 @ ''}}'' @ s)) = None" if pre: "hasPrefix (name @ ws2 @ ''}}'' @ s) n"
    proof -
      obtain m c where nm: "name = n @ c # m"
        using prefix_of_word [OF _ assms(2) _ pre False] assms(1) by auto
      then have "rxWord c" using assms(1) by simp
      then have "\<not> rxSpace c" "c \<noteq> CHR ''}''" using space_not_word dollar_class by blast+
      then show ?thesis by (simp add: nm closeMarker_def hasPrefix_def)
    qed
    with o False show ?thesis by (auto simp: markerAt_def)
  qed
qed

lemma usedVariables_unfold:
  "s \<noteq> [] \<Longrightarrow> usedVariables s =
     (case usedAt s of Some (name, rest) \<Rightarrow> name # usedVariables rest | None \<Rightarrow> usedVariables (tl s))"
  by (cases s) (auto split: option.split)

lemma replaceMarkers_unfold:
  "s \<noteq> [] \<Longrightarrow> replaceMarkers n v s =
     (case markerAt n s of Some rest \<Rightarrow> v @ replaceMarkers n v rest | None \<Rightarrow> hd s # replaceMarkers n v (tl s))"
  by (cases s) (auto split: option.split)

lemma usedVariables_renders: "list_all wfTok ts \<Longrightarrow> usedVariables (renders ts) = markerNames ts"
proof (induction ts)
  case (Cons a ts)
  show ?case
  proof (cases a)
    case (Txt t)
    with Cons show ?thesis by (simp add: scan_text)
  next
    case (Marker ws1 n ws2)
    with Cons usedAt_marker [of ws1 n ws2 "renders ts"] show ?thesis
      by (subst usedVariables_unfold) simp_all
  qed
qed simp

text \<open>The inside of a marker is plain text once its first brace is passed.\<close>

lemma marker_tail_plain:
  assumes "wfTok (Marker ws1 name ws2)"
  shows "plainText (CHR ''{'' # ws1 @ ''$'' @ name @ ws2 @ ''}}'')"
proof -
  have no: "CHR ''{'' \<notin> set (ws1 @ ''$'' @ name @ ws2 @ ''}}'')"
    using assms dollar_class(4,5) by (auto simp: list_all_iff)
  have "\<not> hasPrefix (CHR ''{'' # ws1 @ ''$'' @ name @ ws2 @ ''}}'') ''{{''"
    using no by (cases ws1) (auto simp: hasPrefix_def)
  with plainText_nobrace [OF no] show ?thesis by (simp add: plainText_def)
qed

fun replaceTok :: "string \<Rightarrow> string \<Rightarrow> tok \<Rightarrow> tok" where
  "replaceTok n v (Txt t) = Txt t"
| "replaceTok n v (Marker ws1 name ws2) = (if name = n then Txt v else Marker ws1 name ws2)"

lemma replaceMarkers_renders:
  assumes "list_all rxWord n"
  shows "list_all wfTok ts \<Longrightarrow> replaceMarkers n v (renders ts) = renders (map (replaceTok n v) ts)"
proof (induction ts)
  case (Cons a ts)
  show ?case
  proof (cases a)
    case (Txt t)
    with Cons show ?thesis by (simp add: scan_text)
  next
    case (Marker ws1 m ws2)
    let ?inner = "CHR ''{'' # ws1 @ ''$'' @ m @ ws2 @ ''}}''"
    have wf: "wfTok (Marker ws1 m ws2)" using Cons.prems Marker by simp
    have "replaceMarkers n v (renders (a # ts)) =
        (case markerAt n (renders (a # ts)) of Some rest \<Rightarrow> v @ replaceMarkers n v rest
         | None \<Rightarrow> CHR ''{'' # replaceMarkers n v (?inner @ renders ts))"
      by (subst replaceMarkers_unfold) (simp_all add: Marker split: option.split)
    moreover have "replaceMarkers n v (?inner @ renders ts) = ?inner @ replaceMarkers n v (renders ts)"
      by (rule scan_text(2)) (rule marker_tail_plain [OF wf])
    moreover have "markerAt n (renders (a # ts)) = (if n = m then Some (renders ts) else None)"
      using markerAt_marker [OF wf assms, of "renders ts"] by (simp add: Marker)
    ultimately show ?thesis using Cons Marker by auto
  qed
qed simp

section \<open>Substitution\<close>

text \<open>The value a name stands for: the store first, then the environment.\<close>

definition valueOf :: "(string \<Rightarrow> string) \<Rightarrow> vars \<Rightarrow> string \<Rightarrow> string option" where
  "valueOf getenv vs name = map_option v_value (getVar getenv vs name)"

text \<open>Every stored variable is stored under the name its pattern was built from.\<close>

definition vars_wf :: "vars \<Rightarrow> bool" where
  "vars_wf vs \<longleftrightarrow> (\<forall>(n, v) \<in> set vs. v_raw v = n)"

lemma vars_wf_update: "vars_wf vs \<Longrightarrow> vars_wf (AList.update n (NewVariable n v) vs)"
  by (induction vs) (auto simp: vars_wf_def NewVariable_def)

lemma vars_wf_loadVars: "vars_wf vs \<Longrightarrow> vars_wf (loadVars m vs)"
proof (induction m arbitrary: vs)
  case (Cons kv m)
  then show ?case by (cases kv) (simp add: loadVars_def vars_wf_update)
qed (simp add: loadVars_def)

lemma getVar_raw: "vars_wf vs \<Longrightarrow> getVar getenv vs n = Some v \<Longrightarrow> v_raw v = n"
  by (auto simp: getVar_def vars_wf_def NewFromEnvironment_def NewVariable_def dest!: map_of_SomeD split: option.splits if_splits)

definition brace_free :: "(string \<Rightarrow> string option) \<Rightarrow> bool" where
  "brace_free \<sigma> \<longleftrightarrow> (\<forall>n v. \<sigma> n = Some v \<longrightarrow> CHR ''{'' \<notin> set v)"

fun substNames :: "(string \<Rightarrow> string option) \<Rightarrow> string set \<Rightarrow> tok \<Rightarrow> tok" where
  "substNames \<sigma> N (Txt t) = Txt t"
| "substNames \<sigma> N (Marker ws1 n ws2) =
     (case \<sigma> n of Some v \<Rightarrow> if n \<in> N then Txt v else Marker ws1 n ws2 | None \<Rightarrow> Marker ws1 n ws2)"

lemma substNames_empty: "substNames \<sigma> {} t = t"
  by (cases t) (auto split: option.split)

lemma substNames_replaceTok:
  "\<sigma> n = Some v \<Longrightarrow> replaceTok n v (substNames \<sigma> N t) = substNames \<sigma> (insert n N) t"
  by (cases t) (auto split: option.split)

lemma substNames_undefined: "\<sigma> n = None \<Longrightarrow> substNames \<sigma> (insert n N) t = substNames \<sigma> N t"
  by (cases t) (auto split: option.split)

lemma wf_substNames:
  "brace_free \<sigma> \<Longrightarrow> wfTok t \<Longrightarrow> wfTok (substNames \<sigma> N t)"
  by (cases t) (auto simp: brace_free_def split: option.split intro: plainText_nobrace)

lemma perform_names:
  assumes "vars_wf vs" and "brace_free (valueOf getenv vs)"
    and "list_all wfTok ts" and "list_all (list_all rxWord) ks"
  shows "foldl (\<lambda>s k. case getVar getenv vs k of Some v \<Rightarrow> Perform v s | None \<Rightarrow> s)
      (renders (map (substNames (valueOf getenv vs) N) ts)) ks
    = renders (map (substNames (valueOf getenv vs) (N \<union> set ks)) ts)"
  using assms(4)
proof (induction ks arbitrary: N)
  case (Cons k ks)
  let ?\<sigma> = "valueOf getenv vs"
  have wf: "list_all wfTok (map (substNames ?\<sigma> N) ts)"
    using assms(3) wf_substNames [OF assms(2)] by (simp add: list_all_iff)
  have step: "(case getVar getenv vs k of Some v \<Rightarrow> Perform v (renders (map (substNames ?\<sigma> N) ts))
      | None \<Rightarrow> renders (map (substNames ?\<sigma> N) ts)) = renders (map (substNames ?\<sigma> (insert k N)) ts)"
  proof (cases "getVar getenv vs k")
    case None
    then have "?\<sigma> k = None" by (simp add: valueOf_def)
    with None show ?thesis by (simp add: substNames_undefined o_def)
  next
    case (Some v)
    then have \<sigma>: "?\<sigma> k = Some (v_value v)" by (simp add: valueOf_def)
    have "Perform v (renders (map (substNames ?\<sigma> N) ts)) = renders (map (replaceTok k (v_value v)) (map (substNames ?\<sigma> N) ts))"
      using replaceMarkers_renders [OF _ wf, of k "v_value v"] Cons.prems getVar_raw [OF assms(1) Some]
      by (simp add: Perform_def)
    with Some substNames_replaceTok [of ?\<sigma> k "v_value v"] \<sigma> show ?thesis by (simp add: o_def)
  qed
  show ?case unfolding foldl_Cons step using Cons.IH [of "insert k N"] Cons.prems by simp
qed simp

lemma markerNames_word: "list_all wfTok ts \<Longrightarrow> list_all (list_all rxWord) (markerNames ts)"
  by (induction ts rule: markerNames.induct) auto

lemma substNames_all:
  "set (markerNames ts) \<subseteq> N \<Longrightarrow> renders (map (substNames \<sigma> N) ts) = concat (map (substTok \<sigma>) ts)"
  by (induction ts rule: markerNames.induct) (auto split: option.split)

lemma perform_renders:
  assumes "vars_wf vs" and "brace_free (valueOf getenv vs)"
    and "list_all wfTok ts"
  shows "perform getenv vs (renders ts) = concat (map (substTok (valueOf getenv vs)) ts)"
proof -
  have id: "map (substNames (valueOf getenv vs) {}) ts = ts" by (rule map_idI) (rule substNames_empty)
  show ?thesis
    using perform_names [OF assms markerNames_word [OF assms(3)], of "{}", unfolded id] substNames_all [of ts]
    by (simp add: perform_def usedVariables_renders [OF assms(3)])
qed

section \<open>Properties\<close>

text \<open>
  C13. Variable substitution: for a store filled by \<open>Load\<close> and values without opening braces,
  \<open>perform\<close> replaces every marker of a template, with any white space inside the braces, by the
  value of its variable (from the store, else from the environment), leaves the markers of
  undefined variables and all other text as they are, and does not depend on the order in which
  the variables are replaced.
\<close>

theorem perform_substitutes:
  assumes "vars_wf vs" and "brace_free (valueOf getenv vs)" and "list_all wfTok ts"
  shows "perform getenv vs (concat (map render ts)) = concat (map (substTok (valueOf getenv vs)) ts)"
  using assms by (rule perform_renders)

theorem perform_substitutes_witness:
  "perform (\<lambda>_. []) (loadVars [(''id'', ''7''), (''ref'', ''$id'')] []) ''{id: {{ $id}}, ref: {{$ref }}, other: {{ $x }}}''
     = ''{id: 7, ref: $id, other: {{ $x }}}''"
proof -
  let ?vs = "loadVars [(''id'', ''7''), (''ref'', ''$id'')] []"
  let ?ts = "[Txt ''{id: '', Marker '' '' ''id'' [], Txt '', ref: '', Marker [] ''ref'' '' '', Txt '', other: '', Marker '' '' ''x'' '' '', Txt ''}'']"
  have wf: "vars_wf ?vs" by (rule vars_wf_loadVars) (simp add: vars_wf_def)
  have bf: "brace_free (valueOf (\<lambda>_. []) ?vs)"
    by (simp add: brace_free_def valueOf_def getVar_def loadVars_def NewVariable_def NewFromEnvironment_def)
  have ts: "list_all wfTok ?ts" by code_simp
  have r: "''{id: {{ $id}}, ref: {{$ref }}, other: {{ $x }}}'' = concat (map render ?ts)" by simp
  have s: "concat (map (substTok (valueOf (\<lambda>_. []) ?vs)) ?ts) = ''{id: 7, ref: $id, other: {{ $x }}}''" by code_simp
  show ?thesis unfolding r perform_substitutes [OF wf bf ts] s ..
qed

end
