(* ===== verification/TestLoader.thy ===== *)
theory TestLoader
  imports VariablesSpec
begin

text \<open>
  Model of \<open>testloader/yaml_file/\<close>: finding the test files, turning each test definition into one
  test per case, and filling the case arguments into the templates of the definition.

  Parameters: \<open>exec\<close> is parsing and executing a \<open>text/template\<close> with arguments, \<open>decode\<close> is
  \<open>yaml.Unmarshal\<close> into test definitions, \<open>exists\<close> is \<open>os.Stat\<close> on a protoset file. The file system
  below the tests' location is a tree; reading a file or a directory may fail.
\<close>

type_synonym args = "(string, yval) gomap"
type_synonym templates = "string \<Rightarrow> args \<Rightarrow> string gores"

section \<open>Case arguments\<close>

abbreviation gonkeyVariableLeftPart :: string where "gonkeyVariableLeftPart \<equiv> ''{{ $''"
abbreviation gonkeyProtectSubstitute :: string where "gonkeyProtectSubstitute \<equiv> ''!protect!''"

text \<open>\<open>gonkeyProtectTemplate.ReplaceAllString\<close>: every \<open>{{\s*\$\<close> is replaced.\<close>

function protect :: "string \<Rightarrow> string" where
  "protect [] = []"
| "protect (c # s) =
     (case openMarker (c # s) of
        Some rest \<Rightarrow> gonkeyProtectSubstitute @ protect rest
      | None \<Rightarrow> c # protect s)"
  by pat_completeness auto
termination
  by (relation "measure length") (auto dest: openMarker_shorter)

definition substituteArgs :: "templates \<Rightarrow> string \<Rightarrow> args \<Rightarrow> string gores" where
  "substituteArgs exec tmpl args =
     rbind (exec (protect tmpl) args)
       (\<lambda>buf. Ok (replaceAll buf gonkeyProtectSubstitute gonkeyVariableLeftPart))"

definition substituteArgsToMap :: "templates \<Rightarrow> (string, string) gomap \<Rightarrow> args \<Rightarrow> (string, string) gomap gores" where
  "substituteArgsToMap exec tmpl args =
     mapM (\<lambda>(key, val). rbind (substituteArgs exec val args) (\<lambda>s. Ok (key, s))) tmpl"

section \<open>Tests from definitions\<close>

definition newTest :: "TestDefinition \<Rightarrow> string \<Rightarrow> Test" where
  "newTest td filePath = TestDefinition.extend td (Test.fields filePath [] [] [] [] [] [] [] None [] [])"

definition testWithoutCases :: "string \<Rightarrow> TestDefinition \<Rightarrow> Test" where
  "testWithoutCases filePath td =
     (newTest td filePath)
       \<lparr>Request := RequestTmpl td,
        Responses := ResponseTmpls td,
        ResponseHeaders := td_ResponseHeaders td,
        BeforeScript := sp_PathTmpl (BeforeScriptParams td),
        AfterRequestScript := sp_PathTmpl (AfterRequestScriptParams td),
        DbQuery := DbQueryTmpl td,
        DbResponse := DbResponseTmpl td,
        CombinedVariables := (case Variables' td of None \<Rightarrow> [] | Some vs \<Rightarrow> vs),
        DbChecks := map (\<lambda>c. \<lparr>ck_dbName = dc_DbName c, ck_query = dc_DbQueryTmpl c,
                              ck_response = dc_DbResponseTmpl c\<rparr>) (DatabaseChecks td)\<rparr>"

definition caseName :: "TestDefinition \<Rightarrow> nat \<Rightarrow> CaseData \<Rightarrow> string" where
  "caseName td caseIdx cd =
     (if cd_Name cd \<noteq> [] then Name td @ '' #'' @ itoa (int caseIdx + 1) @ '' ('' @ cd_Name cd @ '')''
      else Name td @ '' #'' @ itoa (int caseIdx + 1))"

definition caseResponses :: "templates \<Rightarrow> TestDefinition \<Rightarrow> CaseData \<Rightarrow> (int, string) gomap gores" where
  "caseResponses exec td cd =
     mapM (\<lambda>(status, tpl).
        case map_of (cd_ResponseArgs cd) status of
          Some args \<Rightarrow> rbind (substituteArgs exec tpl args) (\<lambda>s. Ok (status, s))
        | None \<Rightarrow> Ok (status, tpl)) (ResponseTmpls td)"

definition caseResponseHeaders ::
  "templates \<Rightarrow> TestDefinition \<Rightarrow> CaseData \<Rightarrow> (int, (string, string) gomap) gomap gores" where
  "caseResponseHeaders exec td cd =
     mapM (\<lambda>(status, hs).
        case map_of (cd_ResponseArgs cd) status of
          Some args \<Rightarrow> rbind (substituteArgsToMap exec hs args) (\<lambda>m. Ok (status, m))
        | None \<Rightarrow> Ok (status, hs)) (td_ResponseHeaders td)"

text \<open>\<open>combinedVariables[key] = value.(string)\<close>\<close>

definition combineVariables :: "(string, string) gomap \<Rightarrow> args \<Rightarrow> (string, string) gomap gores" where
  "combineVariables combined variables =
     foldM (\<lambda>m (key, val). case val of
              YStr s \<Rightarrow> Ok (AList.update key s m)
            | _ \<Rightarrow> Panic ''interface conversion: not a string'') combined variables"

definition caseDbResponse :: "templates \<Rightarrow> TestDefinition \<Rightarrow> CaseData \<Rightarrow> string list option gores" where
  "caseDbResponse exec td cd =
     (case cd_DbResponse cd of
        Some r \<Rightarrow> Ok (Some r)
      | None \<Rightarrow>
          (case DbResponseTmpl td of
             Some (tpl # tpls) \<Rightarrow>
               rbind (mapM (\<lambda>t. substituteArgs exec t (cd_DbResponseArgs cd)) (tpl # tpls)) (\<lambda>r. Ok (Some r))
           | other \<Rightarrow> Ok other))"

text \<open>A database check of a case; its response stays nil when the definition has none.\<close>

definition caseDbCheck :: "templates \<Rightarrow> CaseData \<Rightarrow> DatabaseCheckDef \<Rightarrow> dbCheck gores" where
  "caseDbCheck exec cd check =
     rbind (substituteArgs exec (dc_DbQueryTmpl check) (cd_DbQueryArgs cd)) (\<lambda>query.
     rbind (mapM (\<lambda>tpl. substituteArgs exec tpl (cd_DbResponseArgs cd)) (case dc_DbResponseTmpl check of None \<Rightarrow> [] | Some tpls \<Rightarrow> tpls)) (\<lambda>resp.
       Ok \<lparr>ck_dbName = [], ck_query = query, ck_response = (if resp = [] then None else Some resp)\<rparr>))"

text \<open>One turn of the loop over the cases: the test, and the variables combined so far.\<close>

definition makeCase ::
  "templates \<Rightarrow> string \<Rightarrow> TestDefinition \<Rightarrow> nat \<Rightarrow> CaseData \<Rightarrow> (string, string) gomap
     \<Rightarrow> (Test \<times> (string, string) gomap) gores" where
  "makeCase exec filePath td caseIdx cd combined =
     (let test = (newTest td filePath)
            \<lparr>Description := (if cd_Description cd \<noteq> [] then cd_Description cd else Description td),
             Name := caseName td caseIdx cd\<rparr>
      in rbind (substituteArgs exec (RequestURL td) (cd_RequestArgs cd)) (\<lambda>url.
         rbind (substituteArgs exec (RequestTmpl td) (cd_RequestArgs cd)) (\<lambda>request.
         rbind (substituteArgs exec (QueryParams td) (cd_RequestArgs cd)) (\<lambda>query.
         rbind (substituteArgsToMap exec (HeadersVal td) (cd_RequestArgs cd)) (\<lambda>headers.
         rbind (substituteArgsToMap exec (CookiesVal td) (cd_RequestArgs cd)) (\<lambda>cookies.
         rbind (caseResponses exec td cd) (\<lambda>responses.
         rbind (caseResponseHeaders exec td cd) (\<lambda>responseHeaders.
         rbind (substituteArgs exec (sp_PathTmpl (BeforeScriptParams td)) (cd_BeforeScriptArgs cd)) (\<lambda>beforeScript.
         rbind (substituteArgs exec (sp_PathTmpl (AfterRequestScriptParams td)) (cd_AfterRequestScriptArgs cd)) (\<lambda>afterScript.
         rbind (substituteArgs exec (DbQueryTmpl td) (cd_DbQueryArgs cd)) (\<lambda>dbQuery.
         rbind (combineVariables combined (cd_Variables cd)) (\<lambda>combined1.
         rbind (caseDbResponse exec td cd) (\<lambda>dbResponse.
         rbind (mapM (caseDbCheck exec cd) (DatabaseChecks td)) (\<lambda>dbChecks.
           Ok (test\<lparr>RequestURL := url, Request := request, QueryParams := query, HeadersVal := headers,
                    CookiesVal := cookies, Responses := responses, ResponseHeaders := responseHeaders,
                    BeforeScript := beforeScript, AfterRequestScript := afterScript, DbQuery := dbQuery,
                    DbResponse := dbResponse, DbChecks := dbChecks\<rparr>,
               combined1)))))))))))))))"

fun makeCases ::
  "templates \<Rightarrow> string \<Rightarrow> TestDefinition \<Rightarrow> nat \<Rightarrow> CaseData list \<Rightarrow> (string, string) gomap
     \<Rightarrow> (Test list \<times> (string, string) gomap) gores" where
  "makeCases exec filePath td i [] combined = Ok ([], combined)"
| "makeCases exec filePath td i (cd # cds) combined =
     rbind (makeCase exec filePath td i cd combined) (\<lambda>(test, combined1).
     rbind (makeCases exec filePath td (Suc i) cds combined1) (\<lambda>(tests, combined2).
       Ok (test # tests, combined2)))"

text \<open>
  The map \<open>combinedVariables\<close> is one object: it is the definition's \<open>Variables\<close> map when there is
  one, and every case's test refers to it. After the loop all of them see its final contents.
\<close>

definition makeTestFromDefinition :: "templates \<Rightarrow> string \<Rightarrow> TestDefinition \<Rightarrow> Test list gores" where
  "makeTestFromDefinition exec filePath td =
     (if Cases td = [] then Ok [testWithoutCases filePath td]
      else
        rbind (makeCases exec filePath td 0 (Cases td) (case Variables' td of None \<Rightarrow> [] | Some vs \<Rightarrow> vs))
          (\<lambda>(tests, combined).
            Ok (map (\<lambda>t. t\<lparr>CombinedVariables := combined, Variables' := map_option (\<lambda>_. combined) (Variables' td)\<rparr>) tests)))"

section \<open>Files\<close>

definition GrpcProtoSourceTypeProtoset :: string where "GrpcProtoSourceTypeProtoset = ''protoset''"
definition GrpcProtoSourceTypeReflection :: string where "GrpcProtoSourceTypeReflection = ''reflection''"

fun validateProtoSources :: "(string \<Rightarrow> unit gores) \<Rightarrow> Test list \<Rightarrow> unit gores" where
  "validateProtoSources stat [] = Ok ()"
| "validateProtoSources stat (test # tests) =
     (case ProtoSource test of
        None \<Rightarrow> validateProtoSources stat tests
      | Some src \<Rightarrow>
          if ps_Type src = GrpcProtoSourceTypeProtoset then
            (if ps_ProtosetFile src = [] then
               Err (EFmt ''test %q: proto_source type is %q but protoset_file is not set'' [ShStr (Name test), ShStr (ps_Type src)])
             else case stat (ps_ProtosetFile src) of
                 Ok _ \<Rightarrow> validateProtoSources stat tests
               | Err e \<Rightarrow> Err (EWrap ''test %q: protoset_file %q'' [ShStr (Name test), ShStr (ps_ProtosetFile src)] e)
               | Panic m \<Rightarrow> Panic m)
          else if ps_Type src = GrpcProtoSourceTypeReflection \<or> ps_Type src = [] then validateProtoSources stat tests
          else Err (EFmt ''test %q: unknown proto_source type %q'' [ShStr (Name test), ShStr (ps_Type src)]))"

record loaderEnv =
  tmplExec :: templates
  yamlDecode :: "string \<Rightarrow> TestDefinition list gores"
  osStat :: "string \<Rightarrow> unit gores"

definition wrapErr :: "(goerror \<Rightarrow> goerror) \<Rightarrow> 'a gores \<Rightarrow> 'a gores" where
  "wrapErr f m = (case m of Err e \<Rightarrow> Err (f e) | other \<Rightarrow> other)"

definition parseTestDefinitionFile :: "loaderEnv \<Rightarrow> string \<Rightarrow> string gores \<Rightarrow> Test list gores" where
  "parseTestDefinitionFile env absPath content =
     rbind (wrapErr (\<lambda>e. EFmt ''failed to read file %s: %s'' [ShStr absPath, ShErr e]) content) (\<lambda>data.
     rbind (wrapErr (\<lambda>e. EFmt ''failed to unmarshall %s: %s'' [ShStr absPath, ShErr e]) (yamlDecode env data)) (\<lambda>defs.
     rbind (mapM (makeTestFromDefinition (tmplExec env) absPath) defs) (\<lambda>tests.
     rbind (wrapErr (EWrap ''%s: %w'' [ShStr absPath]) (validateProtoSources (osStat env) (concat tests))) (\<lambda>_.
       Ok (concat tests)))))"

definition isYmlFile :: "string \<Rightarrow> bool" where
  "isYmlFile name \<longleftrightarrow> hasSuffix name ''.yaml'' \<or> hasSuffix name ''.yml''"

definition fitsFilter :: "string \<Rightarrow> string \<Rightarrow> bool" where
  "fitsFilter fileFilter fileName \<longleftrightarrow> fileFilter = [] \<or> contains fileName fileFilter"

datatype fsnode = FsFile "string gores" | FsDir "(string \<times> fsnode) list gores"

fun isDirNode :: "fsnode \<Rightarrow> bool" where
  "isDirNode (FsDir _) \<longleftrightarrow> True"
| "isDirNode (FsFile _) \<longleftrightarrow> False"

fun lookupPath :: "loaderEnv \<Rightarrow> string \<Rightarrow> string \<Rightarrow> fsnode \<Rightarrow> Test list gores"
  and lookupEntries :: "loaderEnv \<Rightarrow> string \<Rightarrow> string \<Rightarrow> (string \<times> fsnode) list \<Rightarrow> Test list gores"
where
  "lookupPath env flt p (FsFile content) =
     (if fitsFilter flt p then parseTestDefinitionFile env p content else Ok [])"
| "lookupPath env flt p (FsDir files) =
     (case files of
        Ok es \<Rightarrow> lookupEntries env flt p es
      | Err e \<Rightarrow> Err e
      | Panic m \<Rightarrow> Panic m)"
| "lookupEntries env flt p [] = Ok []"
| "lookupEntries env flt p ((name, n) # es) =
     (if \<not> isDirNode n \<and> \<not> isYmlFile name then lookupEntries env flt p es
      else rbind (lookupPath env flt (p @ ''/'' @ name) n) (\<lambda>moreTests.
           rbind (lookupEntries env flt p es) (\<lambda>rest. Ok (moreTests @ rest))))"

text \<open>\<open>Load\<close>: \<open>os.Stat\<close> of the location, then the walk.\<close>

definition loadTests :: "loaderEnv \<Rightarrow> string \<Rightarrow> string \<Rightarrow> fsnode gores \<Rightarrow> Test list gores" where
  "loadTests env flt testsLocation root = rbind root (lookupPath env flt testsLocation)"

text \<open>\<open>VariablesToSet.UnmarshalYAML\<close>: first as plain names, then as JSON paths.\<close>

definition unmarshalVariablesToSet ::
  "(int, string) gomap gores \<Rightarrow> (int, (string, string) gomap) gomap gores \<Rightarrow> (int, (string, string) gomap) gomap gores" where
  "unmarshalVariablesToSet plain paths =
     (case plain of
        Ok m \<Rightarrow> Ok (map (\<lambda>(code, varName). (code, [(varName, [])])) m)
      | Err e \<Rightarrow> paths
      | Panic p \<Rightarrow> Panic p)"

end
