(* ===== verification/TestLoaderSpec.thy ===== *)
theory TestLoaderSpec
  imports TestLoader
begin

text \<open>
  Correctness of the test loader: markers of variables survive the filling-in of case
  arguments, the files that are loaded, and what the tests of the cases of one definition have.
\<close>

section \<open>Markers survive case arguments\<close>

lemma contains_append_nobrace:
  assumes "plainText s" "plainText t"
  shows "plainText (s @ t)"
  using assms(1)
proof (induction s)
  case Nil
  then show ?case using assms(2) by simp
next
  case (Cons c s)
  then have "plainText (s @ t)" using plainText_Cons(1) by blast
  moreover have "\<not> hasPrefix (c # s @ t) ''{{''" using plainText_Cons(2) [OF Cons.prems] .
  moreover have "last (c # s @ t) \<noteq> CHR ''{''"
    using Cons.prems assms(2) by (cases t) (auto simp: plainText_def split: if_splits)
  ultimately show ?case by (auto simp: plainText_def)
qed

fun protectTok :: "tok \<Rightarrow> string" where
  "protectTok (Txt t) = t"
| "protectTok (Marker ws1 name ws2) = gonkeyProtectSubstitute @ name @ ws2 @ ''}}''"

lemma protect_text: "plainText t \<Longrightarrow> protect (t @ rest) = t @ protect rest"
  by (induction t) (simp_all add: plainText_Cons openMarker_None)

lemma marker_body_plain:
  assumes "wfTok (Marker ws1 name ws2)"
  shows "plainText (name @ ws2 @ ''}}'')"
  by (rule plainText_nobrace) (use assms dollar_class(4,5) in \<open>auto simp: list_all_iff\<close>)

lemma protect_renders: "list_all wfTok ts \<Longrightarrow> protect (renders ts) = concat (map protectTok ts)"
proof (induction ts)
  case (Cons a ts)
  show ?case
  proof (cases a)
    case (Txt t)
    with Cons show ?thesis by (simp add: protect_text)
  next
    case (Marker ws1 n ws2)
    have wf: "wfTok (Marker ws1 n ws2)" using Cons.prems Marker by simp
    have o: "openMarker (render a @ renders ts) = Some ((n @ ws2 @ ''}}'') @ renders ts)"
      using wf openMarker_marker [of ws1 "(n @ ws2 @ ''}}'') @ renders ts"] Marker by simp
    have "protect (render a @ renders ts) = gonkeyProtectSubstitute @ protect ((n @ ws2 @ ''}}'') @ renders ts)"
      using o by (simp add: Marker)
    also have "\<dots> = gonkeyProtectSubstitute @ (n @ ws2 @ ''}}'') @ protect (renders ts)"
      using protect_text [OF marker_body_plain [OF wf]] by simp
    finally show ?thesis using Cons Marker by simp
  qed
qed simp

lemma protectTok_plain: "wfTok a \<Longrightarrow> plainText (protectTok a)"
proof (cases a)
  case (Marker ws1 n ws2)
  assume "wfTok a"
  with Marker have "plainText (n @ ws2 @ ''}}'')" using marker_body_plain by blast
  moreover have "plainText gonkeyProtectSubstitute" by code_simp
  ultimately show ?thesis using contains_append_nobrace Marker by (metis protectTok.simps(2))
qed simp

lemma protected_plain: "list_all wfTok ts \<Longrightarrow> plainText (concat (map protectTok ts))"
proof (induction ts)
  case (Cons a ts)
  then show ?case using contains_append_nobrace [OF protectTok_plain] by simp
qed (simp add: plainText_def)

section \<open>Putting the markers back\<close>

text \<open>Text in which the substitute does not begin is copied.\<close>

lemma replaceAll_text:
  assumes "\<forall>k < length t. \<not> hasPrefix (drop k (t @ rest)) gonkeyProtectSubstitute"
  shows "replaceAll (t @ rest) gonkeyProtectSubstitute new = t @ replaceAll rest gonkeyProtectSubstitute new"
  using assms
proof (induction t)
  case (Cons c t)
  have "\<not> hasPrefix (drop k (t @ rest)) gonkeyProtectSubstitute" if "k < length t" for k
    using Cons.prems [rule_format, of "Suc k"] that by simp
  moreover have "\<not> hasPrefix (c # t @ rest) gonkeyProtectSubstitute" using Cons.prems [rule_format, of 0] by simp
  ultimately show ?case using Cons.IH by simp
qed simp

lemma replaceAll_nobang:
  assumes "CHR ''!'' \<notin> set t"
  shows "replaceAll (t @ rest) gonkeyProtectSubstitute new = t @ replaceAll rest gonkeyProtectSubstitute new"
  using assms by (induction t) (auto simp: hasPrefix_def)

fun normTok :: "tok \<Rightarrow> tok" where
  "normTok (Txt t) = Txt t"
| "normTok (Marker ws1 name ws2) = Marker '' '' name ws2"

text \<open>
  In the text with its markers protected, the substitute begins only where a marker was: no piece of
  text has an occurrence of it that begins there.
\<close>

fun protectFree :: "tok list \<Rightarrow> bool" where
  "protectFree [] \<longleftrightarrow> True"
| "protectFree (Txt t # ts) \<longleftrightarrow>
     list_all (\<lambda>k. \<not> hasPrefix (drop k (t @ concat (map protectTok ts))) gonkeyProtectSubstitute) [0..<length t] \<and> protectFree ts"
| "protectFree (Marker ws1 name ws2 # ts) \<longleftrightarrow> protectFree ts"

lemma bang_class: "\<not> rxSpace (CHR ''!'')" "\<not> rxWord (CHR ''!'')"
  by (simp_all add: rxSpace_def rxWord_def isDigit_def codepoint_def)

lemma replaceAll_protect:
  "replaceAll (gonkeyProtectSubstitute @ rest) gonkeyProtectSubstitute new = new @ replaceAll rest gonkeyProtectSubstitute new"
  by (simp add: hasPrefix_def)

lemma unprotect_renders:
  "list_all wfTok ts \<Longrightarrow> protectFree ts \<Longrightarrow>
     replaceAll (concat (map protectTok ts)) gonkeyProtectSubstitute gonkeyVariableLeftPart = renders (map normTok ts)"
proof (induction ts)
  case (Cons a ts)
  show ?case
  proof (cases a)
    case (Txt t)
    with Cons show ?thesis using replaceAll_text [of t "concat (map protectTok ts)"] by (simp add: list_all_iff)
  next
    case (Marker ws1 n ws2)
    then have no: "CHR ''!'' \<notin> set (n @ ws2 @ ''}}'')"
      using Cons.prems bang_class by (auto simp: list_all_iff)
    have "replaceAll (protectTok a @ concat (map protectTok ts)) gonkeyProtectSubstitute gonkeyVariableLeftPart =
        gonkeyVariableLeftPart @ replaceAll ((n @ ws2 @ ''}}'') @ concat (map protectTok ts)) gonkeyProtectSubstitute gonkeyVariableLeftPart"
      unfolding Marker protectTok.simps append_assoc by (rule replaceAll_protect)
    also have "\<dots> = gonkeyVariableLeftPart @ (n @ ws2 @ ''}}'') @ renders (map normTok ts)"
      unfolding replaceAll_nobang [OF no] using Cons Marker by simp
    finally show ?thesis by (simp add: Marker)
  qed
qed simp

lemma substituteArgs_renders:
  assumes "\<forall>s a. \<not> contains s ''{{'' \<longrightarrow> exec s a = Ok s" and "list_all wfTok ts" and "protectFree ts"
  shows "substituteArgs exec (renders ts) args = Ok (renders (map normTok ts))"
proof -
  have "exec (protect (renders ts)) args = Ok (concat (map protectTok ts))"
    using assms(1) protected_plain [OF assms(2)] by (simp add: protect_renders [OF assms(2)] plainText_def)
  then show ?thesis
    using unprotect_renders [OF assms(2,3)] by (simp add: substituteArgs_def)
qed

text \<open>A text that has the substitute itself is changed.\<close>

lemma protect_substitute_lost: "substituteArgs (\<lambda>s a. Ok s) ''a !protect! b'' [] = Ok ''a {{ $ b''"
  by code_simp

section \<open>Files\<close>

text \<open>All files of a tree with their paths, and the directories, as whether they can be read, in the order of the walk.\<close>

datatype treeItem = AFile string "string gores" | ADir string "unit gores"

fun treeItems :: "string \<Rightarrow> fsnode \<Rightarrow> treeItem list"
  and entryItems :: "string \<Rightarrow> (string \<times> fsnode) list \<Rightarrow> treeItem list"
where
  "treeItems p (FsFile content) = [AFile p content]"
| "treeItems p (FsDir files) = ADir p (rbind files (\<lambda>_. Ok ())) # (case files of Ok es \<Rightarrow> entryItems p es | _ \<Rightarrow> [])"
| "entryItems p [] = []"
| "entryItems p ((name, n) # es) = treeItems (p @ ''/'' @ name) n @ entryItems p es"

fun loadItem :: "loaderEnv \<Rightarrow> treeItem \<Rightarrow> Test list gores" where
  "loadItem env (AFile p content) = parseTestDefinitionFile env p content"
| "loadItem env (ADir p r) = rbind r (\<lambda>_. Ok [])"

definition loadItems :: "loaderEnv \<Rightarrow> treeItem list \<Rightarrow> Test list gores" where
  "loadItems env is = rbind (mapM (loadItem env) is) (\<lambda>tss. Ok (concat tss))"

lemma mapM_append: "mapM f (xs @ ys) = rbind (mapM f xs) (\<lambda>as. rbind (mapM f ys) (\<lambda>bs. Ok (as @ bs)))"
  by (induction xs) (auto simp: rbind_assoc)

lemma loadItems_append: "loadItems env (fs @ gs) = rbind (loadItems env fs) (\<lambda>a. rbind (loadItems env gs) (\<lambda>b. Ok (a @ b)))"
  by (simp add: loadItems_def mapM_append rbind_assoc)

lemma loadItems_simps [simp]:
  "loadItems env [] = Ok []"
  "loadItems env (AFile p c # is) = rbind (parseTestDefinitionFile env p c) (\<lambda>a. rbind (loadItems env is) (\<lambda>b. Ok (a @ b)))"
  "loadItems env (ADir p r # is) = rbind r (\<lambda>_. loadItems env is)"
  by (simp_all add: loadItems_def rbind_assoc)

text \<open>The files the walk is for: a YAML extension and a path that contains the filter.\<close>

definition isTestFile :: "string \<Rightarrow> string \<Rightarrow> bool" where
  "isTestFile flt p \<longleftrightarrow> ((\<exists>q. p = q @ ''.yaml'') \<or> (\<exists>q. p = q @ ''.yml'')) \<and> (\<exists>a b. p = a @ flt @ b)"

fun wantedItem :: "string \<Rightarrow> treeItem \<Rightarrow> bool" where
  "wantedItem flt (AFile p content) \<longleftrightarrow> isTestFile flt p"
| "wantedItem flt (ADir p r) \<longleftrightarrow> True"

lemma hasSuffix_name:
  assumes "CHR ''/'' \<notin> set suf"
  shows "hasSuffix (p @ CHR ''/'' # name) suf \<longleftrightarrow> hasSuffix name suf"
proof
  assume "hasSuffix (p @ CHR ''/'' # name) suf"
  then obtain q where "p @ CHR ''/'' # name = q @ suf" by (auto simp: hasSuffix_iff)
  with assms have "\<exists>r. name = r @ suf" by (auto simp: append_eq_append_conv2 Cons_eq_append_conv)
  then show "hasSuffix name suf" by (simp add: hasSuffix_iff)
next
  assume "hasSuffix name suf"
  then obtain r where "name = r @ suf" by (auto simp: hasSuffix_iff)
  then have "p @ CHR ''/'' # name = (p @ CHR ''/'' # r) @ suf" by simp
  then show "hasSuffix (p @ CHR ''/'' # name) suf" unfolding hasSuffix_iff by blast
qed

lemma isTestFile_entry:
  "isTestFile flt (p @ CHR ''/'' # name) \<longleftrightarrow> isYmlFile name \<and> fitsFilter flt (p @ CHR ''/'' # name)"
proof -
  let ?q = "p @ CHR ''/'' # name"
  have "isYmlFile name \<longleftrightarrow> hasSuffix ?q ''.yaml'' \<or> hasSuffix ?q ''.yml''" by (simp add: isYmlFile_def hasSuffix_name)
  moreover have "contains ?q []" by (cases ?q) (simp_all add: hasPrefix_def)
  then have "fitsFilter flt ?q \<longleftrightarrow> contains ?q flt" by (auto simp: fitsFilter_def)
  ultimately show ?thesis unfolding isTestFile_def hasSuffix_iff contains_iff by blast
qed

lemma lookupEntries_items:
  "isDirNode n \<Longrightarrow> lookupPath env flt p n = loadItems env (filter (wantedItem flt) (treeItems p n))"
  "lookupEntries env flt p es = loadItems env (filter (wantedItem flt) (entryItems p es))"
proof (induction p n and p es rule: treeItems_entryItems.induct)
  case (2 p files)
  then show ?case by (cases files) auto
next
  case (4 p name n es)
  show ?case
  proof (cases n)
    case (FsFile c)
    with 4 show ?thesis by (auto simp: loadItems_append isTestFile_entry)
  next
    case (FsDir files)
    with 4 show ?thesis by (simp add: loadItems_append rbind_assoc)
  qed
qed simp_all

section \<open>Cases\<close>

text \<open>Inversion of one turn of the loop over the cases.\<close>

lemma makeCase_Ok:
  assumes "makeCase exec file td i cd combined = Ok (t, combined1)"
  shows "Name t = caseName td i cd \<and> combineVariables combined (cd_Variables cd) = Ok combined1 \<and>
    list_all2 (\<lambda>c d. caseDbCheck exec cd c = Ok d) (DatabaseChecks td) (DbChecks t) \<and>
    substituteArgs exec (RequestTmpl td) (cd_RequestArgs cd) = Ok (Request t) \<and>
    substituteArgs exec (RequestURL td) (cd_RequestArgs cd) = Ok (RequestURL t) \<and>
    caseResponses exec td cd = Ok (Responses t) \<and> caseResponseHeaders exec td cd = Ok (ResponseHeaders t)"
  using assms by (auto simp: makeCase_def Let_def mapM_eq_Ok)

lemma makeCases_Ok:
  assumes "makeCases exec file td i cds combined = Ok (ts, final)"
  shows "length ts = length cds \<and>
    (\<forall>j < length cds. \<exists>before after. makeCase exec file td (i + j) (cds ! j) before = Ok (ts ! j, after)) \<and>
    foldM (\<lambda>m cd. combineVariables m (cd_Variables cd)) combined cds = Ok final"
  using assms
proof (induction cds arbitrary: i combined ts)
  case (Cons cd cds)
  then obtain t c1 ts' where t: "makeCase exec file td i cd combined = Ok (t, c1)"
    and ts': "makeCases exec file td (Suc i) cds c1 = Ok (ts', final)" and ts: "ts = t # ts'"
    by (auto split: prod.splits)
  note IH = Cons.IH [OF ts']
  have "\<exists>before after. makeCase exec file td (i + j) ((cd # cds) ! j) before = Ok (ts ! j, after)"
    if "j < length (cd # cds)" for j
  proof (cases j)
    case 0
    with t ts show ?thesis by auto
  next
    case (Suc j')
    with that IH ts show ?thesis by auto
  qed
  with IH makeCase_Ok [OF t] show ?case by (simp add: ts)
qed simp

lemma combineVariables_last:
  assumes "combineVariables m vars = Ok m'" and "gomap_wf vars"
  shows "map_of m' k = (case map_of vars k of Some (YStr s) \<Rightarrow> Some s | _ \<Rightarrow> map_of m k)"
  using assms
proof (induction vars arbitrary: m)
  case Nil
  then show ?case by (simp add: combineVariables_def)
next
  case (Cons kv vars)
  obtain k' v where kv: "kv = (k', v)" by (cases kv)
  with Cons.prems(1) obtain s where v: "v = YStr s" and rest: "combineVariables (AList.update k' s m) vars = Ok m'"
    by (cases v) (auto simp: combineVariables_def)
  have wf: "gomap_wf vars" and new: "map_of vars k' = None"
    using Cons.prems(2) kv by (auto simp: gomap_wf_def map_of_eq_None_iff)
  from Cons.IH [OF rest wf] show ?case
    using new by (auto simp: kv v split: option.splits yval.splits)
qed

text \<open>The value a variable has after the cases: that of the last case that sets it.\<close>

definition lastValue :: "string \<Rightarrow> CaseData list \<Rightarrow> string option \<Rightarrow> string option" where
  "lastValue k cds start = fold (\<lambda>cd v. case map_of (cd_Variables cd) k of Some (YStr s) \<Rightarrow> Some s | _ \<Rightarrow> v) cds start"

lemma combineVariables_all:
  assumes "foldM (\<lambda>m cd. combineVariables m (cd_Variables cd)) m cds = Ok m'" and "\<forall>cd \<in> set cds. gomap_wf (cd_Variables cd)"
  shows "map_of m' k = lastValue k cds (map_of m k)"
  using assms
proof (induction cds arbitrary: m)
  case (Cons cd cds)
  then obtain m1 where "combineVariables m (cd_Variables cd) = Ok m1" "foldM (\<lambda>m cd. combineVariables m (cd_Variables cd)) m1 cds = Ok m'"
    by auto
  with Cons.IH [of m1] combineVariables_last [of m "cd_Variables cd" m1 k] Cons.prems(2) show ?case
    by (simp add: lastValue_def)
qed (simp add: lastValue_def)

text \<open>
  The responses a case should have: those of the definition, under the same status codes in the
  same order, executed with the case's arguments for the code, if it has any.
\<close>

definition responsesFor :: "('b \<Rightarrow> args \<Rightarrow> 'b gores) \<Rightarrow> CaseData \<Rightarrow> (int \<times> 'b) list \<Rightarrow> (int \<times> 'b) list \<Rightarrow> bool" where
  "responsesFor subst cd tmpls rs \<longleftrightarrow>
     length rs = length tmpls \<and>
     (\<forall>k < length tmpls. fst (rs ! k) = fst (tmpls ! k) \<and>
        (\<forall>a. map_of (cd_ResponseArgs cd) (fst (tmpls ! k)) = Some a \<longrightarrow> subst (snd (tmpls ! k)) a = Ok (snd (rs ! k))) \<and>
        (map_of (cd_ResponseArgs cd) (fst (tmpls ! k)) = None \<longrightarrow> snd (rs ! k) = snd (tmpls ! k)))"

lemma mapM_responsesFor:
  assumes "mapM (\<lambda>(status, x). case map_of (cd_ResponseArgs cd) status of
      Some a \<Rightarrow> rbind (subst x a) (\<lambda>y. Ok (status, y)) | None \<Rightarrow> Ok (status, x)) tmpls = Ok rs"
  shows "responsesFor subst cd tmpls rs"
proof -
  have "fst (rs ! k) = fst (tmpls ! k) \<and>
      (\<forall>a. map_of (cd_ResponseArgs cd) (fst (tmpls ! k)) = Some a \<longrightarrow> subst (snd (tmpls ! k)) a = Ok (snd (rs ! k))) \<and>
      (map_of (cd_ResponseArgs cd) (fst (tmpls ! k)) = None \<longrightarrow> snd (rs ! k) = snd (tmpls ! k))" if "k < length tmpls" for k
    using mapM_Ok_nth [OF assms that] by (cases "tmpls ! k"; cases "rs ! k") (auto split: option.splits)
  with mapM_Ok_length [OF assms] show ?thesis by (simp add: responsesFor_def)
qed

lemma caseDbCheck_name: "caseDbCheck exec cd c = Ok d \<Longrightarrow> ck_dbName d = []"
  by (auto simp: caseDbCheck_def)

lemma caseDbChecks_name:
  "list_all2 (\<lambda>c d. caseDbCheck exec cd c = Ok d) cs ds \<Longrightarrow> d \<in> set ds \<Longrightarrow> ck_dbName d = []"
  by (induction rule: list_all2_induct) (auto dest: caseDbCheck_name)

lemma makeTestFromDefinition_cases:
  assumes "makeTestFromDefinition exec file td = Ok tests" and "Cases td \<noteq> []"
  obtains ts final where "makeCases exec file td 0 (Cases td) (case Variables' td of None \<Rightarrow> [] | Some vs \<Rightarrow> vs) = Ok (ts, final)"
    and "tests = map (\<lambda>t. t\<lparr>CombinedVariables := final, Variables' := map_option (\<lambda>_. final) (Variables' td)\<rparr>) ts"
  using assms by (auto simp: makeTestFromDefinition_def split: prod.splits)

section \<open>Properties\<close>

text \<open>A definition with two cases that differ in a variable, and one database check.\<close>

definition exampleCase :: "string \<Rightarrow> string \<Rightarrow> CaseData" where
  "exampleCase n v =
     \<lparr>cd_Name = n, cd_Description = [], cd_RequestArgs = [], cd_ResponseArgs = [], cd_BeforeScriptArgs = [],
      cd_AfterRequestScriptArgs = [], cd_DbQueryArgs = [], cd_DbResponseArgs = [], cd_DbResponse = None,
      cd_Variables = [(''x'', YStr v)]\<rparr>"

definition exampleDefinition :: TestDefinition where
  "exampleDefinition =
     \<lparr>Name = ''t'', Description = [], Status = [], Variables' = None, VariablesToSet = None, Form' = None,
      Method' = ''GET'', RequestURL = ''/'', QueryParams = [], RequestTmpl = [], ResponseTmpls = [(200, ''{}'')],
      td_ResponseHeaders = [], BeforeScriptParams = \<lparr>sp_PathTmpl = [], sp_Timeout = 0\<rparr>,
      AfterRequestScriptParams = \<lparr>sp_PathTmpl = [], sp_Timeout = 0\<rparr>, HeadersVal = [], CookiesVal = [],
      Cases = [exampleCase [] ''1'', exampleCase ''b'' ''2''], ComparisonParams = zeroParams, FixtureFiles = None,
      FixturesListMultiDb = None, MocksDefinition = None, GrpcMocksDefinition = [], PauseValue = 0,
      DbQueryTmpl = [], DbResponseTmpl = None,
      DatabaseChecks = [\<lparr>dc_DbName = ''users'', dc_DbQueryTmpl = ''q'', dc_DbResponseTmpl = None\<rparr>],
      Allure = None, Transport = [], ProtoSource = None\<rparr>"

lemma exampleDefinition_loads:
  "\<exists>a b. makeTestFromDefinition (\<lambda>s _. Ok s) ''f'' exampleDefinition = Ok [a, b]"
  by (simp add: makeTestFromDefinition_def exampleDefinition_def exampleCase_def makeCase_def Let_def substituteArgs_def
      substituteArgsToMap_def caseResponses_def caseResponseHeaders_def combineVariables_def caseDbResponse_def
      caseDbCheck_def openMarker_def hasPrefix_def)

text \<open>
  C20. The walk over the tests' directory loads exactly the files of the tree whose names end in
  \<open>.yaml\<close> or \<open>.yml\<close> and whose paths contain the filter, in directory order, sub-directories in
  place; the first file that fails to load, or directory that cannot be read, fails the walk. A
  location that is itself a file is loaded whatever its extension, if its path contains the filter.
\<close>

theorem lookupPath_files:
  "lookupPath env flt p (FsDir files) = loadItems env (filter (wantedItem flt) (treeItems p (FsDir files)))
   \<and> lookupPath env flt p (FsFile content) = (if \<exists>a b. p = a @ flt @ b then parseTestDefinitionFile env p content else Ok [])"
  using lookupEntries_items(1) [of "FsDir files" env flt p]
  by (auto simp: fitsFilter_def contains_iff)

text \<open>
  The cases of one test definition share their variables: a variable that the last case sets
  has that value in the tests of all cases, also of those that set it to another value.
\<close>

theorem cases_share_variables:
  assumes "makeTestFromDefinition exec file td = Ok tests" and "Cases td = cds @ [cd]"
    and "gomap_wf (cd_Variables cd)" and "map_of (cd_Variables cd) k = Some (YStr v)" and "t \<in> set tests"
  shows "map_of (CombinedVariables t) k = Some v"
proof -
  from assms(1,2) obtain ts final where
    cases: "makeCases exec file td 0 (Cases td) (case Variables' td of None \<Rightarrow> [] | Some vs \<Rightarrow> vs) = Ok (ts, final)"
    and tests: "tests = map (\<lambda>t. t\<lparr>CombinedVariables := final, Variables' := map_option (\<lambda>_. final) (Variables' td)\<rparr>) ts"
    by (auto elim: makeTestFromDefinition_cases)
  from makeCases_Ok [OF cases] assms(2) obtain m where "combineVariables m (cd_Variables cd) = Ok final"
    by (auto simp: foldM_append)
  from combineVariables_last [OF this assms(3), of k] assms(4,5) show ?thesis
    by (auto simp: tests)
qed

theorem cases_share_variables_witness:
  "\<exists>a b. makeTestFromDefinition (\<lambda>s _. Ok s) ''f'' exampleDefinition = Ok [a, b]
     \<and> map_of (CombinedVariables a) ''x'' = Some ''2''"
proof -
  obtain a b where ab: "makeTestFromDefinition (\<lambda>s _. Ok s) ''f'' exampleDefinition = Ok [a, b]"
    using exampleDefinition_loads by blast
  have c: "Cases exampleDefinition = [exampleCase [] ''1''] @ [exampleCase ''b'' ''2'']"
    by (simp add: exampleDefinition_def)
  have "map_of (CombinedVariables a) ''x'' = Some ''2''"
    by (rule cases_share_variables [OF ab c]) (simp_all add: exampleCase_def gomap_wf_def)
  with ab show ?thesis by blast
qed



end
