(* ===== verification/Checkers.thy ===== *)
theory Checkers
  imports MockSpec TestLoaderSpec
begin

text \<open>
  Model of \<open>checker/\<close>: the checkers that compare the result of a test with its expectation:
  response body, response headers, databases, gRPC response, and the compliance with an OpenAPI
  document.

  A checker returns the result as it leaves it (the database checkers append what they read)
  and the errors found; an error return fails the whole run. Parameters: \<open>libs\<close> as in the
  mocks, the texts of library errors (\<open>errorText\<close>), and for the database checkers the
  execution of one query.
\<close>

abbreviation etext :: "libs \<Rightarrow> goerror \<Rightarrow> string" where
  "etext L \<equiv> errText (errorText L)"

definition bodyParams :: "Test \<Rightarrow> Params" where
  "bodyParams t =
     zeroParams\<lparr>IgnoreValues := IgnoreValues (ComparisonParams t),
                IgnoreArraysOrdering := IgnoreArraysOrdering (ComparisonParams t),
                DisallowExtraFields := DisallowExtraFields (ComparisonParams t)\<rparr>"

text \<open>\<open>models.NewBodyErrorWithCause(err, "%s", err)\<close>\<close>

definition bodyError :: "libs \<Rightarrow> goerror \<Rightarrow> goerror" where
  "bodyError L e = NewBodyErrorWithCause e (etext L e)"

section \<open>Response body\<close>

definition compareJsonBody :: "libs \<Rightarrow> Test \<Rightarrow> string \<Rightarrow> Result \<Rightarrow> goerror list gores" where
  "compareJsonBody L t expectedBody result =
     rbind (wrapErr (\<lambda>e. EFmt ''invalid JSON in response for test %s (status %d): %s''
              [ShStr (Name t), ShInt (ResponseStatusCode result), ShErr e]) (jsonUnmarshal L expectedBody))
       (\<lambda>expected.
         case jsonUnmarshal L (ResponseBody result) of
           Err e \<Rightarrow> Ok [NewBodyErrorWithCause e ''could not parse response'']
         | Panic m \<Rightarrow> Panic m
         | Ok actual \<Rightarrow>
             rbind (Compare (regexpCompile L) (sprintV L) expected actual (bodyParams t))
               (\<lambda>errs. Ok (map (bodyError L) errs)))"

definition compareXmlBody :: "libs \<Rightarrow> Test \<Rightarrow> string \<Rightarrow> Result \<Rightarrow> goerror list gores" where
  "compareXmlBody L t expectedBody result =
     rbind (wrapErr (\<lambda>e. EFmt ''invalid XML in response for test %s (status %d): %s''
              [ShStr (Name t), ShInt (ResponseStatusCode result), ShErr e]) (Parse (xmlUnmarshal L) expectedBody))
       (\<lambda>expected.
         case Parse (xmlUnmarshal L) (ResponseBody result) of
           Err e \<Rightarrow> Ok [NewBodyErrorWithCause e ''could not parse response'']
         | Panic m \<Rightarrow> Panic m
         | Ok actual \<Rightarrow>
             rbind (Compare (regexpCompile L) (sprintV L) expected actual (bodyParams t))
               (\<lambda>errs. Ok (map (bodyError L) errs)))"

definition getExpectedStatusCodes :: "(int, string) gomap \<Rightarrow> int list" where
  "getExpectedStatusCodes responses = gokeys responses"

definition responseBodyCheck :: "libs \<Rightarrow> Test \<Rightarrow> Result \<Rightarrow> (Result \<times> goerror list) gores" where
  "responseBodyCheck L t result =
     (if Transport t = ''grpc'' then Ok (result, [])
      else
        rbind
          (case GetResponse t (ResponseStatusCode result) of
             Some expectedBody \<Rightarrow>
               (if contains (ResponseContentType result) ''json'' \<and> expectedBody \<noteq> [] then compareJsonBody L t expectedBody result
                else if contains (ResponseContentType result) ''xml'' \<and> expectedBody \<noteq> [] then compareXmlBody L t expectedBody result
                else rbind (Compare (regexpCompile L) (sprintV L) (JStr expectedBody) (JStr (ResponseBody result)) zeroParams)
                       (\<lambda>errs. Ok (map (bodyError L) errs)))
           | None \<Rightarrow>
               (case getExpectedStatusCodes (Responses t) of
                  [] \<Rightarrow> Panic ''index out of range [0] with length 0''
                | code # _ \<Rightarrow> Ok [NewStatusCodeError code (ResponseStatusCode result)]))
          (\<lambda>errs. Ok (result, errs)))"

section \<open>Response headers\<close>

text \<open>The loop over the actual values: whether one of them compares clean.\<close>

definition headerFound :: "libs \<Rightarrow> string \<Rightarrow> string list \<Rightarrow> bool gores" where
  "headerFound L v actualValues =
     foldM (\<lambda>found actualValue.
        rbind (Compare (regexpCompile L) (sprintV L) (JStr v) (JStr actualValue) zeroParams)
          (\<lambda>e. Ok (found \<or> e = []))) False actualValues"

definition headerErrors :: "libs \<Rightarrow> Result \<Rightarrow> string \<Rightarrow> string \<Rightarrow> goerror list gores" where
  "headerErrors L result k0 v =
     (let k = canonicalKey k0
      in case map_of (r_ResponseHeaders result) k of
           None \<Rightarrow> Ok [NewHeaderError (''response does not include expected header '' @ k)]
         | Some actualValues \<Rightarrow>
             rbind (headerFound L v actualValues)
               (\<lambda>found. Ok (if found then []
                  else [NewHeaderError (''response header '' @ k @ '' value does not match expected '' @ v)])))"

definition responseHeaderCheck :: "libs \<Rightarrow> Test \<Rightarrow> Result \<Rightarrow> (Result \<times> goerror list) gores" where
  "responseHeaderCheck L t result =
     (if Transport t = ''grpc'' then Ok (result, [])
      else case GetResponseHeaders t (ResponseStatusCode result) of
          None \<Rightarrow> Ok (result, [])
        | Some expectedHeaders \<Rightarrow>
            rbind (mapM (\<lambda>(k, v). headerErrors L result k v) expectedHeaders)
              (\<lambda>errss. Ok (result, concat errss)))"

section \<open>Databases\<close>

text \<open>\<open>db.Query\<close> with the rows scanned: the JSON text of every row, or the error.\<close>

type_synonym database = "string \<Rightarrow> string list gores"

definition newQuery :: "database \<Rightarrow> string \<Rightarrow> string list gores" where
  "newQuery db dbQuery =
     (let q = (if CHR '';'' \<in> set dbQuery then takeWhile (\<lambda>c. c \<noteq> CHR '';'') dbQuery else dbQuery)
      in db (''SELECT row_to_json(rows) FROM ('' @ q @ '') rows;''))"

definition toJSONArray :: "libs \<Rightarrow> string list \<Rightarrow> string \<Rightarrow> string \<Rightarrow> jval list gores" where
  "toJSONArray L items qual testName =
     mapM (\<lambda>(i, row). wrapErr (\<lambda>e. EFmt ''invalid JSON in the %s DB response for test %s: row #%d: %s error: %s''
                 [ShStr qual, ShStr testName, ShInt (int i), ShStr row, ShErr e]) (jsonUnmarshal L row))
       (enumerate 0 items)"

definition compareDbResponseLength :: "string list \<Rightarrow> string list \<Rightarrow> string \<Rightarrow> goerror option" where
  "compareDbResponseLength expected actual query =
     (if length expected \<noteq> length actual
      then Some (EFmt ''quantity of items in database do not match (-expected: %s +actual: %s) test query: %s result diff: %s''
        [ShInt (int (length expected)), ShInt (int (length actual)), ShStr query, ShStrs expected, ShStrs actual])
      else None)"

definition dbCheckOne ::
  "libs \<Rightarrow> database \<Rightarrow> string \<Rightarrow> bool \<Rightarrow> dbCheck \<Rightarrow> Result \<Rightarrow> (Result \<times> goerror list) gores" where
  "dbCheckOne L db testName ignoreOrdering c result =
     (let queryIndex = int (length (r_DatabaseResult result))
      in if ck_query c = [] \<and> ck_response c = None then Ok (result, [])
         else if ck_query c = [] then Err (EFmt ''DB query not found for test %s'' [ShStr testName])
         else case ck_response c of
             None \<Rightarrow> Err (EFmt ''expected DB response not found for test %s'' [ShStr testName])
           | Some expected \<Rightarrow>
               rbind (newQuery db (ck_query c)) (\<lambda>actual.
                 let result1 = result\<lparr>r_DatabaseResult := r_DatabaseResult result @ [\<lparr>dr_Query = ck_query c, dr_Response = actual\<rparr>]\<rparr>
                 in case compareDbResponseLength expected actual (ck_query c) of
                      Some e \<Rightarrow> Ok (result1, [NewDatabaseErrorWithIdentifier queryIndex (etext L e)])
                    | None \<Rightarrow>
                        rbind (toJSONArray L expected ''expected'' testName) (\<lambda>expectedItems.
                        rbind (toJSONArray L actual ''actual'' testName) (\<lambda>actualItems.
                        rbind (Compare (regexpCompile L) (sprintV L) (JArr expectedItems) (JArr actualItems)
                                (zeroParams\<lparr>IgnoreArraysOrdering := ignoreOrdering\<rparr>))
                          (\<lambda>errs. Ok (result1, map (\<lambda>e. NewDatabaseErrorWithIdentifier queryIndex (etext L e)) errs))))))"

text \<open>The test itself is the first database check.\<close>

definition ownDbCheck :: "Test \<Rightarrow> dbCheck" where
  "ownDbCheck t = \<lparr>ck_dbName = DbName t, ck_query = DbQuery t, ck_response = DbResponse t\<rparr>"

definition runDbChecks ::
  "libs \<Rightarrow> (dbCheck \<Rightarrow> database gores) \<Rightarrow> Test \<Rightarrow> dbCheck list \<Rightarrow> Result \<Rightarrow> (Result \<times> goerror list) gores" where
  "runDbChecks L dbOf t checks result =
     foldM (\<lambda>(r, errs) c.
        rbind (dbOf c) (\<lambda>db.
        rbind (dbCheckOne L db (Name t) (IgnoreDbOrdering (ComparisonParams t)) c r)
          (\<lambda>(r1, more). Ok (r1, errs @ more)))) (result, []) checks"

definition responseDbCheck :: "libs \<Rightarrow> database \<Rightarrow> Test \<Rightarrow> Result \<Rightarrow> (Result \<times> goerror list) gores" where
  "responseDbCheck L db t result = runDbChecks L (\<lambda>_. Ok db) t (ownDbCheck t # DbChecks t) result"

definition responseMultiDbCheck :: "libs \<Rightarrow> (string, database) gomap \<Rightarrow> Test \<Rightarrow> Result \<Rightarrow> (Result \<times> goerror list) gores" where
  "responseMultiDbCheck L dbs t result =
     runDbChecks L (\<lambda>c. case map_of dbs (ck_dbName c) of
          None \<Rightarrow> Err (EFmt ''DB name %s not mapped not found for test %s'' [ShStr (ck_dbName c), ShStr (Name t)])
        | Some db \<Rightarrow> Ok db) t (DbChecks t) result"

section \<open>gRPC response\<close>

definition grpcResponseCheck :: "libs \<Rightarrow> Test \<Rightarrow> Result \<Rightarrow> (Result \<times> goerror list) gores" where
  "grpcResponseCheck L t result =
     (if Transport t \<noteq> ''grpc'' then Ok (result, [])
      else case map_of (Responses t) (GrpcStatusCode result) of
          None \<Rightarrow> Ok (result, [EFmt ''unexpected grpc status code %d: not in expected responses'' [ShInt (GrpcStatusCode result)]])
        | Some expectedBody \<Rightarrow>
            (if expectedBody = [] then Ok (result, [])
             else
               rbind (wrapErr (EWrap ''grpc expected body is not valid JSON in test %s'' [ShStr (Name t)]) (jsonUnmarshal L expectedBody))
                 (\<lambda>expectedJSON.
                   case jsonUnmarshal L (ResponseBody result) of
                     Err e \<Rightarrow> Ok (result, [EFmt ''grpc response body is not valid JSON: %s'' [ShStr (ResponseBody result)]])
                   | Panic m \<Rightarrow> Panic m
                   | Ok actualJSON \<Rightarrow>
                       rbind (Compare (regexpCompile L) (sprintV L) expectedJSON actualJSON (bodyParams t))
                         (\<lambda>errs. Ok (result, errs)))))"

section \<open>OpenAPI documents\<close>

text \<open>
  An operation of the document: its responses by status code and the default one, each with the
  validation of a value against its schema (\<open>validate.AgainstSchema\<close>, the errors of a composite
  error listed).
\<close>

record swaggerOperation =
  op_responses :: "(int, jval \<Rightarrow> goerror list) gomap"
  op_default :: "(jval \<Rightarrow> goerror list) option"

record swaggerDoc =
  sw_BasePath :: string
  sw_Paths :: "(string, (string, swaggerOperation) gomap) gomap"

definition methodToOperation :: "(string \<Rightarrow> string) \<Rightarrow> (string, swaggerOperation) gomap \<Rightarrow> string \<Rightarrow> swaggerOperation option" where
  "methodToOperation toUpper p method =
     (let m = toUpper method
      in if m \<in> {''GET'', ''PUT'', ''POST'', ''DELETE'', ''OPTIONS'', ''HEAD'', ''PATCH''} then map_of p m else None)"

fun findOperation ::
  "(string \<Rightarrow> string) \<Rightarrow> (string \<Rightarrow> string) \<Rightarrow> string \<Rightarrow> string \<Rightarrow> string \<Rightarrow> (string, (string, swaggerOperation) gomap) gomap
     \<Rightarrow> swaggerOperation option" where
  "findOperation toLower toUpper base testPath testMethod [] = None"
| "findOperation toLower toUpper base testPath testMethod ((pth, p) # ps) =
     (if toLower testPath = toLower (base @ pth)
      then (case methodToOperation toUpper p testMethod of
              Some op \<Rightarrow> Some op
            | None \<Rightarrow> findOperation toLower toUpper base testPath testMethod ps)
      else findOperation toLower toUpper base testPath testMethod ps)"

definition findResponse ::
  "(string \<Rightarrow> string) \<Rightarrow> (string \<Rightarrow> string) \<Rightarrow> swaggerDoc \<Rightarrow> string \<Rightarrow> string \<Rightarrow> int \<Rightarrow> (jval \<Rightarrow> goerror list) option" where
  "findResponse toLower toUpper doc testPath testMethod statusCode =
     (case findOperation toLower toUpper (sw_BasePath doc) testPath testMethod (sw_Paths doc) of
        None \<Rightarrow> None
      | Some op \<Rightarrow>
          (case map_of (op_responses op) statusCode of Some r \<Rightarrow> Some r | None \<Rightarrow> op_default op))"

definition validateResponseAgainstSwagger ::
  "(string \<Rightarrow> string) \<Rightarrow> (string \<Rightarrow> string) \<Rightarrow> string \<Rightarrow> string \<Rightarrow> int \<Rightarrow> jval \<Rightarrow> swaggerDoc \<Rightarrow> goerror list" where
  "validateResponseAgainstSwagger toLower toUpper pth method statusCode response doc =
     (case findResponse toLower toUpper doc pth method statusCode of
        None \<Rightarrow> []
      | Some schema \<Rightarrow> schema response)"

definition schemaCheck ::
  "libs \<Rightarrow> (string \<Rightarrow> string) \<Rightarrow> (string \<Rightarrow> string) \<Rightarrow> swaggerDoc \<Rightarrow> Test \<Rightarrow> Result \<Rightarrow> (Result \<times> goerror list) gores" where
  "schemaCheck L toLower toUpper doc t result =
     rbind (jsonUnmarshal L (ResponseBody result))
       (\<lambda>actual. Ok (result, validateResponseAgainstSwagger toLower toUpper (RequestURL t) (Method' t)
                              (ResponseStatusCode result) actual doc))"

text \<open>A document that cannot be read gives a nil checker, whose method panics when a test is checked.\<close>

definition NewSchemaChecker :: "(string \<Rightarrow> 'd gores) \<Rightarrow> ('d \<Rightarrow> 'd gores) \<Rightarrow> ('d \<Rightarrow> swaggerDoc) \<Rightarrow> string \<Rightarrow> swaggerDoc option" where
  "NewSchemaChecker loadSpec expand specOf specLocation =
     (case rbind (loadSpec specLocation) expand of Ok d \<Rightarrow> Some (specOf d) | _ \<Rightarrow> None)"

definition interfaceCheck ::
  "(Test \<Rightarrow> Result \<Rightarrow> (Result \<times> goerror list) gores) option \<Rightarrow> Test \<Rightarrow> Result \<Rightarrow> (Result \<times> goerror list) gores" where
  "interfaceCheck c t r =
     (case c of Some check \<Rightarrow> check t r | None \<Rightarrow> Panic ''invalid memory address or nil pointer dereference'')"

lemma unreadable_spec_panics:
  assumes "loadSpec specLocation = Err e"
  shows "\<exists>m. interfaceCheck (map_option (schemaCheck L toLower toUpper) (NewSchemaChecker loadSpec expand specOf specLocation)) t r = Panic m"
  using assms by (simp add: interfaceCheck_def NewSchemaChecker_def)

section \<open>The contract of a checker\<close>

text \<open>A checker may append to the database results and changes nothing else of the result.\<close>

definition dbExtends :: "Result \<Rightarrow> Result \<Rightarrow> bool" where
  "dbExtends r r' \<longleftrightarrow> (\<exists>dr. r' = r\<lparr>r_DatabaseResult := r_DatabaseResult r @ dr\<rparr>)"

lemma dbExtends_refl [simp]: "dbExtends r r"
  unfolding dbExtends_def by (rule exI [of _ "[]"]) simp

lemma dbExtends_append [simp]: "dbExtends r (r\<lparr>r_DatabaseResult := r_DatabaseResult r @ dr\<rparr>)"
  unfolding dbExtends_def by blast

lemma dbExtends_trans: "dbExtends r r' \<Longrightarrow> dbExtends r' r'' \<Longrightarrow> dbExtends r r''"
  unfolding dbExtends_def by auto

locale result_checker =
  fixes check :: "Test \<Rightarrow> Result \<Rightarrow> (Result \<times> goerror list) gores"
  assumes frame: "check t r = Ok (r', errs) \<Longrightarrow> dbExtends r r'"
begin

lemma keeps_errors: "check t r = Ok (r', errs) \<Longrightarrow> Errors r' = Errors r"
  by (auto dest!: frame simp: dbExtends_def)

lemma keeps_response:
  "check t r = Ok (r', errs) \<Longrightarrow> ResponseBody r' = ResponseBody r \<and> ResponseStatusCode r' = ResponseStatusCode r"
  by (auto dest!: frame simp: dbExtends_def)

end

lemma dbCheckOne_frame: "dbCheckOne L db n o' c r = Ok (r', errs) \<Longrightarrow> dbExtends r r'"
  by (auto simp: dbCheckOne_def Let_def split: if_splits option.splits)

lemma runDbChecks_frame:
  assumes "runDbChecks L dbOf t cs r = Ok (r', errs)"
  shows "dbExtends r r'"
proof -
  have "dbExtends r (fst (r', errs))"
    using assms unfolding runDbChecks_def
    by (rule foldM_invariant) (auto split: prod.splits, metis dbCheckOne_frame dbExtends_trans)
  then show ?thesis by simp
qed

interpretation body_checker: result_checker "responseBodyCheck L"
  by unfold_locales (auto simp: responseBodyCheck_def split: if_splits)

interpretation header_checker: result_checker "responseHeaderCheck L"
  by unfold_locales (auto simp: responseHeaderCheck_def split: if_splits option.splits)

interpretation db_checker: result_checker "responseDbCheck L db"
  by unfold_locales (auto simp: responseDbCheck_def dest: runDbChecks_frame)

interpretation multidb_checker: result_checker "responseMultiDbCheck L dbs"
  by unfold_locales (auto simp: responseMultiDbCheck_def dest: runDbChecks_frame)

lemma grpcResponseCheck_frame: "grpcResponseCheck L t r = Ok (r', errs) \<Longrightarrow> r' = r"
  by (cases "jsonUnmarshal L (ResponseBody r)") (auto simp: grpcResponseCheck_def split: if_splits option.splits)

interpretation grpc_checker: result_checker "grpcResponseCheck L"
  by unfold_locales (auto dest: grpcResponseCheck_frame)

interpretation schema_checker: result_checker "schemaCheck L toLower toUpper doc"
  by unfold_locales (auto simp: schemaCheck_def)

section \<open>What the checkers accept\<close>

lemma Compare_strings: "\<exists>errs. Compare rx fv (JStr e) (JStr a) zeroParams = Ok errs"
  unfolding Compare_def
  by (subst compareBranch.simps)
     (auto simp: Let_def isScalarType_def zeroParams_def compareLeafs_def comparePure_def split: leafsMatchType.splits)

lemma zeroParams_ordered: "\<not> IgnoreArraysOrdering zeroParams"
  by (simp add: zeroParams_def)

lemma headerFound_iff:
  "headerFound L v vals = Ok (\<exists>a \<in> set vals. conforms (regexpCompile L) (sprintV L) zeroParams (JStr v) (JStr a))"
proof -
  have "foldM (\<lambda>found actualValue.
        rbind (Compare (regexpCompile L) (sprintV L) (JStr v) (JStr actualValue) zeroParams)
          (\<lambda>e. Ok (found \<or> e = []))) f vals =
      Ok (f \<or> (\<exists>a \<in> set vals. conforms (regexpCompile L) (sprintV L) zeroParams (JStr v) (JStr a)))" for f
  proof (induction vals arbitrary: f)
    case (Cons a vals)
    obtain errs where e: "Compare (regexpCompile L) (sprintV L) (JStr v) (JStr a) zeroParams = Ok errs"
      using Compare_strings by blast
    with Compare_ordered [OF zeroParams_ordered, of "regexpCompile L" "sprintV L" "JStr v" "JStr a"]
    have "errs = [] \<longleftrightarrow> conforms (regexpCompile L) (sprintV L) zeroParams (JStr v) (JStr a)" by simp
    with e Cons show ?case by auto
  qed simp
  then show ?thesis by (simp add: headerFound_def)
qed

definition headerOk :: "libs \<Rightarrow> Result \<Rightarrow> string \<Rightarrow> string \<Rightarrow> bool" where
  "headerOk L r k v \<longleftrightarrow> (\<exists>vals. map_of (r_ResponseHeaders r) (canonicalKey k) = Some vals \<and>
     (\<exists>a \<in> set vals. conforms (regexpCompile L) (sprintV L) zeroParams (JStr v) (JStr a)))"

lemma headerErrors_iff: "\<exists>errs. headerErrors L r k v = Ok errs \<and> (errs = [] \<longleftrightarrow> headerOk L r k v)"
  by (auto simp: headerErrors_def Let_def headerOk_def headerFound_iff split: option.split)

lemma headerErrors_all:
  "\<exists>errss. mapM (\<lambda>(k, v). headerErrors L r k v) hs = Ok errss \<and> (concat errss = [] \<longleftrightarrow> (\<forall>(k, v) \<in> set hs. headerOk L r k v))"
proof (induction hs)
  case (Cons kv hs)
  obtain k v where kv: "kv = (k, v)" by (cases kv)
  obtain errs where "headerErrors L r k v = Ok errs" "errs = [] \<longleftrightarrow> headerOk L r k v"
    using headerErrors_iff by blast
  with Cons kv show ?case by auto
qed simp

section \<open>Properties\<close>

text \<open>
  C15. The body checker accepts a JSON response exactly when its status code is one of the expected
  ones and the response conforms to the expected body of that status code under the test's comparison
  parameters (arrays compared in order).
\<close>

theorem responseBodyCheck_accepts_iff:
  assumes "Transport t \<noteq> ''grpc''" and "contains (ResponseContentType r) ''json''" and "\<not> IgnoreArraysOrdering (ComparisonParams t)"
    and "jsonUnmarshal L (ResponseBody r) = Ok actual"
    and "\<forall>body. GetResponse t (ResponseStatusCode r) = Some body \<longrightarrow> body \<noteq> [] \<and> jsonUnmarshal L body = Ok expected"
  shows "responseBodyCheck L t r = Ok (r, []) \<longleftrightarrow>
    GetResponse t (ResponseStatusCode r) \<noteq> None \<and> conforms (regexpCompile L) (sprintV L) (bodyParams t) expected actual"
proof (cases "GetResponse t (ResponseStatusCode r)")
  case None
  with assms(1) show ?thesis by (auto simp: responseBodyCheck_def split: list.splits)
next
  case (Some body)
  have "\<not> IgnoreArraysOrdering (bodyParams t)" using assms(3) by (simp add: bodyParams_def)
  from Compare_ordered [OF this, of "regexpCompile L" "sprintV L" expected actual] Some assms show ?thesis
    by (auto simp: responseBodyCheck_def compareJsonBody_def wrapErr_def)
qed

text \<open>A response with status 200 and a JSON body, to the example definition without its cases.\<close>

definition exampleResult :: "string \<Rightarrow> Result" where
  "exampleResult body =
     \<lparr>r_Path = ''/'', r_Query = [], r_RequestBody = [], ResponseStatusCode = 200, r_ResponseStatus = ''200 OK'',
      ResponseContentType = ''application/json'', ResponseBody = body,
      r_ResponseHeaders = [(''X-Id'', [''1''])], GrpcStatusCode = 0, GrpcStatusMessage = [], GrpcTrailers = [], Errors = [],
      TestStatus = [], r_DatabaseResult = []\<rparr>"

theorem responseBodyCheck_accepts_iff_witness:
  "responseBodyCheck exampleLibs (testWithoutCases [] (exampleDefinition\<lparr>ResponseTmpls := [(200, ''null'')]\<rparr>)) (exampleResult ''null'')
     = Ok (exampleResult ''null'', [])"
proof -
  let ?t = "testWithoutCases [] (exampleDefinition\<lparr>ResponseTmpls := [(200, ''null'')]\<rparr>)"
  have "conforms (regexpCompile exampleLibs) (sprintV exampleLibs) (bodyParams ?t) JNil JNil"
    by (rule conf_leaf) (simp_all add: leafMatchType_def isScalarType_def)
  moreover have "Transport ?t \<noteq> ''grpc''" "GetResponse ?t (ResponseStatusCode (exampleResult ''null'')) = Some ''null''"
      "contains (ResponseContentType (exampleResult ''null'')) ''json''" "\<not> IgnoreArraysOrdering (ComparisonParams ?t)"
      "jsonUnmarshal exampleLibs ''null'' = Ok JNil" "jsonUnmarshal exampleLibs (ResponseBody (exampleResult ''null'')) = Ok JNil"
    by (simp_all add: testWithoutCases_def newTest_def exampleDefinition_def exampleResult_def exampleLibs_def GetResponse_def
        TestDefinition.defs Test.defs zeroParams_def hasPrefix_def)
  ultimately show ?thesis
    using responseBodyCheck_accepts_iff [of ?t "exampleResult ''null''" exampleLibs JNil JNil] by simp
qed

text \<open>
  The header checker always returns, and it accepts a response exactly when every expected
  header, under its canonical name, is present with at least one value that equals the expected
  one or matches its pattern.
\<close>

theorem responseHeaderCheck_accepts_iff:
  assumes "Transport t \<noteq> ''grpc''" and "GetResponseHeaders t (ResponseStatusCode r) = Some hs"
  shows "\<exists>errs. responseHeaderCheck L t r = Ok (r, errs) \<and> (errs = [] \<longleftrightarrow> (\<forall>(k, v) \<in> set hs. headerOk L r k v))"
proof -
  obtain errss where "mapM (\<lambda>(k, v). headerErrors L r k v) hs = Ok errss"
      "concat errss = [] \<longleftrightarrow> (\<forall>(k, v) \<in> set hs. headerOk L r k v)"
    using headerErrors_all [of L r hs] by blast
  with assms show ?thesis by (simp add: responseHeaderCheck_def)
qed

theorem responseHeaderCheck_accepts_iff_witness:
  "\<exists>errs. responseHeaderCheck exampleLibs
       (testWithoutCases [] (exampleDefinition\<lparr>td_ResponseHeaders := [(200, [(''x-id'', ''1'')])]\<rparr>)) (exampleResult []) =
     Ok (exampleResult [], errs) \<and> (errs = [] \<longleftrightarrow> (\<forall>(k, v) \<in> set [(''x-id'', ''1'')]. headerOk exampleLibs (exampleResult []) k v))"
  by (rule responseHeaderCheck_accepts_iff)
     (simp_all add: testWithoutCases_def newTest_def exampleDefinition_def exampleResult_def GetResponseHeaders_def
       TestDefinition.defs Test.defs)



text \<open>
  A test without expected responses does not get an error from the body checker: the first
  expected status code is read from an empty list, and the program panics.
\<close>

theorem responseBodyCheck_no_responses_panics:
  assumes "Transport t \<noteq> ''grpc''" and "Responses t = []"
  shows "\<exists>m. responseBodyCheck L t r = Panic m"
  using assms by (simp add: responseBodyCheck_def GetResponse_def getExpectedStatusCodes_def)

theorem responseBodyCheck_no_responses_panics_witness:
  "\<exists>m. responseBodyCheck exampleLibs (testWithoutCases [] (exampleDefinition\<lparr>ResponseTmpls := []\<rparr>)) (exampleResult []) = Panic m"
  by (rule responseBodyCheck_no_responses_panics)
     (simp_all add: testWithoutCases_def newTest_def exampleDefinition_def TestDefinition.defs Test.defs)

text \<open>
  The text of a body error is the text of the difference twice, because the difference is both
  the message and the cause.
\<close>

lemma bodyError_text: "etext L (bodyError L e) = etext L e @ '': '' @ etext L e"
  by (simp add: bodyError_def NewBodyErrorWithCause_def)

end
