(* ===== verification/MockService.thy ===== *)
theory MockService
  imports MockSpec
begin

text \<open>
  Model of \<open>mocks/service_mock.go\<close> and \<open>mocks/mocks.go\<close>: a mocked service with its default and
  its current definition, and the collection of services.

  The fields \<open>mock\<close> and \<open>defaultDefinition\<close> of a \<open>ServiceMock\<close> are pointers, equal until a test
  loads a definition of its own. The state says so: \<open>AtDefault\<close> means that the current
  definition is the default one (so a request changes both), \<open>Loaded\<close> that it is another.
  The server and its listener are set and cleared together; \<open>sm_listener\<close> is the address
  while the server runs. What \<open>net.Listen\<close> and \<open>Server.Shutdown\<close> answer is a parameter.
\<close>

section \<open>One service\<close>

datatype currentMock = AtDefault | Loaded "mockDefinition option"

record ServiceMock =
  sm_listener :: "string option"
  sm_mock :: currentMock
  sm_default :: "mockDefinition option"
  sm_errors :: "goerror list"
  sm_name :: string

definition NewServiceMock :: "string \<Rightarrow> mockDefinition option \<Rightarrow> ServiceMock" where
  "NewServiceMock name d =
     \<lparr>sm_listener = None, sm_mock = AtDefault, sm_default = map_option (SetServiceName name) d,
      sm_errors = [], sm_name = name\<rparr>"

definition currentDef :: "ServiceMock \<Rightarrow> mockDefinition option" where
  "currentDef m = (case sm_mock m of AtDefault \<Rightarrow> sm_default m | Loaded d \<Rightarrow> d)"

text \<open>The object behind the pointer \<open>m.mock\<close> changes.\<close>

definition storeDef :: "mockDefinition \<Rightarrow> ServiceMock \<Rightarrow> ServiceMock" where
  "storeDef d m = (case sm_mock m of AtDefault \<Rightarrow> m\<lparr>sm_default := Some d\<rparr> | Loaded _ \<Rightarrow> m\<lparr>sm_mock := Loaded (Some d)\<rparr>)"

definition ServeHTTP :: "libs \<Rightarrow> exchange \<Rightarrow> ServiceMock \<Rightarrow> ServiceMock \<times> exchange \<times> unit gores" where
  "ServeHTTP L x m =
     (case currentDef m of
        None \<Rightarrow> (m, x, Ok ())
      | Some d \<Rightarrow>
          (case Execute L x d of
             (d1, x1, out) \<Rightarrow>
               (case out of
                  Ok errs \<Rightarrow> ((storeDef d1 m)\<lparr>sm_errors := sm_errors m @ errs\<rparr>, x1, Ok ())
                | Err e \<Rightarrow> (storeDef d1 m, x1, Err e)
                | Panic p \<Rightarrow> (storeDef d1 m, x1, Panic p))))"

definition SetDefinition :: "mockDefinition option \<Rightarrow> ServiceMock \<Rightarrow> ServiceMock" where
  "SetDefinition newDefinition m = m\<lparr>sm_mock := Loaded (map_option (SetServiceName (sm_name m)) newDefinition)\<rparr>"

definition ResetDefinition :: "ServiceMock \<Rightarrow> ServiceMock" where
  "ResetDefinition m = m\<lparr>sm_mock := AtDefault\<rparr>"

text \<open>A nil definition is dereferenced; the errors are cleared before that.\<close>

definition resetService :: "ServiceMock \<Rightarrow> ServiceMock \<times> unit gores" where
  "resetService m =
     (let m1 = m\<lparr>sm_errors := []\<rparr>
      in case currentDef m1 of
           None \<Rightarrow> (m1, Panic ''nil pointer dereference'')
         | Some d \<Rightarrow> (storeDef (ResetRunningContext d) m1, Ok ()))"

text \<open>
  \<open>errs := append(m.errors, ...)\<close> shares its array with \<open>m.errors\<close> when nothing is appended or
  when the capacity suffices (\<open>\<not> realloc\<close>); wrapping the elements in place then changes
  \<open>m.errors\<close> as well.
\<close>

definition endService :: "bool \<Rightarrow> ServiceMock \<Rightarrow> ServiceMock \<times> goerror list gores" where
  "endService realloc m =
     (case currentDef m of
        None \<Rightarrow> (m, Panic ''nil pointer dereference'')
      | Some d \<Rightarrow>
          (let ends = EndRunningContext d;
               wrap = (\<lambda>e. EMock e (sm_name m))
           in (if ends = [] \<or> \<not> realloc then m\<lparr>sm_errors := map wrap (sm_errors m)\<rparr> else m,
               Ok (map wrap (sm_errors m @ ends)))))"

definition StartServerWithAddr :: "string gores \<Rightarrow> ServiceMock \<Rightarrow> ServiceMock \<times> unit gores" where
  "StartServerWithAddr listen m =
     (case listen of
        Ok addr \<Rightarrow> (m\<lparr>sm_listener := Some addr\<rparr>, Ok ())
      | Err e \<Rightarrow> (m, Err e)
      | Panic p \<Rightarrow> (m, Panic p))"

text \<open>\<open>m.server.Shutdown\<close> on a service that was never started dereferences a nil server.\<close>

definition ShutdownServer :: "unit gores \<Rightarrow> ServiceMock \<Rightarrow> ServiceMock \<times> unit gores" where
  "ShutdownServer shut m =
     (case sm_listener m of
        None \<Rightarrow> (m, Panic ''nil pointer dereference'')
      | Some _ \<Rightarrow> (m\<lparr>sm_listener := None\<rparr>, shut))"

definition ServerAddr :: "ServiceMock \<Rightarrow> string gores" where
  "ServerAddr m =
     (case sm_listener m of
        None \<Rightarrow> Panic (''mock server '' @ sm_name m @ '' is not started'')
      | Some a \<Rightarrow> Ok a)"

section \<open>All services\<close>

type_synonym Mocks = "(string, ServiceMock) gomap"

definition newMocks :: "ServiceMock list \<Rightarrow> Mocks" where
  "newMocks ms = foldl (\<lambda>m v. AList.update (sm_name v) v m) [] ms"

definition NewNop :: "string list \<Rightarrow> Mocks" where
  "NewNop names =
     foldl (\<lambda>m name. AList.update name (NewServiceMock name (Some (NewDefinition ''$'' [] (Some failReply) CallsNoConstraint))) m)
       [] names"

definition ResetDefinitions :: "Mocks \<Rightarrow> Mocks" where
  "ResetDefinitions ms = map (\<lambda>(n, v). (n, ResetDefinition v)) ms"

definition SetMock :: "ServiceMock \<Rightarrow> Mocks \<Rightarrow> Mocks" where
  "SetMock v ms = AList.update (sm_name v) v ms"

definition Service :: "Mocks \<Rightarrow> string \<Rightarrow> ServiceMock option" where
  "Service ms name = map_of ms name"

definition GetNames :: "Mocks \<Rightarrow> string list" where
  "GetNames ms = gokeys ms"

text \<open>A loop over the services that stops at the first panic.\<close>

fun resetAll :: "Mocks \<Rightarrow> Mocks \<times> unit gores" where
  "resetAll [] = ([], Ok ())"
| "resetAll ((n, v) # ms) =
     (case resetService v of
        (v1, Ok _) \<Rightarrow> (case resetAll ms of (ms1, out) \<Rightarrow> ((n, v1) # ms1, out))
      | (v1, bad) \<Rightarrow> ((n, v1) # ms, bad))"

fun endAll :: "bool \<Rightarrow> Mocks \<Rightarrow> Mocks \<times> goerror list gores" where
  "endAll realloc [] = ([], Ok [])"
| "endAll realloc ((n, v) # ms) =
     (case endService realloc v of
        (v1, Ok errs) \<Rightarrow>
          (case endAll realloc ms of (ms1, out) \<Rightarrow> ((n, v1) # ms1, rbind out (\<lambda>more. Ok (errs @ more))))
      | (v1, bad) \<Rightarrow> ((n, v1) # ms, bad))"

text \<open>\<open>ShutdownContext\<close>: every server is shut down; the failures are joined into one error.\<close>

fun shutdownLoop :: "(string \<Rightarrow> unit gores) \<Rightarrow> (goerror \<Rightarrow> string) \<Rightarrow> Mocks \<Rightarrow> Mocks \<times> string list gores" where
  "shutdownLoop shut etext [] = ([], Ok [])"
| "shutdownLoop shut etext ((n, v) # ms) =
     (case ShutdownServer (shut n) v of
        (v1, Panic p) \<Rightarrow> ((n, v1) # ms, Panic p)
      | (v1, Ok _) \<Rightarrow> (case shutdownLoop shut etext ms of (ms1, out) \<Rightarrow> ((n, v1) # ms1, out))
      | (v1, Err e) \<Rightarrow>
          (case currentDef v of
             None \<Rightarrow> ((n, v1) # ms, Panic ''nil pointer dereference'')
           | Some d \<Rightarrow>
               (case shutdownLoop shut etext ms of
                  (ms1, out) \<Rightarrow> ((n, v1) # ms1, rbind out (\<lambda>more. Ok ((path d @ '': '' @ etext e) # more))))))"

definition ShutdownContext :: "(string \<Rightarrow> unit gores) \<Rightarrow> (goerror \<Rightarrow> string) \<Rightarrow> Mocks \<Rightarrow> Mocks \<times> unit gores" where
  "ShutdownContext shut etext ms =
     (case shutdownLoop shut etext ms of
        (ms1, out) \<Rightarrow> (ms1, rbind out (\<lambda>errs. if errs \<noteq> [] then Err (errNew (join ''; '' errs)) else Ok ())))"

text \<open>\<open>Start\<close> over the services in map order; \<open>done\<close> are the services already visited.\<close>

fun startLoop ::
  "(string \<Rightarrow> string gores) \<Rightarrow> (string \<Rightarrow> unit gores) \<Rightarrow> (goerror \<Rightarrow> string) \<Rightarrow> Mocks \<Rightarrow> Mocks \<Rightarrow> Mocks \<times> unit gores" where
  "startLoop listen shut etext visited [] = (visited, Ok ())"
| "startLoop listen shut etext visited ((n, v) # ms) =
     (case StartServerWithAddr (listen n) v of
        (v1, Ok _) \<Rightarrow> startLoop listen shut etext (visited @ [(n, v1)]) ms
      | (v1, Err e) \<Rightarrow>
          (case ShutdownContext shut etext (visited @ (n, v1) # ms) of
             (ms1, Panic p) \<Rightarrow> (ms1, Panic p)
           | (ms1, _) \<Rightarrow> (ms1, Err e))
      | (v1, Panic p) \<Rightarrow> (visited @ (n, v1) # ms, Panic p))"

definition Start :: "(string \<Rightarrow> string gores) \<Rightarrow> (string \<Rightarrow> unit gores) \<Rightarrow> (goerror \<Rightarrow> string) \<Rightarrow> Mocks \<Rightarrow> Mocks \<times> unit gores" where
  "Start listen shut etext ms = startLoop listen shut etext [] ms"

section \<open>The running context of a service\<close>

lemma currentDef_storeDef [simp]: "currentDef (storeDef d m) = Some d"
  by (auto simp: currentDef_def storeDef_def split: currentMock.splits)

lemma currentDef_errors [simp]: "currentDef (m\<lparr>sm_errors := es\<rparr>) = currentDef m"
  by (simp add: currentDef_def split: currentMock.split)

lemma storeDef_errors [simp]: "(storeDef d m)\<lparr>sm_errors := es\<rparr> = storeDef d (m\<lparr>sm_errors := es\<rparr>)"
  by (simp add: storeDef_def split: currentMock.splits)

lemma storeDef_storeDef [simp]: "storeDef d (storeDef e m) = storeDef d m"
  by (simp add: storeDef_def split: currentMock.splits)

lemma storeDef_fields [simp]:
  "sm_name (storeDef d m) = sm_name m" "sm_errors (storeDef d m) = sm_errors m" "sm_listener (storeDef d m) = sm_listener m"
  by (simp_all add: storeDef_def split: currentMock.splits)

lemma ServeHTTP_Some:
  assumes "currentDef m = Some d"
  shows "ServeHTTP L x m =
    (storeDef (fst (Execute L x d))
       (m\<lparr>sm_errors := sm_errors m @ (case snd (snd (Execute L x d)) of Ok errs \<Rightarrow> errs | _ \<Rightarrow> [])\<rparr>),
     fst (snd (Execute L x d)), rbind (snd (snd (Execute L x d))) (\<lambda>_. Ok ()))"
  using assms by (auto simp: ServeHTTP_def split: prod.splits res.splits)

lemma resetService_Some:
  "currentDef m = Some d \<Longrightarrow> resetService m = (storeDef (ResetRunningContext d) (m\<lparr>sm_errors := []\<rparr>), Ok ())"
  by (simp add: resetService_def)

lemma resetService_ServeHTTP: "fst (resetService (fst (ServeHTTP L x m))) = fst (resetService m)"
proof (cases "currentDef m")
  case None
  then show ?thesis by (simp add: ServeHTTP_def)
next
  case (Some d)
  then show ?thesis
    by (simp add: ServeHTTP_Some resetService_Some Execute_reset flip: storeDef_errors)
qed

lemma resetService_resetService: "fst (resetService (fst (resetService m))) = fst (resetService m)"
  by (cases "currentDef m") (auto simp: resetService_def Let_def ResetRunningContext_idem simp flip: storeDef_errors)

interpretation service_context:
  running_context "ServeHTTP L" "\<lambda>m. fst (resetService m)"
    "\<lambda>m. case snd (endService True m) of Ok es \<Rightarrow> es | _ \<Rightarrow> []"
  by unfold_locales (simp_all add: resetService_ServeHTTP resetService_resetService)

section \<open>A test, as one service sees it\<close>

text \<open>
  \<open>Runner.setupMocks\<close> puts the default definition back, resets the running context and then
  loads the definition of the test, if it has one; requests follow; \<open>EndRunningContext\<close> collects
  the errors.
\<close>

definition setupService :: "mockDefinition option \<Rightarrow> ServiceMock \<Rightarrow> ServiceMock" where
  "setupService loaded m =
     (let m1 = fst (resetService (ResetDefinition m))
      in case loaded of None \<Rightarrow> m1 | Some d \<Rightarrow> SetDefinition (Some d) m1)"

definition serviceTest ::
  "libs \<Rightarrow> bool \<Rightarrow> mockDefinition option \<Rightarrow> exchange list \<Rightarrow> ServiceMock
     \<Rightarrow> ServiceMock \<times> (exchange \<times> unit gores) list \<times> goerror list gores" where
  "serviceTest L realloc loaded xs m =
     (let (m1, outs) = runRequests (ServeHTTP L) xs (setupService loaded m);
          (m2, errs) = endService realloc m1
      in (m2, outs, errs))"

definition atRest :: "ServiceMock \<Rightarrow> ServiceMock" where
  "atRest m = fst (resetService (ResetDefinition m))"

lemma atRest_alt:
  "atRest m = m\<lparr>sm_mock := AtDefault, sm_errors := [], sm_default := map_option ResetRunningContext (sm_default m)\<rparr>"
  by (cases "sm_default m")
     (simp_all add: atRest_def resetService_def ResetDefinition_def currentDef_def storeDef_def)

lemma atRest_ServeHTTP: "atRest (fst (ServeHTTP L x m)) = atRest m"
proof (cases "currentDef m")
  case None
  then show ?thesis by (simp add: ServeHTTP_def)
next
  case (Some d)
  then show ?thesis
    by (auto simp: ServeHTTP_Some atRest_alt storeDef_def currentDef_def Execute_reset split: currentMock.splits)
qed

lemma atRest_endService: "atRest (fst (endService realloc m)) = atRest m"
  by (simp add: endService_def atRest_alt Let_def split: option.split)

lemma atRest_setupService: "atRest (setupService loaded m) = atRest m"
proof -
  have "atRest (atRest m) = atRest m"
    by (simp add: atRest_alt option.map_comp o_def ResetRunningContext_idem)
  moreover have "atRest (SetDefinition d m') = atRest m'" for d m'
    by (simp add: atRest_alt SetDefinition_def)
  ultimately show ?thesis by (simp add: setupService_def atRest_def [symmetric] Let_def split: option.split)
qed

lemma serviceTest_simp:
  "serviceTest L realloc loaded xs m =
     (fst (endService realloc (fst (runRequests (ServeHTTP L) xs (setupService loaded m)))),
      snd (runRequests (ServeHTTP L) xs (setupService loaded m)),
      snd (endService realloc (fst (runRequests (ServeHTTP L) xs (setupService loaded m)))))"
  by (simp add: serviceTest_def Let_def case_prod_beta)

lemma atRest_serviceTest: "atRest (fst (serviceTest L realloc loaded xs m)) = atRest m"
proof -
  have "atRest (fst (runRequests (ServeHTTP L) xs m')) = atRest m'" for m'
    by (rule runRequests_invariant [where P = "\<lambda>s. atRest s = atRest m'"]) (simp_all add: atRest_ServeHTTP)
  then show ?thesis by (simp add: serviceTest_simp atRest_endService atRest_setupService)
qed

lemma setupService_atRest: "atRest m = atRest m' \<Longrightarrow> setupService loaded m = setupService loaded m'"
  by (simp add: setupService_def atRest_def)

section \<open>What the end of a test reports\<close>

abbreviation okErrors :: "goerror list gores \<Rightarrow> goerror list" where
  "okErrors out \<equiv> (case out of Ok errs \<Rightarrow> errs | _ \<Rightarrow> [])"

lemma service_run:
  assumes "currentDef m = Some d"
  shows "fst (runRequests (ServeHTTP L) xs m) =
    storeDef (fst (runRequests (Execute L) xs d))
      (m\<lparr>sm_errors := sm_errors m @ concat (map (\<lambda>o'. okErrors (snd o')) (snd (runRequests (Execute L) xs d)))\<rparr>)"
  using assms
proof (induction xs arbitrary: m d)
  case Nil
  then show ?case by (auto simp: storeDef_def currentDef_def split: currentMock.splits)
next
  case (Cons x xs)
  from Cons.IH [of "fst (ServeHTTP L x m)" "fst (Execute L x d)"] Cons.prems show ?case
    by (simp add: ServeHTTP_Some)
qed

lemma shutdownLoop_unstarted:
  assumes "(n, v) \<in> set ms" and "sm_listener v = None"
  shows "\<exists>p. snd (shutdownLoop shut etext ms) = Panic p"
  using assms
proof (induction ms)
  case (Cons nv ms)
  obtain n' v' where nv: "nv = (n', v')" by (cases nv)
  show ?case
  proof (cases "sm_listener v'")
    case None
    then show ?thesis by (simp add: nv ShutdownServer_def)
  next
    case (Some a)
    with Cons nv obtain p where "snd (shutdownLoop shut etext ms) = Panic p" by auto
    with Some show ?thesis
      by (auto simp: nv ShutdownServer_def split: res.splits prod.splits option.splits)
  qed
qed simp

lemma startLoop_failure:
  assumes "(n, v) \<in> set ms" and "listen n = Err e" and "\<forall>n v. (n, v) \<in> set ms \<longrightarrow> sm_listener v = None"
  shows "\<exists>p. snd (startLoop listen shut etext visited ms) = Panic p"
  using assms
proof (induction ms arbitrary: visited)
  case (Cons nv ms)
  obtain n' v' where nv: "nv = (n', v')" by (cases nv)
  show ?case
  proof (cases "listen n'")
    case (Ok a)
    with Cons nv show ?thesis by (auto simp: StartServerWithAddr_def)
  next
    case (Err e')
    have "sm_listener v' = None" using Cons.prems(3) nv by auto
    from shutdownLoop_unstarted [OF _ this, of n' "visited @ (n', v') # ms" shut etext]
    obtain p where "snd (shutdownLoop shut etext (visited @ (n', v') # ms)) = Panic p" by auto
    with Err show ?thesis
      by (auto simp: nv StartServerWithAddr_def ShutdownContext_def split: prod.splits)
  next
    case (Panic p)
    then show ?thesis by (simp add: nv StartServerWithAddr_def)
  qed
qed simp

section \<open>Properties\<close>

text \<open>
  Tests do not influence each other through a mocked service: the replies a test sees and
  the errors it gets at the end are the same whether or not another test, with its own loaded
  definition and its own requests, ran before it; in particular the default definition that the
  first test used or replaced is restored.
\<close>

theorem service_tests_isolated:
  "snd (serviceTest L realloc' loaded' ys (fst (serviceTest L realloc loaded xs m))) = snd (serviceTest L realloc' loaded' ys m)"
proof -
  have "setupService loaded' (fst (serviceTest L realloc loaded xs m)) = setupService loaded' m"
    by (rule setupService_atRest) (rule atRest_serviceTest)
  then show ?thesis by (simp add: serviceTest_simp [of L realloc'])
qed

text \<open>
  A service refines its definition: after a reset, the errors reported at the end are exactly
  the errors of the individual requests, in order, followed by the errors the definition
  reports, each wrapped once with the name of the service.
\<close>

theorem endService_reports:
  assumes "currentDef m = Some d"
  shows "snd (endService realloc (fst (runRequests (ServeHTTP L) xs (fst (resetService m))))) =
    Ok (map (\<lambda>e. EMock e (sm_name m))
      (concat (map (\<lambda>o'. okErrors (snd o')) (snd (runRequests (Execute L) xs (ResetRunningContext d))))
       @ EndRunningContext (fst (runRequests (Execute L) xs (ResetRunningContext d)))))"
proof -
  have c: "currentDef (fst (resetService m)) = Some (ResetRunningContext d)"
    using assms by (simp add: resetService_Some)
  show ?thesis
    unfolding service_run [OF c] using assms by (simp add: endService_def Let_def resetService_Some)
qed

theorem endService_reports_witness:
  "snd (endService True (fst (runRequests (ServeHTTP exampleLibs) [exampleExchange ''GET'' ''/'' []]
      (fst (resetService (NewServiceMock ''svc'' (Some (NewDefinition ''$'' [] (Some nopReply) 2)))))))) =
   Ok [EMock (ECalls ''$'' 2 1 ''svc'') ''svc'']"
proof -
  have c: "currentDef (NewServiceMock ''svc'' (Some (NewDefinition ''$'' [] (Some nopReply) 2)))
      = Some (Definition ''$'' [] (Some nopReply) ''svc'' 0 2)"
    by (simp add: NewServiceMock_def currentDef_def NewDefinition_def)
  show ?thesis unfolding endService_reports [OF c] by code_simp
qed

text \<open>
  When the port of one mocked service cannot be opened, \<open>Mocks.Start\<close> never returns its error:
  the clean-up shuts down every service, and the one that failed has no server, so the program
  panics on a nil pointer.
\<close>

theorem Start_failure_panics:
  assumes "(n, v) \<in> set ms" and "listen n = Err e" and "\<forall>n v. (n, v) \<in> set ms \<longrightarrow> sm_listener v = None"
  shows "\<exists>p. snd (Start listen shut etext ms) = Panic p"
  unfolding Start_def using assms by (rule startLoop_failure)

theorem Start_failure_panics_witness:
  "\<exists>p. snd (Start (\<lambda>n. if n = ''b'' then Err (errNew ''in use'') else Ok ''localhost:1'') (\<lambda>n. Ok ()) (\<lambda>e. []) (NewNop [''a'', ''b''])) = Panic p"
proof -
  have ms: "NewNop [''a'', ''b''] =
     [(''a'', NewServiceMock ''a'' (Some (NewDefinition ''$'' [] (Some failReply) CallsNoConstraint))),
      (''b'', NewServiceMock ''b'' (Some (NewDefinition ''$'' [] (Some failReply) CallsNoConstraint)))]"
    by (simp add: NewNop_def)
  show ?thesis
    by (rule Start_failure_panics [where n = "''b''" and e = "errNew ''in use''"
          and v = "NewServiceMock ''b'' (Some (NewDefinition ''$'' [] (Some failReply) CallsNoConstraint))"])
       (auto simp: ms NewServiceMock_def)
qed

end
