(* ===== verification/MockLoader.thy ===== *)
theory MockLoader
  imports MockService
begin

text \<open>
  Model of \<open>mocks/loader.go\<close>: building mock definitions from the \<open>mocks\<close> section of a test,
  as \<open>yaml.v2\<close> decodes it.

  A failed type assertion without a second result, such as \<open>c.(int)\<close>, is a panic; with one, it
  is an error. Loops over a YAML mapping visit its entries in list order.
\<close>

section \<open>Access to YAML mappings\<close>

type_synonym ymap = "(yval \<times> yval) list"

abbreviation ylookup :: "ymap \<Rightarrow> string \<Rightarrow> yval option" where
  "ylookup def key \<equiv> map_of def (YStr key)"

fun ysize :: "yval \<Rightarrow> nat" where
  "ysize (YArr xs) = Suc (sum_list (map (\<lambda>x. Suc (ysize x)) xs))"
| "ysize (YMap kvs) = Suc (sum_list (map (\<lambda>kv. Suc (ysize (snd kv))) kvs))"
| "ysize _ = 0"

lemma ysize_elem: "x \<in> set xs \<Longrightarrow> ysize x < ysize (YArr xs)"
  using member_le_sum_list [of "Suc (ysize x)" "map (\<lambda>x. Suc (ysize x)) xs"] by auto

lemma ysize_field: "(k, v) \<in> set kvs \<Longrightarrow> ysize v < ysize (YMap kvs)"
  using member_le_sum_list [of "Suc (ysize v)" "map (\<lambda>kv. Suc (ysize (snd kv))) kvs"] by force

lemma ysize_lookup: "map_of kvs k = Some v \<Longrightarrow> ysize v < ysize (YMap kvs)"
  by (rule ysize_field [OF map_of_SomeD])

lemma ysize_enumerate: "(i, v) \<in> set (enumerate n vs) \<Longrightarrow> ysize v < ysize (YArr vs)"
  unfolding enumerate_eq_zip by (rule ysize_elem [OF set_zip_rightD])

lemma ysize_enumerate_lookup:
  "map_of kvs k = Some (YArr vs) \<Longrightarrow> (i, v) \<in> set (enumerate n vs) \<Longrightarrow> ysize v < ysize (YMap kvs)"
  by (rule less_trans [OF ysize_enumerate ysize_lookup])

lemma ysize_entry_lookup:
  "map_of kvs k = Some (YMap us) \<Longrightarrow> (u, v) \<in> set us \<Longrightarrow> ysize v < ysize (YMap kvs)"
  by (rule less_trans [OF ysize_field ysize_lookup])

fun assertString :: "yval \<Rightarrow> string gores" where
  "assertString (YStr s) = Ok s"
| "assertString _ = Panic ''interface conversion: not a string''"

fun assertInt :: "yval \<Rightarrow> int gores" where
  "assertInt (YInt i) = Ok i"
| "assertInt _ = Panic ''interface conversion: not an int''"

fun validateMapKeys :: "ymap \<Rightarrow> string list \<Rightarrow> unit gores" where
  "validateMapKeys [] allowedKeys = Ok ()"
| "validateMapKeys ((k, v) # m) allowedKeys =
     rbind (assertString k) (\<lambda>key.
       if key \<in> set allowedKeys then validateMapKeys m allowedKeys
       else Err (EFmt ''unexpected key %s (expecting %v)'' [ShStr key, ShStrs allowedKeys]))"

text \<open>A required key with a string value; the two error messages of the caller.\<close>

definition requireString :: "ymap \<Rightarrow> string \<Rightarrow> string \<Rightarrow> string \<Rightarrow> string gores" where
  "requireString def key missing mistyped =
     (case ylookup def key of
        None \<Rightarrow> Err (errNew missing)
      | Some (YStr s) \<Rightarrow> Ok s
      | Some _ \<Rightarrow> Err (errNew mistyped))"

definition optionalString :: "ymap \<Rightarrow> string \<Rightarrow> string \<Rightarrow> string gores" where
  "optionalString def key mistyped =
     (case ylookup def key of
        None \<Rightarrow> Ok []
      | Some (YStr s) \<Rightarrow> Ok s
      | Some _ \<Rightarrow> Err (errNew mistyped))"

text \<open>An optional key whose value must be a non-empty string.\<close>

definition optionalNonEmpty :: "ymap \<Rightarrow> string \<Rightarrow> string \<Rightarrow> string gores" where
  "optionalNonEmpty def key mistyped =
     (case ylookup def key of
        None \<Rightarrow> Ok []
      | Some (YStr s) \<Rightarrow> (if s = [] then Err (errNew mistyped) else Ok s)
      | Some _ \<Rightarrow> Err (errNew mistyped))"

section \<open>Request constraints\<close>

definition paramsStep :: "Params \<Rightarrow> yval \<times> yval \<Rightarrow> Params gores" where
  "paramsStep params kv =
     (case fst kv of
        YStr skey \<Rightarrow>
          (case snd kv of
             YBool b \<Rightarrow>
               Ok (if skey = ''ignoreValues'' then params\<lparr>IgnoreValues := b\<rparr>
                   else if skey = ''ignoreArraysOrdering'' then params\<lparr>IgnoreArraysOrdering := b\<rparr>
                   else if skey = ''disallowExtraFields'' then params\<lparr>DisallowExtraFields := b\<rparr>
                   else params)
           | _ \<Rightarrow> Err (errNew ''`comparisonParams` has non-bool values''))
      | _ \<Rightarrow> Err (errNew ''`comparisonParams` has non-string key''))"

definition readCompareParams :: "ymap \<Rightarrow> Params gores" where
  "readCompareParams def =
     (let params = zeroParams\<lparr>IgnoreArraysOrdering := True\<rparr>
      in case ylookup def ''comparisonParams'' of
           None \<Rightarrow> Ok params
         | Some (YMap values) \<Rightarrow> foldM paramsStep params values
         | Some _ \<Rightarrow> Err (errNew ''`comparisonParams` can't be parsed''))"

definition loadBodyMatchesJSONConstraint :: "libs \<Rightarrow> ymap \<Rightarrow> verifier gores" where
  "loadBodyMatchesJSONConstraint L def =
     rbind (requireString def ''body'' ''`bodyMatchesJSON` requires `body` key'' ''`body` must be string'') (\<lambda>body.
     rbind (readCompareParams def) (\<lambda>params. newBodyMatchesJSONConstraint L body params))"

definition loadBodyJSONFieldMatchesJSONConstraint :: "libs \<Rightarrow> ymap \<Rightarrow> verifier gores" where
  "loadBodyJSONFieldMatchesJSONConstraint L def =
     rbind (requireString def ''path'' ''`bodyJSONFieldMatchesJSON` requires `path` key'' ''`path` must be string'') (\<lambda>p.
     rbind (requireString def ''value'' ''`bodyJSONFieldMatchesJSON` requires `value` key'' ''`value` must be string'') (\<lambda>val.
     rbind (readCompareParams def) (\<lambda>params. newBodyJSONFieldMatchesJSONConstraint L p val params)))"

definition loadBodyMatchesXMLConstraint :: "libs \<Rightarrow> ymap \<Rightarrow> verifier gores" where
  "loadBodyMatchesXMLConstraint L def =
     rbind (requireString def ''body'' ''`bodyMatchesXML` requires `body` key'' ''`body` must be string'') (\<lambda>body.
     rbind (readCompareParams def) (\<lambda>params. newBodyMatchesXMLConstraint L body params))"

definition loadPathMatchesConstraint :: "libs \<Rightarrow> ymap \<Rightarrow> verifier gores" where
  "loadPathMatchesConstraint L def =
     rbind (optionalString def ''path'' ''`path` must be string'') (\<lambda>p.
     rbind (optionalNonEmpty def ''regexp'' ''`regexp` must be string'') (\<lambda>re. newPathConstraint L p re))"

definition loadQueryMatchesConstraint :: "ymap \<Rightarrow> verifier gores" where
  "loadQueryMatchesConstraint def =
     rbind (requireString def ''expectedQuery'' ''`queryMatches` requires `expectedQuery` key''
       ''`expectedQuery` must be string'') newQueryConstraint"

definition loadQueryMatchesRegexpConstraint :: "ymap \<Rightarrow> verifier gores" where
  "loadQueryMatchesRegexpConstraint def =
     rbind (requireString def ''expectedQuery'' ''`queryMatchesRegexp` requires `expectedQuery` key''
       ''`expectedQuery` must be string'') newQueryRegexpConstraint"

definition loadMethodIsConstraint :: "ymap \<Rightarrow> verifier gores" where
  "loadMethodIsConstraint def =
     rbind (requireString def ''method'' ''`methodIs` requires `method` key'' ''`method` must be string'')
       (\<lambda>m. if m = [] then Err (errNew ''`method` must be string'') else Ok (methodConstraint m))"

definition loadHeaderIsConstraint :: "libs \<Rightarrow> ymap \<Rightarrow> verifier gores" where
  "loadHeaderIsConstraint L def =
     rbind (requireString def ''header'' ''`headerIs` requires `header` key'' ''`header` must be string'') (\<lambda>header.
       if header = [] then Err (errNew ''`header` must be string'')
       else
         rbind (optionalString def ''value'' ''`value` must be string'') (\<lambda>val.
         rbind (optionalNonEmpty def ''regexp'' ''`regexp` must be string'') (\<lambda>re.
           newHeaderConstraint L header val re)))"

definition loadBodyMatchesTextConstraint :: "libs \<Rightarrow> ymap \<Rightarrow> verifier gores" where
  "loadBodyMatchesTextConstraint L def =
     rbind (optionalString def ''body'' ''`body` must be string'') (\<lambda>body.
     rbind (optionalString def ''regexp'' ''`regexp` must be string'') (\<lambda>re. newBodyMatchesTextConstraint L body re))"

text \<open>The constraint, and the keys the switch appends to \<open>ak\<close>.\<close>

definition loadConstraintOfKind :: "libs \<Rightarrow> string \<Rightarrow> ymap \<Rightarrow> verifier gores \<times> string list" where
  "loadConstraintOfKind L kind def =
     (if kind = ''nop'' then (Ok nopConstraint, [])
      else if kind = ''bodyMatchesJSON'' then (loadBodyMatchesJSONConstraint L def, [''body'', ''comparisonParams''])
      else if kind = ''bodyJSONFieldMatchesJSON'' then
        (loadBodyJSONFieldMatchesJSONConstraint L def, [''path'', ''value'', ''comparisonParams''])
      else if kind = ''queryMatches'' then (loadQueryMatchesConstraint def, [''expectedQuery''])
      else if kind = ''queryMatchesRegexp'' then (loadQueryMatchesRegexpConstraint def, [''expectedQuery''])
      else if kind = ''methodIsGET'' then (Ok (methodConstraint ''GET''), [])
      else if kind = ''methodIsPOST'' then (Ok (methodConstraint ''POST''), [])
      else if kind = ''methodIs'' then (loadMethodIsConstraint def, [''method''])
      else if kind = ''headerIs'' then (loadHeaderIsConstraint L def, [''header'', ''value'', ''regexp''])
      else if kind = ''bodyMatchesText'' then (loadBodyMatchesTextConstraint L def, [''body'', ''regexp''])
      else if kind = ''pathMatches'' then (loadPathMatchesConstraint L def, [''path'', ''regexp''])
      else if kind = ''bodyMatchesXML'' then (loadBodyMatchesXMLConstraint L def, [''body'', ''comparisonParams''])
      else (Err (EFmt ''unknown constraint: %s'' [ShStr kind]), []))"

definition loadConstraint :: "libs \<Rightarrow> yval \<Rightarrow> verifier gores" where
  "loadConstraint L def' =
     (case def' of
        YMap def \<Rightarrow>
          rbind (requireString def ''kind'' ''requires `kind` key'' ''`kind` must be string'') (\<lambda>kind.
            let (result, ak) = loadConstraintOfKind L kind def
            in rbind result (\<lambda>c. rbind (validateMapKeys def (''kind'' # ak)) (\<lambda>_. Ok c)))
      | _ \<Rightarrow> Err (errNew ''must be map''))"

text \<open>The constraints of a definition: an error names the position of the constraint.\<close>

definition loadConstraints :: "libs \<Rightarrow> string \<Rightarrow> ymap \<Rightarrow> verifier list gores" where
  "loadConstraints L p def =
     (case ylookup def ''requestConstraints'' of
        None \<Rightarrow> Ok []
      | Some (YArr (c # cs)) \<Rightarrow>
          mapM (\<lambda>(i, c). case loadConstraint L c of
                  Err e \<Rightarrow> Err (EFmt ''at path %s: unable to load constraint %d: %v'' [ShStr p, ShInt (int i + 1), ShErr e])
                | other \<Rightarrow> other)
            (enumerate 0 (c # cs))
      | Some _ \<Rightarrow> Err (EFmt ''at path %s: `requestConstraints` requires array'' [ShStr p]))"

section \<open>Reply strategies and definitions\<close>

fun headerPair :: "yval \<times> yval \<Rightarrow> (string \<times> string) gores" where
  "headerPair (YStr k, YStr v) = Ok (k, v)"
| "headerPair (YStr k, v) = Err (errNew ''`headers` requires string values'')"
| "headerPair (k, v) = Err (errNew ''`headers` requires string keys'')"

definition loadHeaders :: "ymap \<Rightarrow> (string, string) gomap gores" where
  "loadHeaders def =
     (case ylookup def ''headers'' of
        None \<Rightarrow> Ok []
      | Some (YMap hMap) \<Rightarrow> mapM headerPair hMap
      | Some _ \<Rightarrow> Err (errNew ''`headers` must be a map''))"

definition loadStatusCode :: "ymap \<Rightarrow> int gores" where
  "loadStatusCode def = (case ylookup def ''statusCode'' of None \<Rightarrow> Ok 200 | Some c \<Rightarrow> assertInt c)"

definition loadFileStrategy :: "libs \<Rightarrow> ymap \<Rightarrow> strategy gores" where
  "loadFileStrategy L def =
     rbind (requireString def ''filename'' ''`file` requires `filename` key'' ''`filename` must be string'') (\<lambda>filename.
     rbind (loadStatusCode def) (\<lambda>statusCode.
     rbind (loadHeaders def) (\<lambda>headers. NewFileReplyWithCode L filename statusCode headers)))"

definition loadConstantStrategy :: "ymap \<Rightarrow> strategy gores" where
  "loadConstantStrategy def =
     rbind (requireString def ''body'' ''`constant` requires `body` key'' ''`body` must be string'') (\<lambda>body.
     rbind (loadStatusCode def) (\<lambda>statusCode.
     rbind (loadHeaders def) (\<lambda>headers. Ok (NewConstantReplyWithCode body statusCode headers))))"

definition loadTemplateStrategy :: "libs \<Rightarrow> ymap \<Rightarrow> strategy gores" where
  "loadTemplateStrategy L def =
     rbind (requireString def ''body'' ''`template` requires `body` key'' ''`body` must be string'') (\<lambda>body.
     rbind (loadStatusCode def) (\<lambda>statusCode.
     rbind (loadHeaders def) (\<lambda>headers. newTemplateReply L body statusCode headers)))"

text \<open>The keys \<open>loadStrategy\<close> adds to the allowed ones.\<close>

definition strategyKeys :: "string \<Rightarrow> string list" where
  "strategyKeys name =
     (if name = ''uriVary'' \<or> name = ''basedOnRequest'' then [''basePath'', ''uris'']
      else if name = ''methodVary'' then [''methods'']
      else if name = ''file'' then [''filename'', ''statusCode'', ''headers'']
      else if name = ''constant'' \<or> name = ''template'' then [''body'', ''statusCode'', ''headers'']
      else if name = ''sequence'' then [''sequence'']
      else [])"

definition loadCalls :: "ymap \<Rightarrow> int" where
  "loadCalls def = (case ylookup def ''calls'' of Some (YInt n) \<Rightarrow> n | _ \<Rightarrow> CallsNoConstraint)"

function loadDefinition :: "libs \<Rightarrow> string \<Rightarrow> yval \<Rightarrow> mockDefinition gores"
  and loadStrategy :: "libs \<Rightarrow> string \<Rightarrow> string \<Rightarrow> ymap \<Rightarrow> strategy gores"
  and loadUriVaryStrategy :: "libs \<Rightarrow> string \<Rightarrow> ymap \<Rightarrow> strategy gores"
  and loadMethodVaryStrategy :: "libs \<Rightarrow> string \<Rightarrow> ymap \<Rightarrow> strategy gores"
  and loadSequenceStrategy :: "libs \<Rightarrow> string \<Rightarrow> ymap \<Rightarrow> strategy gores"
  and loadBasedOnRequestStrategy :: "libs \<Rightarrow> string \<Rightarrow> ymap \<Rightarrow> strategy gores"
where
  "loadDefinition L p rawDef =
     (case rawDef of
        YMap def \<Rightarrow>
          rbind (loadConstraints L p def) (\<lambda>requestConstraints.
            (case ylookup def ''strategy'' of
               Some (YStr strategyName) \<Rightarrow>
                 rbind (loadStrategy L (p @ ''.'' @ strategyName) strategyName def) (\<lambda>replyStrategy.
                 rbind (validateMapKeys def ([''requestConstraints'', ''strategy'', ''calls''] @ strategyKeys strategyName)) (\<lambda>_.
                   Ok (NewDefinition p requestConstraints (Some replyStrategy) (loadCalls def))))
             | _ \<Rightarrow> Err (EFmt ''at path %s: requires `strategy` key on root level'' [ShStr p])))
      | _ \<Rightarrow> Err (EFmt ''at path %s: Definition must be key-values'' [ShStr p]))"
| "loadStrategy L p strategyName def =
     (if strategyName = ''nop'' then Ok nopReply
      else if strategyName = ''uriVary'' then loadUriVaryStrategy L p def
      else if strategyName = ''methodVary'' then loadMethodVaryStrategy L p def
      else if strategyName = ''file'' then loadFileStrategy L def
      else if strategyName = ''constant'' then loadConstantStrategy def
      else if strategyName = ''template'' then loadTemplateStrategy L def
      else if strategyName = ''sequence'' then loadSequenceStrategy L p def
      else if strategyName = ''basedOnRequest'' then loadBasedOnRequestStrategy L p def
      else if strategyName = ''dropRequest'' then Ok dropRequestReply
      else Err (EFmt ''unknown strategy: %s'' [ShStr strategyName]))"
| "loadUriVaryStrategy L p def =
     rbind (case ylookup def ''basePath'' of None \<Rightarrow> Ok [] | Some b \<Rightarrow> assertString b) (\<lambda>basePath.
       (case ylookup def ''uris'' of
          None \<Rightarrow> Ok (NewUriVaryReply basePath [])
        | Some (YMap urisMap) \<Rightarrow>
            rbind (mapM (\<lambda>(k, v). rbind (assertString k) (\<lambda>uri.
                     rbind (loadDefinition L (p @ ''.'' @ uri) v) (\<lambda>d. Ok (uri, d)))) urisMap)
              (\<lambda>uris. Ok (NewUriVaryReply basePath uris))
        | Some _ \<Rightarrow> Err (errNew ''`uriVary` requires map under `uris` key'')))"
| "loadMethodVaryStrategy L p def =
     (case ylookup def ''methods'' of
        None \<Rightarrow> Ok (methodVaryReply [])
      | Some (YMap methodsMap) \<Rightarrow>
          rbind (mapM (\<lambda>(k, v). rbind (assertString k) (\<lambda>method.
                   rbind (loadDefinition L (p @ ''.'' @ method) v) (\<lambda>d. Ok (method, d)))) methodsMap)
            (\<lambda>methods. Ok (methodVaryReply methods))
      | Some _ \<Rightarrow> Err (errNew ''`methodVary` requires map under `methods` key''))"
| "loadSequenceStrategy L p def =
     (case ylookup def ''sequence'' of
        None \<Rightarrow> Err (errNew ''`sequence` requires `sequence` key'')
      | Some (YArr seqSlice) \<Rightarrow>
          rbind (mapM (\<lambda>(i, v). loadDefinition L (p @ ''.'' @ itoa (int i)) v) (enumerate 0 seqSlice))
            (\<lambda>strategies. Ok (sequentialReply 0 strategies))
      | Some _ \<Rightarrow> Err (errNew ''`sequence` must be a list''))"
| "loadBasedOnRequestStrategy L p def =
     (case ylookup def ''uris'' of
        None \<Rightarrow> Ok (basedOnRequestReply [])
      | Some (YArr urisList) \<Rightarrow>
          rbind (mapM (\<lambda>(i, v). case v of
                    YMap _ \<Rightarrow> loadDefinition L (p @ ''.'' @ itoa (int i)) v
                  | _ \<Rightarrow> Err (errNew ''`uris` list item must be a map'')) (enumerate 0 urisList))
            (\<lambda>uris. Ok (basedOnRequestReply uris))
      | Some _ \<Rightarrow> Err (errNew ''`basedOnRequest` requires list under `uris` key''))"
  by pat_completeness auto
termination
  by (relation "measure (case_sum (case_sum (\<lambda>(L, p, v). 3 * ysize v)
        (case_sum (\<lambda>(L, p, n, def). 3 * ysize (YMap def) - 1) (\<lambda>(L, p, def). 3 * ysize (YMap def) - 2)))
        (case_sum (\<lambda>(L, p, def). 3 * ysize (YMap def) - 2)
          (case_sum (\<lambda>(L, p, def). 3 * ysize (YMap def) - 2) (\<lambda>(L, p, def). 3 * ysize (YMap def) - 2))))")
     (auto dest!: ysize_enumerate_lookup ysize_entry_lookup)

declare loadDefinition.simps [simp del] loadStrategy.simps [simp del]
declare loadUriVaryStrategy.simps [simp del] loadMethodVaryStrategy.simps [simp del]
declare loadSequenceStrategy.simps [simp del] loadBasedOnRequestStrategy.simps [simp del]

text \<open>\<open>Loader.Load\<close>: services loaded before an error keep their new definition.\<close>

fun loadMocks :: "libs \<Rightarrow> (string \<times> yval) list \<Rightarrow> Mocks \<Rightarrow> Mocks \<times> unit gores" where
  "loadMocks L [] ms = (ms, Ok ())"
| "loadMocks L ((name, def) # defs) ms =
     (case Service ms name of
        None \<Rightarrow> (ms, Err (EFmt ''service mock not defined: %s'' [ShStr name]))
      | Some service \<Rightarrow>
          (case loadDefinition L ''$'' def of
             Err e \<Rightarrow> (ms, Err (EFmt ''unable to load Definition for %s: %v'' [ShStr name, ShErr e]))
           | Panic m \<Rightarrow> (ms, Panic m)
           | Ok d \<Rightarrow> loadMocks L defs (AList.update name (SetDefinition (Some d) service) ms)))"

section \<open>Loaded definitions\<close>

text \<open>The branch of \<open>loadStrategy\<close> for each dispatching strategy.\<close>

abbreviation loadVariants :: "libs \<Rightarrow> string \<Rightarrow> ymap \<Rightarrow> (string \<times> mockDefinition) list gores" where
  "loadVariants L p vs \<equiv> mapM (\<lambda>(k, v). rbind (assertString k) (\<lambda>key.
      rbind (loadDefinition L (p @ ''.'' @ key) v) (\<lambda>d. Ok (key, d)))) vs"

abbreviation loadItems :: "libs \<Rightarrow> string \<Rightarrow> yval list \<Rightarrow> mockDefinition list gores" where
  "loadItems L p vs \<equiv> mapM (\<lambda>(i, v). loadDefinition L (p @ ''.'' @ itoa (int i)) v) (enumerate 0 vs)"

lemma loadStrategy_uriVary:
  "loadStrategy L p ''uriVary'' def =
     rbind (case ylookup def ''basePath'' of None \<Rightarrow> Ok [] | Some b \<Rightarrow> assertString b) (\<lambda>basePath.
       (case ylookup def ''uris'' of
          None \<Rightarrow> Ok (NewUriVaryReply basePath [])
        | Some (YMap us) \<Rightarrow> rbind (loadVariants L p us) (\<lambda>vs. Ok (NewUriVaryReply basePath vs))
        | Some _ \<Rightarrow> Err (errNew ''`uriVary` requires map under `uris` key'')))"
  by (subst loadStrategy.simps) (simp add: loadUriVaryStrategy.simps)

lemma loadStrategy_methodVary:
  "loadStrategy L p ''methodVary'' def =
     (case ylookup def ''methods'' of
        None \<Rightarrow> Ok (methodVaryReply [])
      | Some (YMap us) \<Rightarrow> rbind (loadVariants L p us) (\<lambda>vs. Ok (methodVaryReply vs))
      | Some _ \<Rightarrow> Err (errNew ''`methodVary` requires map under `methods` key''))"
  by (subst loadStrategy.simps) (simp add: loadMethodVaryStrategy.simps)

lemma loadStrategy_sequence:
  "loadStrategy L p ''sequence'' def =
     (case ylookup def ''sequence'' of
        None \<Rightarrow> Err (errNew ''`sequence` requires `sequence` key'')
      | Some (YArr vs) \<Rightarrow> rbind (loadItems L p vs) (\<lambda>ds. Ok (sequentialReply 0 ds))
      | Some _ \<Rightarrow> Err (errNew ''`sequence` must be a list''))"
  by (subst loadStrategy.simps) (simp add: loadSequenceStrategy.simps)

lemma loadDefinition_map: "loadDefinition L p v = Ok d \<Longrightarrow> \<exists>def. v = YMap def"
  by (subst (asm) loadDefinition.simps) (auto split: yval.splits)

lemma loadStrategy_basedOnRequest:
  "loadStrategy L p ''basedOnRequest'' def =
     (case ylookup def ''uris'' of
        None \<Rightarrow> Ok (basedOnRequestReply [])
      | Some (YArr vs) \<Rightarrow>
          rbind (mapM (\<lambda>(i, v). case v of
                    YMap _ \<Rightarrow> loadDefinition L (p @ ''.'' @ itoa (int i)) v
                  | _ \<Rightarrow> Err (errNew ''`uris` list item must be a map'')) (enumerate 0 vs))
            (\<lambda>ds. Ok (basedOnRequestReply ds))
      | Some _ \<Rightarrow> Err (errNew ''`basedOnRequest` requires list under `uris` key''))"
  by (subst loadStrategy.simps) (simp add: loadBasedOnRequestStrategy.simps)

lemma newTemplateReply_Ok: "newTemplateReply L c code h = Ok s \<Longrightarrow> \<exists>t. s = templateReply t code h"
  by (auto simp: newTemplateReply_def split: res.splits)

lemma loadStrategy_other:
  assumes "loadStrategy L p n def = Ok s" "n \<notin> {''uriVary'', ''methodVary'', ''sequence'', ''basedOnRequest''}"
  shows "resetStrategy s = s"
  using assms
  by (auto simp: loadStrategy.simps [of L p n def] loadFileStrategy_def loadConstantStrategy_def loadTemplateStrategy_def
      NewFileReplyWithCode_def NewConstantReplyWithCode_def dest!: newTemplateReply_Ok split: if_splits)

lemma loadVariants_Ok:
  assumes "loadVariants L p us = Ok vs" and "(k, d) \<in> set vs"
  shows "\<exists>v. (YStr k, v) \<in> set us \<and> loadDefinition L (p @ ''.'' @ k) v = Ok d"
proof -
  from mapM_Ok_set [OF assms] obtain y v where "(y, v) \<in> set us" "assertString y = Ok k"
    "loadDefinition L (p @ ''.'' @ k) v = Ok d" by auto
  moreover from this(2) have "y = YStr k" by (cases y) auto
  ultimately show ?thesis by blast
qed

lemma loadItems_Ok:
  assumes "loadItems L p vs = Ok ds" and "d \<in> set ds"
  shows "\<exists>i v. (i, v) \<in> set (enumerate 0 vs) \<and> loadDefinition L (p @ ''.'' @ itoa (int i)) v = Ok d"
  using mapM_Ok_set [OF assms] by auto

lemma map_reset_id: "(\<And>d. d \<in> set ds \<Longrightarrow> ResetRunningContext d = d) \<Longrightarrow> map ResetRunningContext ds = ds"
  by (simp add: map_idI)

lemma map_reset_snd_id:
  "(\<And>k d. (k, d) \<in> set vs \<Longrightarrow> ResetRunningContext d = d) \<Longrightarrow> map (\<lambda>(k, d). (k, ResetRunningContext d)) vs = vs"
  by (rule map_idI) auto

lemma loadStrategy_fresh:
  assumes sub: "\<And>p v d. ysize v < ysize (YMap def) \<Longrightarrow> loadDefinition L p v = Ok d \<Longrightarrow> ResetRunningContext d = d"
    and load: "loadStrategy L p n def = Ok s"
  shows "resetStrategy s = s"
proof -
  have variants: "map (\<lambda>(k, d). (k, ResetRunningContext d)) vs = vs"
    if "loadVariants L p us = Ok vs" "ylookup def key = Some (YMap us)" for us vs key
    by (rule map_reset_snd_id) (meson loadVariants_Ok [OF that(1)] sub ysize_entry_lookup [OF that(2)])
  have items: "map ResetRunningContext ds = ds"
    if "mapM (\<lambda>(i, v). f i v) (enumerate 0 vs) = Ok ds" "ylookup def key = Some (YArr vs)"
      "\<And>i v d. f i v = Ok d \<Longrightarrow> loadDefinition L (p @ ''.'' @ itoa (int i)) v = Ok d" for f vs ds key
  proof (rule map_reset_id)
    fix d assume "d \<in> set ds"
    from mapM_Ok_set [OF that(1) this] obtain i v where "(i, v) \<in> set (enumerate 0 vs)" "f i v = Ok d" by auto
    then show "ResetRunningContext d = d" by (meson that(3) sub ysize_enumerate_lookup [OF that(2)])
  qed
  consider "n = ''uriVary''" | "n = ''methodVary''" | "n = ''sequence''" | "n = ''basedOnRequest''"
    | "n \<notin> {''uriVary'', ''methodVary'', ''sequence'', ''basedOnRequest''}" by blast
  then show ?thesis
  proof cases
    case 1
    with load have "loadStrategy L p ''uriVary'' def = Ok s" by (simp only:)
    then obtain b where "(case ylookup def ''uris'' of
          None \<Rightarrow> Ok (NewUriVaryReply b [])
        | Some (YMap us) \<Rightarrow> rbind (loadVariants L p us) (\<lambda>vs. Ok (NewUriVaryReply b vs))
        | Some _ \<Rightarrow> Err (errNew ''`uriVary` requires map under `uris` key'')) = Ok s"
      unfolding loadStrategy_uriVary rbind_eq_Ok by blast
    then show ?thesis by (auto simp: NewUriVaryReply_def variants split: option.splits yval.splits)
  next
    case 2
    with load show ?thesis by (auto simp: loadStrategy_methodVary variants split: option.splits yval.splits)
  next
    case 3
    with load show ?thesis by (auto simp: loadStrategy_sequence items split: option.splits yval.splits)
  next
    case 4
    let ?f = "\<lambda>i v. case v of YMap _ \<Rightarrow> loadDefinition L (p @ ''.'' @ itoa (int i)) v
                | _ \<Rightarrow> Err (errNew ''`uris` list item must be a map'')"
    have f: "?f i v = Ok d \<Longrightarrow> loadDefinition L (p @ ''.'' @ itoa (int i)) v = Ok d" for i v d
      by (simp split: yval.splits)
    from load 4 show ?thesis
      by (auto simp: loadStrategy_basedOnRequest items [of ?f, OF _ _ f] split: option.splits yval.split_asm)
  next
    case 5
    with load show ?thesis by (rule loadStrategy_other)
  qed
qed

text \<open>Inversion of a successful load.\<close>

lemma loadDefinition_OkE:
  assumes "loadDefinition L p v = Ok d"
  obtains def cs n s where "v = YMap def" "loadConstraints L p def = Ok cs" "ylookup def ''strategy'' = Some (YStr n)"
    "loadStrategy L (p @ ''.'' @ n) n def = Ok s"
    "validateMapKeys def ([''requestConstraints'', ''strategy'', ''calls''] @ strategyKeys n) = Ok ()"
    "d = NewDefinition p cs (Some s) (loadCalls def)"
proof -
  obtain def where v: "v = YMap def" using loadDefinition_map [OF assms] by blast
  note load = assms [unfolded v loadDefinition.simps [of L p "YMap def"] yval.case]
  obtain cs where cs: "loadConstraints L p def = Ok cs" using load by (cases "loadConstraints L p def") simp_all
  obtain n where n: "ylookup def ''strategy'' = Some (YStr n)"
    using load cs by (cases "ylookup def ''strategy''" rule: option.exhaust; cases "the (ylookup def ''strategy'')") simp_all
  obtain s where s: "loadStrategy L (p @ ''.'' @ n) n def = Ok s"
    using load cs n by (cases "loadStrategy L (p @ ''.'' @ n) n def") simp_all
  show thesis
    using load cs n s by (intro that [OF v cs n s]) simp_all
qed

lemma loadDefinition_fresh: "loadDefinition L p v = Ok d \<Longrightarrow> ResetRunningContext d = d"
proof (induction "ysize v" arbitrary: p v d rule: less_induct)
  case less
  from less.prems show ?case
  proof (rule loadDefinition_OkE)
    fix def cs n s
    assume d: "v = YMap def" "loadStrategy L (p @ ''.'' @ n) n def = Ok s" "d = NewDefinition p cs (Some s) (loadCalls def)"
    have "resetStrategy s = s" using less.hyps d(1) by (intro loadStrategy_fresh [OF _ d(2)]) auto
    with d show ?thesis by (simp add: NewDefinition_def)
  qed
qed

end
