(* ===== verification/MockLoaderSpec.thy ===== *)
theory MockLoaderSpec
  imports MockLoader
begin

text \<open>
  Correctness of the mock loader: what a successful load guarantees, what it rejects, and that
  the configuration language can express every tree of definitions: \<open>showDef\<close> writes a
  definition as the YAML a user would write, and loading it gives the definition back.
\<close>

section \<open>Rejected configurations\<close>

lemma validateMapKeys_Ok:
  "validateMapKeys m ak = Ok () \<longleftrightarrow> (\<forall>k \<in> set (map fst m). \<exists>s \<in> set ak. k = YStr s)"
proof (induction m)
  case (Cons kv m)
  obtain k v where kv: "kv = (k, v)" by (cases kv)
  show ?case using Cons by (cases k) (auto simp: kv)
qed simp

lemma subdefs_reset: 
  "x \<in> set (subdefs (ResetRunningContext d)) \<Longrightarrow> calls x = 0"
  "x \<in> set (strategyDefs (resetStrategy s)) \<Longrightarrow> calls x = 0"
  by (induction d and s rule: ResetRunningContext_resetStrategy.induct) (auto split: option.splits)

section \<open>Definitions as YAML\<close>

fun showConstraint :: "verifier \<Rightarrow> yval" where
  "showConstraint (methodConstraint m) = YMap [(YStr ''kind'', YStr ''methodIs''), (YStr ''method'', YStr m)]"
| "showConstraint (pathConstraint p rc) = YMap [(YStr ''kind'', YStr ''pathMatches''), (YStr ''path'', YStr p)]"
| "showConstraint (headerConstraint h v rc) =
     YMap [(YStr ''kind'', YStr ''headerIs''), (YStr ''header'', YStr h), (YStr ''value'', YStr v)]"
| "showConstraint c = YMap [(YStr ''kind'', YStr ''nop'')]"

text \<open>Constraints without patterns and decoded bodies.\<close>

fun plainConstraint :: "verifier \<Rightarrow> bool" where
  "plainConstraint nopConstraint \<longleftrightarrow> True"
| "plainConstraint (methodConstraint m) \<longleftrightarrow> m \<noteq> []"
| "plainConstraint (pathConstraint p rc) \<longleftrightarrow> rc = None"
| "plainConstraint (headerConstraint h v rc) \<longleftrightarrow> h \<noteq> [] \<and> rc = None"
| "plainConstraint c \<longleftrightarrow> False"

lemma loadConstraint_show: "plainConstraint c \<Longrightarrow> loadConstraint L (showConstraint c) = Ok c"
  by (cases c)
     (auto simp: loadConstraint_def loadConstraintOfKind_def requireString_def optionalString_def optionalNonEmpty_def
       loadMethodIsConstraint_def loadPathMatchesConstraint_def loadHeaderIsConstraint_def
       newPathConstraint_def newHeaderConstraint_def compileOptional_def)

fun strategyName :: "strategy \<Rightarrow> string" where
  "strategyName (constantReply _ _ _) = ''constant''"
| "strategyName dropRequestReply = ''dropRequest''"
| "strategyName (uriVaryReply _ _) = ''uriVary''"
| "strategyName (methodVaryReply _) = ''methodVary''"
| "strategyName (sequentialReply _ _) = ''sequence''"
| "strategyName (basedOnRequestReply _) = ''basedOnRequest''"
| "strategyName _ = ''nop''"

fun showDef :: "mockDefinition \<Rightarrow> yval"
  and showFields :: "strategy \<Rightarrow> ymap"
where
  "showDef (Definition p cs st sn n cc) =
     YMap ((YStr ''strategy'', YStr (case st of None \<Rightarrow> ''nop'' | Some s \<Rightarrow> strategyName s)) #
       (if cs = [] then [] else [(YStr ''requestConstraints'', YArr (map showConstraint cs))]) @
       (if cc = CallsNoConstraint then [] else [(YStr ''calls'', YInt cc)]) @
       (case st of None \<Rightarrow> [] | Some s \<Rightarrow> showFields s))"
| "showFields (constantReply body code headers) =
     [(YStr ''body'', YStr body), (YStr ''statusCode'', YInt code),
      (YStr ''headers'', YMap (map (\<lambda>(k, v). (YStr k, YStr v)) headers))]"
| "showFields (uriVaryReply b vs) =
     [(YStr ''basePath'', YStr b), (YStr ''uris'', YMap (map (\<lambda>(k, d). (YStr k, showDef d)) vs))]"
| "showFields (methodVaryReply vs) = [(YStr ''methods'', YMap (map (\<lambda>(k, d). (YStr k, showDef d)) vs))]"
| "showFields (sequentialReply c ds) = [(YStr ''sequence'', YArr (map showDef ds))]"
| "showFields (basedOnRequestReply ds) = [(YStr ''uris'', YArr (map showDef ds))]"
| "showFields _ = []"

text \<open>
  The trees the loader builds at path \<open>p\<close>: fresh, with the paths of the sub-definitions, plain
  constraints, and every strategy but templates (whose text is not kept).
\<close>

fun loadable :: "string \<Rightarrow> mockDefinition \<Rightarrow> bool"
  and loadableStrategy :: "string \<Rightarrow> strategy \<Rightarrow> bool"
  and loadableItems :: "string \<Rightarrow> nat \<Rightarrow> mockDefinition list \<Rightarrow> bool"
where
  "loadable p (Definition p' cs st sn n cc) \<longleftrightarrow>
     p' = p \<and> list_all plainConstraint cs \<and> sn = [] \<and> n = 0 \<and>
     (case st of None \<Rightarrow> False | Some s \<Rightarrow> loadableStrategy (p @ ''.'' @ strategyName s) s)"
| "loadableStrategy p (uriVaryReply b vs) \<longleftrightarrow>
     b = trimRight (CHR ''/'') b @ ''/'' \<and> (\<forall>(k, d) \<in> set vs. loadable (p @ ''.'' @ k) d)"
| "loadableStrategy p (methodVaryReply vs) \<longleftrightarrow> (\<forall>(k, d) \<in> set vs. loadable (p @ ''.'' @ k) d)"
| "loadableStrategy p (sequentialReply c ds) \<longleftrightarrow> c = 0 \<and> loadableItems p 0 ds"
| "loadableStrategy p (basedOnRequestReply ds) \<longleftrightarrow> loadableItems p 0 ds"
| "loadableStrategy p (templateReply t c h) \<longleftrightarrow> False"
| "loadableStrategy p failReply \<longleftrightarrow> False"
| "loadableStrategy p _ \<longleftrightarrow> True"
| "loadableItems p i [] \<longleftrightarrow> True"
| "loadableItems p i (d # ds) \<longleftrightarrow> loadable (p @ ''.'' @ itoa (int i)) d \<and> loadableItems p (Suc i) ds"

text \<open>The entries every definition may have, before those of its strategy.\<close>

definition commonKeys :: "ymap \<Rightarrow> bool" where
  "commonKeys pre \<longleftrightarrow> (\<forall>k \<in> set (map fst pre). k \<in> {YStr ''strategy'', YStr ''requestConstraints'', YStr ''calls''})"

lemma commonKeys_lookup:
  assumes "commonKeys pre" and "key \<notin> {''strategy'', ''requestConstraints'', ''calls''}"
  shows "(f ++ map_of pre) (YStr key) = f (YStr key)"
proof -
  have "ylookup pre key = None"
    using assms unfolding commonKeys_def map_of_eq_None_iff by auto
  then show ?thesis by (simp add: map_add_def)
qed

lemma loadVariants_show:
  assumes "\<forall>(k, d) \<in> set vs. loadDefinition L (p @ ''.'' @ k) (showDef d) = Ok d"
  shows "loadVariants L p (map (\<lambda>(k, d). (YStr k, showDef d)) vs) = Ok vs"
  using assms by (induction vs) auto

lemma showDef_YMap: "\<exists>m. showDef d = YMap m"
  by (cases d) simp

lemma loadItems_show:
  "mapM (\<lambda>(i, v). case v of
      YMap _ \<Rightarrow> loadDefinition L (p @ ''.'' @ itoa (int i)) v
    | _ \<Rightarrow> Err (errNew ''`uris` list item must be a map'')) (enumerate n (map showDef ds))
   = mapM (\<lambda>(i, v). loadDefinition L (p @ ''.'' @ itoa (int i)) v) (enumerate n (map showDef ds))"
proof (induction ds arbitrary: n)
  case (Cons d ds)
  obtain m where "showDef d = YMap m" using showDef_YMap by blast
  with Cons show ?case by simp
qed simp

lemma loadHeaders_show:
  "ylookup def ''headers'' = Some (YMap (map (\<lambda>(k, v). (YStr k, YStr v)) hs)) \<Longrightarrow> loadHeaders def = Ok hs"
proof -
  have "mapM headerPair (map (\<lambda>(k, v). (YStr k, YStr v)) hs) = Ok hs" by (induction hs) auto
  then show "ylookup def ''headers'' = Some (YMap (map (\<lambda>(k, v). (YStr k, YStr v)) hs)) \<Longrightarrow> loadHeaders def = Ok hs"
    by (simp add: loadHeaders_def)
qed

lemma loadConstant_show:
  assumes "commonKeys pre"
  shows "loadStrategy L p ''constant'' (pre @ showFields (constantReply body code hs)) = Ok (constantReply body code hs)"
proof -
  let ?def = "pre @ showFields (constantReply body code hs)"
  note look = commonKeys_lookup [OF assms]
  have "loadHeaders ?def = Ok hs" by (rule loadHeaders_show) (simp add: look)
  moreover have "loadStrategy L p ''constant'' ?def = loadConstantStrategy ?def"
    by (subst loadStrategy.simps) simp
  ultimately show ?thesis
    by (simp add: look loadConstantStrategy_def requireString_def loadStatusCode_def NewConstantReplyWithCode_def)
qed

lemma loadStrategy_show:
  assumes pre: "commonKeys pre" and s: "loadableStrategy p s"
    and variants: "\<And>vs b. s = uriVaryReply b vs \<or> s = methodVaryReply vs \<Longrightarrow>
        \<forall>(k, d) \<in> set vs. loadDefinition L (p @ ''.'' @ k) (showDef d) = Ok d"
    and items: "\<And>ds c. s = sequentialReply c ds \<or> s = basedOnRequestReply ds \<Longrightarrow>
        mapM (\<lambda>(i, v). loadDefinition L (p @ ''.'' @ itoa (int i)) v) (enumerate 0 (map showDef ds)) = Ok ds"
  shows "loadStrategy L p (strategyName s) (pre @ showFields s) = Ok s"
proof (cases s)
  case (constantReply body code hs)
  then show ?thesis using loadConstant_show [OF pre] by simp
next
  case (uriVaryReply b vs)
  then show ?thesis
    using loadVariants_show [OF variants] s
    by (simp add: loadStrategy_uriVary commonKeys_lookup [OF pre] NewUriVaryReply_def)
next
  case (methodVaryReply vs)
  then show ?thesis
    using loadVariants_show [OF variants] by (simp add: loadStrategy_methodVary commonKeys_lookup [OF pre])
next
  case (sequentialReply c ds)
  then show ?thesis using items s by (simp add: loadStrategy_sequence commonKeys_lookup [OF pre])
next
  case (basedOnRequestReply ds)
  then show ?thesis using items by (simp add: loadStrategy_basedOnRequest commonKeys_lookup [OF pre] loadItems_show)
next
  case dropRequestReply
  then show ?thesis by (subst loadStrategy.simps) simp
next
  case nopReply
  then show ?thesis by (subst loadStrategy.simps) simp
qed (use s in simp_all)

lemma loadConstraints_show:
  assumes "list_all plainConstraint cs" and "ylookup def ''requestConstraints'' =
      (if cs = [] then None else Some (YArr (map showConstraint cs)))"
  shows "loadConstraints L p def = Ok cs"
proof -
  have "mapM (\<lambda>(i, c). case loadConstraint L c of
                  Err e \<Rightarrow> Err (EFmt ''at path %s: unable to load constraint %d: %v'' [ShStr p, ShInt (int i + 1), ShErr e])
                | other \<Rightarrow> other) (enumerate n (map showConstraint cs)) = Ok cs" for n
    using assms(1) by (induction cs arbitrary: n) (simp_all add: loadConstraint_show)
  from this [of 0] assms(2) show ?thesis
    by (cases cs) (simp_all add: loadConstraints_def)
qed

lemma showFields_keys:
  "loadableStrategy p s \<Longrightarrow> k \<in> set (map fst (showFields s)) \<Longrightarrow> \<exists>key \<in> set (strategyKeys (strategyName s)). k = YStr key"
  by (cases s) (auto simp: strategyKeys_def)

lemma showFields_common:
  "key \<in> {''strategy'', ''requestConstraints'', ''calls''} \<Longrightarrow> ylookup (showFields s) key = None"
  by (cases s) auto

lemma loadDefinition_show_step:
  assumes cs: "list_all plainConstraint cs" and s: "loadableStrategy (p @ ''.'' @ strategyName s) s"
    and load: "\<And>pre. commonKeys pre \<Longrightarrow> loadStrategy L (p @ ''.'' @ strategyName s) (strategyName s) (pre @ showFields s) = Ok s"
  shows "loadDefinition L p (showDef (Definition p cs (Some s) [] 0 cc)) = Ok (Definition p cs (Some s) [] 0 cc)"
proof -
  define pre where "pre = (YStr ''strategy'', YStr (strategyName s)) #
       (if cs = [] then [] else [(YStr ''requestConstraints'', YArr (map showConstraint cs))]) @
       (if cc = CallsNoConstraint then [] else [(YStr ''calls'', YInt cc)])"
  have shown: "showDef (Definition p cs (Some s) [] 0 cc) = YMap (pre @ showFields s)"
    by (simp add: pre_def)
  have common: "commonKeys pre" by (simp add: commonKeys_def pre_def)
  have constraints: "loadConstraints L p (pre @ showFields s) = Ok cs"
    by (rule loadConstraints_show [OF cs]) (simp add: pre_def map_add_def showFields_common split: option.splits)
  have name: "ylookup (pre @ showFields s) ''strategy'' = Some (YStr (strategyName s))"
    by (simp add: pre_def)
  have calls: "loadCalls (pre @ showFields s) = cc"
    by (simp add: loadCalls_def pre_def map_add_def showFields_common split: option.splits)
  have keys: "validateMapKeys (pre @ showFields s) ([''requestConstraints'', ''strategy'', ''calls''] @ strategyKeys (strategyName s)) = Ok ()"
    unfolding validateMapKeys_Ok using common showFields_keys [OF s] by (auto simp: commonKeys_def)
  show ?thesis
    unfolding shown loadDefinition.simps yval.case constraints rbind.simps name option.case load [OF common] keys calls
    by (simp add: NewDefinition_def)
qed

lemma loadDefinition_show:
  "loadable p d \<Longrightarrow> loadDefinition L p (showDef d) = Ok d"
  "loadableStrategy p s \<Longrightarrow> commonKeys pre \<Longrightarrow> loadStrategy L p (strategyName s) (pre @ showFields s) = Ok s"
  "loadableItems p i ds \<Longrightarrow>
     mapM (\<lambda>(i, v). loadDefinition L (p @ ''.'' @ itoa (int i)) v) (enumerate i (map showDef ds)) = Ok ds"
proof (induction p d and p s and p i ds arbitrary: and pre and rule: loadable_loadableStrategy_loadableItems.induct)
  case (1 p p' cs st sn n cc)
  then obtain s where st: "st = Some s" by (auto split: option.splits)
  with 1 have *: "p' = p" "sn = []" "n = 0" "list_all plainConstraint cs" "loadableStrategy (p @ ''.'' @ strategyName s) s"
    by simp_all
  show ?case
    unfolding st * using "1.IH" [OF st *(5)] by (intro loadDefinition_show_step *(4,5)) simp
next
  case (2 p b vs)
  show ?case
    by (rule loadStrategy_show [OF 2(3,2)]) (use 2 in auto)
next
  case (3 p vs)
  show ?case
    by (rule loadStrategy_show [OF 3(3,2)]) (use 3 in auto)
next
  case (4 p c ds)
  show ?case by (rule loadStrategy_show [OF 4(3,2)]) (use 4 in auto)
next
  case (5 p ds)
  show ?case by (rule loadStrategy_show [OF 5(3,2)]) (use 5 in auto)
qed (auto intro!: loadStrategy_show simp del: showFields.simps strategyName.simps)

section \<open>Loading into the services\<close>

lemma loadMocks_effect:
  assumes "loadMocks L defs ms = (ms', Ok ())" and "gomap_wf defs"
  shows "case map_of defs name of
      None \<Rightarrow> Service ms' name = Service ms name
    | Some y \<Rightarrow> \<exists>d service. loadDefinition L ''$'' y = Ok d \<and> Service ms name = Some service
        \<and> Service ms' name = Some (SetDefinition (Some d) service)"
  using assms
proof (induction L defs ms rule: loadMocks.induct)
  case (2 L n def defs ms)
  obtain service where sv: "Service ms n = Some service" using "2.prems"(1) by (cases "Service ms n") simp_all
  obtain d where d: "loadDefinition L ''$'' def = Ok d"
    using "2.prems"(1) sv by (cases "loadDefinition L ''$'' def") simp_all
  let ?ms = "AList.update n (SetDefinition (Some d) service) ms"
  have wf: "gomap_wf defs" and new: "map_of defs n = None"
    using "2.prems"(2) by (auto simp: gomap_wf_def map_of_eq_None_iff)
  have "loadMocks L defs ?ms = (ms', Ok ())" using "2.prems"(1) sv d by simp
  from "2.IH" [OF sv d this wf] show ?case
    using new sv d by (cases "name = n") (auto simp: Service_def split: option.splits)
qed simp

section \<open>Properties\<close>

text \<open>
  A loaded definition is ready for a test: it is exactly as a reset would leave it (every
  call counter of the tree is zero, every sequence at its start), so loading after the reset, as
  the runner does, loses nothing; and it carries the path it was loaded from.
\<close>

theorem loaded_definition_ready:
  assumes "loadDefinition L p v = Ok d"
  shows "ResetRunningContext d = d \<and> (\<forall>x \<in> set (subdefs d). calls x = 0) \<and> path d = p"
proof -
  have "ResetRunningContext d = d" using assms by (rule loadDefinition_fresh)
  moreover from this subdefs_reset(1) [of _ d] have "\<forall>x \<in> set (subdefs d). calls x = 0" by simp
  moreover from assms have "path d = p" by (rule loadDefinition_OkE) (simp add: NewDefinition_def)
  ultimately show ?thesis by blast
qed

theorem loaded_definition_ready_witness:
  "ResetRunningContext (NewDefinition ''$'' [] (Some (sequentialReply 0 [])) 3) =
     NewDefinition ''$'' [] (Some (sequentialReply 0 [])) 3"
proof -
  have "loadable ''$'' (NewDefinition ''$'' [] (Some (sequentialReply 0 [])) 3)" by code_simp
  from loaded_definition_ready [OF loadDefinition_show(1) [OF this, of exampleLibs]] show ?thesis by blast
qed

text \<open>
  The loader accepts no key it does not know: in a definition that loads, every key is a
  string, and one of \<open>requestConstraints\<close>, \<open>strategy\<close>, \<open>calls\<close> and the keys of its strategy.
\<close>

theorem loadDefinition_known_keys:
  assumes "loadDefinition L p (YMap def) = Ok d"
  shows "\<exists>n. ylookup def ''strategy'' = Some (YStr n) \<and>
    set (map fst def) \<subseteq> YStr ` set ([''requestConstraints'', ''strategy'', ''calls''] @ strategyKeys n)"
  using assms by (rule loadDefinition_OkE) (auto simp: validateMapKeys_Ok)

theorem loadDefinition_known_keys_witness:
  "\<exists>n. ylookup [(YStr ''strategy'', YStr ''nop''), (YStr ''calls'', YInt 1)] ''strategy'' = Some (YStr n)"
proof -
  have l: "loadable ''$'' (NewDefinition ''$'' [] (Some nopReply) 1)" by code_simp
  have s: "showDef (NewDefinition ''$'' [] (Some nopReply) 1) = YMap [(YStr ''strategy'', YStr ''nop''), (YStr ''calls'', YInt 1)]"
    by (simp add: NewDefinition_def CallsNoConstraint_def)
  from loadDefinition_known_keys [OF loadDefinition_show(1) [OF l, of exampleLibs, unfolded s]] show ?thesis by blast
qed

text \<open>
  C19. Round trip: every fresh tree of definitions with method, path, header and nop constraints
  and any nesting of the constant, nop, drop, URI, method, sequence and request-based
  strategies is loaded exactly from its YAML form.
\<close>

theorem loadDefinition_roundtrip:
  assumes "loadable p d"
  shows "loadDefinition L p (showDef d) = Ok d"
  using assms by (rule loadDefinition_show)

theorem loadDefinition_roundtrip_witness:
  "loadDefinition exampleLibs ''$''
     (showDef (NewDefinition ''$'' [methodConstraint ''GET'']
       (Some (sequentialReply 0 [NewDefinition ''$.sequence.0'' [] (Some nopReply) 1])) 2)) =
   Ok (NewDefinition ''$'' [methodConstraint ''GET'']
       (Some (sequentialReply 0 [NewDefinition ''$.sequence.0'' [] (Some nopReply) 1])) 2)"
  by (rule loadDefinition_roundtrip) code_simp

text \<open>
  Loading the mocks of a test changes exactly the services the test names: each of them gets
  its loaded definition, and every other service keeps the one it had.
\<close>

theorem loadMocks_frame:
  assumes "loadMocks L defs ms = (ms', Ok ())" and "gomap_wf defs"
  shows "case map_of defs name of
      None \<Rightarrow> Service ms' name = Service ms name
    | Some y \<Rightarrow> \<exists>d service. loadDefinition L ''$'' y = Ok d \<and> Service ms name = Some service
        \<and> Service ms' name = Some (SetDefinition (Some d) service)"
  using assms by (rule loadMocks_effect)

theorem loadMocks_frame_witness:
  "Service (fst (loadMocks exampleLibs [(''a'', YMap [(YStr ''strategy'', YStr ''nop'')])] (NewNop [''a'', ''b'']))) ''b''
     = Service (NewNop [''a'', ''b'']) ''b''"
proof -
  let ?defs = "[(''a'', YMap [(YStr ''strategy'', YStr ''nop'')])]"
  have s: "showDef (NewDefinition ''$'' [] (Some nopReply) CallsNoConstraint) = YMap [(YStr ''strategy'', YStr ''nop'')]"
    by (simp add: NewDefinition_def)
  have "loadable ''$'' (NewDefinition ''$'' [] (Some nopReply) CallsNoConstraint)" by code_simp
  from loadDefinition_show(1) [OF this, of exampleLibs, unfolded s]
  have l: "loadMocks exampleLibs ?defs (NewNop [''a'', ''b'']) =
      (fst (loadMocks exampleLibs ?defs (NewNop [''a'', ''b''])), Ok ())"
    by (simp add: Service_def NewNop_def)
  have "gomap_wf ?defs" by (simp add: gomap_wf_def)
  from loadMocks_frame [OF l this, of "''b''"] show ?thesis by simp
qed

text \<open>
  A status code that is not a YAML integer is not reported as a configuration error: the type
  assertion in the loader panics.
\<close>

theorem loadDefinition_statusCode_panics:
  assumes "\<forall>i. code \<noteq> YInt i"
  shows "\<exists>m. loadDefinition L p (YMap [(YStr ''strategy'', YStr ''constant''), (YStr ''body'', YStr b), (YStr ''statusCode'', code)])
    = Panic m"
proof -
  let ?def = "[(YStr ''strategy'', YStr ''constant''), (YStr ''body'', YStr b), (YStr ''statusCode'', code)]"
  obtain m where "assertInt code = Panic m" using assms by (cases code) auto
  then have "loadConstantStrategy ?def = Panic m"
    by (simp add: loadConstantStrategy_def requireString_def loadStatusCode_def)
  then have "loadStrategy L (p @ ''.constant'') ''constant'' ?def = Panic m"
    by (subst loadStrategy.simps) simp
  then show ?thesis by (subst loadDefinition.simps) (simp add: loadConstraints_def)
qed

theorem loadDefinition_statusCode_panics_witness:
  "\<exists>m. loadDefinition exampleLibs ''$''
     (YMap [(YStr ''strategy'', YStr ''constant''), (YStr ''body'', YStr []), (YStr ''statusCode'', YStr ''200'')]) = Panic m"
  by (rule loadDefinition_statusCode_panics) simp

end
