(* ===== verification/GrpcMock.thy ===== *)
theory GrpcMock
  imports Models RunningContext
begin

text \<open>
  Model of \<open>mocks/grpc/\<close>: the gRPC mock server (\<open>mock.go\<close>, \<open>definition.go\<close>, the handler of
  \<open>server.go\<close>), the registry (\<open>registry.go\<close>) and the loader of the \<open>grpcMocks\<close> section
  (\<open>loader.go\<close>).

  A status code is a \<open>uint32\<close>. What the gRPC library delivers for one call is a \<open>grpcCall\<close>: the
  method name, the received payload and the outcome of sending the reply. The conversions of JSON
  to protobuf bytes, by the descriptors of the input and of the output type of a method, are
  parameters of the registry (\<open>descriptors\<close>), as is the conversion of a float to an \<open>int\<close>.
  The mutex makes recording and checking a request one step.
\<close>

type_synonym code = "32 word"

record GrpcDefinition =
  gd_Service :: string
  gd_Method :: string
  gd_ExpectedRequest :: "string option"
  gd_Response :: "string option"
  gd_ResponseStatus :: code
  gd_Metadata :: "(string, string) gomap"

record RecordedRequest =
  rr_Method :: string
  rr_Payload :: string

record GrpcMock =
  gm_listener :: "string option"
  gm_definitions :: "(string, GrpcDefinition) gomap"
  gm_requests :: "RecordedRequest list"
  gm_errors :: "goerror list"

definition newGrpcMock :: GrpcMock where
  "newGrpcMock = \<lparr>gm_listener = None, gm_definitions = [], gm_requests = [], gm_errors = []\<rparr>"

definition grpcStartServer :: "string gores \<Rightarrow> GrpcMock \<Rightarrow> GrpcMock \<times> unit gores" where
  "grpcStartServer listen m =
     (case listen of
        Ok addr \<Rightarrow> (m\<lparr>gm_listener := Some addr\<rparr>, Ok ())
      | Err e \<Rightarrow> (m, Err e)
      | Panic p \<Rightarrow> (m, Panic p))"

definition grpcAddr :: "GrpcMock \<Rightarrow> string" where
  "grpcAddr m = (case gm_listener m of None \<Rightarrow> [] | Some a \<Rightarrow> a)"

definition grpcResetDefinitions :: "GrpcMock \<Rightarrow> GrpcMock" where
  "grpcResetDefinitions m = m\<lparr>gm_definitions := [], gm_requests := [], gm_errors := []\<rparr>"

definition methodKey :: "string \<Rightarrow> string \<Rightarrow> string" where
  "methodKey service method = ''/'' @ service @ ''/'' @ method"

definition grpcSetDefinition :: "GrpcDefinition \<Rightarrow> GrpcMock \<Rightarrow> GrpcMock" where
  "grpcSetDefinition def m =
     m\<lparr>gm_definitions := AList.update (methodKey (gd_Service def) (gd_Method def)) def (gm_definitions m)\<rparr>"

definition GetRecordedRequests :: "GrpcMock \<Rightarrow> RecordedRequest list" where
  "GetRecordedRequests m = gm_requests m"

definition grpcEndRunningContext :: "GrpcMock \<Rightarrow> goerror list" where
  "grpcEndRunningContext m = gm_errors m"

section \<open>Serving a call\<close>

record grpcCall =
  gc_method :: "string option"
  gc_payload :: "string gores"
  gc_send :: "unit gores"

text \<open>What the client sees: trailing metadata, the response frame, the status with its message.\<close>

record grpcReply =
  gr_trailer :: "(string, string) gomap"
  gr_sent :: "string option"
  gr_status :: "code \<times> string \<times> shown list"

definition failedReply :: "code \<Rightarrow> string \<Rightarrow> shown list \<Rightarrow> grpcReply" where
  "failedReply c msg args = \<lparr>gr_trailer = [], gr_sent = None, gr_status = (c, msg, args)\<rparr>"

definition recordRequest :: "string \<Rightarrow> string \<Rightarrow> GrpcDefinition \<Rightarrow> GrpcMock \<Rightarrow> GrpcMock" where
  "recordRequest method payload def m =
     (let m1 = m\<lparr>gm_requests := gm_requests m @ [\<lparr>rr_Method = method, rr_Payload = payload\<rparr>]\<rparr>
      in case gd_ExpectedRequest def of
           Some want \<Rightarrow>
             (if payload \<noteq> want
              then m1\<lparr>gm_errors := gm_errors m1 @
                     [EFmt ''grpcmock: method %s: request mismatch want: %x got: %x'' [ShStr method, ShStr want, ShStr payload]]\<rparr>
              else m1)
         | None \<Rightarrow> m1)"

definition replyFor :: "GrpcDefinition \<Rightarrow> unit gores \<Rightarrow> grpcReply" where
  "replyFor def sent =
     (if gd_ResponseStatus def \<noteq> 0 then \<lparr>gr_trailer = gd_Metadata def, gr_sent = None, gr_status = (gd_ResponseStatus def, [], [])\<rparr>
      else case sent of
          Err e \<Rightarrow> \<lparr>gr_trailer = gd_Metadata def, gr_sent = None, gr_status = (13, ''grpcmock: send error: %v'', [ShErr e])\<rparr>
        | _ \<Rightarrow> \<lparr>gr_trailer = gd_Metadata def,
               gr_sent = Some (case gd_Response def of None \<Rightarrow> [] | Some r \<Rightarrow> r), gr_status = (0, [], [])\<rparr>)"

definition unknownServiceHandler :: "grpcCall \<Rightarrow> GrpcMock \<Rightarrow> GrpcMock \<times> grpcReply" where
  "unknownServiceHandler call m =
     (case gc_method call of
        None \<Rightarrow> (m, failedReply 13 ''grpcmock: cannot determine method name'' [])
      | Some method \<Rightarrow>
          (case map_of (gm_definitions m) method of
             None \<Rightarrow> (m, failedReply 12 ''grpcmock: no mock definition for %s'' [ShStr method])
           | Some def \<Rightarrow>
               (case gc_payload call of
                  Ok payload \<Rightarrow> (recordRequest method payload def m, replyFor def (gc_send call))
                | Err e \<Rightarrow> (m, failedReply 13 ''grpcmock: recv error: %v'' [ShErr e])
                | Panic p \<Rightarrow> (m, failedReply 13 p []))))"

section \<open>Registry and loader\<close>

text \<open>
  \<open>jsonToProtoInputBytes\<close> and \<open>jsonToProtoBytes\<close>, given the descriptor source. The bytes they return
  are a slice that may be nil, which the library may give for a message without fields.
\<close>

record descriptors =
  jsonToProtoInputBytes :: "string \<Rightarrow> string \<Rightarrow> string \<Rightarrow> string option gores"
  jsonToProtoBytes :: "string \<Rightarrow> string \<Rightarrow> string \<Rightarrow> string option gores"

record GrpcMocks =
  gs_mocks :: "(string, GrpcMock) gomap"
  gs_source :: "descriptors option"

definition grpcAdd :: "string \<Rightarrow> GrpcMock \<Rightarrow> GrpcMocks \<Rightarrow> GrpcMocks" where
  "grpcAdd name mock g = g\<lparr>gs_mocks := AList.update name mock (gs_mocks g)\<rparr>"

definition grpcGet :: "GrpcMocks \<Rightarrow> string \<Rightarrow> GrpcMock option" where
  "grpcGet g name = map_of (gs_mocks g) name"

definition grpcGetNames :: "GrpcMocks \<Rightarrow> string list" where
  "grpcGetNames g = gokeys (gs_mocks g)"

definition ResetAll :: "GrpcMocks \<Rightarrow> GrpcMocks" where
  "ResetAll g = g\<lparr>gs_mocks := map (\<lambda>(n, m). (n, grpcResetDefinitions m)) (gs_mocks g)\<rparr>"

text \<open>A mapping with string keys only.\<close>

fun stringKeys :: "(yval \<times> yval) list \<Rightarrow> (string, yval) gomap option" where
  "stringKeys [] = Some []"
| "stringKeys ((k, v) # kvs) =
     (case k of YStr s \<Rightarrow> map_option (\<lambda>m. (s, v) # m) (stringKeys kvs) | _ \<Rightarrow> None)"

fun toStringMap :: "yval \<Rightarrow> (string, yval) gomap option" where
  "toStringMap (YMap kvs) = stringKeys kvs"
| "toStringMap _ = None"

text \<open>\<open>s, _ := defMap[key].(string)\<close>\<close>

definition stringField :: "(string, yval) gomap \<Rightarrow> string \<Rightarrow> string" where
  "stringField m key = (case map_of m key of Some (YStr s) \<Rightarrow> s | _ \<Rightarrow> [])"

definition loadStatus :: "(float64 \<Rightarrow> int) \<Rightarrow> (string, yval) gomap \<Rightarrow> code" where
  "loadStatus f2i m =
     (case map_of m ''responseStatus'' of
        Some (YInt i) \<Rightarrow> word_of_int i
      | Some (YFloat f) \<Rightarrow> word_of_int (f2i f)
      | _ \<Rightarrow> 0)"

text \<open>A JSON body converted by the descriptor source, if it is given and not empty.\<close>

definition convertBody ::
  "GrpcMocks \<Rightarrow> (descriptors \<Rightarrow> string \<Rightarrow> string \<Rightarrow> string \<Rightarrow> string option gores) \<Rightarrow> string \<Rightarrow> string \<Rightarrow> string \<Rightarrow> string
     \<Rightarrow> string \<Rightarrow> string \<Rightarrow> string option gores" where
  "convertBody g conv name service method body missing failed =
     (if body = [] then Ok None
      else case gs_source g of
          None \<Rightarrow> Err (EFmt missing [ShStr name])
        | Some ds \<Rightarrow>
            (case conv ds service method body of
               Ok b \<Rightarrow> Ok b
             | Err e \<Rightarrow> Err (EWrap failed [ShStr name] e)
             | Panic p \<Rightarrow> Panic p))"

definition loadMetadata :: "(string, yval) gomap \<Rightarrow> (string, string) gomap" where
  "loadMetadata m =
     (case map_of m ''metadata'' of
        Some raw \<Rightarrow>
          (case toStringMap raw of
             Some kvs \<Rightarrow> concat (map (\<lambda>(k, v). case v of YStr s \<Rightarrow> [(k, s)] | _ \<Rightarrow> []) kvs)
           | None \<Rightarrow> [])
      | None \<Rightarrow> [])"

definition grpcDefinitionOf :: "(float64 \<Rightarrow> int) \<Rightarrow> GrpcMocks \<Rightarrow> string \<Rightarrow> (string, yval) gomap \<Rightarrow> GrpcDefinition gores" where
  "grpcDefinitionOf f2i g name m =
     (let service = stringField m ''service''; method = stringField m ''method''
      in rbind (convertBody g jsonToProtoBytes name service method (stringField m ''responseBody'')
             ''grpc mock %q: responseBody requires a DescriptorSource (pass protoset or reflection source to NewGrpcMocks)''
             ''grpc mock %q: convert responseBody'') (\<lambda>responseBytes.
         rbind (convertBody g jsonToProtoInputBytes name service method (stringField m ''expectedRequest'')
             ''grpc mock %q: expectedRequest requires a DescriptorSource'' ''grpc mock %q: convert expectedRequest'') (\<lambda>expectedBytes.
           Ok \<lparr>gd_Service = service, gd_Method = method, gd_ExpectedRequest = expectedBytes,
               gd_Response = responseBytes, gd_ResponseStatus = loadStatus f2i m, gd_Metadata = loadMetadata m\<rparr>)))"

fun grpcLoad :: "(float64 \<Rightarrow> int) \<Rightarrow> (string \<times> yval) list \<Rightarrow> GrpcMocks \<Rightarrow> GrpcMocks \<times> unit gores" where
  "grpcLoad f2i [] g = (g, Ok ())"
| "grpcLoad f2i ((name, rawDef) # defs) g =
     (case toStringMap rawDef of
        None \<Rightarrow> (g, Err (EFmt ''grpc mock %q: expected map, got %T'' [ShStr name, ShYaml rawDef]))
      | Some m \<Rightarrow>
          (case grpcGet g name of
             None \<Rightarrow> (g, Err (EFmt ''grpc mock %q: not registered in GrpcMocks registry'' [ShStr name]))
           | Some mock \<Rightarrow>
               (case grpcDefinitionOf f2i g name m of
                  Ok def \<Rightarrow> grpcLoad f2i defs (g\<lparr>gs_mocks := AList.update name (grpcSetDefinition def mock) (gs_mocks g)\<rparr>)
                | Err e \<Rightarrow> (g, Err e)
                | Panic p \<Rightarrow> (g, Panic p))))"

section \<open>The running context\<close>

lemma handler_definitions [simp]: "gm_definitions (fst (unknownServiceHandler call m)) = gm_definitions m"
  by (auto simp: unknownServiceHandler_def recordRequest_def Let_def split: option.splits res.splits)

lemma handler_reset: "grpcResetDefinitions (fst (unknownServiceHandler call m)) = grpcResetDefinitions m"
  by (auto simp: unknownServiceHandler_def recordRequest_def grpcResetDefinitions_def Let_def split: option.splits res.splits)

interpretation grpc_context: running_context unknownServiceHandler grpcResetDefinitions grpcEndRunningContext
  by unfold_locales (simp_all add: handler_reset, simp add: grpcResetDefinitions_def)

text \<open>The calls a definition answers: their payloads, in order.\<close>

definition servedPayload :: "string \<Rightarrow> grpcCall \<Rightarrow> string list" where
  "servedPayload method call =
     (if gc_method call = Some method then (case gc_payload call of Ok p \<Rightarrow> [p] | _ \<Rightarrow> []) else [])"

definition mismatchOf :: "string \<Rightarrow> GrpcDefinition \<Rightarrow> string \<Rightarrow> goerror list" where
  "mismatchOf method def payload =
     (case gd_ExpectedRequest def of
        Some want \<Rightarrow> if payload = want then []
          else [EFmt ''grpcmock: method %s: request mismatch want: %x got: %x'' [ShStr method, ShStr want, ShStr payload]]
      | None \<Rightarrow> [])"

lemma handler_single:
  assumes "gm_definitions m = [(method, def)]"
  shows "gm_requests (fst (unknownServiceHandler call m)) =
      gm_requests m @ map (\<lambda>p. \<lparr>rr_Method = method, rr_Payload = p\<rparr>) (servedPayload method call)"
    and "gm_errors (fst (unknownServiceHandler call m)) =
      gm_errors m @ concat (map (mismatchOf method def) (servedPayload method call))"
  using assms
  by (auto simp: unknownServiceHandler_def servedPayload_def recordRequest_def mismatchOf_def Let_def
      split: option.splits res.splits)

lemma grpc_run:
  assumes "gm_definitions m = [(method, def)]"
  shows "gm_requests (fst (runRequests unknownServiceHandler cs m)) =
      gm_requests m @ map (\<lambda>p. \<lparr>rr_Method = method, rr_Payload = p\<rparr>) (concat (map (servedPayload method) cs))
    \<and> gm_errors (fst (runRequests unknownServiceHandler cs m)) =
      gm_errors m @ concat (map (mismatchOf method def) (concat (map (servedPayload method) cs)))"
  using assms
proof (induction cs arbitrary: m)
  case (Cons c cs)
  have "gm_definitions (fst (unknownServiceHandler c m)) = [(method, def)]" using Cons.prems by simp
  from Cons.IH [OF this] handler_single [OF Cons.prems, of c] show ?case by simp
qed simp

section \<open>Properties\<close>

text \<open>
  C26. The gRPC mock records and verifies: after a reset and the registration of one definition, the
  recorded requests are exactly the payloads received for its method, in order, and the errors
  are exactly the mismatches with the expected request, one per wrong request, none when no
  request is expected.
\<close>

theorem grpc_mock_records_and_verifies:
  "let m = grpcSetDefinition def (grpcResetDefinitions m0);
       method = methodKey (gd_Service def) (gd_Method def);
       m' = fst (runRequests unknownServiceHandler cs m);
       payloads = concat (map (servedPayload method) cs)
   in GetRecordedRequests m' = map (\<lambda>p. \<lparr>rr_Method = method, rr_Payload = p\<rparr>) payloads
      \<and> grpcEndRunningContext m' = concat (map (mismatchOf method def) payloads)"
proof -
  have "gm_definitions (grpcSetDefinition def (grpcResetDefinitions m0))
      = [(methodKey (gd_Service def) (gd_Method def), def)]"
    by (simp add: grpcSetDefinition_def grpcResetDefinitions_def)
  from grpc_run [OF this, of cs] show ?thesis
    by (simp add: Let_def GetRecordedRequests_def grpcEndRunningContext_def grpcSetDefinition_def grpcResetDefinitions_def)
qed

text \<open>
  The reply to a call of a registered method is the registered one: a definition with a failure
  status sends that status, its metadata and no message; one with status OK sends exactly one
  message, the empty one when the definition has no response. A call of any other method fails
  as unimplemented and is not recorded.
\<close>

theorem grpc_mock_replies:
  "unknownServiceHandler \<lparr>gc_method = Some method, gc_payload = Ok payload, gc_send = Ok ()\<rparr> m =
     (case map_of (gm_definitions m) method of
        None \<Rightarrow> (m, failedReply 12 ''grpcmock: no mock definition for %s'' [ShStr method])
      | Some def \<Rightarrow>
          (recordRequest method payload def m,
           \<lparr>gr_trailer = gd_Metadata def,
            gr_sent = (if gd_ResponseStatus def = 0 then Some (case gd_Response def of None \<Rightarrow> [] | Some r \<Rightarrow> r) else None),
            gr_status = (gd_ResponseStatus def, [], [])\<rparr>))"
  by (auto simp: unknownServiceHandler_def replyFor_def split: option.split)

end
