(* ===== verification/Runner.thy ===== *)
theory Runner
  imports Checkers MockLoaderSpec GrpcMock
begin

text \<open>
  Model of \<open>runner/\<close>: executing one test (\<open>runner.go\<close>), the run over all tests with focused,
  skipped and broken ones, the transports' selection (\<open>transport.go\<close>) and the console handler with
  its summary (\<open>console_handler.go\<close>).

  The environment of a run is a \<open>config\<close>: the fixture loaders, the scripts, the transports, the
  checkers and the outputs as functions. What the transport does is given by what happens while it
  runs: the requests that reach the mocks, in order (\<open>traffic\<close>), and the result. State that lives
  across tests is a \<open>runState\<close>: the variables, the mocks, the gRPC mocks and the transports made
  so far. Sleeping and printing are left out.
\<close>

section \<open>State\<close>

datatype traffic = HttpRequest string exchange | GrpcRequest string grpcCall

record config =
  cf_libs :: libs
  cf_getenv :: "string \<Rightarrow> string"
  cf_f2i :: "float64 \<Rightarrow> int"
  cf_realloc :: bool
  cf_fixtures :: "(string list \<Rightarrow> unit gores) option"
  cf_fixturesMultiDb :: "(Fixture list \<Rightarrow> unit gores) option"
  cf_mocksLoader :: bool
  cf_grpcLoader :: bool
  cf_cmdRun :: "string \<Rightarrow> int \<Rightarrow> unit gores"
  cf_execute :: "Test \<Rightarrow> traffic list \<times> Result gores"
  cf_checkers :: "(Test \<Rightarrow> Result \<Rightarrow> (Result \<times> goerror list) gores) list"
  cf_outputs :: "(Test \<Rightarrow> Result \<Rightarrow> unit gores) list"

datatype transportKind = HttpTransport | GrpcTransport

record runState =
  rs_vars :: vars
  rs_mocks :: "Mocks option"
  rs_grpc :: "GrpcMocks option"
  rs_transports :: "(string, transportKind) gomap"

section \<open>Steps of a test\<close>

definition newTransportExecutor :: "string \<Rightarrow> transportKind gores" where
  "newTransportExecutor transport =
     (if transport = [] then Ok HttpTransport
      else if transport = ''http'' then Ok HttpTransport
      else if transport = ''grpc'' then Ok GrpcTransport
      else Err (EFmt ''unsupported transport: %s'' [ShStr transport]))"

definition getTransportExecutor :: "Test \<Rightarrow> runState \<Rightarrow> runState \<times> transportKind gores" where
  "getTransportExecutor t st =
     (case map_of (rs_transports st) (Transport t) of
        Some ex \<Rightarrow> (st, Ok ex)
      | None \<Rightarrow>
          (case newTransportExecutor (Transport t) of
             Ok ex \<Rightarrow> (st\<lparr>rs_transports := AList.update (Transport t) ex (rs_transports st)\<rparr>, Ok ex)
           | Err e \<Rightarrow> (st, Err e)
           | Panic p \<Rightarrow> (st, Panic p)))"

definition loadFixtures :: "config \<Rightarrow> Test \<Rightarrow> unit gores" where
  "loadFixtures cfg v =
     rbind (case (cf_fixtures cfg, FixtureFiles v) of
              (Some load, Some files) \<Rightarrow> wrapErr (EWrap ''unable to load fixtures [%s], error'' [ShStr (join '', '' files)]) (load files)
            | _ \<Rightarrow> Ok ())
       (\<lambda>_. case (cf_fixturesMultiDb cfg, FixturesListMultiDb v) of
              (Some load, Some files) \<Rightarrow> wrapErr (EWrap ''unable to load fixtures with db, error'' []) (load files)
            | _ \<Rightarrow> Ok ())"

text \<open>
  The loader of mocks fills the mocks of the configuration: the entry points make it from them, or
  make neither.
\<close>

definition setupHttpMocks :: "config \<Rightarrow> Test \<Rightarrow> Mocks \<Rightarrow> Mocks \<times> unit gores" where
  "setupHttpMocks cfg v ms =
     sbind (resetAll (ResetDefinitions ms)) (\<lambda>ms1 _.
       if cf_mocksLoader cfg
       then (case MocksDefinition v of None \<Rightarrow> (ms1, Ok ()) | Some defs \<Rightarrow> loadMocks (cf_libs cfg) defs ms1)
       else (ms1, Ok ()))"

definition setupGrpcMocks :: "config \<Rightarrow> Test \<Rightarrow> GrpcMocks \<Rightarrow> GrpcMocks \<times> unit gores" where
  "setupGrpcMocks cfg v g =
     (if GrpcMocksDefinition v \<noteq> [] \<and> cf_grpcLoader cfg
      then (case grpcLoad (cf_f2i cfg) (GrpcMocksDefinition v) (ResetAll g) of
              (g1, out) \<Rightarrow> (g1, wrapErr (EWrap ''grpc mocks'' []) out))
      else (ResetAll g, Ok ()))"

definition setupMocks :: "config \<Rightarrow> Test \<Rightarrow> runState \<Rightarrow> runState \<times> unit gores" where
  "setupMocks cfg v st =
     sbind (case rs_mocks st of
              None \<Rightarrow> (st, Ok ())
            | Some ms \<Rightarrow> (case setupHttpMocks cfg v ms of (ms1, out) \<Rightarrow> (st\<lparr>rs_mocks := Some ms1\<rparr>, out)))
       (\<lambda>st1 _. case rs_grpc st1 of
              None \<Rightarrow> (st1, Ok ())
            | Some g \<Rightarrow> (case setupGrpcMocks cfg v g of (g1, out) \<Rightarrow> (st1\<lparr>rs_grpc := Some g1\<rparr>, out)))"

text \<open>A request reaches the mock it is addressed to.\<close>

definition serveHttp :: "libs \<Rightarrow> string \<Rightarrow> exchange \<Rightarrow> Mocks \<Rightarrow> Mocks" where
  "serveHttp L name x ms =
     map (\<lambda>(n, m). (n, if n = name then fst (ServeHTTP L x m) else m)) ms"

definition serveGrpc :: "string \<Rightarrow> grpcCall \<Rightarrow> GrpcMocks \<Rightarrow> GrpcMocks" where
  "serveGrpc name call g =
     g\<lparr>gs_mocks := map (\<lambda>(n, m). (n, if n = name then fst (unknownServiceHandler call m) else m)) (gs_mocks g)\<rparr>"

fun serve :: "libs \<Rightarrow> traffic \<Rightarrow> runState \<Rightarrow> runState" where
  "serve L (HttpRequest name x) st = st\<lparr>rs_mocks := map_option (serveHttp L name x) (rs_mocks st)\<rparr>"
| "serve L (GrpcRequest name call) st = st\<lparr>rs_grpc := map_option (serveGrpc name call) (rs_grpc st)\<rparr>"

definition transportExecute :: "config \<Rightarrow> Test \<Rightarrow> runState \<Rightarrow> runState \<times> Result gores" where
  "transportExecute cfg v st =
     (case cf_execute cfg v of (events, out) \<Rightarrow> (foldl (\<lambda>s e. serve (cf_libs cfg) e s) st events, out))"

definition runScript :: "config \<Rightarrow> string \<Rightarrow> int \<Rightarrow> unit gores" where
  "runScript cfg script timeout = (if script \<noteq> [] then cf_cmdRun cfg script timeout else Ok ())"

definition endMocks :: "config \<Rightarrow> Result \<Rightarrow> runState \<Rightarrow> runState \<times> Result gores" where
  "endMocks cfg r st =
     (case rs_mocks st of
        None \<Rightarrow> (st, Ok r)
      | Some ms \<Rightarrow>
          (case endAll (cf_realloc cfg) ms of
             (ms1, out) \<Rightarrow> (st\<lparr>rs_mocks := Some ms1\<rparr>, rbind out (\<lambda>errs. Ok (r\<lparr>Errors := Errors r @ errs\<rparr>)))))"

definition setVariablesFromResponse :: "config \<Rightarrow> Test \<Rightarrow> Result \<Rightarrow> runState \<Rightarrow> runState \<times> unit gores" where
  "setVariablesFromResponse cfg t r st =
     (case VariablesToSet t of
        None \<Rightarrow> (st, Ok ())
      | Some varTemplates \<Rightarrow>
          (let isGrpc = (Transport t = ''grpc'');
               statusCode = (if isGrpc then GrpcStatusCode r else ResponseStatusCode r);
               isJSON = (if isGrpc then ResponseBody r \<noteq> [] else contains (ResponseContentType r) ''json'' \<and> ResponseBody r \<noteq> [])
           in case FromResponse (gjsonGet (cf_libs cfg))
                     (case map_of varTemplates statusCode of None \<Rightarrow> [] | Some m \<Rightarrow> m) (ResponseBody r) isJSON of
                Ok vs \<Rightarrow> (st\<lparr>rs_vars := mergeVars (rs_vars st) vs\<rparr>, Ok ())
              | Err e \<Rightarrow> (st, Err e)
              | Panic p \<Rightarrow> (st, Panic p)))"

definition runCheckers :: "config \<Rightarrow> Test \<Rightarrow> Result \<Rightarrow> Result gores" where
  "runCheckers cfg v r =
     foldM (\<lambda>r check. rbind (check v r) (\<lambda>(r1, errs). Ok (r1\<lparr>Errors := Errors r1 @ errs\<rparr>))) r (cf_checkers cfg)"

text \<open>\<open>r.config.Variables.Load(...); v = r.config.Variables.Apply(v)\<close>\<close>

definition withVariables :: "config \<Rightarrow> Test \<Rightarrow> runState \<Rightarrow> runState \<times> Test gores" where
  "withVariables cfg t st =
     (let vs = loadVars (CombinedVariables t) (rs_vars st)
      in (st\<lparr>rs_vars := vs\<rparr>, Ok (snd (applyVars (cf_getenv cfg) vs t))))"

text \<open>\<open>executeTest\<close> up to the second \<open>Apply\<close>: the clone it works on and the result so far.\<close>

definition executeUntilChecks :: "config \<Rightarrow> Test \<Rightarrow> runState \<Rightarrow> runState \<times> (Test \<times> Result) gores" where
  "executeUntilChecks cfg t st =
     sbind (withVariables cfg t st) (\<lambda>st v.
     sbind (st, loadFixtures cfg v) (\<lambda>st _.
     sbind (setupMocks cfg v st) (\<lambda>st _.
     sbind (st, runScript cfg (BeforeScript v) (sp_Timeout (BeforeScriptParams v))) (\<lambda>st _.
     sbind (getTransportExecutor v st) (\<lambda>st _.
     sbind (transportExecute cfg v st) (\<lambda>st r.
     sbind (st, runScript cfg (AfterRequestScript v) (sp_Timeout (AfterRequestScriptParams v))) (\<lambda>st _.
     sbind (endMocks cfg r st) (\<lambda>st r.
     sbind (setVariablesFromResponse cfg v r st) (\<lambda>st _.
       (st, Ok (v, r)))))))))))"

definition executeTest :: "config \<Rightarrow> Test \<Rightarrow> runState \<Rightarrow> runState \<times> Result gores" where
  "executeTest cfg t st =
     sbind (executeUntilChecks cfg t st) (\<lambda>st (v, r).
     sbind (withVariables cfg v st) (\<lambda>st v.
       (st, runCheckers cfg v r)))"

text \<open>
  The test that was executed, as it is left: \<open>Apply\<close> works on a clone, but changes the nested mock
  definitions and the database checks in place, the second time only if the test gets there.
\<close>

definition testAfter :: "config \<Rightarrow> Test \<Rightarrow> runState \<Rightarrow> Test" where
  "testAfter cfg t st =
     (let t1 = applyShared (cf_getenv cfg) (loadVars (CombinedVariables t) (rs_vars st)) t
      in case executeUntilChecks cfg t st of
           (st1, Ok (v, r)) \<Rightarrow> applyShared (cf_getenv cfg) (loadVars (CombinedVariables v) (rs_vars st1)) t1
         | _ \<Rightarrow> t1)"

section \<open>A run\<close>

text \<open>How the execution of a test ends, as its handler sees it.\<close>

datatype outcome = Skipped | Broken | Finished Result | Failed goerror | Panicked string

fun processOutputs :: "(Test \<Rightarrow> Result \<Rightarrow> unit gores) list \<Rightarrow> Test \<Rightarrow> Result \<Rightarrow> unit gores" where
  "processOutputs [] t r = Ok ()"
| "processOutputs (out # os) t r = rbind (out t r) (\<lambda>_. processOutputs os t r)"

definition buildTestExecutor :: "config \<Rightarrow> Test \<Rightarrow> runState \<Rightarrow> runState \<times> outcome" where
  "buildTestExecutor cfg test st =
     (if Status test = ''broken'' then (st, Broken)
      else if Status test = ''skipped'' then (st, Skipped)
      else case executeTest cfg test st of
          (st1, Ok r) \<Rightarrow>
            (case processOutputs (cf_outputs cfg) (testAfter cfg test st) r of
               Ok _ \<Rightarrow> (st1, Finished r)
             | Err e \<Rightarrow> (st1, Failed e)
             | Panic p \<Rightarrow> (st1, Panicked p))
        | (st1, Err e) \<Rightarrow> (st1, Failed e)
        | (st1, Panic p) \<Rightarrow> (st1, Panicked p))"

definition checkHasFocused :: "Test list \<Rightarrow> bool" where
  "checkHasFocused tests \<longleftrightarrow> (\<exists>t \<in> set tests. Status t = ''focus'')"

definition focusStatus :: "bool \<Rightarrow> Test \<Rightarrow> Test" where
  "focusStatus hasFocused test =
     (if hasFocused
      then (if Status test = ''focus'' then test\<lparr>Status := []\<rparr>
            else if Status test = ''broken'' then test
            else test\<lparr>Status := ''skipped''\<rparr>)
      else test)"

record ConsoleHandler =
  totalTests :: int
  failedTests :: int
  skippedTests :: int
  brokenTests :: int

definition NewConsoleHandler :: ConsoleHandler where
  "NewConsoleHandler = \<lparr>totalTests = 0, failedTests = 0, skippedTests = 0, brokenTests = 0\<rparr>"

definition HandleTest :: "ConsoleHandler \<Rightarrow> outcome \<Rightarrow> ConsoleHandler gores" where
  "HandleTest h out =
     (case out of
        Skipped \<Rightarrow> Ok (h\<lparr>skippedTests := skippedTests h + 1, totalTests := totalTests h + 1\<rparr>)
      | Broken \<Rightarrow> Ok (h\<lparr>brokenTests := brokenTests h + 1, totalTests := totalTests h + 1\<rparr>)
      | Finished r \<Rightarrow>
          Ok (h\<lparr>totalTests := totalTests h + 1, failedTests := failedTests h + (if Passed r then 0 else 1)\<rparr>)
      | Failed e \<Rightarrow> Err e
      | Panicked p \<Rightarrow> Panic p)"

record Summary =
  Success :: bool
  sum_Failed :: int
  sum_Skipped :: int
  sum_Broken :: int
  Total :: int

definition summary :: "ConsoleHandler \<Rightarrow> Summary" where
  "summary h =
     \<lparr>Success = (failedTests h = 0), sum_Failed = failedTests h, sum_Skipped = skippedTests h,
      sum_Broken = brokenTests h, Total = totalTests h\<rparr>"

fun runLoop :: "config \<Rightarrow> Test list \<Rightarrow> runState \<Rightarrow> ConsoleHandler \<Rightarrow> runState \<times> ConsoleHandler gores" where
  "runLoop cfg [] st h = (st, Ok h)"
| "runLoop cfg (t # ts) st h =
     (case buildTestExecutor cfg t st of
        (st1, out) \<Rightarrow>
          (case HandleTest h out of
             Ok h1 \<Rightarrow> runLoop cfg ts st1 h1
           | Err e \<Rightarrow> (st1, Err (EWrap ''test %s error'' [ShStr (Name t)] e))
           | Panic p \<Rightarrow> (st1, Panic p)))"

definition Run :: "config \<Rightarrow> Test list gores \<Rightarrow> runState \<Rightarrow> ConsoleHandler \<Rightarrow> runState \<times> ConsoleHandler gores" where
  "Run cfg load st h =
     (case load of
        Ok tests \<Rightarrow> runLoop cfg (map (focusStatus (checkHasFocused tests)) tests) st h
      | Err e \<Rightarrow> (st, Err e)
      | Panic p \<Rightarrow> (st, Panic p))"

end
