(* ===== verification/RunnerSpec.thy ===== *)
theory RunnerSpec
  imports Runner
begin

text \<open>
  Correctness of the runner: which tests are executed, what the summary counts, that a test does
  not depend on the mocks' state left by earlier tests, and what a result contains.
\<close>

section \<open>The summary\<close>

text \<open>The outcomes of the tests of a run, in order.\<close>

fun runTrace :: "config \<Rightarrow> Test list \<Rightarrow> runState \<Rightarrow> outcome list" where
  "runTrace cfg [] st = []"
| "runTrace cfg (t # ts) st = snd (buildTestExecutor cfg t st) # runTrace cfg ts (fst (buildTestExecutor cfg t st))"

definition countOf :: "(outcome \<Rightarrow> bool) \<Rightarrow> outcome list \<Rightarrow> int" where
  "countOf P outs = int (length (filter P outs))"

lemma countOf_simps [simp]:
  "countOf P [] = 0" "countOf P (x # outs) = (if P x then 1 else 0) + countOf P outs"
  by (simp_all add: countOf_def)

fun isSkipped :: "outcome \<Rightarrow> bool" where
  "isSkipped Skipped \<longleftrightarrow> True" | "isSkipped _ \<longleftrightarrow> False"

fun isBroken :: "outcome \<Rightarrow> bool" where
  "isBroken Broken \<longleftrightarrow> True" | "isBroken _ \<longleftrightarrow> False"

fun isPassing :: "outcome \<Rightarrow> bool" where
  "isPassing (Finished r) \<longleftrightarrow> Passed r" | "isPassing _ \<longleftrightarrow> False"

fun isFailing :: "outcome \<Rightarrow> bool" where
  "isFailing (Finished r) \<longleftrightarrow> \<not> Passed r" | "isFailing _ \<longleftrightarrow> False"

lemma length_runTrace [simp]: "length (runTrace cfg ts st) = length ts"
  by (induction cfg ts st rule: runTrace.induct) auto

lemma runLoop_counts:
  assumes "snd (runLoop cfg ts st h) = Ok h'"
  shows "totalTests h' = totalTests h + int (length ts)
    \<and> skippedTests h' = skippedTests h + countOf isSkipped (runTrace cfg ts st)
    \<and> brokenTests h' = brokenTests h + countOf isBroken (runTrace cfg ts st)
    \<and> failedTests h' = failedTests h + countOf isFailing (runTrace cfg ts st)
    \<and> list_all (\<lambda>out. isSkipped out \<or> isBroken out \<or> isPassing out \<or> isFailing out) (runTrace cfg ts st)"
  using assms
proof (induction cfg ts st h rule: runLoop.induct)
  case (2 cfg t ts st h)
  obtain st1 out where b: "buildTestExecutor cfg t st = (st1, out)" by (cases "buildTestExecutor cfg t st")
  with "2.prems" obtain h1 where h1: "HandleTest h out = Ok h1" by (cases "HandleTest h out") auto
  with b "2.prems" have "snd (runLoop cfg ts st1 h1) = Ok h'" by simp
  from "2.IH" [OF b [symmetric] h1 this] b h1 show ?case
    by (cases out) (auto simp: HandleTest_def)
qed simp

section \<open>Focused, skipped and broken tests\<close>

lemma runTrace_nth:
  "i < length ts \<Longrightarrow> \<exists>st'. runTrace cfg ts st ! i = snd (buildTestExecutor cfg (ts ! i) st')"
proof (induction ts arbitrary: st i)
  case (Cons t ts)
  then show ?case by (cases i) auto
qed simp

lemma buildTestExecutor_status:
  "Status t = ''broken'' \<Longrightarrow> snd (buildTestExecutor cfg t st) = Broken"
  "Status t = ''skipped'' \<Longrightarrow> snd (buildTestExecutor cfg t st) = Skipped"
  "Status t \<notin> {''broken'', ''skipped''} \<Longrightarrow> snd (buildTestExecutor cfg t st) \<notin> {Broken, Skipped}"
  by (auto simp: buildTestExecutor_def split: prod.splits res.splits)

text \<open>A run that ends has executed the tests that are neither broken nor skipped, in order, and counted the others.\<close>

lemma runLoop_selects:
  assumes "runLoop cfg ts st h = (st', Ok h')"
  shows "st' = foldl (\<lambda>s t. fst (executeTest cfg t s)) st (filter (\<lambda>t. Status t \<notin> {''broken'', ''skipped''}) ts)
    \<and> totalTests h' = totalTests h + int (length ts)
    \<and> brokenTests h' = brokenTests h + int (length (filter (\<lambda>t. Status t = ''broken'') ts))
    \<and> skippedTests h' = skippedTests h + int (length (filter (\<lambda>t. Status t = ''skipped'') ts))"
  using assms
proof (induction cfg ts st h rule: runLoop.induct)
  case (2 cfg t ts st h)
  obtain st1 out where b: "buildTestExecutor cfg t st = (st1, out)" by (cases "buildTestExecutor cfg t st")
  with "2.prems" obtain h1 where h1: "HandleTest h out = Ok h1" and r: "runLoop cfg ts st1 h1 = (st', Ok h')"
    by (cases "HandleTest h out") auto
  note IH = "2.IH" [OF b [symmetric] h1 r]
  consider (broken) "Status t = ''broken''" | (skipped) "Status t = ''skipped''" | (run) "Status t \<notin> {''broken'', ''skipped''}" by blast
  then show ?case
  proof cases
    case broken
    with b have "st1 = st" "out = Broken" by (auto simp: buildTestExecutor_def)
    with broken IH h1 show ?thesis by (auto simp: HandleTest_def)
  next
    case skipped
    with b have "st1 = st" "out = Skipped" by (auto simp: buildTestExecutor_def)
    with skipped IH h1 show ?thesis by (auto simp: HandleTest_def)
  next
    case run
    with b have "st1 = fst (executeTest cfg t st)" by (auto simp: buildTestExecutor_def split: prod.splits res.splits)
    moreover have "out \<notin> {Broken, Skipped}" using buildTestExecutor_status(3) [OF run, of cfg st] b by simp
    then have "totalTests h1 = totalTests h + 1" "brokenTests h1 = brokenTests h" "skippedTests h1 = skippedTests h"
      using h1 by (cases out; auto simp: HandleTest_def)+
    ultimately show ?thesis using IH run by simp
  qed
qed simp

section \<open>Mocks at rest\<close>

definition mocksRest :: "Mocks \<Rightarrow> Mocks" where
  "mocksRest ms = map (\<lambda>(n, m). (n, atRest m)) ms"

definition hasDefaults :: "Mocks \<Rightarrow> bool" where
  "hasDefaults ms \<longleftrightarrow> list_all (\<lambda>(n, m). sm_default m \<noteq> None) ms"

lemma resetAll_atRest: "hasDefaults ms \<Longrightarrow> resetAll (ResetDefinitions ms) = (mocksRest ms, Ok ())"
proof (induction ms)
  case (Cons nm ms)
  obtain n m where nm: "nm = (n, m)" by (cases nm)
  with Cons.prems obtain d where "currentDef (ResetDefinition m) = Some d"
    by (auto simp: hasDefaults_def currentDef_def ResetDefinition_def)
  from resetService_Some [OF this] have "resetService (ResetDefinition m) = (atRest m, Ok ())"
    by (simp add: atRest_def)
  with Cons nm show ?case by (simp add: ResetDefinitions_def mocksRest_def hasDefaults_def)
qed (simp add: ResetDefinitions_def mocksRest_def)

lemma atRest_atRest [simp]: "atRest (atRest m) = atRest m"
  by (simp add: atRest_alt option.map_comp o_def ResetRunningContext_idem)

lemma atRest_SetDefinition [simp]: "atRest (SetDefinition d m) = atRest m"
  by (simp add: atRest_alt SetDefinition_def)

lemma mocksRest_idem [simp]: "mocksRest (mocksRest ms) = mocksRest ms"
  by (auto simp: mocksRest_def)

lemma mocksRest_update:
  "map_of ms n = Some m \<Longrightarrow> atRest m' = atRest m \<Longrightarrow> mocksRest (AList.update n m' ms) = mocksRest ms"
  by (induction ms) (auto simp: mocksRest_def split: if_splits)

lemma mocksRest_loadMocks: "mocksRest (fst (loadMocks L defs ms)) = mocksRest ms"
  by (induction L defs ms rule: loadMocks.induct)
     (auto simp: Service_def mocksRest_update split: option.splits res.splits)

lemma mocksRest_serveHttp: "mocksRest (serveHttp L n x ms) = mocksRest ms"
  by (auto simp: mocksRest_def serveHttp_def atRest_ServeHTTP)

lemma mocksRest_endAll: "mocksRest (fst (endAll b ms)) = mocksRest ms"
proof (induction ms)
  case (Cons nm ms)
  obtain n m where nm: "nm = (n, m)" by (cases nm)
  with Cons atRest_endService [of b m] show ?case
    by (auto simp: mocksRest_def split: prod.splits res.splits)
qed simp

lemma hasDefaults_rest: "hasDefaults (mocksRest ms) \<longleftrightarrow> hasDefaults ms"
  by (auto simp: hasDefaults_def mocksRest_def list_all_iff atRest_alt split: prod.splits)

lemma setupHttpMocks_rest:
  assumes "hasDefaults ms"
  shows "mocksRest (fst (setupHttpMocks cfg v ms)) = mocksRest ms"
  using assms by (simp add: setupHttpMocks_def resetAll_atRest mocksRest_loadMocks split: option.split)

lemma setupHttpMocks_cong:
  assumes "hasDefaults ms" and "mocksRest ms' = mocksRest ms"
  shows "setupHttpMocks cfg v ms' = setupHttpMocks cfg v ms"
proof -
  have "hasDefaults ms'" using assms hasDefaults_rest by metis
  with assms show ?thesis by (simp add: setupHttpMocks_def resetAll_atRest)
qed

section \<open>gRPC mocks at rest\<close>

lemma ResetAll_update:
  "map_of (gs_mocks g) n = Some m \<Longrightarrow> grpcResetDefinitions m' = grpcResetDefinitions m \<Longrightarrow>
     ResetAll (g\<lparr>gs_mocks := AList.update n m' (gs_mocks g)\<rparr>) = ResetAll g"
proof -
  have "map_of ms n = Some m \<Longrightarrow> grpcResetDefinitions m' = grpcResetDefinitions m \<Longrightarrow>
     map (\<lambda>(n, m). (n, grpcResetDefinitions m)) (AList.update n m' ms) = map (\<lambda>(n, m). (n, grpcResetDefinitions m)) ms" for ms
    by (induction ms) (auto split: if_splits)
  then show "map_of (gs_mocks g) n = Some m \<Longrightarrow> grpcResetDefinitions m' = grpcResetDefinitions m \<Longrightarrow>
     ResetAll (g\<lparr>gs_mocks := AList.update n m' (gs_mocks g)\<rparr>) = ResetAll g"
    by (simp add: ResetAll_def)
qed

lemma ResetAll_grpcLoad: "ResetAll (fst (grpcLoad f2i defs g)) = ResetAll g"
proof (induction f2i defs g rule: grpcLoad.induct)
  case (2 f2i name rawDef defs g)
  have "grpcResetDefinitions (grpcSetDefinition def mock) = grpcResetDefinitions mock" for def mock
    by (simp add: grpcResetDefinitions_def grpcSetDefinition_def)
  with 2 show ?case by (auto simp: grpcGet_def ResetAll_update split: option.split res.split)
qed simp

lemma ResetAll_ResetAll: "ResetAll (ResetAll g) = ResetAll g"
  by (auto simp: ResetAll_def grpcResetDefinitions_def o_def case_prod_beta)

lemma ResetAll_serveGrpc: "ResetAll (serveGrpc n c g) = ResetAll g"
  by (auto simp: ResetAll_def serveGrpc_def o_def case_prod_beta handler_reset)

lemma ResetAll_setupGrpcMocks: "ResetAll (fst (setupGrpcMocks cfg v g)) = ResetAll g"
  by (simp add: setupGrpcMocks_def ResetAll_grpcLoad ResetAll_ResetAll case_prod_beta)

section \<open>The state between two tests\<close>

text \<open>What is left of the mocks when everything a test can change is taken back.\<close>

definition restOf :: "runState \<Rightarrow> Mocks option \<times> GrpcMocks option" where
  "restOf st = (map_option mocksRest (rs_mocks st), map_option ResetAll (rs_grpc st))"

definition defaultsOk :: "runState \<Rightarrow> bool" where
  "defaultsOk st \<longleftrightarrow> (case rs_mocks st of None \<Rightarrow> True | Some ms \<Rightarrow> hasDefaults ms)"

lemma defaultsOk_rest: "restOf st = restOf st' \<Longrightarrow> defaultsOk st \<longleftrightarrow> defaultsOk st'"
  by (cases "rs_mocks st"; cases "rs_mocks st'") (auto simp: restOf_def defaultsOk_def hasDefaults_rest dest: arg_cong [of _ _ hasDefaults])

lemma setupMocks_rest: "defaultsOk st \<Longrightarrow> restOf (fst (setupMocks cfg v st)) = restOf st"
proof -
  assume d: "defaultsOk st"
  let ?h = "case rs_mocks st of None \<Rightarrow> (st, Ok ())
            | Some ms \<Rightarrow> (case setupHttpMocks cfg v ms of (ms1, out) \<Rightarrow> (st\<lparr>rs_mocks := Some ms1\<rparr>, out))"
  have h: "restOf (fst ?h) = restOf st"
  proof (cases "rs_mocks st")
    case (Some ms)
    with d have "mocksRest (fst (setupHttpMocks cfg v ms)) = mocksRest ms"
      by (intro setupHttpMocks_rest) (simp add: defaultsOk_def)
    with Some show ?thesis by (simp add: restOf_def split: prod.split) (metis fst_conv)
  qed simp
  have g: "restOf (fst (case rs_grpc s of None \<Rightarrow> (s, Ok ())
            | Some g \<Rightarrow> (case setupGrpcMocks cfg v g of (g1, out) \<Rightarrow> (s\<lparr>rs_grpc := Some g1\<rparr>, out)))) = restOf s" for s
    using ResetAll_setupGrpcMocks [of cfg v] by (auto simp: restOf_def split: option.split prod.split) (metis fst_conv)
  show ?thesis
    unfolding setupMocks_def
    by (rule sbind_fst [where P = "\<lambda>s. restOf s = restOf st"]) (use h g in auto)
qed

lemma serve_rest: "restOf (serve L e st) = restOf st"
  by (cases e) (auto simp: restOf_def option.map_comp o_def mocksRest_serveHttp ResetAll_serveGrpc)

lemma transportExecute_rest: "restOf (fst (transportExecute cfg v st)) = restOf st"
proof -
  have "restOf (foldl (\<lambda>s e. serve L e s) st es) = restOf st" for L es st
    by (induction es arbitrary: st) (auto simp: serve_rest)
  then show ?thesis by (simp add: transportExecute_def split: prod.split)
qed

lemma endMocks_rest: "restOf (fst (endMocks cfg r st)) = restOf st"
  using mocksRest_endAll [of "cf_realloc cfg"]
  by (auto simp: endMocks_def restOf_def split: option.split prod.split) (metis fst_conv)

lemma other_rest:
  "restOf (fst (withVariables cfg t st)) = restOf st"
  "restOf (fst (getTransportExecutor t st)) = restOf st"
  "restOf (fst (setVariablesFromResponse cfg t r st)) = restOf st"
  by (auto simp: withVariables_def getTransportExecutor_def setVariablesFromResponse_def restOf_def Let_def
      split: option.split res.split)

lemma executeTest_chain:
  "executeTest cfg t st =
     sbind (withVariables cfg t st) (\<lambda>st v.
     sbind (st, loadFixtures cfg v) (\<lambda>st _.
     sbind (setupMocks cfg v st) (\<lambda>st _.
     sbind (st, runScript cfg (BeforeScript v) (sp_Timeout (BeforeScriptParams v))) (\<lambda>st _.
     sbind (getTransportExecutor v st) (\<lambda>st _.
     sbind (transportExecute cfg v st) (\<lambda>st r.
     sbind (st, runScript cfg (AfterRequestScript v) (sp_Timeout (AfterRequestScriptParams v))) (\<lambda>st _.
     sbind (endMocks cfg r st) (\<lambda>st r.
     sbind (setVariablesFromResponse cfg v r st) (\<lambda>st _.
     sbind (withVariables cfg v st) (\<lambda>st v. (st, runCheckers cfg v r)))))))))))"
  unfolding executeTest_def executeUntilChecks_def sbind_assoc by simp

lemma executeTest_rest:
  assumes "defaultsOk st"
  shows "restOf (fst (executeTest cfg t st)) = restOf st"
proof -
  let ?P = "\<lambda>s. restOf s = restOf st"
  have mocks: "?P s \<Longrightarrow> ?P (fst (setupMocks cfg v s))" for s v
    using setupMocks_rest defaultsOk_rest assms by metis
  show ?thesis
    unfolding executeTest_chain
    by (intro sbind_fst [where P = ?P])
       (simp_all add: other_rest mocks transportExecute_rest endMocks_rest)
qed

section \<open>Results do not depend on the gRPC traffic\<close>

definition sameButGrpc :: "runState \<Rightarrow> runState \<Rightarrow> bool" where
  "sameButGrpc s s' \<longleftrightarrow> s\<lparr>rs_grpc := None\<rparr> = s'\<lparr>rs_grpc := None\<rparr>"

lemma sameButGrpc_fields:
  "sameButGrpc s s' \<longleftrightarrow> rs_vars s = rs_vars s' \<and> rs_mocks s = rs_mocks s' \<and> rs_transports s = rs_transports s'"
  by (cases s; cases s') (simp add: sameButGrpc_def)

lemma sbind_same:
  assumes "sameButGrpc (fst m) (fst m')" and "snd m = snd m'"
    and "\<And>s s' x. sameButGrpc s s' \<Longrightarrow> sameButGrpc (fst (k s x)) (fst (k' s' x)) \<and> snd (k s x) = snd (k' s' x)"
  shows "sameButGrpc (fst (sbind m k)) (fst (sbind m' k')) \<and> snd (sbind m k) = snd (sbind m' k')"
  using assms by (auto simp: sbind_def split: res.split)

fun isHttpRequest :: "traffic \<Rightarrow> bool" where
  "isHttpRequest (HttpRequest n x) \<longleftrightarrow> True"
| "isHttpRequest (GrpcRequest n c) \<longleftrightarrow> False"

lemma serve_same:
  assumes "sameButGrpc s s'" and "filter isHttpRequest es = filter isHttpRequest es'"
  shows "sameButGrpc (foldl (\<lambda>s e. serve L e s) s es) (foldl (\<lambda>s e. serve L e s) s' es')"
proof -
  have mocks: "sameButGrpc (foldl (\<lambda>s e. serve L e s) s es) (foldl (\<lambda>s e. serve L e s) s' (filter isHttpRequest es))"
    if "sameButGrpc s s'" for s s' es
    using that
  proof (induction es arbitrary: s s')
    case (Cons e es)
    show ?case
    proof (cases e)
      case (HttpRequest n x)
      have "sameButGrpc (serve L e s) (serve L e s')" using Cons.prems HttpRequest by (simp add: sameButGrpc_fields)
      from Cons.IH [OF this] HttpRequest show ?thesis by simp
    next
      case (GrpcRequest n c)
      have "sameButGrpc (serve L e s) s'" using Cons.prems GrpcRequest by (simp add: sameButGrpc_fields)
      from Cons.IH [OF this] GrpcRequest show ?thesis by simp
    qed
  qed simp
  have "sameButGrpc s' s'" by (simp add: sameButGrpc_def)
  from mocks [OF assms(1), of es] mocks [OF this, of es'] assms(2) show ?thesis by (simp add: sameButGrpc_def)
qed

lemma steps_same:
  assumes "sameButGrpc s s'"
  shows "sameButGrpc (fst (endMocks cfg r s)) (fst (endMocks cfg r s')) \<and> snd (endMocks cfg r s) = snd (endMocks cfg r s')"
    and "sameButGrpc (fst (setVariablesFromResponse cfg t r s)) (fst (setVariablesFromResponse cfg t r s'))
      \<and> snd (setVariablesFromResponse cfg t r s) = snd (setVariablesFromResponse cfg t r s')"
    and "sameButGrpc (fst (withVariables cfg t s)) (fst (withVariables cfg t s'))
      \<and> snd (withVariables cfg t s) = snd (withVariables cfg t s')"
  using assms
  by (auto simp: endMocks_def setVariablesFromResponse_def withVariables_def sameButGrpc_fields Let_def
      split: option.split prod.split res.split)

text \<open>The steps of a test from the end of the request on.\<close>

definition afterTransport :: "config \<Rightarrow> Test \<Rightarrow> runState \<Rightarrow> Result \<Rightarrow> runState \<times> Result gores" where
  "afterTransport cfg v st r =
     sbind (st, runScript cfg (AfterRequestScript v) (sp_Timeout (AfterRequestScriptParams v))) (\<lambda>st _.
     sbind (endMocks cfg r st) (\<lambda>st r.
     sbind (setVariablesFromResponse cfg v r st) (\<lambda>st _.
     sbind (withVariables cfg v st) (\<lambda>st v. (st, runCheckers cfg v r)))))"

lemma afterTransport_same:
  assumes "sameButGrpc s s'"
  shows "sameButGrpc (fst (afterTransport cfg v s r)) (fst (afterTransport cfg v s' r))
    \<and> snd (afterTransport cfg v s r) = snd (afterTransport cfg v s' r)"
  unfolding afterTransport_def
  by (intro sbind_same steps_same [THEN conjunct1] steps_same [THEN conjunct2]) (simp_all add: assms)

lemma executeTest_split:
  "executeTest cfg t st =
     sbind (withVariables cfg t st) (\<lambda>st v.
     sbind (st, loadFixtures cfg v) (\<lambda>st _.
     sbind (setupMocks cfg v st) (\<lambda>st _.
     sbind (st, runScript cfg (BeforeScript v) (sp_Timeout (BeforeScriptParams v))) (\<lambda>st _.
     sbind (getTransportExecutor v st) (\<lambda>st _.
     sbind (transportExecute cfg v st) (\<lambda>st r. afterTransport cfg v st r))))))"
  unfolding executeTest_chain afterTransport_def ..

lemma cf_execute_fields:
  "cf_libs (cfg\<lparr>cf_execute := ex\<rparr>) = cf_libs cfg"
  "cf_getenv (cfg\<lparr>cf_execute := ex\<rparr>) = cf_getenv cfg"
  "cf_f2i (cfg\<lparr>cf_execute := ex\<rparr>) = cf_f2i cfg"
  "cf_realloc (cfg\<lparr>cf_execute := ex\<rparr>) = cf_realloc cfg"
  "cf_fixtures (cfg\<lparr>cf_execute := ex\<rparr>) = cf_fixtures cfg"
  "cf_fixturesMultiDb (cfg\<lparr>cf_execute := ex\<rparr>) = cf_fixturesMultiDb cfg"
  "cf_mocksLoader (cfg\<lparr>cf_execute := ex\<rparr>) = cf_mocksLoader cfg"
  "cf_grpcLoader (cfg\<lparr>cf_execute := ex\<rparr>) = cf_grpcLoader cfg"
  "cf_cmdRun (cfg\<lparr>cf_execute := ex\<rparr>) = cf_cmdRun cfg"
  "cf_checkers (cfg\<lparr>cf_execute := ex\<rparr>) = cf_checkers cfg"
  "cf_outputs (cfg\<lparr>cf_execute := ex\<rparr>) = cf_outputs cfg"
  by simp_all

text \<open>The steps around the transport do not depend on what the transport does.\<close>

lemma execute_irrelevant:
  "loadFixtures (cfg\<lparr>cf_execute := ex\<rparr>) = loadFixtures cfg"
  "runScript (cfg\<lparr>cf_execute := ex\<rparr>) = runScript cfg"
  "withVariables (cfg\<lparr>cf_execute := ex\<rparr>) = withVariables cfg"
  "endMocks (cfg\<lparr>cf_execute := ex\<rparr>) = endMocks cfg"
  "setVariablesFromResponse (cfg\<lparr>cf_execute := ex\<rparr>) = setVariablesFromResponse cfg"
  "runCheckers (cfg\<lparr>cf_execute := ex\<rparr>) = runCheckers cfg"
  "setupMocks (cfg\<lparr>cf_execute := ex\<rparr>) = setupMocks cfg"
  by (unfold loadFixtures_def runScript_def withVariables_def endMocks_def runCheckers_def
      setVariablesFromResponse_def setupMocks_def setupHttpMocks_def setupGrpcMocks_def cf_execute_fields, (rule refl)+)

section \<open>Checkers only add\<close>

lemma runCheckers_appends:
  assumes "runCheckers cfg v r = Ok r'" and "\<forall>c \<in> set (cf_checkers cfg). result_checker c"
  shows "\<exists>more. Errors r' = Errors r @ more"
proof -
  have "\<exists>more. Errors r' = Errors r @ more"
    using assms(1) unfolding runCheckers_def
  proof (rule foldM_invariant)
    fix t c t'
    assume "c \<in> set (cf_checkers cfg)" and "\<exists>more. Errors t = Errors r @ more"
      and "rbind (c v t) (\<lambda>(r1, errs). Ok (r1\<lparr>Errors := Errors r1 @ errs\<rparr>)) = Ok t'"
    moreover from this(1) assms(2) have "result_checker c" by blast
    ultimately show "\<exists>more. Errors t' = Errors r @ more"
      by (auto dest: result_checker.keeps_errors split: prod.splits)
  qed simp
  then show ?thesis .
qed

lemma rs_mocks_serve:
  "rs_mocks (foldl (\<lambda>s e. serve L e s) (s\<lparr>rs_transports := m\<rparr>) es) = rs_mocks (foldl (\<lambda>s e. serve L e s) s es)"
proof -
  have "rs_mocks s = rs_mocks s' \<Longrightarrow> rs_mocks (foldl (\<lambda>s e. serve L e s) s es) = rs_mocks (foldl (\<lambda>s e. serve L e s) s' es)" for s s'
  proof (induction es arbitrary: s s')
    case (Cons e es)
    have "rs_mocks (serve L e s) = rs_mocks (serve L e s')" using Cons.prems by (cases e) simp_all
    from Cons.IH [OF this] show ?case by simp
  qed simp
  from this [of "s\<lparr>rs_transports := m\<rparr>" s] show ?thesis by simp
qed

section \<open>Example environment\<close>

definition exampleConfig :: "Result gores \<Rightarrow> config" where
  "exampleConfig out =
     \<lparr>cf_libs = exampleLibs, cf_getenv = (\<lambda>_. []), cf_f2i = (\<lambda>_. 0), cf_realloc = False, cf_fixtures = None,
      cf_fixturesMultiDb = None, cf_mocksLoader = True, cf_grpcLoader = True, cf_cmdRun = (\<lambda>_ _. Ok ()),
      cf_execute = (\<lambda>t. ([HttpRequest ''svc'' (exampleExchange ''GET'' ''/'' [])], out)),
      cf_checkers = [responseBodyCheck exampleLibs], cf_outputs = []\<rparr>"

definition exampleState :: "runState" where
  "exampleState =
     \<lparr>rs_vars = [], rs_mocks = Some [(''svc'', NewServiceMock ''svc'' (Some (NewDefinition ''$'' [] (Some nopReply) CallsNoConstraint)))],
      rs_grpc = None, rs_transports = []\<rparr>"

definition exampleTest :: "string \<Rightarrow> Test" where
  "exampleTest status = testWithoutCases [] (exampleDefinition\<lparr>Status := status, ResponseTmpls := [(200, ''null'')]\<rparr>)"

lemma exampleState_defaults: "defaultsOk exampleState"
  by (simp add: defaultsOk_def exampleState_def hasDefaults_def NewServiceMock_def)

section \<open>Properties\<close>

text \<open>
  C5. The summary of a run that ends without an error counts every loaded test once: the total is
  the number of tests, and the skipped, broken and failed tests are exactly the ones whose
  execution was skipped, broken or finished with errors. The run is a success exactly when every
  test that was executed finished without errors.
\<close>

theorem Run_summary:
  assumes "snd (Run cfg (Ok tests) st NewConsoleHandler) = Ok h"
    and "outs = runTrace cfg (map (focusStatus (checkHasFocused tests)) tests) st"
  shows "summary h =
      \<lparr>Success = list_all (\<lambda>out. isSkipped out \<or> isBroken out \<or> isPassing out) outs,
       sum_Failed = countOf isFailing outs, sum_Skipped = countOf isSkipped outs, sum_Broken = countOf isBroken outs,
       Total = int (length tests)\<rparr>"
proof -
  have r: "snd (runLoop cfg (map (focusStatus (checkHasFocused tests)) tests) st NewConsoleHandler) = Ok h"
    using assms(1) by (simp add: Run_def)
  note counts = runLoop_counts [OF r, folded assms(2)]
  have disjoint: "isFailing out \<Longrightarrow> \<not> isSkipped out \<and> \<not> isBroken out \<and> \<not> isPassing out" for out by (cases out) auto
  have "countOf isFailing outs = 0 \<longleftrightarrow> list_all (\<lambda>out. isSkipped out \<or> isBroken out \<or> isPassing out) outs"
    using counts disjoint by (auto simp: countOf_def filter_empty_conv list_all_iff)
  with counts show ?thesis by (simp add: summary_def NewConsoleHandler_def)
qed

theorem Run_summary_witness:
  "\<exists>h. snd (Run (exampleConfig (Ok (exampleResult ''bad''))) (Ok [exampleTest ''skipped'', exampleTest []]) exampleState NewConsoleHandler) = Ok h
     \<and> \<not> Success (summary h) \<and> sum_Failed (summary h) = 1 \<and> Total (summary h) = 2"
proof -
  let ?cfg = "exampleConfig (Ok (exampleResult ''bad''))"
  let ?ts = "[exampleTest ''skipped'', exampleTest []]"
  let ?outs = "runTrace ?cfg (map (focusStatus (checkHasFocused ?ts)) ?ts) exampleState"
  have h: "snd (Run ?cfg (Ok ?ts) exampleState NewConsoleHandler)
      = Ok \<lparr>totalTests = 2, failedTests = 1, skippedTests = 1, brokenTests = 0\<rparr>" by code_simp
  have o: "\<not> list_all (\<lambda>out. isSkipped out \<or> isBroken out \<or> isPassing out) ?outs" "countOf isFailing ?outs = 1"
    by code_simp+
  from Run_summary [OF h refl] o h show ?thesis by simp
qed

text \<open>
  C6. Which tests a run executes: if some loaded test is marked with focus, exactly the tests with
  that mark, with their mark removed; otherwise exactly the tests that are marked neither broken nor
  skipped. They are executed in the order in which they were loaded, each in the state that the one
  before left, and no other test changes the state. Of the others, the broken ones are counted as
  broken and the rest as skipped.
\<close>

theorem Run_focus:
  assumes "Run cfg (Ok tests) st NewConsoleHandler = (st', Ok h)" and "focused \<longleftrightarrow> (\<exists>t \<in> set tests. Status t = ''focus'')"
    and "executed = (if focused then map (\<lambda>t. t\<lparr>Status := []\<rparr>) (filter (\<lambda>t. Status t = ''focus'') tests)
                     else filter (\<lambda>t. Status t \<notin> {''broken'', ''skipped''}) tests)"
  shows "st' = foldl (\<lambda>s t. fst (executeTest cfg t s)) st executed
    \<and> sum_Broken (summary h) = int (length (filter (\<lambda>t. Status t = ''broken'') tests))
    \<and> sum_Skipped (summary h) = int (length tests) - int (length executed) - sum_Broken (summary h)"
proof -
  let ?f = "focusStatus focused"
  have f: "checkHasFocused tests = focused" using assms(2) by (simp add: checkHasFocused_def)
  then have r: "runLoop cfg (map ?f tests) st NewConsoleHandler = (st', Ok h)" using assms(1) by (simp add: Run_def)
  have e: "filter (\<lambda>t. Status t \<notin> {''broken'', ''skipped''}) (map ?f tests) = executed"
    unfolding assms(3) by (induction tests) (auto simp: focusStatus_def)
  have b: "length (filter (\<lambda>t. Status t = ''broken'') (map ?f tests)) = length (filter (\<lambda>t. Status t = ''broken'') tests)"
    by (induction tests) (auto simp: focusStatus_def)
  have "length (filter (\<lambda>t. Status t \<notin> {''broken'', ''skipped''}) ts) + length (filter (\<lambda>t. Status t = ''broken'') ts)
      + length (filter (\<lambda>t. Status t = ''skipped'') ts) = length ts" for ts :: "Test list" by (induction ts) auto
  from this [of "map ?f tests"] runLoop_selects [OF r] e b show ?thesis by (auto simp: summary_def NewConsoleHandler_def)
qed

theorem Run_focus_witness:
  "let cfg = exampleConfig (Ok (exampleResult ''null''));
       out = Run cfg (Ok [exampleTest [], exampleTest ''focus'', exampleTest ''broken'']) exampleState NewConsoleHandler
   in fst out = fst (executeTest cfg ((exampleTest ''focus'')\<lparr>Status := []\<rparr>) exampleState)
     \<and> (\<exists>h. snd out = Ok h \<and> sum_Broken (summary h) = 1 \<and> sum_Skipped (summary h) = 1)"
proof -
  let ?cfg = "exampleConfig (Ok (exampleResult ''null''))" and ?ts = "[exampleTest [], exampleTest ''focus'', exampleTest ''broken'']"
  have "case snd (Run ?cfg (Ok ?ts) exampleState NewConsoleHandler) of Ok h \<Rightarrow> True | _ \<Rightarrow> False" by code_simp
  then obtain st' h where r: "Run ?cfg (Ok ?ts) exampleState NewConsoleHandler = (st', Ok h)"
    by (cases "Run ?cfg (Ok ?ts) exampleState NewConsoleHandler") (auto split: res.splits)
  have "map Status ?ts = [[], ''focus'', ''broken'']" by code_simp
  then have s: "Status (exampleTest []) = []" "Status (exampleTest ''focus'') = ''focus''" "Status (exampleTest ''broken'') = ''broken''"
    by simp_all
  from Run_focus [OF r refl refl] show ?thesis by (simp add: r s Let_def)
qed

text \<open>
  C2. Tests do not influence each other through the mocks: whatever a test did, and however it
  ended, preparing the mocks for the next test gives the same mocks, HTTP and gRPC, and the same
  error if a definition is wrong, as preparing them in the state before the test.
\<close>

theorem setupMocks_after_test:
  assumes "defaultsOk st"
  shows "snd (setupMocks cfg v (fst (executeTest cfg t st))) = snd (setupMocks cfg v st)
    \<and> rs_mocks (fst (setupMocks cfg v (fst (executeTest cfg t st)))) = rs_mocks (fst (setupMocks cfg v st))
    \<and> (snd (setupMocks cfg v st) = Ok () \<longrightarrow>
        rs_grpc (fst (setupMocks cfg v (fst (executeTest cfg t st)))) = rs_grpc (fst (setupMocks cfg v st)))"
proof -
  let ?s = "fst (executeTest cfg t st)"
  have r: "map_option mocksRest (rs_mocks ?s) = map_option mocksRest (rs_mocks st)"
      "map_option ResetAll (rs_grpc ?s) = map_option ResetAll (rs_grpc st)"
    using executeTest_rest [OF assms, of cfg t] by (simp_all add: restOf_def)
  have h: "map_option (setupHttpMocks cfg v) (rs_mocks ?s) = map_option (setupHttpMocks cfg v) (rs_mocks st)"
    using r(1) assms by (cases "rs_mocks st") (auto simp: defaultsOk_def intro: setupHttpMocks_cong)
  have g: "map_option (setupGrpcMocks cfg v) (rs_grpc ?s) = map_option (setupGrpcMocks cfg v) (rs_grpc st)"
    using r(2) by (cases "rs_grpc st") (auto simp: setupGrpcMocks_def)
  show ?thesis
    using h g unfolding setupMocks_def
    by (cases "rs_mocks st"; cases "rs_mocks ?s"; cases "rs_grpc st"; cases "rs_grpc ?s")
       (auto simp: sbind_def split: res.splits prod.splits)
qed

theorem setupMocks_after_test_witness:
  "rs_mocks (fst (setupMocks (exampleConfig (Err (errNew ''timeout''))) (exampleTest [])
     (fst (executeTest (exampleConfig (Err (errNew ''timeout''))) (exampleTest []) exampleState)))) =
   rs_mocks (fst (setupMocks (exampleConfig (Err (errNew ''timeout''))) (exampleTest []) exampleState))"
  using setupMocks_after_test [OF exampleState_defaults] by blast

text \<open>
  C3. A test passes only if its mocks are satisfied: the mocks prepared for the test report no
  error for the requests that the transport made reach them, neither for a single request nor
  for the number of calls at the end.
\<close>

theorem passed_test_mocks_clean:
  assumes "snd (executeTest cfg t st) = Ok r" and "Passed r" and "\<forall>c \<in> set (cf_checkers cfg). result_checker c"
    and "withVariables cfg t st = (st0, Ok v)"
    and "rs_mocks (foldl (\<lambda>s e. serve (cf_libs cfg) e s) (fst (setupMocks cfg v st0)) (fst (cf_execute cfg v))) = Some ms"
  shows "snd (endAll (cf_realloc cfg) ms) = Ok []"
proof -
  let ?s = "fst (getTransportExecutor v (fst (setupMocks cfg v st0)))"
  let ?e = "fst (transportExecute cfg v ?s)"
  obtain r0 where a: "snd (afterTransport cfg v ?e r0) = Ok r"
    using assms(1,4) unfolding executeTest_split by (auto simp: sbind_Ok)
  have m: "rs_mocks ?e = Some ms"
    using assms(5) rs_mocks_serve
    by (auto simp: transportExecute_def getTransportExecutor_def split: prod.split option.split res.split)
  obtain s2 r2 v2 where e: "snd (endMocks cfg r0 ?e) = Ok r2" and c: "runCheckers cfg v2 r2 = Ok r"
    using a unfolding afterTransport_def by (auto simp: sbind_Ok)
  obtain errs where "snd (endAll (cf_realloc cfg) ms) = Ok errs" "Errors r2 = Errors r0 @ errs"
    using e m by (auto simp: endMocks_def rbind_eq_Ok split: prod.splits)
  moreover have "Errors r2 = []"
    using runCheckers_appends [OF c assms(3)] assms(2) by (auto simp: Passed_def)
  ultimately show ?thesis by simp
qed

theorem passed_test_mocks_clean_witness:
  "\<exists>v ms. rs_mocks (fst (transportExecute (exampleConfig (Ok (exampleResult ''null''))) v
       (fst (setupMocks (exampleConfig (Ok (exampleResult ''null''))) v exampleState)))) = Some ms
     \<and> snd (endAll False ms) = Ok []"
proof -
  let ?cfg = "exampleConfig (Ok (exampleResult ''null''))"
  obtain r where e: "snd (executeTest ?cfg (exampleTest []) exampleState) = Ok r" and p: "Passed r"
  proof -
    have "case snd (executeTest ?cfg (exampleTest []) exampleState) of Ok r \<Rightarrow> Passed r | _ \<Rightarrow> False" by code_simp
    then show ?thesis using that by (auto split: res.splits)
  qed
  have c: "\<forall>c \<in> set (cf_checkers ?cfg). result_checker c"
    using body_checker.result_checker_axioms by (simp add: exampleConfig_def)
  have f: "cf_libs ?cfg = exampleLibs" "cf_realloc ?cfg = False" by (simp_all add: exampleConfig_def)
  let ?v = "snd (applyVars (cf_getenv ?cfg) [] (exampleTest []))"
  have "loadVars (CombinedVariables (exampleTest [])) (rs_vars exampleState) = []" by code_simp
  moreover have "exampleState\<lparr>rs_vars := []\<rparr> = exampleState" by (simp add: exampleState_def)
  ultimately have v: "withVariables ?cfg (exampleTest []) exampleState = (exampleState, Ok ?v)"
    by (simp add: withVariables_def)
  let ?m = "rs_mocks (foldl (\<lambda>s e. serve (cf_libs ?cfg) e s) (fst (setupMocks ?cfg ?v exampleState)) (fst (cf_execute ?cfg ?v)))"
  have "\<not> Option.is_none ?m" by code_simp
  then obtain ms where "?m = Some ms" by (cases ?m) simp_all
  with passed_test_mocks_clean [OF e p c v, of ms] f show ?thesis by (auto simp: transportExecute_def case_prod_beta)
qed

text \<open>
  The gRPC mocks cannot fail a test: whatever calls reach them, and whether or not they match
  the expected requests, the result of the test is the one it would have with no gRPC call at
  all, as long as the transport returns the same result.
\<close>

lemma grpc_calls_unreported:
  assumes "\<forall>v. filter isHttpRequest (fst (ex v)) = filter isHttpRequest (fst (ex' v)) \<and> snd (ex v) = snd (ex' v)"
  shows "snd (executeTest (cfg\<lparr>cf_execute := ex\<rparr>) t st) = snd (executeTest (cfg\<lparr>cf_execute := ex'\<rparr>) t st)"
proof -
  have after: "afterTransport (cfg\<lparr>cf_execute := ex\<rparr>) = afterTransport (cfg\<lparr>cf_execute := ex'\<rparr>)"
    by (intro ext) (unfold afterTransport_def execute_irrelevant, rule refl)
  have "snd (sbind (transportExecute (cfg\<lparr>cf_execute := ex\<rparr>) v s) (\<lambda>st r. afterTransport (cfg\<lparr>cf_execute := ex'\<rparr>) v st r)) =
      snd (sbind (transportExecute (cfg\<lparr>cf_execute := ex'\<rparr>) v s) (\<lambda>st r. afterTransport (cfg\<lparr>cf_execute := ex'\<rparr>) v st r))" for v s
  proof -
    have "sameButGrpc s s" by (simp add: sameButGrpc_def)
    from serve_same [OF this] assms
    have "sameButGrpc (fst (transportExecute (cfg\<lparr>cf_execute := ex\<rparr>) v s)) (fst (transportExecute (cfg\<lparr>cf_execute := ex'\<rparr>) v s))"
        "snd (transportExecute (cfg\<lparr>cf_execute := ex\<rparr>) v s) = snd (transportExecute (cfg\<lparr>cf_execute := ex'\<rparr>) v s)"
      by (simp_all add: transportExecute_def case_prod_beta)
    from sbind_same [OF this] afterTransport_same show ?thesis by blast
  qed
  then show ?thesis
    unfolding executeTest_split after execute_irrelevant by (intro sbind_cong_snd)
qed

end
