(* ===== verification/Concurrency.thy ===== *)
theory Concurrency
  imports RunnerSpec
begin

text \<open>
  Concurrent requests to the mocks while a test runs. The service under test may call several mocks
  at the same time. An HTTP mock holds its lock for the whole request (\<open>ServeHTTP\<close> in
  \<open>mocks/service_mock.go\<close>); a gRPC mock changes its state in one locked section
  (\<open>unknownServiceHandler\<close> in \<open>mocks/grpc/server.go\<close>, whose definitions do not change during a test).
  So a request acts on the state of its mock in one step, in an order chosen by the scheduler. The
  step relation \<open>schedule\<close> takes the next request of any of the concurrent clients.
\<close>

section \<open>Steps\<close>

abbreviation serveAll :: "libs \<Rightarrow> traffic list \<Rightarrow> runState \<Rightarrow> runState" where
  "serveAll L es st \<equiv> foldl (\<lambda>s e. serve L e s) st es"

inductive schedule :: "libs \<Rightarrow> traffic list list \<times> runState \<Rightarrow> traffic list list \<times> runState \<Rightarrow> bool" for L where
  request: "i < length qs \<Longrightarrow> qs ! i = e # es \<Longrightarrow> schedule L (qs, st) (qs[i := es], serve L e st)"

inductive_cases scheduleE: "schedule L (qs, st) (qs', st')"

inductive_simps schedule_drained: "schedule L (map (\<lambda>_. []) qs, st) s'"

fun target :: "traffic \<Rightarrow> bool \<times> string" where
  "target (HttpRequest name x) = (True, name)"
| "target (GrpcRequest name call) = (False, name)"

text \<open>No mock is called by two clients.\<close>

definition disjointClients :: "traffic list list \<Rightarrow> bool" where
  "disjointClients qs \<longleftrightarrow>
     (\<forall>i < length qs. \<forall>j < length qs. i \<noteq> j \<longrightarrow> target ` set (qs ! i) \<inter> target ` set (qs ! j) = {})"

section \<open>Requests to different mocks commute\<close>

lemma serveHttp_commute:
  "n \<noteq> n' \<Longrightarrow> serveHttp L n x (serveHttp L n' x' ms) = serveHttp L n' x' (serveHttp L n x ms)"
  by (auto simp: serveHttp_def)

lemma serveGrpc_commute: "n \<noteq> n' \<Longrightarrow> serveGrpc n c (serveGrpc n' c' g) = serveGrpc n' c' (serveGrpc n c g)"
  unfolding serveGrpc_def by (rule GrpcMocks.equality) auto

lemma serve_commute: "target e \<noteq> target e' \<Longrightarrow> serve L e (serve L e' st) = serve L e' (serve L e st)"
  by (cases e; cases e'; cases "rs_mocks st"; cases "rs_grpc st") (auto simp: serveHttp_commute serveGrpc_commute)

lemma serveAll_commute:
  "\<forall>e' \<in> set es. target e' \<noteq> target e \<Longrightarrow> serveAll L es (serve L e st) = serve L e (serveAll L es st)"
proof (induction es arbitrary: st)
  case (Cons a es)
  then have "serve L a (serve L e st) = serve L e (serve L a st)" by (intro serve_commute) simp
  with Cons show ?case by simp
qed simp

text \<open>One step does not change where the run will end.\<close>

lemma schedule_step:
  assumes "disjointClients qs" and "i < length qs" and "qs ! i = e # es"
  shows "disjointClients (qs[i := es])" and "serveAll L (concat (qs[i := es])) (serve L e st) = serveAll L (concat qs) st"
proof -
  show "disjointClients (qs[i := es])"
    using assms unfolding disjointClients_def by (auto simp: nth_list_update split: if_splits; fastforce)
  have split: "qs = take i qs @ (e # es) # drop (Suc i) qs" using assms(2,3) by (metis id_take_nth_drop)
  have upd: "qs[i := es] = take i qs @ es # drop (Suc i) qs" using assms(2) by (simp add: upd_conv_take_nth_drop)
  have "target e' \<noteq> target e" if "e' \<in> set (concat (take i qs))" for e'
  proof -
    from that obtain q where q: "q \<in> set (take i qs)" "e' \<in> set q" by auto
    then obtain j where "j < length (take i qs)" "take i qs ! j = q" by (meson in_set_conv_nth)
    with q have "j < i" "e' \<in> set (qs ! j)" by auto
    with assms(1) assms(2) have "target ` set (qs ! j) \<inter> target ` set (qs ! i) = {}"
      unfolding disjointClients_def by simp
    with assms(3) \<open>e' \<in> set (qs ! j)\<close> show ?thesis by (metis disjoint_iff image_eqI list.set_intros(1))
  qed
  then have "serveAll L (concat (take i qs)) (serve L e st) = serve L e (serveAll L (concat (take i qs)) st)"
    by (intro serveAll_commute) blast
  then show "serveAll L (concat (qs[i := es])) (serve L e st) = serveAll L (concat qs) st"
    by (subst split, subst upd) simp
qed

lemma schedule_steps:
  assumes "(schedule L)\<^sup>*\<^sup>* (qs, st) (qs', st')" and "disjointClients qs"
  shows "disjointClients qs' \<and> length qs' = length qs \<and> serveAll L (concat qs') st' = serveAll L (concat qs) st"
  using assms
proof (induction rule: rtranclp_induct2)
  case (step qs1 st1 qs2 st2)
  from step.hyps(2) obtain i e es where "i < length qs1" "qs1 ! i = e # es" "qs2 = qs1[i := es]" "st2 = serve L e st1"
    by (rule scheduleE) blast
  with step.IH [OF step.prems] show ?case by (simp add: schedule_step)
qed simp

text \<open>The requests that are left can always be served.\<close>

lemma schedule_drains: "(schedule L)\<^sup>*\<^sup>* (qs, st) (map (\<lambda>_. []) qs, serveAll L (concat qs) st)"
proof (induction "length (concat qs)" arbitrary: qs st)
  case 0
  then have "concat qs = []" and "map (\<lambda>_. []) qs = qs" by (auto intro: map_idI)
  then show ?case by (simp only: foldl_Nil rtranclp.rtrancl_refl)
next
  case (Suc n)
  then have "concat qs \<noteq> []" by (metis length_0_conv nat.distinct(1))
  then obtain q where "q \<in> set qs" "q \<noteq> []" by (meson concat_eq_Nil_conv)
  then obtain pre q' post where qs: "qs = pre @ q' # post" "q' \<noteq> []" "\<forall>x \<in> set pre. x = []"
    using split_list_first_prop [of qs "\<lambda>x. x \<noteq> []"] by blast
  then obtain e es where q': "q' = e # es" by (cases q') auto
  let ?qs = "pre @ es # post"
  have step: "schedule L (qs, st) (?qs, serve L e st)"
    using schedule.request [of "length pre" qs e es L st] qs q' by simp
  have pre: "concat pre = []" using qs(3) by auto
  have c: "concat qs = e # concat ?qs" by (simp add: qs(1) q' pre del: concat_eq_Nil_conv)
  with Suc have "n = length (concat ?qs)" by simp
  from Suc.hyps(1) [OF this, of "serve L e st"] have "(schedule L)\<^sup>*\<^sup>* (?qs, serve L e st) (map (\<lambda>_. []) qs, serveAll L (concat qs) st)"
    by (simp add: qs(1) q' pre del: concat_eq_Nil_conv)
  with step show ?case by (rule converse_rtranclp_into_rtranclp)
qed

section \<open>Properties\<close>

text \<open>
  Concurrent clients that call different mocks do not disturb each other: however their requests
  are scheduled, the run can always go on until every request was served, and it then ends in the
  state it would have if the clients had made their requests one after the other.
\<close>

lemma concurrent_requests_deterministic:
  assumes "disjointClients qs" and "(schedule L)\<^sup>*\<^sup>* (qs, st) (qs', st')"
  shows "(schedule L)\<^sup>*\<^sup>* (qs', st') (map (\<lambda>_. []) qs, foldl (\<lambda>s e. serve L e s) st (concat qs))
    \<and> ((\<forall>q \<in> set qs'. q = []) \<longrightarrow> st' = foldl (\<lambda>s e. serve L e s) st (concat qs))"
proof -
  note inv = schedule_steps [OF assms(2,1)]
  then have "map (\<lambda>_. []) qs' = map (\<lambda>_. []) qs" by (simp add: list_eq_iff_nth_eq)
  with inv schedule_drains [of L qs' st'] have "(schedule L)\<^sup>*\<^sup>* (qs', st') (map (\<lambda>_. []) qs, serveAll L (concat qs) st)"
    by metis
  moreover have "st' = serveAll L (concat qs) st" if "\<forall>q \<in> set qs'. q = []"
  proof -
    from that have "concat qs' = []" by simp
    with inv show ?thesis by (metis foldl_Nil)
  qed
  ultimately show ?thesis by blast
qed

end
