(* ===== verification/SharedDefinitions.thy ===== *)
theory SharedDefinitions
  imports RunnerSpec
begin

text \<open>
  The tests made from the cases of one definition (\<open>makeTestFromDefinition\<close> in
  \<open>testloader/yaml_file/parser.go\<close>) hold the same mock definitions, and \<open>Variables.Apply\<close>
  (\<open>variables/variables.go\<close>) replaces markers in these objects in place: what is left for the next
  case is what the last one made of them. Here a run goes over groups of tests that share their mock
  definitions. The run over values (\<open>Runner.Run\<close>) is exact when no group of several tests has markers
  in its mock definitions; a run that is not of this kind is given as an example.
\<close>

section \<open>A run over groups of tests\<close>

text \<open>A test with the objects as another test that shares them has left them.\<close>

definition withDefs :: "Test \<Rightarrow> Test \<Rightarrow> Test" where
  "withDefs u t = t\<lparr>MocksDefinition := MocksDefinition u, GrpcMocksDefinition := GrpcMocksDefinition u\<rparr>"

definition testLeft :: "config \<Rightarrow> Test \<Rightarrow> runState \<Rightarrow> Test" where
  "testLeft cfg t st = (if Status t = ''broken'' \<or> Status t = ''skipped'' then t else testAfter cfg t st)"

function runGroups :: "config \<Rightarrow> Test list list \<Rightarrow> runState \<Rightarrow> ConsoleHandler \<Rightarrow> runState \<times> ConsoleHandler gores" where
  "runGroups cfg [] st h = (st, Ok h)"
| "runGroups cfg ([] # gs) st h = runGroups cfg gs st h"
| "runGroups cfg ((t # ts) # gs) st h =
     (case buildTestExecutor cfg t st of
        (st1, out) \<Rightarrow>
          (case HandleTest h out of
             Ok h1 \<Rightarrow> runGroups cfg (map (withDefs (testLeft cfg t st)) ts # gs) st1 h1
           | Err e \<Rightarrow> (st1, Err (EWrap ''test %s error'' [ShStr (Name t)] e))
           | Panic p \<Rightarrow> (st1, Panic p)))"
  by pat_completeness auto
termination
  by (relation "measure (\<lambda>(cfg, gs, st, h). length (concat gs) + length gs)") auto

definition RunGroups :: "config \<Rightarrow> Test list list gores \<Rightarrow> runState \<Rightarrow> ConsoleHandler \<Rightarrow> runState \<times> ConsoleHandler gores" where
  "RunGroups cfg load st h =
     (case load of
        Ok gs \<Rightarrow> runGroups cfg (map (map (focusStatus (checkHasFocused (concat gs)))) gs) st h
      | Err e \<Rightarrow> (st, Err e)
      | Panic p \<Rightarrow> (st, Panic p))"

section \<open>Mock definitions without markers\<close>

fun plainYval :: "yval \<Rightarrow> bool" where
  "plainYval (YStr s) \<longleftrightarrow> usedVariables s = []"
| "plainYval (YArr xs) \<longleftrightarrow> list_all plainYval xs"
| "plainYval (YMap kvs) \<longleftrightarrow> list_all (\<lambda>(k, v). plainYval v) kvs"
| "plainYval v \<longleftrightarrow> True"

definition plainDefs :: "(string, yval) gomap option \<Rightarrow> (string, yval) gomap \<Rightarrow> bool" where
  "plainDefs ms gs \<longleftrightarrow> list_all (\<lambda>(k, d). plainYval d) (case ms of None \<Rightarrow> [] | Some m \<Rightarrow> m) \<and> list_all (\<lambda>(k, d). plainYval d) gs"

lemma perform_plain: "usedVariables s = [] \<Longrightarrow> perform getenv vs s = s"
  by (simp add: perform_def)

lemma performItem_plain:
  "plainYval x \<Longrightarrow> performInterface getenv vs x = x \<Longrightarrow>
     (case x of YStr s \<Rightarrow> YStr (perform getenv vs s) | _ \<Rightarrow> performInterface getenv vs x) = x"
  by (cases x) (simp_all add: perform_plain del: performInterface.simps)

lemma performInterface_plain: "plainYval d \<Longrightarrow> performInterface getenv vs d = d"
proof (induction d rule: plainYval.induct)
  case (2 xs)
  have "map (\<lambda>v. case v of YStr s \<Rightarrow> YStr (perform getenv vs s) | _ \<Rightarrow> performInterface getenv vs v) xs = xs"
    by (rule map_idI, rule performItem_plain) (use 2 in \<open>simp_all add: list_all_iff\<close>)
  then show ?case by simp
next
  case (3 kvs)
  have "map (\<lambda>(k, v). (k, case v of YStr s \<Rightarrow> YStr (perform getenv vs s) | _ \<Rightarrow> performInterface getenv vs v)) kvs = kvs"
  proof (rule map_idI)
    fix kv
    assume kv: "kv \<in> set kvs"
    obtain k v where p: "kv = (k, v)" by (cases kv)
    with kv 3 have "plainYval v" "performInterface getenv vs v = v" by (auto simp: list_all_iff)
    from performItem_plain [OF this] show "(\<lambda>(k, v). (k, case v of YStr s \<Rightarrow> YStr (perform getenv vs s) | _ \<Rightarrow> performInterface getenv vs v)) kv = kv"
      by (simp only: p split_conv)
  qed
  then show ?case by simp
qed simp_all

abbreviation plainTest :: "Test \<Rightarrow> bool" where
  "plainTest t \<equiv> plainDefs (MocksDefinition t) (GrpcMocksDefinition t)"

lemma applyShared_plain:
  assumes "plainTest t"
  shows "MocksDefinition (applyShared getenv vs t) = MocksDefinition t"
    and "GrpcMocksDefinition (applyShared getenv vs t) = GrpcMocksDefinition t"
proof -
  have m: "map (\<lambda>(k, d). (k, performInterface getenv vs d)) m = m" if "list_all (\<lambda>(k, d). plainYval d) m" for m
    using that by (induction m) (auto simp: performInterface_plain)
  show "MocksDefinition (applyShared getenv vs t) = MocksDefinition t"
    "GrpcMocksDefinition (applyShared getenv vs t) = GrpcMocksDefinition t"
    using assms by (cases "MocksDefinition t"; simp add: applyShared_def plainDefs_def m)+
qed

lemma testLeft_plain:
  assumes "plainTest t"
  shows "withDefs (testLeft cfg t st) u = withDefs t u"
  using assms applyShared_plain
  by (auto simp: testLeft_def testAfter_def withDefs_def Let_def split: prod.split res.split)

section \<open>When sharing does not matter\<close>

definition sameDefs :: "Test list \<Rightarrow> bool" where
  "sameDefs ts \<longleftrightarrow> (\<forall>t \<in> set ts. \<forall>u \<in> set ts. withDefs t u = u)"

definition independentGroup :: "Test list \<Rightarrow> bool" where
  "independentGroup ts \<longleftrightarrow> length ts \<le> 1 \<or> sameDefs ts \<and> list_all plainTest ts"

lemma independentGroup_step:
  assumes "independentGroup (t # ts)"
  shows "map (withDefs (testLeft cfg t st)) ts = ts \<and> independentGroup ts"
proof (cases ts)
  case (Cons u us)
  with assms have "sameDefs (t # ts)" "plainTest t" "list_all plainTest ts" by (auto simp: independentGroup_def)
  then show ?thesis by (auto simp: sameDefs_def independentGroup_def testLeft_plain intro!: map_idI)
qed (simp add: independentGroup_def)

lemma runGroups_independent:
  "list_all independentGroup gs \<Longrightarrow> runGroups cfg gs st h = runLoop cfg (concat gs) st h"
proof (induction cfg gs st h rule: runGroups.induct)
  case (3 cfg t ts gs st h)
  then have step: "map (withDefs (testLeft cfg t st)) ts = ts" "list_all independentGroup (ts # gs)"
    using independentGroup_step by auto
  with 3 show ?case by (simp split: prod.split res.split)
qed simp_all

lemma independentGroup_focus: "independentGroup ts \<Longrightarrow> independentGroup (map (focusStatus b) ts)"
proof -
  have f: "withDefs (focusStatus b t) (focusStatus b u) = focusStatus b (withDefs t u)"
    "plainTest (focusStatus b t) = plainTest t" for t u
    by (simp_all add: withDefs_def focusStatus_def)
  assume "independentGroup ts"
  then show ?thesis by (auto simp: independentGroup_def sameDefs_def f list_all_iff)
qed

section \<open>The groups of the loader\<close>

lemma makeCase_defs:
  "makeCase exec file td i cd combined = Ok (t, combined1) \<Longrightarrow>
     MocksDefinition t = MocksDefinition td \<and> GrpcMocksDefinition t = GrpcMocksDefinition td"
  by (auto simp: makeCase_def Let_def newTest_def TestDefinition.defs)

lemma makeTest_defs:
  assumes "makeTestFromDefinition exec file td = Ok ts" and "t \<in> set ts"
  shows "MocksDefinition t = MocksDefinition td \<and> GrpcMocksDefinition t = GrpcMocksDefinition td"
proof (cases "Cases td = []")
  case True
  with assms show ?thesis by (auto simp: makeTestFromDefinition_def testWithoutCases_def newTest_def TestDefinition.defs)
next
  case False
  with assms obtain cs final c where cs: "makeCases exec file td 0 (Cases td) (case Variables' td of None \<Rightarrow> [] | Some vs \<Rightarrow> vs) = Ok (cs, final)"
    and t: "c \<in> set cs" "t = c\<lparr>CombinedVariables := final, Variables' := map_option (\<lambda>_. final) (Variables' td)\<rparr>"
    by (auto simp: makeTestFromDefinition_def)
  from makeCases_Ok [OF cs] t show ?thesis by (auto simp: in_set_conv_nth dest!: makeCase_defs)
qed

lemma makeTest_independent:
  assumes "makeTestFromDefinition exec file td = Ok ts"
    and "Cases td = [] \<or> plainDefs (MocksDefinition td) (GrpcMocksDefinition td)"
  shows "independentGroup ts"
proof (cases "Cases td = []")
  case True
  with assms show ?thesis by (auto simp: independentGroup_def makeTestFromDefinition_def)
next
  case False
  with assms makeTest_defs [OF assms(1)] show ?thesis
    by (auto simp: independentGroup_def sameDefs_def withDefs_def list_all_iff)
qed

section \<open>Properties\<close>

text \<open>
  C21. The in-place substitution of variables is only visible between the cases of one definition
  whose mock definitions contain markers: if every definition of the files has no cases or has
  mock definitions without markers, the run with shared objects is the run over independent copies
  of the tests, with the same final state and the same summary.
\<close>

theorem shared_run_independent:
  assumes "mapM (makeTestFromDefinition exec file) tds = Ok gs"
    and "\<forall>td \<in> set tds. Cases td = [] \<or> plainDefs (MocksDefinition td) (GrpcMocksDefinition td)"
  shows "RunGroups cfg (Ok gs) st h = Run cfg (Ok (concat gs)) st h"
proof -
  from assms(1) have "list_all2 (\<lambda>td ts. makeTestFromDefinition exec file td = Ok ts) tds gs" by (simp add: mapM_eq_Ok)
  with assms(2) have "list_all independentGroup gs"
    by (auto simp: list_all_length list_all2_conv_all_nth makeTest_independent)
  then have "list_all independentGroup (map (map (focusStatus (checkHasFocused (concat gs)))) gs)"
    by (auto simp: list_all_iff independentGroup_focus)
  from runGroups_independent [OF this] show ?thesis by (simp add: RunGroups_def Run_def map_concat)
qed

text \<open>A definition with two cases, a mock that replies with a variable, and a response that sets it.\<close>

definition replyDefinition :: "string \<Rightarrow> TestDefinition" where
  "replyDefinition body =
     exampleDefinition\<lparr>MocksDefinition := Some [(''svc'', YMap [(YStr ''strategy'', YStr ''constant''), (YStr ''body'', YStr body)])],
       VariablesToSet := Some [(200, [(''x'', [])])], ResponseTmpls := [(200, ''2'')],
       Cases := [(exampleCase [] [])\<lparr>cd_Variables := []\<rparr>, (exampleCase ''b'' [])\<lparr>cd_Variables := []\<rparr>]\<rparr>"

definition replyTests :: "string \<Rightarrow> Test list" where
  "replyTests body = (case makeTestFromDefinition (\<lambda>s _. Ok s) ''f'' (replyDefinition body) of Ok ts \<Rightarrow> ts | _ \<Rightarrow> [])"

definition replyConfig :: config where
  "replyConfig = exampleConfig (Ok ((exampleResult ''2'')\<lparr>ResponseContentType := ''text/plain''\<rparr>))"

definition replyState :: runState where
  "replyState = exampleState\<lparr>rs_vars := [(''x'', NewVariable ''x'' ''1'')]\<rparr>"

theorem shared_run_independent_witness:
  "length (replyTests ''ok'') = 2
    \<and> RunGroups replyConfig (Ok [replyTests ''ok'']) replyState NewConsoleHandler =
        Run replyConfig (Ok (replyTests ''ok'')) replyState NewConsoleHandler"
proof -
  have l: "length (replyTests ''ok'') = 2" by code_simp
  then have "makeTestFromDefinition (\<lambda>s _. Ok s) ''f'' (replyDefinition ''ok'') = Ok (replyTests ''ok'')"
    by (auto simp: replyTests_def split: res.splits)
  then have m: "mapM (makeTestFromDefinition (\<lambda>s _. Ok s) ''f'') [replyDefinition ''ok''] = Ok [replyTests ''ok'']" by simp
  have "plainDefs (MocksDefinition (replyDefinition ''ok'')) (GrpcMocksDefinition (replyDefinition ''ok''))" by code_simp
  with shared_run_independent [OF m, of replyConfig replyState NewConsoleHandler] l show ?thesis by simp
qed

text \<open>
  C22. Otherwise the first case that is executed decides: if it knows every variable in the mock
  definitions, the other cases run with the values that the variables had then, whatever they are
  later.
\<close>

theorem first_case_fixes_mocks:
  assumes "buildTestExecutor cfg t st = (st1, out)" and "HandleTest h out = Ok h1"
    and "Status t \<notin> {''broken'', ''skipped''}" and "sameDefs (t # ts)"
    and "t' = applyShared (cf_getenv cfg) (loadVars (CombinedVariables t) (rs_vars st)) t"
    and "plainDefs (MocksDefinition t') (GrpcMocksDefinition t')"
  shows "runGroups cfg [t # ts] st h = runLoop cfg (map (withDefs t') ts) st1 h1"
proof -
  have "withDefs (testLeft cfg t st) u = withDefs t' u" for u
    using assms(3,5) applyShared_plain [OF assms(6)]
    by (auto simp: testLeft_def testAfter_def withDefs_def Let_def split: prod.split res.split)
  then have g: "map (withDefs (testLeft cfg t st)) ts = map (withDefs t') ts" by simp
  have "independentGroup (map (withDefs t') ts)"
    using assms(6) by (auto simp: independentGroup_def sameDefs_def withDefs_def list_all_iff)
  with runGroups_independent [of "[map (withDefs t') ts]" cfg st1 h1] show ?thesis by (simp add: assms(1,2) g)
qed

theorem first_case_fixes_mocks_witness:
  "\<exists>t u t' st1 h1. replyTests ''{{ $x }}'' = [t, u]
    \<and> MocksDefinition t' = Some [(''svc'', YMap [(YStr ''strategy'', YStr ''constant''), (YStr ''body'', YStr ''1'')])]
    \<and> map_of (rs_vars st1) ''x'' = Some (NewVariable ''x'' ''2'')
    \<and> runGroups replyConfig [[t, u]] replyState NewConsoleHandler = runLoop replyConfig [withDefs t' u] st1 h1"
proof -
  let ?ts = "replyTests ''{{ $x }}''"
  let ?t = "?ts ! 0" and ?u = "?ts ! 1"
  let ?b = "buildTestExecutor replyConfig ?t replyState"
  let ?t' = "applyShared (cf_getenv replyConfig) (loadVars (CombinedVariables ?t) (rs_vars replyState)) ?t"
  have "length ?ts = 2" by code_simp
  then have ts: "?ts = [?t, ?u]" by (auto simp: numeral_2_eq_2 length_Suc_conv)
  have h: "HandleTest NewConsoleHandler (snd ?b) = Ok \<lparr>totalTests = 1, failedTests = 0, skippedTests = 0, brokenTests = 0\<rparr>"
    by code_simp
  have s: "Status ?t \<notin> {''broken'', ''skipped''}" by code_simp
  have "withDefs ?t ?t = ?t" "withDefs ?t ?u = ?u" "withDefs ?u ?t = ?t" "withDefs ?u ?u = ?u" by code_simp+
  then have d: "sameDefs (?t # [?u])" by (simp add: sameDefs_def)
  have p: "plainDefs (MocksDefinition ?t') (GrpcMocksDefinition ?t')" by code_simp
  have m: "MocksDefinition ?t' = Some [(''svc'', YMap [(YStr ''strategy'', YStr ''constant''), (YStr ''body'', YStr ''1'')])]"
    "map_of (rs_vars (fst ?b)) ''x'' = Some (NewVariable ''x'' ''2'')" by code_simp+
  from first_case_fixes_mocks [OF prod.collapse [symmetric] h s d refl p]
  have "runGroups replyConfig [[?t, ?u]] replyState NewConsoleHandler
      = runLoop replyConfig [withDefs ?t' ?u] (fst ?b) \<lparr>totalTests = 1, failedTests = 0, skippedTests = 0, brokenTests = 0\<rparr>"
    by (simp only: list.map)
  with ts m show ?thesis by blast
qed

end
