(* ===== verification/RunState.thy ===== *)
theory RunState
  imports RunnerSpec
begin

text \<open>
  The well-formedness of the state that lives across tests, and that no step of a run breaks it: the
  variables that a marker can name are stored under the name they replace, the transports that were
  made are the ones a test asks for, and every mocked service keeps its default definition.
\<close>

section \<open>Well-formed states\<close>

definition names_wf :: "vars \<Rightarrow> bool" where
  "names_wf vs \<longleftrightarrow> (\<forall>(n, v) \<in> set vs. list_all rxWord n \<longrightarrow> v_raw v = n)"

definition transports_wf :: "(string, transportKind) gomap \<Rightarrow> bool" where
  "transports_wf ts \<longleftrightarrow> (\<forall>(key, ex) \<in> set ts. newTransportExecutor key = Ok ex)"

definition wfState :: "runState \<Rightarrow> bool" where
  "wfState st \<longleftrightarrow> names_wf (rs_vars st) \<and> transports_wf (rs_transports st) \<and> defaultsOk st"

named_theorems keeps_wf

lemma transports_wf_update: "transports_wf ts \<Longrightarrow> newTransportExecutor key = Ok ex \<Longrightarrow> transports_wf (AList.update key ex ts)"
  by (induction ts) (auto simp: transports_wf_def)

text \<open>
  A variable whose name has characters other than those of a word cannot be referred to; a response
  stores it under its quoted name. All others are stored under the name that their pattern replaces.
\<close>

lemma quoteMeta_word: "list_all rxWord (quoteMeta n) \<Longrightarrow> quoteMeta n = n"
proof (induction n)
  case (Cons c n)
  have "\<not> rxWord (CHR 0x5C)" by code_simp
  with Cons show ?case by (auto simp: quoteMeta_def split: if_splits)
qed (simp add: quoteMeta_def)

lemma names_wf_put: "names_wf vs \<Longrightarrow> list_all rxWord n \<longrightarrow> v_raw v = n \<Longrightarrow> names_wf (AList.update n v vs)"
  by (induction vs) (auto simp: names_wf_def)

lemma names_wf_addVar: "names_wf vs \<Longrightarrow> names_wf (addVar (NewVariable n s) vs)"
proof -
  assume "names_wf vs"
  moreover have "list_all rxWord (quoteMeta n) \<longrightarrow> v_raw (NewVariable n s) = quoteMeta n"
    using quoteMeta_word [of n] by (auto simp: NewVariable_def)
  ultimately have "names_wf (AList.update (quoteMeta n) (NewVariable n s) vs)" by (rule names_wf_put)
  then show ?thesis by (simp add: addVar_def NewVariable_def)
qed

lemma names_wf_loadVars: "names_wf vs \<Longrightarrow> names_wf (loadVars m vs)"
proof (induction m arbitrary: vs)
  case (Cons kv m)
  obtain k v where "kv = (k, v)" by (cases kv)
  with Cons names_wf_put [of vs k "NewVariable k v"] show ?case by (simp add: loadVars_def NewVariable_def)
qed (simp add: loadVars_def)

lemma names_wf_merge: "names_wf vs \<Longrightarrow> names_wf new \<Longrightarrow> names_wf (mergeVars vs new)"
  unfolding mergeVars_def
proof (induction new arbitrary: vs)
  case (Cons nv new)
  obtain n v where nv: "nv = (n, v)" by (cases nv)
  with Cons.prems(2) have v: "list_all rxWord n \<longrightarrow> v_raw v = n" and "names_wf new" by (simp_all add: names_wf_def)
  with Cons.IH [OF names_wf_put [OF Cons.prems(1) v]] nv show ?case by simp
qed simp

lemma names_wf_FromResponse: "FromResponse gj toSet body isJSON = Ok vs \<Longrightarrow> names_wf vs"
proof -
  assume r: "FromResponse gj toSet body isJSON = Ok vs"
  have e: "names_wf []" by (simp add: names_wf_def)
  show ?thesis
  proof (cases isJSON)
    case True
    with r have "foldM (\<lambda>vs (name, path). case gj body path of
          None \<Rightarrow> Err (EFmt ''path %s doesn't exist in given json'' [ShStr path])
        | Some s \<Rightarrow> Ok (addVar (NewVariable name s) vs)) [] toSet = Ok vs" by (simp add: FromResponse_def fromJSON_def)
    then show ?thesis
      by (rule foldM_invariant [where P = names_wf, OF _ e]) (auto simp: names_wf_addVar split: option.splits)
  next
    case False
    with r show ?thesis by (auto simp: FromResponse_def fromPlainText_def names_wf_addVar [OF e] split: list.splits)
  qed
qed

section \<open>Every step keeps variables and transports\<close>

abbreviation varsTransports :: "runState \<Rightarrow> bool" where
  "varsTransports st \<equiv> names_wf (rs_vars st) \<and> transports_wf (rs_transports st)"

lemma withVariables_wf [keeps_wf]: "varsTransports st \<Longrightarrow> varsTransports (fst (withVariables cfg t st))"
  by (simp add: withVariables_def Let_def names_wf_loadVars)

lemma setVariables_wf [keeps_wf]: "varsTransports st \<Longrightarrow> varsTransports (fst (setVariablesFromResponse cfg t r st))"
  by (auto simp: setVariablesFromResponse_def Let_def names_wf_merge names_wf_FromResponse split: option.split res.split)

lemma getTransportExecutor_wf [keeps_wf]: "varsTransports st \<Longrightarrow> varsTransports (fst (getTransportExecutor t st))"
  by (auto simp: getTransportExecutor_def transports_wf_update split: option.split res.split)

lemma setupMocks_wf [keeps_wf]: "varsTransports st \<Longrightarrow> varsTransports (fst (setupMocks cfg t st))"
  by (auto simp: setupMocks_def sbind_def split: option.split res.split prod.split)

lemma serve_fields: "rs_vars (serve L e st) = rs_vars st" "rs_transports (serve L e st) = rs_transports st"
  by (cases e; simp)+

lemma transportExecute_wf [keeps_wf]: "varsTransports st \<Longrightarrow> varsTransports (fst (transportExecute cfg t st))"
proof -
  have "rs_vars (foldl (\<lambda>s e. serve L e s) st es) = rs_vars st"
    "rs_transports (foldl (\<lambda>s e. serve L e s) st es) = rs_transports st" for L es
    by (induction es arbitrary: st) (simp_all add: serve_fields)
  then show "varsTransports st \<Longrightarrow> varsTransports (fst (transportExecute cfg t st))"
    by (simp add: transportExecute_def case_prod_beta)
qed

lemma endMocks_wf [keeps_wf]: "varsTransports st \<Longrightarrow> varsTransports (fst (endMocks cfg r st))"
  by (auto simp: endMocks_def split: option.split prod.split)

lemma executeTest_varsTransports: "varsTransports st \<Longrightarrow> varsTransports (fst (executeTest cfg t st))"
  unfolding executeTest_chain
  by (intro sbind_fst [where P = varsTransports]) (simp_all add: keeps_wf)

lemma executeTest_wf: "wfState st \<Longrightarrow> wfState (fst (executeTest cfg t st))"
  using executeTest_varsTransports [of st cfg t] executeTest_rest [of st cfg t] defaultsOk_rest
  unfolding wfState_def by blast

lemma buildTestExecutor_wf: "wfState st \<Longrightarrow> wfState (fst (buildTestExecutor cfg t st))"
proof -
  have "fst (buildTestExecutor cfg t st) \<in> {st, fst (executeTest cfg t st)}"
    by (simp add: buildTestExecutor_def split: prod.split res.split)
  then show "wfState st \<Longrightarrow> wfState (fst (buildTestExecutor cfg t st))" using executeTest_wf by auto
qed

lemma runLoop_wf: "wfState st \<Longrightarrow> wfState (fst (runLoop cfg ts st h))"
proof (induction cfg ts st h rule: runLoop.induct)
  case (2 cfg t ts st h)
  obtain st1 out where b: "buildTestExecutor cfg t st = (st1, out)" by (cases "buildTestExecutor cfg t st")
  with buildTestExecutor_wf [OF "2.prems", of cfg t] have "wfState st1" by simp
  with "2.IH" [OF b [symmetric]] b show ?case by (auto split: res.split)
qed simp

text \<open>The default definitions of the mocked services; serving a request only changes the counters in them.\<close>

definition defaultDefs :: "runState \<Rightarrow> (string \<times> mockDefinition option) list option" where
  "defaultDefs st = map_option (map (\<lambda>(n, m). (n, map_option ResetRunningContext (sm_default m)))) (rs_mocks st)"

lemma defaultDefs_rest: "restOf st = restOf st' \<Longrightarrow> defaultDefs st = defaultDefs st'"
proof -
  have "map (\<lambda>(n, m). (n, map_option ResetRunningContext (sm_default m))) ms = map (\<lambda>(n, m). (n, map_option ResetRunningContext (sm_default m))) (mocksRest ms)" for ms
    by (auto simp: mocksRest_def atRest_alt option.map_comp o_def ResetRunningContext_idem)
  then have "defaultDefs s = map_option (map (\<lambda>(n, m). (n, map_option ResetRunningContext (sm_default m)))) (map_option mocksRest (rs_mocks s))" for s
    by (cases "rs_mocks s") (simp_all add: defaultDefs_def)
  then show "restOf st = restOf st' \<Longrightarrow> ?thesis" by (simp add: restOf_def)
qed

lemma runLoop_defaults: "wfState st \<Longrightarrow> defaultDefs (fst (runLoop cfg ts st h)) = defaultDefs st"
proof (induction cfg ts st h rule: runLoop.induct)
  case (2 cfg t ts st h)
  obtain st1 out where b: "buildTestExecutor cfg t st = (st1, out)" by (cases "buildTestExecutor cfg t st")
  then have "st1 \<in> {st, fst (executeTest cfg t st)}"
    by (auto simp: buildTestExecutor_def split: if_splits prod.splits res.splits)
  with "2.prems" have "defaultDefs st1 = defaultDefs st"
    using executeTest_rest [of st cfg t] by (auto simp: wfState_def intro: defaultDefs_rest)
  moreover have "wfState st1" using buildTestExecutor_wf [OF "2.prems", of cfg t] b by simp
  ultimately show ?case using "2.IH" [OF b [symmetric]] b by (auto split: res.split)
qed simp

section \<open>Properties\<close>

text \<open>
  C9. The state of a run is well-formed after every test: whatever tests were run, and however they
  ended, the variables that a marker can name are stored under the name they replace; the default
  definitions of the mocked services are those that the services had at the start, apart from the
  counters of requests; and the executor that a test gets next is the one made for its own transport,
  also when it was made for an earlier test.
\<close>

theorem run_state_wf:
  assumes "wfState st" and "s = fst (runLoop cfg ts st h) \<or> s = fst (Run cfg load st h)"
  shows "wfState s \<and> defaultDefs s = defaultDefs st \<and> snd (getTransportExecutor t s) = newTransportExecutor (Transport t)"
proof -
  have w: "wfState s" "defaultDefs s = defaultDefs st"
    using assms by (auto simp: Run_def runLoop_wf runLoop_defaults split: res.splits)
  then have "snd (getTransportExecutor t s) = newTransportExecutor (Transport t)"
    by (cases "map_of (rs_transports s) (Transport t)")
       (auto simp: getTransportExecutor_def wfState_def transports_wf_def dest!: map_of_SomeD split: res.split)
  with w show ?thesis by blast
qed

theorem run_state_wf_witness:
  "let s = fst (Run (exampleConfig (Ok (exampleResult ''null''))) (Ok [exampleTest [], exampleTest ''skipped'']) exampleState NewConsoleHandler)
   in wfState s \<and> (\<exists>d. defaultDefs s = Some [(''svc'', Some d)] \<and> defaultDefs exampleState = Some [(''svc'', Some d)])"
proof -
  have "wfState exampleState"
    using exampleState_defaults by (simp add: wfState_def exampleState_def names_wf_def transports_wf_def)
  moreover have "\<exists>d. defaultDefs exampleState = Some [(''svc'', Some d)]"
    by (simp add: defaultDefs_def exampleState_def NewServiceMock_def)
  ultimately show ?thesis using run_state_wf [OF _ disjI2 [OF refl]] by (auto simp: Let_def)
qed

end
