(* ===== verification/Request.thy ===== *)
theory Request
  imports Http Models "HOL-Library.List_Lexorder" "HOL-Library.Char_ord"
begin

text \<open>
  Model of \<open>runner/request.go\<close> and \<open>runner/http_transport.go\<close>: the HTTP request of a test (URL,
  headers, cookies, a plain body or a multipart form) and the result read from the response.

  Of the standard library the writer of \<open>mime/multipart\<close>, the cookies of \<open>net/http\<close> and the
  checks of \<open>http.NewRequest\<close> are written out. Parameters (\<open>httpEnv\<close>): \<open>url.Parse\<close> (host, path
  and raw query of a URL), \<open>mime.ParseMediaType\<close>, the files, the random boundary, and the exchange
  with the server, \<open>client.Do\<close>. Strings are byte strings and are ordered bytewise. Go maps are
  visited in the order of their list.
\<close>

section \<open>Multipart bodies\<close>

definition crlf :: string where "crlf = [CHR 0x0D, CHR 0x0A]"

record multipartWriter =
  mw_boundary :: string
  mw_started :: bool
  mw_buf :: string

definition newWriter :: "string \<Rightarrow> multipartWriter" where
  "newWriter randomBoundary = \<lparr>mw_boundary = randomBoundary, mw_started = False, mw_buf = []\<rparr>"

definition boundaryChar :: "char \<Rightarrow> bool" where
  "boundaryChar c \<longleftrightarrow> isDigit c \<or> (65 \<le> codepoint c \<and> codepoint c \<le> 90) \<or> (97 \<le> codepoint c \<and> codepoint c \<le> 122)
     \<or> c \<in> set ''()+_,-./:=?'' \<or> c = CHR 0x27"

text \<open>\<open>SetBoundary\<close>: a blank is allowed everywhere but at the end.\<close>

definition validBoundary :: "string \<Rightarrow> bool" where
  "validBoundary b \<longleftrightarrow> 1 \<le> length b \<and> length b \<le> 70 \<and> boundaryChar (last b)
     \<and> list_all (\<lambda>c. boundaryChar c \<or> c = CHR '' '') (butlast b)"

definition SetBoundary :: "string \<Rightarrow> multipartWriter \<Rightarrow> multipartWriter gores" where
  "SetBoundary b w =
     (if mw_started w then Err (errNew ''mime: SetBoundary called after write'')
      else if validBoundary b then Ok (w\<lparr>mw_boundary := b\<rparr>)
      else if 1 \<le> length b \<and> length b \<le> 70 then Err (errNew ''mime: invalid boundary character'')
      else Err (errNew ''mime: invalid boundary length''))"

text \<open>\<open>CreatePart\<close> with the content written to it; \<open>header\<close> is the block of header lines.\<close>

definition writePart :: "string \<Rightarrow> string \<Rightarrow> multipartWriter \<Rightarrow> multipartWriter" where
  "writePart header content w =
     w\<lparr>mw_started := True,
       mw_buf := mw_buf w @ (if mw_started w then crlf else []) @ ''--'' @ mw_boundary w @ crlf @ header @ crlf @ content\<rparr>"

definition escapeQuotes :: "string \<Rightarrow> string" where
  "escapeQuotes s = concat (map (\<lambda>c. if c = CHR 0x5C \<or> c = CHR 0x22 then [CHR 0x5C, c] else [c]) s)"

definition fieldHeader :: "string \<Rightarrow> string" where
  "fieldHeader name = ''Content-Disposition: form-data; name='' @ [CHR 0x22] @ escapeQuotes name @ [CHR 0x22] @ crlf"

definition fileHeader :: "string \<Rightarrow> string \<Rightarrow> string" where
  "fileHeader name filename =
     ''Content-Disposition: form-data; name='' @ [CHR 0x22] @ escapeQuotes name @ [CHR 0x22]
       @ ''; filename='' @ [CHR 0x22] @ escapeQuotes filename @ [CHR 0x22] @ crlf
       @ ''Content-Type: application/octet-stream'' @ crlf"

definition WriteField :: "string \<Rightarrow> string \<Rightarrow> multipartWriter \<Rightarrow> multipartWriter" where
  "WriteField name val w = writePart (fieldHeader name) val w"

definition closeWriter :: "multipartWriter \<Rightarrow> multipartWriter" where
  "closeWriter w = w\<lparr>mw_buf := mw_buf w @ crlf @ ''--'' @ mw_boundary w @ ''--'' @ crlf\<rparr>"

definition FormDataContentType :: "multipartWriter \<Rightarrow> string" where
  "FormDataContentType w =
     (let b = mw_boundary w;
          special = [CHR 0x22, CHR 0x5C] @ ''()<>@,;:/[]?= ''
      in ''multipart/form-data; boundary='' @
         (if \<exists>c \<in> set b. c \<in> set special then [CHR 0x22] @ b @ [CHR 0x22] else b))"

text \<open>\<open>filepath.Base\<close>\<close>

definition filepathBase :: "string \<Rightarrow> string" where
  "filepathBase p =
     (if p = [] then ''.''
      else (let q = trimRight (CHR ''/'') p;
                b = rev (takeWhile (\<lambda>c. c \<noteq> CHR ''/'') (rev q))
            in if b = [] then ''/'' else b))"

section \<open>Requests\<close>

record outRequest =
  or_Method :: string
  or_Host :: string
  or_Path :: string
  or_RawQuery :: string
  or_Header :: "(string, string list) gomap"
  or_Body :: string

record urlParts =
  up_Host :: string
  up_Path :: string
  up_RawQuery :: string

record httpResponse =
  hr_Status :: string
  hr_StatusCode :: int
  hr_Header :: "(string, string list) gomap"
  hr_Body :: "string gores"
  hr_Close :: "unit gores"

record httpEnv =
  he_urlParse :: "string \<Rightarrow> urlParts gores"
  he_parseMediaType :: "string \<Rightarrow> (string \<times> (string, string) gomap) gores"
  he_randomBoundary :: string
  he_openFile :: "string \<Rightarrow> string gores"
  he_do :: "outRequest \<Rightarrow> httpResponse gores"

text \<open>\<open>strings.ToUpper\<close>; the dotless i and the long s have an upper case in ASCII.\<close>

definition toUpperMethod :: "string \<Rightarrow> string" where
  "toUpperMethod s = map asciiUpper (replaceAll (replaceAll s [CHR 0xC4, CHR 0xB1] ''I'') [CHR 0xC5, CHR 0xBF] ''S'')"

text \<open>\<open>http.NewRequest\<close>: an empty method means \<open>GET\<close>.\<close>

definition httpNewRequest :: "httpEnv \<Rightarrow> string \<Rightarrow> string \<Rightarrow> string \<Rightarrow> outRequest gores" where
  "httpNewRequest E method0 url body =
     (let method = (if method0 = [] then ''GET'' else method0)
      in if \<not> list_all tokenChar method then Err (EFmt ''net/http: invalid method %q'' [ShStr method])
         else rbind (he_urlParse E url) (\<lambda>u.
           Ok \<lparr>or_Method = method, or_Host = up_Host u, or_Path = up_Path u, or_RawQuery = up_RawQuery u,
               or_Header = [], or_Body = body\<rparr>))"

definition headerAdd :: "string \<Rightarrow> string \<Rightarrow> (string, string list) gomap \<Rightarrow> (string, string list) gomap" where
  "headerAdd k v h = valuesAdd (canonicalKey k) v h"

definition headerSet :: "string \<Rightarrow> string \<Rightarrow> (string, string list) gomap \<Rightarrow> (string, string list) gomap" where
  "headerSet k v h = AList.update (canonicalKey k) [v] h"

definition addHeader :: "outRequest \<Rightarrow> string \<times> string \<Rightarrow> outRequest" where
  "addHeader rq kv =
     (if equalFold (fst kv) ''host'' then rq\<lparr>or_Host := snd kv\<rparr>
      else rq\<lparr>or_Header := headerAdd (fst kv) (snd kv) (or_Header rq)\<rparr>)"

definition requestOf :: "httpEnv \<Rightarrow> Test \<Rightarrow> string \<Rightarrow> string \<Rightarrow> outRequest gores" where
  "requestOf E test b host =
     rbind (httpNewRequest E (toUpperMethod (Method' test)) (host @ RequestURL test @ QueryParams test) b)
       (\<lambda>rq. Ok (foldl addHeader rq (HeadersVal test)))"

definition newCommonRequest :: "httpEnv \<Rightarrow> string \<Rightarrow> Test \<Rightarrow> outRequest gores" where
  "newCommonRequest E host test =
     rbind (requestOf E test (Request test) host) (\<lambda>rq.
       Ok (if headerGet (or_Header rq) ''Content-Type'' = []
           then rq\<lparr>or_Header := headerSet ''Content-Type'' ''application/json'' (or_Header rq)\<rparr> else rq))"

definition addFields :: "(string, string) gomap \<Rightarrow> multipartWriter \<Rightarrow> multipartWriter" where
  "addFields flds w =
     foldl (\<lambda>w n. WriteField n (case map_of flds n of Some v \<Rightarrow> v | None \<Rightarrow> []) w) w (sort (gokeys flds))"

definition addFile :: "httpEnv \<Rightarrow> string \<Rightarrow> multipartWriter \<Rightarrow> string \<Rightarrow> multipartWriter gores" where
  "addFile E p w name =
     rbind (he_openFile E p) (\<lambda>content. Ok (writePart (fileHeader name (filepathBase p)) content w))"

definition addFiles :: "httpEnv \<Rightarrow> (string, string) gomap \<Rightarrow> multipartWriter \<Rightarrow> multipartWriter gores" where
  "addFiles E files w = foldM (\<lambda>w (name, p). addFile E p w name) w files"

definition requestBoundary :: "httpEnv \<Rightarrow> Test \<Rightarrow> string gores" where
  "requestBoundary E test =
     (if ContentType test = [] then Ok []
      else rbind (he_parseMediaType E (ContentType test)) (\<lambda>(contentType, params).
        if contentType \<noteq> ''multipart/form-data''
        then Err (EFmt ''test has unexpected Content-Type: %s, expected: multipart/form-data'' [ShStr (ContentType test)])
        else Ok (case map_of params ''boundary'' of Some b \<Rightarrow> b | None \<Rightarrow> [])))"

definition startWriter :: "httpEnv \<Rightarrow> string \<Rightarrow> multipartWriter gores" where
  "startWriter E boundary =
     (let w = newWriter (he_randomBoundary E)
      in if boundary = [] then Ok w
         else case SetBoundary boundary w of Err e \<Rightarrow> Err (EWrap ''SetBoundary '' [] e) | r \<Rightarrow> r)"

definition formWriter :: "httpEnv \<Rightarrow> Test \<Rightarrow> Form \<Rightarrow> multipartWriter gores" where
  "formWriter E test form =
     rbind (requestBoundary E test) (\<lambda>boundary.
     rbind (startWriter E boundary) (\<lambda>w.
     rbind (addFiles E (form_Files form) (addFields (form_Fields form) w)) (\<lambda>w. Ok (closeWriter w))))"

definition newMultipartRequest :: "httpEnv \<Rightarrow> string \<Rightarrow> Test \<Rightarrow> Form \<Rightarrow> outRequest gores" where
  "newMultipartRequest E host test form =
     rbind (formWriter E test form) (\<lambda>w.
     rbind (requestOf E test (mw_buf w) host) (\<lambda>rq.
       Ok (rq\<lparr>or_Header := headerSet ''Content-Type'' (FormDataContentType w) (or_Header rq)\<rparr>)))"

section \<open>Cookies\<close>

definition cookieValueByte :: "char \<Rightarrow> bool" where
  "cookieValueByte c \<longleftrightarrow> 32 \<le> codepoint c \<and> codepoint c < 127 \<and> c \<notin> {CHR 0x22, CHR '';'', CHR 0x5C}"

definition sanitizeCookieName :: "string \<Rightarrow> string" where
  "sanitizeCookieName n = map (\<lambda>c. if c = CHR 0x0A \<or> c = CHR 0x0D then CHR ''-'' else c) n"

definition sanitizeCookieValue :: "string \<Rightarrow> string" where
  "sanitizeCookieValue v0 =
     (let v = filter cookieValueByte v0
      in if v \<noteq> [] \<and> (CHR '' '' \<in> set v \<or> CHR '','' \<in> set v) then [CHR 0x22] @ v @ [CHR 0x22] else v)"

definition AddCookie :: "outRequest \<Rightarrow> string \<times> string \<Rightarrow> outRequest" where
  "AddCookie rq kv =
     (let s = sanitizeCookieName (fst kv) @ ''='' @ sanitizeCookieValue (snd kv);
          c = headerGet (or_Header rq) ''Cookie''
      in rq\<lparr>or_Header := headerSet ''Cookie'' (if c \<noteq> [] then c @ ''; '' @ s else s) (or_Header rq)\<rparr>)"

definition newRequest :: "httpEnv \<Rightarrow> string \<Rightarrow> Test \<Rightarrow> outRequest gores" where
  "newRequest E host test =
     rbind (case Form' test of
              Some form \<Rightarrow> newMultipartRequest E host test form
            | None \<Rightarrow> newCommonRequest E host test)
       (\<lambda>rq. Ok (foldl AddCookie rq (CookiesVal test)))"

definition actualRequestBody :: "outRequest \<Rightarrow> string" where
  "actualRequestBody rq = or_Body rq"

definition emptyResult :: Result where
  "emptyResult =
     \<lparr>r_Path = [], r_Query = [], r_RequestBody = [], ResponseStatusCode = 0, r_ResponseStatus = [], ResponseContentType = [],
      ResponseBody = [], r_ResponseHeaders = [], GrpcStatusCode = 0, GrpcStatusMessage = [], GrpcTrailers = [], Errors = [],
      TestStatus = [], r_DatabaseResult = []\<rparr>"

definition httpExecute :: "httpEnv \<Rightarrow> string \<Rightarrow> Test \<Rightarrow> Result gores" where
  "httpExecute E host test =
     rbind (newRequest E host test) (\<lambda>rq.
     rbind (he_do E rq) (\<lambda>resp.
     rbind (hr_Body resp) (\<lambda>body.
     rbind (case hr_Close resp of Err e \<Rightarrow> Err (EWrap ''closing response body'' [] e) | r \<Rightarrow> r) (\<lambda>_.
       Ok (emptyResult
         \<lparr>r_Path := or_Path rq, r_Query := or_RawQuery rq, r_RequestBody := actualRequestBody rq,
          ResponseBody := body, ResponseContentType := headerGet (hr_Header resp) ''Content-Type'',
          ResponseStatusCode := hr_StatusCode resp, r_ResponseStatus := hr_Status resp,
          r_ResponseHeaders := hr_Header resp, TestStatus := Status test\<rparr>)))))"

end
