(* ===== verification/RequestSpec.thy ===== *)
theory RequestSpec
  imports Request TestLoaderSpec
begin

text \<open>
  Correctness of the HTTP requests: which headers are sent, and that the body of a form decodes,
  by the rules of multipart messages, to exactly the fields and files of the test.
\<close>

section \<open>Headers\<close>

definition headerValues :: "(string, string list) gomap \<Rightarrow> string \<Rightarrow> string list" where
  "headerValues h k = (case map_of h k of Some vs \<Rightarrow> vs | None \<Rightarrow> [])"

abbreviation sentValues :: "(string, string) gomap \<Rightarrow> string \<Rightarrow> string list" where
  "sentValues hs k \<equiv> map snd (filter (\<lambda>(n, v). \<not> equalFold n ''host'' \<and> canonicalKey n = k) hs)"

lemma headerValues_Nil [simp]: "headerValues [] k = []"
  by (simp add: headerValues_def)

lemma headerValues_add: "headerValues (headerAdd n v h) k = headerValues h k @ (if canonicalKey n = k then [v] else [])"
  by (auto simp: headerValues_def headerAdd_def)

lemma headerValues_set: "headerValues (headerSet n v h) k = (if canonicalKey n = k then [v] else headerValues h k)"
  by (auto simp: headerValues_def headerSet_def)

lemma addHeaders_values:
  "headerValues (or_Header (foldl addHeader rq hs)) k = headerValues (or_Header rq) k @ sentValues hs k"
proof (induction hs arbitrary: rq)
  case (Cons nv hs)
  then show ?case by (cases nv) (simp add: addHeader_def headerValues_add)
qed simp

lemma addHeaders_body: "or_Body (foldl addHeader rq hs) = or_Body rq"
  by (induction hs arbitrary: rq) (simp_all add: addHeader_def)

lemma canonical_names: "canonicalKey ''Cookie'' = ''Cookie''" "canonicalKey ''Content-Type'' = ''Content-Type''"
  by code_simp+

lemma AddCookies_frame:
  "k \<noteq> ''Cookie'' \<Longrightarrow> headerValues (or_Header (foldl AddCookie rq cs)) k = headerValues (or_Header rq) k"
  "or_Body (foldl AddCookie rq cs) = or_Body rq"
  by (induction cs arbitrary: rq) (simp_all add: AddCookie_def Let_def headerValues_set canonical_names)

lemma requestOf_Ok:
  assumes "requestOf E t b host = Ok rq"
  shows "headerValues (or_Header rq) k = sentValues (HeadersVal t) k \<and> or_Body rq = b"
  using assms
  by (auto simp: requestOf_def httpNewRequest_def Let_def addHeaders_values addHeaders_body split: if_splits)

lemma headerGet_values: "headerGet h k = (case headerValues h (canonicalKey k) of [] \<Rightarrow> [] | v # vs \<Rightarrow> v)"
  by (simp add: headerGet_def headerValues_def split: option.split list.split)

section \<open>Decoding a multipart body\<close>

text \<open>\<open>strings.Split\<close> for a non-empty separator.\<close>

function splitSep :: "string \<Rightarrow> string \<Rightarrow> string list" where
  "splitSep sep [] = [[]]"
| "splitSep sep (c # s) =
     (if sep \<noteq> [] \<and> hasPrefix (c # s) sep then [] # splitSep sep (drop (length sep) (c # s))
      else (case splitSep sep s of [] \<Rightarrow> [[c]] | w # ws \<Rightarrow> (c # w) # ws))"
  by pat_completeness auto
termination
  by (relation "measure (\<lambda>(sep, s). length s)") (auto simp: neq_Nil_conv)

text \<open>The text before and after the first occurrence of a separator.\<close>

fun cutAt :: "string \<Rightarrow> string \<Rightarrow> (string \<times> string) option" where
  "cutAt sep [] = (if sep = [] then Some ([], []) else None)"
| "cutAt sep (c # s) =
     (if hasPrefix (c # s) sep then Some ([], drop (length sep) (c # s))
      else map_option (\<lambda>(a, b). (c # a, b)) (cutAt sep s))"

definition delimiter :: "string \<Rightarrow> string" where
  "delimiter b = crlf @ ''--'' @ b"

text \<open>The header lines up to the empty line, and what follows it.\<close>

lemma cutAt_shorter: "cutAt (c # sep) s = Some (l, rest) \<Longrightarrow> length rest < length s"
  by (induction s arbitrary: l) (auto split: if_splits)

function readHeader :: "string \<Rightarrow> (string list \<times> string) option" where
  "readHeader s =
     (case cutAt crlf s of
        None \<Rightarrow> None
      | Some (l, rest) \<Rightarrow> if l = [] then Some ([], rest) else map_option (\<lambda>(ls, c). (l # ls, c)) (readHeader rest))"
  by pat_completeness auto
termination
  by (relation "measure length") (auto simp: crlf_def dest: cutAt_shorter)

declare readHeader.simps [simp del]

text \<open>A part: the rest of its delimiter line, its header lines, an empty line, its content.\<close>

definition decodePart :: "string \<Rightarrow> (string list \<times> string) option" where
  "decodePart piece = (if hasPrefix piece crlf then readHeader (drop 2 piece) else None)"

fun decodeParts :: "string list \<Rightarrow> (string list \<times> string) list option" where
  "decodeParts [] = None"
| "decodeParts (piece # pieces) =
     (if hasPrefix piece ''--'' then Some []
      else Option.bind (decodePart piece) (\<lambda>p. map_option (\<lambda>ps. p # ps) (decodeParts pieces)))"

definition decodeMultipart :: "string \<Rightarrow> string \<Rightarrow> (string list \<times> string) list option" where
  "decodeMultipart b body = decodeParts (tl (splitSep (delimiter b) (crlf @ body)))"

section \<open>Delimiters\<close>

lemma hasPrefix_Cons [simp]: "hasPrefix (c # s) (d # p) \<longleftrightarrow> c = d \<and> hasPrefix s p"
  by (auto simp: hasPrefix_def)

lemma hasPrefix_Nil [simp]: "hasPrefix s []" "hasPrefix [] p \<longleftrightarrow> p = []"
  by (auto simp: hasPrefix_def)

text \<open>A delimiter cannot start inside a text and reach into the delimiter after it.\<close>

lemma no_overlap:
  assumes "\<not> contains x (r # p)" and "r \<notin> set p" and "x \<noteq> []"
  shows "\<not> hasPrefix (x @ (r # p) @ y) (r # p)"
proof
  assume pre: "hasPrefix (x @ (r # p) @ y) (r # p)"
  show False
  proof (cases "length (r # p) \<le> length x")
    case True
    with pre have "hasPrefix x (r # p)" by (simp add: hasPrefix_def)
    with assms(1,3) show False by (cases x) auto
  next
    case False
    then obtain i where i: "length x = Suc i" "i < length p" using assms(3) by (cases x) auto
    from pre have "take (length (r # p)) (x @ (r # p) @ y) ! Suc i = (r # p) ! Suc i" by (simp add: hasPrefix_def)
    moreover have "take (length (r # p)) (x @ (r # p) @ y) ! Suc i = r" using i by (simp add: nth_append)
    ultimately show False using i assms(2) by (auto dest: nth_mem)
  qed
qed

lemma splitSep_notin: "\<not> contains x sep \<Longrightarrow> splitSep sep x = [x]"
  by (induction x) auto

lemma splitSep_append:
  assumes "\<not> contains x (r # p)" and "r \<notin> set p"
  shows "splitSep (r # p) (x @ (r # p) @ y) = x # splitSep (r # p) y"
  using assms(1)
proof (induction x)
  case Nil
  show ?case by (simp add: hasPrefix_def)
next
  case (Cons c x)
  have "\<not> hasPrefix ((c # x) @ (r # p) @ y) (r # p)" using Cons.prems assms(2) by (intro no_overlap) auto
  with Cons show ?case by simp
qed

lemma splitSep_pieces:
  assumes "r \<notin> set p" and "\<not> contains x (r # p)" and "\<forall>q \<in> set qs. \<not> contains q (r # p)" and "\<not> contains z (r # p)"
  shows "splitSep (r # p) (x @ concat (map (\<lambda>q. (r # p) @ q) qs) @ (r # p) @ z) = x # qs @ [z]"
  using assms(2,3)
proof (induction qs arbitrary: x)
  case Nil
  then show ?case using splitSep_append [OF Nil(1) assms(1), of z] splitSep_notin [OF assms(4)] by simp
next
  case (Cons q qs)
  have "splitSep (r # p) (x @ (r # p) @ q @ concat (map (\<lambda>q. (r # p) @ q) qs) @ (r # p) @ z)
      = x # splitSep (r # p) (q @ concat (map (\<lambda>q. (r # p) @ q) qs) @ (r # p) @ z)"
    by (rule splitSep_append [OF Cons.prems(1) assms(1)])
  with Cons.IH [of q] Cons.prems show ?case by simp
qed

section \<open>Writing and decoding\<close>

definition fieldLines :: "string \<Rightarrow> string list" where
  "fieldLines name = [''Content-Disposition: form-data; name='' @ [CHR 0x22] @ escapeQuotes name @ [CHR 0x22]]"

definition fileLines :: "string \<Rightarrow> string \<Rightarrow> string list" where
  "fileLines name filename =
     [''Content-Disposition: form-data; name='' @ [CHR 0x22] @ escapeQuotes name @ [CHR 0x22]
        @ ''; filename='' @ [CHR 0x22] @ escapeQuotes filename @ [CHR 0x22],
      ''Content-Type: application/octet-stream'']"

abbreviation headerBlock :: "string list \<Rightarrow> string" where
  "headerBlock ls \<equiv> concat (map (\<lambda>l. l @ crlf) ls)"

lemma header_lines:
  "fieldHeader n = headerBlock (fieldLines n)" "fileHeader n f = headerBlock (fileLines n f)"
  by (simp_all add: fieldHeader_def fieldLines_def fileHeader_def fileLines_def)

text \<open>What a writer holds after some parts, given by header lines and content.\<close>

abbreviation pieceOf :: "string list \<times> string \<Rightarrow> string" where
  "pieceOf p \<equiv> crlf @ headerBlock (fst p) @ crlf @ snd p"

definition holds :: "string \<Rightarrow> (string list \<times> string) list \<Rightarrow> multipartWriter \<Rightarrow> bool" where
  "holds b ps w \<longleftrightarrow> mw_boundary w = b \<and> (mw_started w \<longleftrightarrow> ps \<noteq> []) \<and>
     (if ps = [] then mw_buf w = [] else crlf @ mw_buf w = concat (map (\<lambda>q. delimiter b @ q) (map pieceOf ps)))"

lemma holds_writePart: "holds b ps w \<Longrightarrow> holds b (ps @ [(ls, c)]) (writePart (headerBlock ls) c w)"
  by (auto simp: holds_def writePart_def delimiter_def crlf_def simp flip: append_Cons append_assoc)

abbreviation fieldParts :: "(string, string) gomap \<Rightarrow> (string list \<times> string) list" where
  "fieldParts flds \<equiv> map (\<lambda>n. (fieldLines n, case map_of flds n of Some v \<Rightarrow> v | None \<Rightarrow> [])) (sort (gokeys flds))"

abbreviation fileParts :: "(string, string) gomap \<Rightarrow> string list \<Rightarrow> (string list \<times> string) list" where
  "fileParts files cs \<equiv> map2 (\<lambda>(name, p) c. (fileLines name (filepathBase p), c)) files cs"

lemma holds_addFields:
  assumes "holds b ps w"
  shows "holds b (ps @ fieldParts flds) (addFields flds w)"
proof -
  have "holds b (ps @ map (\<lambda>n. (fieldLines n, f n)) ns) (foldl (\<lambda>w n. WriteField n (f n) w) w ns)" if "holds b ps w" for f ns ps w
    using that
  proof (induction ns arbitrary: ps w)
    case (Cons n ns)
    from Cons.IH [OF holds_writePart [OF Cons.prems, of "fieldLines n" "f n"]] show ?case
      by (simp add: WriteField_def header_lines)
  qed simp
  from this [OF assms] show ?thesis by (simp add: addFields_def)
qed

lemma holds_addFiles:
  assumes "addFiles E files w = Ok w'" and "holds b ps w"
  shows "\<exists>cs. mapM (\<lambda>(name, p). he_openFile E p) files = Ok cs \<and> holds b (ps @ fileParts files cs) w'"
  using assms unfolding addFiles_def
proof (induction files arbitrary: ps w)
  case (Cons np files)
  obtain name p where np: "np = (name, p)" by (cases np)
  from Cons.prems(1) np obtain c where c: "he_openFile E p = Ok c"
    and rest: "foldM (\<lambda>w (name, p). addFile E p w name) (writePart (headerBlock (fileLines name (filepathBase p))) c w) files = Ok w'"
    by (auto simp: addFile_def header_lines)
  from Cons.IH [OF rest holds_writePart [OF Cons.prems(2)]] c np show ?case by auto
qed simp

text \<open>A part that a decoder can recognise.\<close>

definition plainLine :: "string \<Rightarrow> bool" where
  "plainLine l \<longleftrightarrow> l \<noteq> [] \<and> hd l \<noteq> CHR ''-'' \<and> CHR 0x0D \<notin> set l"

definition plainPart :: "string \<Rightarrow> string list \<times> string \<Rightarrow> bool" where
  "plainPart b p \<longleftrightarrow> list_all plainLine (fst p) \<and> \<not> contains (crlf @ snd p) (delimiter b)"

lemma cutAt_line: "CHR 0x0D \<notin> set l \<Longrightarrow> cutAt crlf (l @ crlf @ rest) = Some (l, rest)"
  by (induction l) (auto simp: crlf_def)

lemma readHeader_block: "list_all plainLine ls \<Longrightarrow> readHeader (headerBlock ls @ crlf @ c) = Some (ls, c)"
proof (induction ls)
  case Nil
  show ?case using cutAt_line [of "[]" c] by (subst readHeader.simps) simp
next
  case (Cons l ls)
  then have "cutAt crlf (l @ crlf @ headerBlock ls @ crlf @ c) = Some (l, headerBlock ls @ crlf @ c)"
    by (intro cutAt_line) (simp add: plainLine_def)
  with Cons show ?case by (subst readHeader.simps) (simp add: plainLine_def)
qed

lemma decodePart_piece:
  assumes "plainPart b p"
  shows "decodePart (pieceOf p) = Some p" and "\<not> hasPrefix (pieceOf p) ''--''"
  using assms readHeader_block [of "fst p" "snd p"] by (simp_all add: decodePart_def plainPart_def crlf_def)

lemma contains_line:
  assumes "CHR 0x0D \<notin> set l"
  shows "contains (l @ rest) (CHR 0x0D # d) \<longleftrightarrow> contains rest (CHR 0x0D # d)"
  using assms by (induction l) auto

lemma delimiter_Cons: "delimiter b = CHR 0x0D # CHR 0x0A # ''--'' @ b"
  by (simp add: delimiter_def crlf_def)

lemma contains_crlf_line:
  assumes "plainLine l"
  shows "contains (crlf @ l @ rest) (delimiter b) \<longleftrightarrow> contains rest (delimiter b)"
  using assms contains_line [of l rest] by (cases l) (auto simp: plainLine_def delimiter_Cons crlf_def)

lemma contains_piece:
  assumes "list_all plainLine ls" and "\<not> contains (crlf @ c) (delimiter b)"
  shows "\<not> contains (crlf @ headerBlock ls @ crlf @ c) (delimiter b)"
  using assms(1)
proof (induction ls)
  case Nil
  show ?case using assms(2) by (simp add: delimiter_Cons crlf_def)
next
  case (Cons l ls)
  then show ?case using contains_crlf_line [of l "crlf @ headerBlock ls @ crlf @ c" b] by simp
qed

lemma decodeParts_pieces:
  assumes "list_all (plainPart b) ps"
  shows "decodeParts (map pieceOf ps @ [''--'' @ crlf]) = Some ps"
  using assms by (induction ps) (simp_all add: decodePart_piece [where b = b])

lemma splitSep_delimiter:
  assumes "CHR 0x0D \<notin> set b"
    and "\<not> contains x (delimiter b)" and "\<forall>q \<in> set qs. \<not> contains q (delimiter b)" and "\<not> contains z (delimiter b)"
  shows "splitSep (delimiter b) (x @ concat (map (\<lambda>q. delimiter b @ q) qs) @ delimiter b @ z) = x # qs @ [z]"
  using assms splitSep_pieces [of "CHR 0x0D" "CHR 0x0A # ''--'' @ b" x qs z] unfolding delimiter_Cons by simp

lemma decode_holds:
  assumes "holds b ps w" and "list_all (plainPart b) ps" and "CHR 0x0D \<notin> set b"
  shows "decodeMultipart b (mw_buf (closeWriter w)) = Some ps"
proof -
  have body: "crlf @ mw_buf (closeWriter w) =
      (if ps = [] then crlf else []) @ concat (map (\<lambda>q. delimiter b @ q) (map pieceOf ps)) @ delimiter b @ ''--'' @ crlf"
    using assms(1) by (auto simp: holds_def closeWriter_def delimiter_def simp flip: append_assoc)
  have "\<forall>q \<in> set (map pieceOf ps). \<not> contains q (delimiter b)"
    using assms(2) contains_piece by (auto simp: list_all_iff plainPart_def)
  moreover have "\<not> contains ((if ps = [] then crlf else []) :: string) (delimiter b)" "\<not> contains (''--'' @ crlf) (delimiter b)"
    by (simp_all add: delimiter_Cons crlf_def)
  ultimately have "splitSep (delimiter b) (crlf @ mw_buf (closeWriter w)) =
      (if ps = [] then crlf else []) # map pieceOf ps @ [''--'' @ crlf]"
    unfolding body by (intro splitSep_delimiter [OF assms(3)])
  then show ?thesis unfolding decodeMultipart_def using decodeParts_pieces [OF assms(2)] by simp
qed

lemma escapeQuotes_set: "c \<in> set (escapeQuotes n) \<Longrightarrow> c \<in> set n \<or> c = CHR 0x5C"
  by (auto simp: escapeQuotes_def split: if_splits)

lemma plain_lines:
  "CHR 0x0D \<notin> set n \<Longrightarrow> list_all plainLine (fieldLines n)"
  "CHR 0x0D \<notin> set n \<Longrightarrow> CHR 0x0D \<notin> set f \<Longrightarrow> list_all plainLine (fileLines n f)"
  by (auto simp: fieldLines_def fileLines_def plainLine_def dest: escapeQuotes_set)

lemma filepathBase_set: "c \<in> set (filepathBase p) \<Longrightarrow> c \<in> set p \<or> c = CHR ''.'' \<or> c = CHR ''/''"
  by (auto simp: filepathBase_def trimRight_def Let_def split: if_splits dest!: set_takeWhileD set_dropWhileD)

lemma SetBoundary_Ok: "SetBoundary b w = Ok w' \<Longrightarrow> CHR 0x0D \<notin> set b \<and> w' = w\<lparr>mw_boundary := b\<rparr>"
proof -
  assume ok: "SetBoundary b w = Ok w'"
  then have v: "validBoundary b" and w: "w' = w\<lparr>mw_boundary := b\<rparr>" by (auto simp: SetBoundary_def split: if_splits)
  have "\<not> boundaryChar (CHR 0x0D)" by code_simp
  moreover have "set b = insert (last b) (set (butlast b))"
    using v by (metis append_butlast_last_id length_0_conv list.simps(15) not_one_le_zero rotate1.simps(2) set_rotate1 validBoundary_def)
  ultimately show ?thesis using v w by (auto simp: validBoundary_def list_all_iff)
qed

lemma startWriter_Ok:
  assumes "startWriter E b = Ok w" and "CHR 0x0D \<notin> set (he_randomBoundary E)"
  shows "mw_buf w = []" and "\<not> mw_started w" and "CHR 0x0D \<notin> set (mw_boundary w)"
  using assms
  by (auto simp: startWriter_def newWriter_def Let_def split: if_splits res.splits dest!: SetBoundary_Ok)

lemma plain_fieldParts:
  assumes "\<forall>(n, v) \<in> set flds. CHR 0x0D \<notin> set n \<and> \<not> contains (crlf @ v) (delimiter b)"
  shows "list_all (plainPart b) (fieldParts flds)"
proof -
  have "plainPart b (fieldLines n, case map_of flds n of Some v \<Rightarrow> v | None \<Rightarrow> [])" if "n \<in> set (gokeys flds)" for n
  proof -
    from that have "map_of flds n \<noteq> None" by (simp add: map_of_eq_None_iff)
    then obtain v where v: "map_of flds n = Some v" by blast
    with assms have "CHR 0x0D \<notin> set n" "\<not> contains (crlf @ v) (delimiter b)" by (auto dest: map_of_SomeD)
    with v show ?thesis by (simp add: plainPart_def plain_lines)
  qed
  then show ?thesis by (simp add: list_all_iff)
qed

lemma plain_fileParts:
  assumes "mapM (\<lambda>(n, p). he_openFile E p) files = Ok cs"
    and "\<forall>(n, p) \<in> set files. CHR 0x0D \<notin> set n \<and> CHR 0x0D \<notin> set p \<and>
       (\<forall>c. he_openFile E p = Ok c \<longrightarrow> \<not> contains (crlf @ c) (delimiter b))"
  shows "list_all (plainPart b) (fileParts files cs)"
  using assms
proof (induction files arbitrary: cs)
  case (Cons np files)
  obtain n p where np: "np = (n, p)" by (cases np)
  with Cons.prems obtain c cs' where "cs = c # cs'" "he_openFile E p = Ok c" "mapM (\<lambda>(n, p). he_openFile E p) files = Ok cs'" by auto
  moreover have "CHR 0x0D \<notin> set (filepathBase p)" using Cons.prems(2) np by (auto dest: filepathBase_set)
  ultimately show ?case using Cons np by (auto simp: plainPart_def plain_lines)
qed simp

section \<open>Properties\<close>

text \<open>
  The headers of a plain request: under every name but \<open>Cookie\<close> the request carries exactly the
  values the test gives for it, names compared in canonical form and \<open>Host\<close> left out, and if
  the test gives no content type, or an empty one, it is JSON. The body is the test's request.
\<close>

theorem newRequest_headers:
  assumes "newRequest E host t = Ok rq" and "Form' t = None" and "k \<noteq> ''Cookie''"
  shows "or_Body rq = Request t \<and> headerValues (or_Header rq) k =
    (if k = ''Content-Type'' \<and> (sentValues (HeadersVal t) k = [] \<or> hd (sentValues (HeadersVal t) k) = [])
     then [''application/json''] else sentValues (HeadersVal t) k)"
proof -
  obtain r0 where r0: "requestOf E t (Request t) host = Ok r0"
    and rq: "rq = foldl AddCookie (if headerGet (or_Header r0) ''Content-Type'' = []
           then r0\<lparr>or_Header := headerSet ''Content-Type'' ''application/json'' (or_Header r0)\<rparr> else r0) (CookiesVal t)"
    using assms(1,2) by (auto simp: newRequest_def newCommonRequest_def)
  have g: "headerGet (or_Header r0) ''Content-Type'' = [] \<longleftrightarrow>
      sentValues (HeadersVal t) ''Content-Type'' = [] \<or> hd (sentValues (HeadersVal t) ''Content-Type'') = []"
    using requestOf_Ok [OF r0, of "''Content-Type''"] by (auto simp: headerGet_values canonical_names split: list.split)
  show ?thesis
    using requestOf_Ok [OF r0, of k] assms(3) g unfolding rq
    by (auto simp: AddCookies_frame headerValues_set canonical_names)
qed

definition exampleHttp :: httpEnv where
  "exampleHttp =
     \<lparr>he_urlParse = (\<lambda>u. Ok \<lparr>up_Host = ''localhost'', up_Path = u, up_RawQuery = []\<rparr>),
      he_parseMediaType = (\<lambda>s. Ok (s, [])), he_randomBoundary = ''xyz'', he_openFile = (\<lambda>p. Ok ''content''),
      he_do = (\<lambda>r. Err (errNew ''refused''))\<rparr>"

definition exampleFormTest :: "Form option \<Rightarrow> Test" where
  "exampleFormTest form = testWithoutCases []
     (exampleDefinition\<lparr>Form' := form, HeadersVal := [(''x-id'', ''1''), (''Host'', ''h''), (''X-ID'', ''2'')]\<rparr>)"

theorem newRequest_headers_witness:
  "\<exists>rq. newRequest exampleHttp [] (exampleFormTest None) = Ok rq \<and> headerValues (or_Header rq) ''X-Id'' = [''1'', ''2'']"
proof -
  have "case newRequest exampleHttp [] (exampleFormTest None) of Ok rq \<Rightarrow> True | _ \<Rightarrow> False" by code_simp
  then obtain rq where rq: "newRequest exampleHttp [] (exampleFormTest None) = Ok rq" by (auto split: res.splits)
  have f: "Form' (exampleFormTest None) = None"
    by (simp add: exampleFormTest_def testWithoutCases_def newTest_def TestDefinition.defs Test.defs exampleDefinition_def)
  have k: "''X-Id'' \<noteq> ''Cookie''" "''X-Id'' \<noteq> ''Content-Type''" by simp_all
  have s: "sentValues (HeadersVal (exampleFormTest None)) ''X-Id'' = [''1'', ''2'']" by code_simp
  from newRequest_headers [OF rq f k(1)] rq k s show ?thesis by simp
qed

text \<open>
  C33. Round trip of forms: the body of a multipart request, decoded with its boundary by the rules
  of multipart messages, gives exactly the fields of the form, sorted by name, and then its
  files, each under its name with the base name of its path and its content, provided that no
  name or path contains a carriage return and no value contains the delimiter of the boundary.
\<close>

theorem multipart_roundtrip:
  assumes "formWriter E t form = Ok w" and "CHR 0x0D \<notin> set (he_randomBoundary E)"
    and "\<forall>(n, v) \<in> set (form_Fields form). CHR 0x0D \<notin> set n \<and> \<not> contains (crlf @ v) (delimiter (mw_boundary w))"
    and "\<forall>(n, p) \<in> set (form_Files form). CHR 0x0D \<notin> set n \<and> CHR 0x0D \<notin> set p \<and>
       (\<forall>c. he_openFile E p = Ok c \<longrightarrow> \<not> contains (crlf @ c) (delimiter (mw_boundary w)))"
  shows "\<exists>cs. mapM (\<lambda>(n, p). he_openFile E p) (form_Files form) = Ok cs \<and>
    decodeMultipart (mw_boundary w) (mw_buf w) =
      Some (map (\<lambda>n. (fieldLines n, case map_of (form_Fields form) n of Some v \<Rightarrow> v | None \<Rightarrow> [])) (sort (gokeys (form_Fields form)))
            @ map2 (\<lambda>(n, p) c. (fileLines n (filepathBase p), c)) (form_Files form) cs)"
proof -
  obtain b0 w0 w1 where b0: "startWriter E b0 = Ok w0"
    and w1: "addFiles E (form_Files form) (addFields (form_Fields form) w0) = Ok w1" and w: "w = closeWriter w1"
    using assms(1) by (auto simp: formWriter_def)
  note w0 = startWriter_Ok [OF b0 assms(2)]
  have "holds (mw_boundary w0) [] w0" using w0 by (simp add: holds_def)
  from holds_addFiles [OF w1 holds_addFields [OF this]]
  obtain cs where cs: "mapM (\<lambda>(n, p). he_openFile E p) (form_Files form) = Ok cs"
    and h: "holds (mw_boundary w0) (fieldParts (form_Fields form) @ fileParts (form_Files form) cs) w1" by auto
  have b: "mw_boundary w = mw_boundary w0" using h w by (simp add: holds_def closeWriter_def)
  have "list_all (plainPart (mw_boundary w0)) (fieldParts (form_Fields form) @ fileParts (form_Files form) cs)"
    using plain_fieldParts [OF assms(3)] plain_fileParts [OF cs assms(4)] b by simp
  from decode_holds [OF h this w0(3)] cs w b show ?thesis by auto
qed

theorem multipart_roundtrip_witness:
  "\<exists>w. formWriter exampleHttp (exampleFormTest (Some \<lparr>form_Files = [(''f'', ''/tmp/a.txt'')], form_Fields = [(''b'', ''2''), (''a'', ''1'')]\<rparr>))
      \<lparr>form_Files = [(''f'', ''/tmp/a.txt'')], form_Fields = [(''b'', ''2''), (''a'', ''1'')]\<rparr> = Ok w \<and>
     decodeMultipart (mw_boundary w) (mw_buf w) =
       Some [(fieldLines ''a'', ''1''), (fieldLines ''b'', ''2''), (fileLines ''f'' ''a.txt'', ''content'')]"
proof -
  let ?form = "\<lparr>form_Files = [(''f'', ''/tmp/a.txt'')], form_Fields = [(''b'', ''2''), (''a'', ''1'')]\<rparr> :: Form"
  let ?t = "exampleFormTest (Some ?form)"
  have "case formWriter exampleHttp ?t ?form of Ok w \<Rightarrow> mw_boundary w = ''xyz'' | _ \<Rightarrow> False" by code_simp
  then obtain w where w: "formWriter exampleHttp ?t ?form = Ok w" and b: "mw_boundary w = ''xyz''" by (auto split: res.splits)
  have r: "CHR 0x0D \<notin> set (he_randomBoundary exampleHttp)" by code_simp
  have f: "\<forall>(n, v) \<in> set (form_Fields ?form). CHR 0x0D \<notin> set n \<and> \<not> contains (crlf @ v) (delimiter (mw_boundary w))"
    unfolding b by code_simp
  have o: "he_openFile exampleHttp p = Ok ''content''" for p by (simp add: exampleHttp_def)
  have n: "\<not> contains (crlf @ ''content'') (delimiter ''xyz'')" by code_simp
  have g: "\<forall>(n, p) \<in> set (form_Files ?form). CHR 0x0D \<notin> set n \<and> CHR 0x0D \<notin> set p \<and>
       (\<forall>c. he_openFile exampleHttp p = Ok c \<longrightarrow> \<not> contains (crlf @ c) (delimiter (mw_boundary w)))"
    using n by (simp add: b o)
  have s: "sort (gokeys (form_Fields ?form)) = [''a'', ''b'']" by code_simp
  have base: "filepathBase ''/tmp/a.txt'' = ''a.txt''" by code_simp
  from multipart_roundtrip [OF w r f g] w show ?thesis by (auto simp: s o base)
qed

end
