(* ===== verification/GrpcTransport.thy ===== *)
theory GrpcTransport
  imports RequestSpec
begin

text \<open>
  Model of \<open>runner/grpc_transport.go\<close>: one connection that is opened at the first call and kept,
  descriptors from server reflection or from protoset files with a cache, the events of a call
  collected by a handler, and the result built from them. The contract of a transport
  (\<open>transportExecutor\<close> in \<open>runner/transport.go\<close>) is the locale \<open>transport\<close>, with both
  transports as instances.

  A connection (\<open>*grpc.ClientConn\<close>) is a handle into the list of the channels that the process has
  opened; closing it closes the channel for good, and a call on it sees the closed channel. The
  parameters (\<open>grpcEnv\<close>) stand for \<open>google.golang.org/grpc\<close>, \<open>grpcurl\<close> and the server at one moment:
  whether a client can be made for a target, the error of closing, what a protoset file parses to,
  the request parser and the formatter, and one call over a channel, as the list of events it
  reports to its handler and the error it returns. Every operation gets the environment of its
  moment, so that the server and its schema may change between two calls. \<open>ge_quote\<close> is the
  quoting of \<open>%q\<close>. The locks make every method one step.
\<close>

section \<open>Environment and state\<close>

datatype channel = OpenTo string | Closed

type_synonym conn = nat
type_synonym channels = "channel list"
type_synonym message = string

datatype descSource = FromServer channel | FromProtoSets string

record grpcStatus =
  st_Code :: "32 word"
  st_Message :: string

datatype grpcEvent =
    OnReceiveResponse message
  | OnReceiveTrailers grpcStatus "(string, string list) gomap option"

record GrpcOptions =
  EmitDefaultFields :: bool
  IncludeTextSeparator :: bool

record grpcEnv =
  ge_newClient :: "string \<Rightarrow> goerror option"
  ge_close :: "channel \<Rightarrow> unit gores"
  ge_protosets :: "string \<Rightarrow> string gores"
  ge_parser :: "descSource \<Rightarrow> GrpcOptions \<Rightarrow> string \<Rightarrow> (message \<Rightarrow> string gores) gores"
  ge_invoke :: "descSource \<Rightarrow> channel \<Rightarrow> string \<Rightarrow> string list \<Rightarrow> string \<Rightarrow> grpcEvent list \<times> goerror option"
  ge_fromError :: "goerror \<Rightarrow> grpcStatus option"
  ge_quote :: "string \<Rightarrow> string"

record grpcConfig =
  gcfg_GrpcHost :: string
  gcfg_Grpc :: GrpcOptions

record GrpcTransport =
  gt_conn :: "conn option"
  gt_descSourceCache :: "(string, descSource) gomap"

record grpcResponseHandler =
  gh_out :: string
  gh_trailers :: "(string, string list) gomap option"
  gh_status :: "grpcStatus option"
  gh_formatErr :: "goerror option"

section \<open>Operations\<close>

definition newGrpcTransport :: GrpcTransport where
  "newGrpcTransport = \<lparr>gt_conn = None, gt_descSourceCache = []\<rparr>"

text \<open>The channel behind a connection; a handle that was never given out has no open channel.\<close>

definition channelOf :: "channels \<Rightarrow> conn \<Rightarrow> channel" where
  "channelOf w c = (if c < length w then w ! c else Closed)"

definition getConn :: "grpcEnv \<Rightarrow> grpcConfig \<Rightarrow> channels \<Rightarrow> GrpcTransport \<Rightarrow> (channels \<times> GrpcTransport) \<times> conn gores" where
  "getConn E cfg w t =
     (case gt_conn t of
        Some c \<Rightarrow> ((w, t), Ok c)
      | None \<Rightarrow>
          (case ge_newClient E (gcfg_GrpcHost cfg) of
             None \<Rightarrow> ((w @ [OpenTo (gcfg_GrpcHost cfg)], t\<lparr>gt_conn := Some (length w)\<rparr>), Ok (length w))
           | Some e \<Rightarrow> ((w, t), Err (EWrap ''grpc dial %s'' [ShStr (gcfg_GrpcHost cfg)] e))))"

definition closeTransport :: "grpcEnv \<Rightarrow> channels \<Rightarrow> GrpcTransport \<Rightarrow> (channels \<times> GrpcTransport) \<times> unit gores" where
  "closeTransport E w t =
     (case gt_conn t of
        None \<Rightarrow> ((w, t), Ok ())
      | Some c \<Rightarrow> ((w[c := Closed], t\<lparr>gt_conn := None\<rparr>), ge_close E (channelOf w c)))"

definition isReflectionSource :: "GrpcProtoSource option \<Rightarrow> bool" where
  "isReflectionSource ps \<longleftrightarrow>
     (case ps of None \<Rightarrow> True | Some p \<Rightarrow> ps_Type p = GrpcProtoSourceTypeReflection \<or> ps_Type p = [])"

definition buildDescriptorSource ::
  "grpcEnv \<Rightarrow> channel \<Rightarrow> GrpcProtoSource option \<Rightarrow> GrpcTransport \<Rightarrow> GrpcTransport \<times> descSource gores" where
  "buildDescriptorSource E ch ps t =
     (if isReflectionSource ps then (t, Ok (FromServer ch))
      else
        (case ps of
           None \<Rightarrow> (t, Panic ''nil pointer dereference'')
         | Some p \<Rightarrow>
             (if ps_Type p = GrpcProtoSourceTypeProtoset then
                (case map_of (gt_descSourceCache t) (ps_ProtosetFile p) of
                   Some src \<Rightarrow> (t, Ok src)
                 | None \<Rightarrow>
                     (case ge_protosets E (ps_ProtosetFile p) of
                        Ok s \<Rightarrow>
                          (t\<lparr>gt_descSourceCache := AList.update (ps_ProtosetFile p) (FromProtoSets s) (gt_descSourceCache t)\<rparr>,
                           Ok (FromProtoSets s))
                      | Err e \<Rightarrow> (t, Err (EWrap ''load protoset %s'' [ShStr (ps_ProtosetFile p)] e))
                      | Panic m \<Rightarrow> (t, Panic m)))
              else (t, Err (EFmt ''unknown proto_source type: %s'' [ShStr (ps_Type p)])))))"

definition buildGrpcHeaders :: "(string, string) gomap \<Rightarrow> string list" where
  "buildGrpcHeaders headers = map (\<lambda>(k, v). k @ '': '' @ v) headers"

text \<open>One event; after a failure of the formatter further messages are ignored.\<close>

fun handleEvent :: "(message \<Rightarrow> string gores) \<Rightarrow> grpcResponseHandler \<Rightarrow> grpcEvent \<Rightarrow> grpcResponseHandler gores" where
  "handleEvent formatter h (OnReceiveResponse resp) =
     (if gh_formatErr h \<noteq> None then Ok h
      else case formatter resp of
          Ok body \<Rightarrow> Ok (h\<lparr>gh_out := gh_out h @ body\<rparr>)
        | Err e \<Rightarrow> Ok (h\<lparr>gh_formatErr := Some e\<rparr>)
        | Panic m \<Rightarrow> Panic m)"
| "handleEvent formatter h (OnReceiveTrailers stat md) = Ok (h\<lparr>gh_status := Some stat, gh_trailers := md\<rparr>)"

definition newHandler :: grpcResponseHandler where
  "newHandler = \<lparr>gh_out = [], gh_trailers = None, gh_status = None, gh_formatErr = None\<rparr>"

text \<open>\<open>status.FromError(nil)\<close> is the status OK.\<close>

definition resolveGrpcStatus :: "grpcEnv \<Rightarrow> grpcResponseHandler \<Rightarrow> goerror option \<Rightarrow> grpcStatus gores" where
  "resolveGrpcStatus E h invokeErr =
     (case gh_status h of
        Some s \<Rightarrow> Ok s
      | None \<Rightarrow>
          (case invokeErr of
             None \<Rightarrow> Ok \<lparr>st_Code = 0, st_Message = []\<rparr>
           | Some e \<Rightarrow> (case ge_fromError E e of Some s \<Rightarrow> Ok s | None \<Rightarrow> Err e)))"

definition buildGrpcResult ::
  "grpcEnv \<Rightarrow> Test \<Rightarrow> string \<Rightarrow> grpcStatus \<Rightarrow> (string, string list) gomap option \<Rightarrow> Result" where
  "buildGrpcResult E test responseBody st trailers =
     emptyResult
       \<lparr>TestStatus := Status test, GrpcStatusCode := uint (st_Code st), GrpcStatusMessage := st_Message st,
        ResponseBody := (if st_Code st \<noteq> 0 then ''{'' @ [CHR 0x22] @ ''message'' @ [CHR 0x22] @ '': '' @ ge_quote E (st_Message st) @ ''}''
                         else responseBody),
        GrpcTrailers := (case trailers of Some md \<Rightarrow> md | None \<Rightarrow> [])\<rparr>"

text \<open>The call once the connection, with its channel, and the descriptors are there.\<close>

definition grpcCallOf :: "grpcEnv \<Rightarrow> grpcConfig \<Rightarrow> Test \<Rightarrow> channel \<Rightarrow> descSource \<Rightarrow> Result gores" where
  "grpcCallOf E cfg test ch src =
     rbind (case ge_parser E src (gcfg_Grpc cfg) (Request test) of Err e \<Rightarrow> Err (EWrap ''parse grpc request'' [] e) | r \<Rightarrow> r) (\<lambda>formatter.
       (case ge_invoke E src ch (RequestURL test) (buildGrpcHeaders (HeadersVal test)) (Request test) of
          (events, invokeErr) \<Rightarrow>
            rbind (foldM (handleEvent formatter) newHandler events) (\<lambda>h.
              (case gh_formatErr h of
                 Some e \<Rightarrow> Err (EWrap ''format grpc response'' [] e)
               | None \<Rightarrow> rbind (resolveGrpcStatus E h invokeErr) (\<lambda>st. Ok (buildGrpcResult E test (gh_out h) st (gh_trailers h)))))))"

definition grpcExecute ::
  "grpcEnv \<Rightarrow> grpcConfig \<Rightarrow> Test \<Rightarrow> channels \<times> GrpcTransport \<Rightarrow> (channels \<times> GrpcTransport) \<times> Result gores" where
  "grpcExecute E cfg test wt =
     (case getConn E cfg (fst wt) (snd wt) of
        ((w1, t1), Ok c) \<Rightarrow>
          (case buildDescriptorSource E (channelOf w1 c) (ProtoSource test) t1 of
             (t2, Ok src) \<Rightarrow> ((w1, t2), grpcCallOf E cfg test (channelOf w1 c) src)
           | (t2, Err e) \<Rightarrow> ((w1, t2), Err (EWrap ''descriptor source'' [] e))
           | (t2, Panic m) \<Rightarrow> ((w1, t2), Panic m))
      | (wt1, Err e) \<Rightarrow> (wt1, Err e)
      | (wt1, Panic m) \<Rightarrow> (wt1, Panic m))"

section \<open>The contract of a transport\<close>

text \<open>
  A transport keeps state between tests, but what it answers to a test does not depend on it: at
  every moment, in every state reached from the initial one, it answers as it would in the initial
  one at that moment.
\<close>

locale transport =
  fixes execute :: "'e \<Rightarrow> Test \<Rightarrow> 's \<Rightarrow> 's \<times> Result gores"
    and initial :: 's
    and moment :: "'e \<Rightarrow> bool"
    and invar :: "'s \<Rightarrow> bool"
  assumes invar_initial: "invar initial"
    and invar_execute: "moment e \<Longrightarrow> invar s \<Longrightarrow> invar (fst (execute e t s))"
    and execute_initial: "moment e \<Longrightarrow> invar s \<Longrightarrow> snd (execute e t s) = snd (execute e t initial)"
begin

fun executeAll :: "('e \<times> Test) list \<Rightarrow> 's \<Rightarrow> 's \<times> Result gores list" where
  "executeAll [] s = (s, [])"
| "executeAll ((e, t) # ts) s =
     (let (s1, r) = execute e t s; (s2, rs) = executeAll ts s1 in (s2, r # rs))"

lemma executeAll_independent:
  "\<forall>(e, t) \<in> set ts. moment e \<Longrightarrow> invar s \<Longrightarrow>
   invar (fst (executeAll ts s)) \<and> snd (executeAll ts s) = map (\<lambda>(e, t). snd (execute e t initial)) ts"
proof (induction ts s rule: executeAll.induct)
  case (2 e t ts s)
  obtain s1 r where x: "execute e t s = (s1, r)" by (cases "execute e t s")
  have "moment e" using "2.prems"(1) by simp
  from invar_execute [OF this "2.prems"(2), of t] execute_initial [OF this "2.prems"(2), of t] x "2.IH" [of "(s1, r)" s1 r] "2.prems"(1)
  show ?case by (auto split: prod.splits)
qed simp

end

interpretation http_transport: transport "\<lambda>E t (s::unit). (s, httpExecute E host t)" "()" "\<lambda>_. True" "\<lambda>_. True"
  by unfold_locales simp_all

section \<open>Reachable states of the gRPC transport\<close>

text \<open>
  What stays the same during a run: the protoset files, and whether a client can be made for a
  target, which \<open>grpc.NewClient\<close> decides from the target alone, without connecting.
\<close>

definition sameFiles :: "grpcEnv \<Rightarrow> grpcEnv \<Rightarrow> bool" where
  "sameFiles E0 E \<longleftrightarrow> ge_protosets E = ge_protosets E0 \<and> ge_newClient E = ge_newClient E0"

text \<open>Calls and closings, in any order, while the server changes.\<close>

inductive reachable :: "grpcEnv \<Rightarrow> grpcConfig \<Rightarrow> channels \<Rightarrow> GrpcTransport \<Rightarrow> bool" for E0 cfg where
  start: "reachable E0 cfg [] newGrpcTransport"
| call: "reachable E0 cfg w t \<Longrightarrow> sameFiles E0 E \<Longrightarrow> grpcExecute E cfg test (w, t) = ((w', t'), r) \<Longrightarrow> reachable E0 cfg w' t'"
| close: "reachable E0 cfg w t \<Longrightarrow> sameFiles E0 E \<Longrightarrow> closeTransport E w t = ((w', t'), r) \<Longrightarrow> reachable E0 cfg w' t'"

text \<open>The connection is open to the configured host, and the cache holds what the files hold.\<close>

definition transportInv :: "grpcEnv \<Rightarrow> grpcConfig \<Rightarrow> channels \<times> GrpcTransport \<Rightarrow> bool" where
  "transportInv E cfg wt \<longleftrightarrow>
     (\<forall>c. gt_conn (snd wt) = Some c \<longrightarrow>
        ge_newClient E (gcfg_GrpcHost cfg) = None \<and> c < length (fst wt) \<and> fst wt ! c = OpenTo (gcfg_GrpcHost cfg)) \<and>
     (\<forall>f src. map_of (gt_descSourceCache (snd wt)) f = Some src \<longrightarrow> (\<exists>s. ge_protosets E f = Ok s \<and> src = FromProtoSets s))"

lemma transportInv_sameFiles: "sameFiles E0 E \<Longrightarrow> transportInv E cfg wt = transportInv E0 cfg wt"
  by (simp add: sameFiles_def transportInv_def)

lemma transportInv_new: "transportInv E cfg (w, newGrpcTransport)"
  by (simp add: transportInv_def newGrpcTransport_def)

lemma transportInv_close: "transportInv E cfg (w, t) \<Longrightarrow> transportInv E cfg (fst (closeTransport E w t))"
  by (auto simp: transportInv_def closeTransport_def split: option.split)

lemma getConn_inv:
  assumes "transportInv E cfg (w, t)" and "getConn E cfg w t = ((w1, t1), r)"
  shows "transportInv E cfg (w1, t1)"
    and "r = (case ge_newClient E (gcfg_GrpcHost cfg) of
                None \<Rightarrow> Ok (case r of Ok c \<Rightarrow> c | _ \<Rightarrow> 0)
              | Some e \<Rightarrow> Err (EWrap ''grpc dial %s'' [ShStr (gcfg_GrpcHost cfg)] e))"
    and "r = Ok c \<Longrightarrow> channelOf w1 c = OpenTo (gcfg_GrpcHost cfg)"
  using assms by (auto simp: getConn_def transportInv_def channelOf_def split: option.splits)

lemma buildDescriptorSource_inv:
  assumes "transportInv E cfg (w, t)"
  shows "transportInv E cfg (w, fst (buildDescriptorSource E ch ps t))"
    and "snd (buildDescriptorSource E ch ps t) = snd (buildDescriptorSource E ch ps newGrpcTransport)"
proof -
  show "transportInv E cfg (w, fst (buildDescriptorSource E ch ps t))"
    using assms by (auto simp: buildDescriptorSource_def transportInv_def split: option.splits res.splits)
  have cached: "\<exists>s. ge_protosets E f = Ok s \<and> src = FromProtoSets s" if "map_of (gt_descSourceCache t) f = Some src" for f src
    using assms that by (simp add: transportInv_def)
  show "snd (buildDescriptorSource E ch ps t) = snd (buildDescriptorSource E ch ps newGrpcTransport)"
  proof (cases ps)
    case (Some p)
    then show ?thesis
      using cached [of "ps_ProtosetFile p"]
      by (cases "map_of (gt_descSourceCache t) (ps_ProtosetFile p)")
         (auto simp: buildDescriptorSource_def newGrpcTransport_def split: res.split)
  qed (simp add: buildDescriptorSource_def)
qed

lemma grpcExecute_inv:
  assumes "transportInv E cfg (w, t)"
  shows "transportInv E cfg (fst (grpcExecute E cfg test (w, t)))"
    and "snd (grpcExecute E cfg test (w, t)) =
      (case ge_newClient E (gcfg_GrpcHost cfg) of
         Some e \<Rightarrow> Err (EWrap ''grpc dial %s'' [ShStr (gcfg_GrpcHost cfg)] e)
       | None \<Rightarrow>
           rbind (case snd (buildDescriptorSource E (OpenTo (gcfg_GrpcHost cfg)) (ProtoSource test) newGrpcTransport) of
                    Err e \<Rightarrow> Err (EWrap ''descriptor source'' [] e) | r \<Rightarrow> r)
             (\<lambda>src. grpcCallOf E cfg test (OpenTo (gcfg_GrpcHost cfg)) src))"
proof -
  obtain w1 t1 r where g: "getConn E cfg w t = ((w1, t1), r)" by (metis prod.exhaust)
  note i = getConn_inv [OF assms g]
  show "transportInv E cfg (fst (grpcExecute E cfg test (w, t)))"
    using buildDescriptorSource_inv(1) [OF i(1)] i(1) g by (auto simp: grpcExecute_def split: prod.split res.split) (metis fst_conv)+
  show "snd (grpcExecute E cfg test (w, t)) =
      (case ge_newClient E (gcfg_GrpcHost cfg) of
         Some e \<Rightarrow> Err (EWrap ''grpc dial %s'' [ShStr (gcfg_GrpcHost cfg)] e)
       | None \<Rightarrow>
           rbind (case snd (buildDescriptorSource E (OpenTo (gcfg_GrpcHost cfg)) (ProtoSource test) newGrpcTransport) of
                    Err e \<Rightarrow> Err (EWrap ''descriptor source'' [] e) | r \<Rightarrow> r)
             (\<lambda>src. grpcCallOf E cfg test (OpenTo (gcfg_GrpcHost cfg)) src))"
  proof (cases r)
    case (Ok c)
    have "snd (buildDescriptorSource E (channelOf w1 c) (ProtoSource test) t1)
        = snd (buildDescriptorSource E (OpenTo (gcfg_GrpcHost cfg)) (ProtoSource test) newGrpcTransport)"
      using buildDescriptorSource_inv(2) [OF i(1)] i(3) [OF Ok] by simp
    with Ok g i(2,3) show ?thesis by (auto simp: grpcExecute_def split: prod.split res.split option.splits)
  qed (use g i(2) in \<open>auto simp: grpcExecute_def split: option.splits\<close>)
qed

lemma reachable_inv: "reachable E0 cfg w t \<Longrightarrow> transportInv E0 cfg (w, t)"
proof (induction rule: reachable.induct)
  case (call w t E test w' t' r)
  then show ?case using grpcExecute_inv(1) [of E cfg w t test] by (simp add: transportInv_sameFiles [of E0 E])
next
  case (close w t E w' t' r)
  then show ?case using transportInv_close [of E cfg w t] by (simp add: transportInv_sameFiles [of E0 E])
qed (rule transportInv_new)

interpretation grpc_transport: transport "\<lambda>E. grpcExecute E cfg" "([], newGrpcTransport)" "sameFiles E0" "\<lambda>(w, t). reachable E0 cfg w t"
proof unfold_locales
  show "case ([], newGrpcTransport) of (w, t) \<Rightarrow> reachable E0 cfg w t" by (simp add: reachable.start)
next
  fix E test and s :: "channels \<times> GrpcTransport"
  assume "sameFiles E0 E" "case s of (w, t) \<Rightarrow> reachable E0 cfg w t"
  then show "case fst (grpcExecute E cfg test s) of (w, t) \<Rightarrow> reachable E0 cfg w t"
    by (cases s; cases "grpcExecute E cfg test s") (auto intro: reachable.call)
next
  fix E test and s :: "channels \<times> GrpcTransport"
  assume f: "sameFiles E0 E" and "case s of (w, t) \<Rightarrow> reachable E0 cfg w t"
  then obtain w t where s: "s = (w, t)" "transportInv E cfg (w, t)"
    using transportInv_sameFiles [OF f] by (cases s) (auto dest: reachable_inv)
  show "snd (grpcExecute E cfg test s) = snd (grpcExecute E cfg test ([], newGrpcTransport))"
    using grpcExecute_inv(2) [OF s(2)] grpcExecute_inv(2) [OF transportInv_new] s(1) by simp
qed

section \<open>The events of a call\<close>

fun responsesOf :: "grpcEvent list \<Rightarrow> message list" where
  "responsesOf [] = []"
| "responsesOf (OnReceiveResponse m # es) = m # responsesOf es"
| "responsesOf (OnReceiveTrailers s md # es) = responsesOf es"

fun statusOf :: "grpcStatus option \<Rightarrow> grpcEvent list \<Rightarrow> grpcStatus option" where
  "statusOf s [] = s"
| "statusOf s (OnReceiveResponse m # es) = statusOf s es"
| "statusOf s (OnReceiveTrailers s' md # es) = statusOf (Some s') es"

lemma handleEvents_failed:
  "foldM (handleEvent formatter) h es = Ok h' \<Longrightarrow> gh_formatErr h = Some e \<Longrightarrow> gh_formatErr h' = Some e"
proof (induction es arbitrary: h)
  case (Cons ev es)
  then show ?case by (cases ev) auto
qed simp

lemma handleEvents_Ok:
  assumes "foldM (handleEvent formatter) h es = Ok h'" and "gh_formatErr h' = None"
  shows "\<exists>bodies. mapM formatter (responsesOf es) = Ok bodies \<and> gh_out h' = gh_out h @ concat bodies
    \<and> gh_status h' = statusOf (gh_status h) es"
  using assms
proof (induction es arbitrary: h)
  case (Cons ev es)
  show ?case
  proof (cases ev)
    case (OnReceiveTrailers stat md)
    with Cons.IH [of "h\<lparr>gh_status := Some stat, gh_trailers := md\<rparr>"] Cons.prems show ?thesis by simp
  next
    case (OnReceiveResponse m)
    have f: "gh_formatErr h = None"
    proof (rule ccontr)
      assume "gh_formatErr h \<noteq> None"
      then obtain e where "gh_formatErr h = Some e" by blast
      from handleEvents_failed [OF Cons.prems(1) this] Cons.prems(2) show False by simp
    qed
    show ?thesis
    proof (cases "formatter m")
      case (Ok body)
      with Cons.IH [of "h\<lparr>gh_out := gh_out h @ body\<rparr>"] Cons.prems OnReceiveResponse f show ?thesis by auto
    next
      case (Err e)
      with Cons.prems OnReceiveResponse f handleEvents_failed [of formatter "h\<lparr>gh_formatErr := Some e\<rparr>" es h' e] show ?thesis by simp
    qed (use Cons.prems OnReceiveResponse f in simp)
  qed
qed simp

section \<open>Properties\<close>

text \<open>
  C34. The gRPC transport does not remember: after any sequence of calls and closings, with the
  connection kept open and the parsed protoset files cached, a test gets the result it would get
  from a new transport at that moment, over an open channel to the configured host: never over a
  connection that was closed, and never with the descriptors of another file. The server, its
  answers and the schema it reports may have changed in any way between the calls; the condition is
  that the protoset files did not (\<open>sameFiles\<close>), since a parsed file is never read again.
\<close>

theorem grpcExecute_history_independent:
  assumes "reachable E0 cfg w t" and "sameFiles E0 E"
  shows "snd (grpcExecute E cfg test (w, t)) = snd (grpcExecute E cfg test ([], newGrpcTransport))
    \<and> (\<forall>w' t' r c. grpcExecute E cfg test (w, t) = ((w', t'), r) \<and> gt_conn t' = Some c \<longrightarrow>
         channelOf w' c = OpenTo (gcfg_GrpcHost cfg))"
proof -
  have "transportInv E cfg (fst (grpcExecute E cfg test (w, t)))"
    using grpcExecute_inv(1) reachable_inv [OF assms(1)] transportInv_sameFiles [OF assms(2)] by blast
  moreover have "snd (grpcExecute E cfg test (w, t)) = snd (grpcExecute E cfg test ([], newGrpcTransport))"
    using grpc_transport.execute_initial [of E0 E cfg "(w, t)" test] assms by simp
  ultimately show ?thesis by (auto simp: transportInv_def channelOf_def)
qed

text \<open>A server that refuses calls over closed channels, at two moments: its answer has changed.\<close>

definition exampleGrpcAt :: "32 word \<Rightarrow> grpcEnv" where
  "exampleGrpcAt code =
     \<lparr>ge_newClient = (\<lambda>h. None), ge_close = (\<lambda>ch. Ok ()), ge_protosets = (\<lambda>f. Ok f),
      ge_parser = (\<lambda>src opt rq. Ok (\<lambda>m. Ok m)),
      ge_invoke = (\<lambda>src ch m hs rq.
        case ch of
          Closed \<Rightarrow> ([], Some (errNew ''the client connection is closing''))
        | OpenTo h \<Rightarrow> ([OnReceiveResponse ''{}'', OnReceiveTrailers \<lparr>st_Code = code, st_Message = ''no''\<rparr> None], None)),
      ge_fromError = (\<lambda>e. None), ge_quote = (\<lambda>s. s)\<rparr>"

definition exampleGrpc :: grpcEnv where
  "exampleGrpc = exampleGrpcAt 5"

definition exampleGrpcConfig :: grpcConfig where
  "exampleGrpcConfig = \<lparr>gcfg_GrpcHost = ''localhost:1'', gcfg_Grpc = \<lparr>EmitDefaultFields = False, IncludeTextSeparator = False\<rparr>\<rparr>"

theorem grpcExecute_history_independent_witness:
  "let wt = fst (grpcExecute exampleGrpc exampleGrpcConfig (exampleFormTest None) ([], newGrpcTransport));
       wt1 = fst (closeTransport exampleGrpc (fst wt) (snd wt))
   in snd (grpcExecute (exampleGrpcAt 0) exampleGrpcConfig (exampleFormTest None) wt1)
      = snd (grpcExecute (exampleGrpcAt 0) exampleGrpcConfig (exampleFormTest None) ([], newGrpcTransport))"
proof -
  let ?x = "grpcExecute exampleGrpc exampleGrpcConfig (exampleFormTest None) ([], newGrpcTransport)"
  obtain w t r where x: "?x = ((w, t), r)" by (metis prod.exhaust)
  obtain w1 t1 r1 where y: "closeTransport exampleGrpc w t = ((w1, t1), r1)" by (metis prod.exhaust)
  have f: "sameFiles exampleGrpc exampleGrpc" "sameFiles exampleGrpc (exampleGrpcAt 0)"
    by (simp_all add: sameFiles_def exampleGrpc_def exampleGrpcAt_def)
  from reachable.close [OF reachable.call [OF reachable.start f(1) x] f(1) y]
  have "reachable exampleGrpc exampleGrpcConfig w1 t1" .
  from grpcExecute_history_independent [OF this f(2)] x y show ?thesis by (simp add: Let_def)
qed

text \<open>
  The result of a call that returns one: every message of the response was formatted, the
  status is the last one the server sent, else the one of the call's error, and the body is
  the formatted messages in order, or, for any status but OK, a JSON object with the message of
  the status.
\<close>

theorem grpcCallOf_result:
  assumes "grpcCallOf E cfg test ch src = Ok r" and "ge_parser E src (gcfg_Grpc cfg) (Request test) = Ok formatter"
    and "ge_invoke E src ch (RequestURL test) (buildGrpcHeaders (HeadersVal test)) (Request test) = (events, invokeErr)"
  shows "\<exists>bodies st. mapM formatter (responsesOf events) = Ok bodies
    \<and> (case statusOf None events of
         Some s \<Rightarrow> st = s
       | None \<Rightarrow> (case invokeErr of None \<Rightarrow> st = \<lparr>st_Code = 0, st_Message = []\<rparr> | Some e \<Rightarrow> ge_fromError E e = Some st))
    \<and> GrpcStatusCode r = uint (st_Code st) \<and> GrpcStatusMessage r = st_Message st
    \<and> ResponseBody r = (if st_Code st \<noteq> 0 then ''{'' @ [CHR 0x22] @ ''message'' @ [CHR 0x22] @ '': '' @ ge_quote E (st_Message st) @ ''}''
                         else concat bodies)"
proof -
  obtain h st where h: "foldM (handleEvent formatter) newHandler events = Ok h" "gh_formatErr h = None"
    and st: "resolveGrpcStatus E h invokeErr = Ok st" and r: "r = buildGrpcResult E test (gh_out h) st (gh_trailers h)"
    using assms by (auto simp: grpcCallOf_def split: option.splits)
  from handleEvents_Ok [OF h] obtain bodies where "mapM formatter (responsesOf events) = Ok bodies"
    "gh_out h = concat bodies" "gh_status h = statusOf None events" by (auto simp: newHandler_def)
  moreover have "case gh_status h of Some s \<Rightarrow> st = s
       | None \<Rightarrow> (case invokeErr of None \<Rightarrow> st = \<lparr>st_Code = 0, st_Message = []\<rparr> | Some e \<Rightarrow> ge_fromError E e = Some st)"
    using st by (auto simp: resolveGrpcStatus_def split: option.splits)
  ultimately show ?thesis unfolding r by (auto simp: buildGrpcResult_def)
qed

theorem grpcCallOf_result_witness:
  "\<exists>r. grpcCallOf exampleGrpc exampleGrpcConfig (exampleFormTest None) (OpenTo []) (FromServer (OpenTo [])) = Ok r \<and> GrpcStatusCode r = 5"
proof -
  let ?t = "exampleFormTest None"
  have "case grpcCallOf exampleGrpc exampleGrpcConfig ?t (OpenTo []) (FromServer (OpenTo [])) of Ok r \<Rightarrow> True | _ \<Rightarrow> False" by code_simp
  then obtain r where r: "grpcCallOf exampleGrpc exampleGrpcConfig ?t (OpenTo []) (FromServer (OpenTo [])) = Ok r" by (auto split: res.splits)
  have "ge_parser exampleGrpc (FromServer (OpenTo [])) (gcfg_Grpc exampleGrpcConfig) (Request ?t) = Ok (\<lambda>m. Ok m)"
    by (simp add: exampleGrpc_def exampleGrpcAt_def)
  moreover have "ge_invoke exampleGrpc (FromServer (OpenTo [])) (OpenTo []) (RequestURL ?t) (buildGrpcHeaders (HeadersVal ?t)) (Request ?t)
      = ([OnReceiveResponse ''{}'', OnReceiveTrailers \<lparr>st_Code = 5, st_Message = ''no''\<rparr> None], None)"
    by (simp add: exampleGrpc_def exampleGrpcAt_def)
  ultimately show ?thesis using grpcCallOf_result [OF r] r by fastforce
qed

end
