(* ===== verification/Allure2.thy ===== *)
theory Allure2
  imports Checkers Request
begin

text \<open>
  Model of the Allure 2 report: \<open>output/allure_report/allure2/models.go\<close> (results and steps),
  \<open>allure2_helpers.go\<close> (what a test says about its fixtures and mocks) and \<open>allure2_output.go\<close>
  (the report of one test).

  A step is a value: the program starts a step inside its parent and finishes it through a
  pointer before it starts the next one, so building the step and appending it to its parent when
  it is complete gives the same tree (\<open>Allure2Store\<close> has the arrays behind them). Start and stop times are left out. Parameters
  (\<open>allureEnv\<close>): the random identifiers in their order, writing a file, the indentation of a text
  that is valid JSON, the JSON form of a report and the MD5 digest. What is written is kept in a
  \<open>reportState\<close>. The titles of the steps are Russian; they are given as UTF-8 bytes.
\<close>

section \<open>Texts\<close>

definition utf8 :: "nat list \<Rightarrow> string" where
  "utf8 bs = map char_of bs"

definition txtPreparation :: string where
  "txtPreparation = utf8
     [208, 159, 208, 190, 208, 180, 208, 179, 208, 190, 209, 130, 208, 190, 208, 178, 208, 186, 208, 176, 32, 209, 130,
     208, 181, 209, 129, 209, 130, 208, 190, 208, 178, 209, 139, 209, 133, 32, 208, 180, 208, 176, 208, 189, 208, 189,
     209, 139, 209, 133]"

definition txtFixtures :: string where
  "txtFixtures = utf8
     [208, 151, 208, 176, 208, 179, 209, 128, 209, 131, 208, 183, 208, 186, 208, 176, 32, 209, 132, 208, 184, 208, 186,
     209, 129, 209, 130, 209, 131, 209, 128, 32, 208, 178, 32, 208, 145, 208, 148]"

definition txtMocks :: string where
  "txtMocks = utf8
     [208, 157, 208, 176, 209, 129, 209, 130, 209, 128, 208, 190, 208, 185, 208, 186, 208, 176, 32, 109, 111, 99, 107, 45,
     209, 129, 208, 181, 209, 128, 208, 178, 208, 184, 209, 129, 208, 190, 208, 178]"

definition txtSending :: string where
  "txtSending = utf8
     [208, 158, 209, 130, 208, 191, 209, 128, 208, 176, 208, 178, 208, 186, 208, 176, 32]"

definition txtRequestTo :: string where
  "txtRequestTo = utf8
     [32, 208, 183, 208, 176, 208, 191, 209, 128, 208, 190, 209, 129, 208, 176, 32, 208, 186, 32]"

definition txtResponse :: string where
  "txtResponse = utf8
     [208, 159, 209, 128, 208, 190, 208, 178, 208, 181, 209, 128, 208, 186, 208, 176, 32, 208, 190, 209, 130, 208, 178,
     208, 181, 209, 130, 208, 176, 32, 209, 129, 208, 181, 209, 128, 208, 178, 208, 181, 209, 128, 208, 176]"

definition txtStatus :: string where
  "txtStatus = utf8
     [208, 159, 209, 128, 208, 190, 208, 178, 208, 181, 209, 128, 208, 186, 208, 176, 32, 209, 129, 209, 130, 208, 176,
     209, 130, 209, 131, 209, 129, 32, 208, 186, 208, 190, 208, 180, 208, 176]"

definition txtExpected :: string where
  "txtExpected = utf8
     [32, 40, 208, 190, 208, 182, 208, 184, 208, 180, 208, 176, 208, 181, 209, 130, 209, 129, 209, 143, 58, 32]"

definition txtBody :: string where
  "txtBody = utf8
     [208, 159, 209, 128, 208, 190, 208, 178, 208, 181, 209, 128, 208, 186, 208, 176, 32, 209, 130, 208, 181, 208, 187,
     208, 176, 32, 208, 190, 209, 130, 208, 178, 208, 181, 209, 130, 208, 176]"

definition txtHeaders :: string where
  "txtHeaders = utf8
     [208, 159, 209, 128, 208, 190, 208, 178, 208, 181, 209, 128, 208, 186, 208, 176, 32, 208, 183, 208, 176, 208, 179,
     208, 190, 208, 187, 208, 190, 208, 178, 208, 186, 208, 190, 208, 178, 32, 208, 190, 209, 130, 208, 178, 208, 181,
     209, 130, 208, 176]"

definition txtDatabase :: string where
  "txtDatabase = utf8
     [208, 159, 209, 128, 208, 190, 208, 178, 208, 181, 209, 128, 208, 186, 208, 176, 32, 208, 180, 208, 176, 208, 189,
     208, 189, 209, 139, 209, 133, 32, 208, 178, 32, 208, 145, 208, 148]"

definition txtMockCalls :: string where
  "txtMockCalls = utf8
     [208, 159, 209, 128, 208, 190, 208, 178, 208, 181, 209, 128, 208, 186, 208, 176, 32, 208, 178, 209, 139, 208, 183,
     208, 190, 208, 178, 208, 190, 208, 178, 32, 109, 111, 99, 107, 45, 209, 129, 208, 181, 209, 128, 208, 178, 208, 184,
     209, 129, 208, 190, 208, 178]"

abbreviation StatusPassed :: string where "StatusPassed \<equiv> ''passed''"
abbreviation StatusFailed :: string where "StatusFailed \<equiv> ''failed''"
abbreviation StatusUnknown :: string where "StatusUnknown \<equiv> ''unknown''"
abbreviation StageRunning :: string where "StageRunning \<equiv> ''running''"
abbreviation StageFinished :: string where "StageFinished \<equiv> ''finished''"
abbreviation MimeTypeTextPlain :: string where "MimeTypeTextPlain \<equiv> ''text/plain''"
abbreviation MimeTypeApplicationJSON :: string where "MimeTypeApplicationJSON \<equiv> ''application/json''"

section \<open>Results and steps\<close>

record Attachment =
  at_Name :: string
  at_Source :: string
  at_Type :: string

datatype Step =
  Step (stepName: string) (stepStatus: string) (stepStage: string) (stepParameters: "(string \<times> string) list")
    (subSteps: "Step list") (stepAttachments: "Attachment list")

record allureResult =
  ar_UUID :: string
  ar_HistoryID :: string
  ar_FullName :: string
  ar_Name :: string
  ar_Status :: string
  ar_StatusDetails :: "(string \<times> string) option"
  ar_Stage :: string
  ar_Description :: string
  ar_Labels :: "(string \<times> string) list"
  ar_Links :: "(string \<times> string \<times> string) list"
  ar_Parameters :: "(string \<times> string) list"
  ar_Attachments :: "Attachment list"
  ar_Steps :: "Step list"

record allureEnv =
  ae_uuid :: "nat \<Rightarrow> string"
  ae_writeFile :: "string \<Rightarrow> string \<Rightarrow> unit gores"
  ae_indent :: "string \<Rightarrow> string option"
  ae_marshal :: "allureResult \<Rightarrow> string gores"
  ae_md5hex :: "string \<Rightarrow> string"
  ae_errorText :: "goerror \<Rightarrow> string"

record reportState =
  rp_uuids :: nat
  rp_files :: "(string \<times> string) list"

definition newStep :: "string \<Rightarrow> Step" where
  "newStep name = Step name StatusUnknown StageRunning [] [] []"

fun finishStep :: "string \<Rightarrow> Step \<Rightarrow> Step" where
  "finishStep status (Step n st stage ps ss as) = Step n status StageFinished ps ss as"

fun addStepParameter :: "string \<Rightarrow> string \<Rightarrow> Step \<Rightarrow> Step" where
  "addStepParameter name val (Step n st stage ps ss as) = Step n st stage (ps @ [(name, val)]) ss as"

fun addSubSteps :: "Step list \<Rightarrow> Step \<Rightarrow> Step" where
  "addSubSteps ss' (Step n st stage ps ss as) = Step n st stage ps (ss @ ss') as"

fun addStepAttachment :: "Attachment \<Rightarrow> Step \<Rightarrow> Step" where
  "addStepAttachment a (Step n st stage ps ss as) = Step n st stage ps ss (as @ [a])"

definition getFileExtension :: "string \<Rightarrow> string" where
  "getFileExtension mimeType =
     (if mimeType = MimeTypeTextPlain then ''txt''
      else if mimeType = ''text/html'' then ''html''
      else if mimeType = MimeTypeApplicationJSON then ''json''
      else if mimeType = ''application/xml'' then ''xml''
      else if mimeType = ''image/png'' then ''png''
      else if mimeType = ''image/jpeg'' then ''jpg''
      else ''txt'')"

definition formatContentIfJSON :: "allureEnv \<Rightarrow> string \<Rightarrow> string \<Rightarrow> string" where
  "formatContentIfJSON E content mimeType =
     (if mimeType \<noteq> MimeTypeApplicationJSON then content
      else case ae_indent E content of Some s \<Rightarrow> s | None \<Rightarrow> content)"

text \<open>\<open>filepath.Join\<close> of a clean directory and a name without separators.\<close>

definition joinPath :: "string \<Rightarrow> string \<Rightarrow> string" where
  "joinPath dir f = (if dir = [] then f else if last dir = CHR ''/'' then dir @ f else dir @ ''/'' @ f)"

definition AddAttachment ::
  "allureEnv \<Rightarrow> string \<Rightarrow> string \<times> string \<times> string \<Rightarrow> reportState \<Rightarrow> reportState \<times> Attachment gores" where
  "AddAttachment E targetDir ncm s =
     (case ncm of (name, content, mimeType) \<Rightarrow>
        (let source = ae_uuid E (rp_uuids s) @ ''-attachment.'' @ getFileExtension mimeType;
             p = joinPath targetDir source;
             s1 = s\<lparr>rp_uuids := rp_uuids s + 1\<rparr>
         in case ae_writeFile E p (formatContentIfJSON E content mimeType) of
              Ok _ \<Rightarrow> (s1\<lparr>rp_files := rp_files s @ [(p, formatContentIfJSON E content mimeType)]\<rparr>,
                        Ok \<lparr>at_Name = name, at_Source = source, at_Type = mimeType\<rparr>)
            | Err e \<Rightarrow> (s1, Err (EWrap ''failed to write attachment'' [] e))
            | Panic m \<Rightarrow> (s1, Panic m)))"

text \<open>Attachments added to a step one after the other; the first failure ends the report.\<close>

fun attachAll ::
  "allureEnv \<Rightarrow> string \<Rightarrow> (string \<times> string \<times> string) list \<Rightarrow> Step \<Rightarrow> reportState \<Rightarrow> reportState \<times> Step gores" where
  "attachAll E dir [] step s = (s, Ok step)"
| "attachAll E dir (a # as) step s =
     sbind (AddAttachment E dir a s) (\<lambda>s att. attachAll E dir as (addStepAttachment att step) s)"

definition newResult :: "allureEnv \<Rightarrow> string \<Rightarrow> reportState \<Rightarrow> reportState \<times> allureResult" where
  "newResult E name s =
     (s\<lparr>rp_uuids := rp_uuids s + 1\<rparr>,
      \<lparr>ar_UUID = ae_uuid E (rp_uuids s), ar_HistoryID = ae_md5hex E name, ar_FullName = name, ar_Name = name,
       ar_Status = StatusUnknown, ar_StatusDetails = None, ar_Stage = StageRunning, ar_Description = [], ar_Labels = [],
       ar_Links = [], ar_Parameters = [], ar_Attachments = [], ar_Steps = []\<rparr>)"

definition AddLabel :: "string \<Rightarrow> string \<Rightarrow> allureResult \<Rightarrow> allureResult" where
  "AddLabel name val r = r\<lparr>ar_Labels := ar_Labels r @ [(name, val)]\<rparr>"

definition AddLink :: "string \<Rightarrow> string \<Rightarrow> string \<Rightarrow> allureResult \<Rightarrow> allureResult" where
  "AddLink name url linkType r = r\<lparr>ar_Links := ar_Links r @ [(name, url, linkType)]\<rparr>"

definition AddParameter :: "string \<Rightarrow> string \<Rightarrow> allureResult \<Rightarrow> allureResult" where
  "AddParameter name val r = r\<lparr>ar_Parameters := ar_Parameters r @ [(name, val)]\<rparr>"

definition finishResult :: "allureResult \<Rightarrow> allureResult" where
  "finishResult r = r\<lparr>ar_Stage := StageFinished\<rparr>"

definition saveResult :: "allureEnv \<Rightarrow> string \<Rightarrow> allureResult \<Rightarrow> reportState \<Rightarrow> reportState \<times> unit gores" where
  "saveResult E targetDir r s =
     (case ae_marshal E r of
        Err e \<Rightarrow> (s, Err (EWrap ''failed to marshal result to JSON'' [] e))
      | Panic m \<Rightarrow> (s, Panic m)
      | Ok data \<Rightarrow>
          (let p = joinPath targetDir (ar_UUID r @ ''-result.json'')
           in case ae_writeFile E p data of
                Ok _ \<Rightarrow> (s\<lparr>rp_files := rp_files s @ [(p, data)]\<rparr>, Ok ())
              | Err e \<Rightarrow> (s, Err (EWrap ''failed to write result file'' [] e))
              | Panic m \<Rightarrow> (s, Panic m)))"

section \<open>What a test says about its mocks and fixtures\<close>

record mockInfo =
  mi_ServiceName :: string
  mi_Strategy :: string
  mi_Endpoints :: "string list"
  mi_EndpointCount :: nat
  mi_StepsCount :: nat

definition yStringKeys :: "(yval \<times> yval) list \<Rightarrow> string list" where
  "yStringKeys m = List.map_filter (\<lambda>(k, v). case k of YStr s \<Rightarrow> Some s | _ \<Rightarrow> None) m"

definition extractEndpoints :: "string \<Rightarrow> (yval \<times> yval) list \<Rightarrow> string list" where
  "extractEndpoints strat def =
     (if strat = ''constant'' \<or> strat = ''template'' then
        (case map_of def (YStr ''path'') of Some (YStr p) \<Rightarrow> [p] | _ \<Rightarrow> [''/''])
      else if strat = ''file'' then
        (case map_of def (YStr ''filename'') of Some (YStr f) \<Rightarrow> [''file: '' @ filepathBase f] | _ \<Rightarrow> [])
      else if strat = ''uriVary'' then
        (case map_of def (YStr ''uris'') of Some (YMap uris) \<Rightarrow> sort (yStringKeys uris) | _ \<Rightarrow> [])
      else if strat = ''methodVary'' then
        (case map_of def (YStr ''methods'') of Some (YMap methods) \<Rightarrow> sort (yStringKeys methods) | _ \<Rightarrow> [])
      else if strat = ''basedOnRequest'' then
        (case map_of def (YStr ''uris'') of Some (YArr uris) \<Rightarrow> map (\<lambda>i. ''case '' @ itoa (int i)) [0..<length uris] | _ \<Rightarrow> [])
      else if strat = ''sequence'' then
        (case map_of def (YStr ''sequence'') of Some (YArr sq) \<Rightarrow> map (\<lambda>i. ''step '' @ itoa (int i)) [0..<length sq] | _ \<Rightarrow> [])
      else if strat = ''nop'' \<or> strat = ''dropRequest'' then [''-'']
      else [])"

definition mockInfoOf :: "string \<times> yval \<Rightarrow> mockInfo" where
  "mockInfoOf nd =
     (let info = \<lparr>mi_ServiceName = fst nd, mi_Strategy = [], mi_Endpoints = [], mi_EndpointCount = 0, mi_StepsCount = 0\<rparr>
      in case snd nd of
           YMap def \<Rightarrow>
             (case map_of def (YStr ''strategy'') of
                Some (YStr strat) \<Rightarrow>
                  info\<lparr>mi_Strategy := strat, mi_Endpoints := extractEndpoints strat def,
                       mi_EndpointCount := length (extractEndpoints strat def),
                       mi_StepsCount := (if strat = ''sequence''
                         then (case map_of def (YStr ''sequence'') of Some (YArr sq) \<Rightarrow> length sq | _ \<Rightarrow> 0) else 0)\<rparr>
              | _ \<Rightarrow> info)
         | _ \<Rightarrow> info\<lparr>mi_Strategy := ''unknown''\<rparr>)"

definition extractMocksInfo :: "(string, yval) gomap \<Rightarrow> mockInfo list" where
  "extractMocksInfo mocks = sort_key mi_ServiceName (map mockInfoOf mocks)"

definition formatFixturesInfo :: "string list \<Rightarrow> Fixture list \<Rightarrow> string" where
  "formatFixturesInfo fixtures multiDb =
     (if fixtures \<noteq> [] then join '', '' fixtures @ '' ('' @ itoa (int (length fixtures)) @ '' files)''
      else join ''; '' (map (\<lambda>f. fx_DbName f @ '': '' @ itoa (int (length (fx_Files f))) @ '' files'') multiDb))"

definition formatMockBrief :: "mockInfo \<Rightarrow> string" where
  "formatMockBrief info =
     (let count = (\<lambda>c unit. if c > 0 then '', '' @ itoa (int c) @ unit else [])
      in mi_ServiceName info @ '' ('' @ mi_Strategy info @
         (if mi_Strategy info = ''sequence'' then count (mi_StepsCount info) '' steps''
          else if mi_Strategy info = ''uriVary'' then count (mi_EndpointCount info) '' endpoints''
          else if mi_Strategy info = ''methodVary'' then count (mi_EndpointCount info) '' methods''
          else if mi_Strategy info = ''basedOnRequest'' then count (mi_EndpointCount info) '' cases''
          else []) @ '')'')"

end
