(* ===== verification/Allure2Output.thy ===== *)
theory Allure2Output
  imports Allure2
begin

text \<open>
  Model of \<open>output/allure_report/allure2_output.go\<close>: the steps of a report, the classification of
  the errors of a result, and the report of one test.
\<close>

section \<open>Classification of errors\<close>

text \<open>\<open>errors.As\<close> for each of the error types: the first one along the chain of causes.\<close>

fun asCheckError :: "goerror \<Rightarrow> (string \<times> string) option" where
  "asCheckError (ECheck cat ident msg cause) = Some (cat, ident)"
| "asCheckError (EWrap f args e) = asCheckError e"
| "asCheckError (EMock e svc) = asCheckError e"
| "asCheckError (EConstraint e kind dump endpoint) = asCheckError e"
| "asCheckError e = None"

fun asMockError :: "goerror \<Rightarrow> string option" where
  "asMockError (EMock e svc) = Some svc"
| "asMockError (ECheck cat ident msg (Some e)) = asMockError e"
| "asMockError (EWrap f args e) = asMockError e"
| "asMockError (EConstraint e kind dump endpoint) = asMockError e"
| "asMockError e = None"

text \<open>Cause, kind and endpoint of a constraint error; expected and actual number and path of calls.\<close>

fun asConstraintError :: "goerror \<Rightarrow> (goerror \<times> string \<times> string) option" where
  "asConstraintError (EConstraint e kind dump endpoint) = Some (e, kind, endpoint)"
| "asConstraintError (ECheck cat ident msg (Some e)) = asConstraintError e"
| "asConstraintError (EWrap f args e) = asConstraintError e"
| "asConstraintError (EMock e svc) = asConstraintError e"
| "asConstraintError e = None"

fun asCallsError :: "goerror \<Rightarrow> (int \<times> int \<times> string) option" where
  "asCallsError (ECalls p expd act svc) = Some (expd, act, p)"
| "asCallsError (ECheck cat ident msg (Some e)) = asCallsError e"
| "asCallsError (EWrap f args e) = asCallsError e"
| "asCallsError (EMock e svc) = asCallsError e"
| "asCallsError (EConstraint e kind dump endpoint) = asCallsError e"
| "asCallsError e = None"

type_synonym ErrorsByIdentifier = "(string, goerror list) gomap"

text \<open>\<open>m[k] = append(m[k], e)\<close>\<close>

definition appendAt :: "'k \<Rightarrow> 'e \<Rightarrow> ('k, 'e list) gomap \<Rightarrow> ('k, 'e list) gomap" where
  "appendAt k e m = AList.update k ((case map_of m k of Some es \<Rightarrow> es | None \<Rightarrow> []) @ [e]) m"

definition categorizeOne :: "(string, ErrorsByIdentifier) gomap \<Rightarrow> goerror \<Rightarrow> (string, ErrorsByIdentifier) gomap" where
  "categorizeOne categories err =
     (let put = (\<lambda>cat ident. AList.update cat
                   (appendAt ident err (case map_of categories cat of Some m \<Rightarrow> m | None \<Rightarrow> [])) categories)
      in case asCheckError err of
           Some (category, identifier) \<Rightarrow> put category identifier
         | None \<Rightarrow>
             (case asMockError err of
                Some svc \<Rightarrow> put ErrorCategoryMock svc
              | None \<Rightarrow> put ErrorCategoryResponseBody []))"

definition categorizeErrors :: "goerror list \<Rightarrow> (string, ErrorsByIdentifier) gomap" where
  "categorizeErrors errs = foldl categorizeOne [] errs"

definition categoryErrors :: "(string, ErrorsByIdentifier) gomap \<Rightarrow> string \<Rightarrow> ErrorsByIdentifier" where
  "categoryErrors categories cat = (case map_of categories cat of Some m \<Rightarrow> m | None \<Rightarrow> [])"

section \<open>Errors of a mocked service\<close>

definition afterPrefix :: "string \<Rightarrow> string \<Rightarrow> string" where
  "afterPrefix p prefix = drop (length prefix) p"

definition extractURIFromPath :: "string \<Rightarrow> string" where
  "extractURIFromPath p =
     (if hasPrefix p ''$.uriVary.'' then afterPrefix p ''$.uriVary.''
      else if hasPrefix p ''$.methodVary.'' then afterPrefix p ''$.methodVary.''
      else if hasPrefix p ''$.basedOnRequest.'' \<and> atoi (afterPrefix p ''$.basedOnRequest.'') \<noteq> None
        then ''case '' @ afterPrefix p ''$.basedOnRequest.''
      else if hasPrefix p ''$.sequence.'' \<and> atoi (afterPrefix p ''$.sequence.'') \<noteq> None
        then ''step '' @ afterPrefix p ''$.sequence.''
      else if hasPrefix p ''$.'' \<and> length p > 2 \<and> atoi (afterPrefix p ''$.'') \<noteq> None
        then ''step '' @ afterPrefix p ''$.''
      else dropWhile (\<lambda>c. c \<noteq> CHR ''/'') p)"

definition endpointOf :: "goerror \<Rightarrow> string" where
  "endpointOf err =
     (case asConstraintError err of
        Some (e, kind, endpoint) \<Rightarrow>
          (if endpoint \<noteq> [] then extractURIFromPath endpoint
           else case asCallsError err of Some (expd, act, p) \<Rightarrow> extractURIFromPath p | None \<Rightarrow> [])
      | None \<Rightarrow> (case asCallsError err of Some (expd, act, p) \<Rightarrow> extractURIFromPath p | None \<Rightarrow> []))"

definition groupErrorsByEndpoint :: "goerror list \<Rightarrow> (string, goerror list) gomap" where
  "groupErrorsByEndpoint errs = foldl (\<lambda>grouped err. appendAt (endpointOf err) err grouped) [] errs"

definition trimSuffix :: "string \<Rightarrow> string \<Rightarrow> string" where
  "trimSuffix s suf = (if hasSuffix s suf then take (length s - length suf) s else s)"

definition trimPrefix :: "string \<Rightarrow> string \<Rightarrow> string" where
  "trimPrefix s pre = (if hasPrefix s pre then drop (length pre) s else s)"

definition formatConstraintError :: "(goerror \<Rightarrow> string) \<Rightarrow> goerror \<Rightarrow> string" where
  "formatConstraintError base err =
     (case asConstraintError err of
        Some (e, kind, endpoint) \<Rightarrow>
          trimSuffix (trimSuffix (trimPrefix kind ''*mocks.'') ''Constraint'') ''constraint'' @ '': '' @ errText base e
      | None \<Rightarrow>
          (case asCallsError err of
             Some (expd, act, p) \<Rightarrow> ''calls: expected '' @ itoa expd @ '', actual '' @ itoa act
           | None \<Rightarrow> errText base err))"

definition errorStep :: "(goerror \<Rightarrow> string) \<Rightarrow> goerror \<Rightarrow> Step" where
  "errorStep base err = finishStep StatusFailed (newStep (formatConstraintError base err))"

definition errorsAt :: "(string, goerror list) gomap \<Rightarrow> string \<Rightarrow> goerror list" where
  "errorsAt grouped endpoint = (case map_of grouped endpoint of Some es \<Rightarrow> es | None \<Rightarrow> [])"

definition endpointSteps :: "(goerror \<Rightarrow> string) \<Rightarrow> (string, goerror list) gomap \<Rightarrow> string list \<Rightarrow> Step list" where
  "endpointSteps base grouped endpoints =
     concat (map (\<lambda>endpoint.
       (let es = errorsAt grouped endpoint
        in if es \<noteq> []
           then [finishStep StatusFailed (addSubSteps (map (errorStep base) es) (newStep (endpoint @ '': FAILED'')))]
           else [])) endpoints)"

definition addEndpointGroupedErrors :: "(goerror \<Rightarrow> string) \<Rightarrow> mockInfo \<Rightarrow> goerror list \<Rightarrow> Step \<Rightarrow> Step" where
  "addEndpointGroupedErrors base info serviceErrors serviceStep =
     (let grouped = groupErrorsByEndpoint serviceErrors
      in addSubSteps (map (errorStep base) (errorsAt grouped []))
           (addSubSteps (endpointSteps base grouped (mi_Endpoints info)) serviceStep))"

definition addStrategyGroupedErrors :: "(goerror \<Rightarrow> string) \<Rightarrow> mockInfo \<Rightarrow> goerror list \<Rightarrow> Step \<Rightarrow> Step" where
  "addStrategyGroupedErrors base info serviceErrors serviceStep =
     (let grouped = groupErrorsByEndpoint serviceErrors;
          steps = endpointSteps base grouped (mi_Endpoints info) @ map (errorStep base) (errorsAt grouped [])
      in addSubSteps
           [finishStep (if steps \<noteq> [] then StatusFailed else StatusPassed) (addSubSteps steps (newStep (mi_Strategy info)))]
           serviceStep)"

definition mockVerificationSubstep :: "(goerror \<Rightarrow> string) \<Rightarrow> mockInfo \<Rightarrow> goerror list \<Rightarrow> Step" where
  "mockVerificationSubstep base info serviceErrors =
     (if serviceErrors = [] then finishStep StatusPassed (newStep (mi_ServiceName info))
      else
        (let step = newStep (mi_ServiceName info @ '': FAILED'')
         in finishStep StatusFailed
              (if mi_Strategy info = ''uriVary'' \<or> mi_Strategy info = ''methodVary''
               then addEndpointGroupedErrors base info serviceErrors step
               else if mi_Strategy info = ''sequence'' \<or> mi_Strategy info = ''basedOnRequest''
               then addStrategyGroupedErrors base info serviceErrors step
               else addSubSteps (map (errorStep base) serviceErrors) step)))"

section \<open>The steps of a report\<close>

definition passFail :: "bool \<Rightarrow> string" where
  "passFail failed = (if failed then StatusFailed else StatusPassed)"

abbreviation serviceMocks :: "Test \<Rightarrow> (string, yval) gomap" where
  "serviceMocks t \<equiv> (case MocksDefinition t of Some m \<Rightarrow> m | None \<Rightarrow> [])"

abbreviation fixtureFiles :: "Test \<Rightarrow> string list" where
  "fixtureFiles t \<equiv> (case FixtureFiles t of Some fs \<Rightarrow> fs | None \<Rightarrow> [])"

abbreviation fixturesMultiDb :: "Test \<Rightarrow> Fixture list" where
  "fixturesMultiDb t \<equiv> (case FixturesListMultiDb t of Some fs \<Rightarrow> fs | None \<Rightarrow> [])"

definition preparationSteps :: "Test \<Rightarrow> Step list" where
  "preparationSteps t =
     (let hasFixtures = (fixtureFiles t \<noteq> [] \<or> fixturesMultiDb t \<noteq> []);
          hasMocks = (serviceMocks t \<noteq> []);
          info = formatFixturesInfo (fixtureFiles t) (fixturesMultiDb t);
          fixtureSteps = (if hasFixtures \<and> info \<noteq> []
             then [finishStep StatusPassed (addStepParameter ''files'' info (newStep txtFixtures))] else []);
          mocksInfo = extractMocksInfo (serviceMocks t);
          mockSteps = (if hasMocks \<and> mocksInfo \<noteq> []
             then [finishStep StatusPassed
                     (addSubSteps (map (\<lambda>i. finishStep StatusPassed (newStep (formatMockBrief i))) mocksInfo) (newStep txtMocks))]
             else [])
      in if \<not> hasFixtures \<and> \<not> hasMocks then []
         else [finishStep StatusPassed (addSubSteps (fixtureSteps @ mockSteps) (newStep txtPreparation))])"

definition formatHeaders :: "(string, string) gomap \<Rightarrow> string" where
  "formatHeaders headers = join [CHR 0x0A] (sort (map (\<lambda>(k, v). k @ '': '' @ v) headers))"

definition formatResponseHeaders :: "(string, string list) gomap \<Rightarrow> string" where
  "formatResponseHeaders headers =
     join [CHR 0x0A] (sort (concat (map (\<lambda>(k, vs). map (\<lambda>v. k @ '': '' @ v) vs) headers)))"

definition formatCookies :: "(string, string) gomap \<Rightarrow> string" where
  "formatCookies cookies = join [CHR 0x0A] (map (\<lambda>(k, v). k @ ''='' @ v) cookies)"

definition formatDbResponse :: "string list \<Rightarrow> string" where
  "formatDbResponse response =
     (if response = [] then ''[]''
      else if length response > 10
        then ''['' @ [CHR 0x0A] @ ''  '' @ response ! 0 @ '','' @ [CHR 0x0A] @ ''  ... ('' @ itoa (int (length response))
               @ '' total rows)'' @ [CHR 0x0A] @ '']''
      else ''['' @ [CHR 0x0A] @ ''  '' @ join ('','' @ [CHR 0x0A] @ ''  '') response @ [CHR 0x0A] @ '']'')"

definition reportStatusCodes :: "(int, string) gomap \<Rightarrow> int list" where
  "reportStatusCodes responses = sort (gokeys responses)"

definition formatStatusCodes :: "int list \<Rightarrow> string" where
  "formatStatusCodes codes = join '', '' (map itoa codes)"

definition addRequestStep ::
  "allureEnv \<Rightarrow> string \<Rightarrow> Test \<Rightarrow> Result \<Rightarrow> reportState \<Rightarrow> reportState \<times> Step gores" where
  "addRequestStep E dir t r s =
     (let step = addStepParameter ''method'' (Method' t) (newStep (txtSending @ Method' t @ txtRequestTo @ r_Path r));
          step1 = (if r_Query r \<noteq> [] then addStepParameter ''query'' (r_Query r) step else step);
          files = (if r_RequestBody r \<noteq> [] then [(''Request Body'', r_RequestBody r, MimeTypeApplicationJSON)] else [])
            @ (if HeadersVal t \<noteq> [] then [(''Request Headers'', formatHeaders (HeadersVal t), MimeTypeTextPlain)] else [])
            @ (if CookiesVal t \<noteq> [] then [(''Request Cookies'', formatCookies (CookiesVal t), MimeTypeTextPlain)] else [])
      in sbind (attachAll E dir files step1 s) (\<lambda>s step. (s, Ok (finishStep StatusPassed step))))"

definition headerVerificationSteps ::
  "allureEnv \<Rightarrow> string \<Rightarrow> Test \<Rightarrow> Result \<Rightarrow> (string, ErrorsByIdentifier) gomap \<Rightarrow> reportState \<Rightarrow> reportState \<times> Step list gores" where
  "headerVerificationSteps E dir t r categories s =
     (case GetResponseHeaders t (ResponseStatusCode r) of
        None \<Rightarrow> (s, Ok [])
      | Some expectedHeaders \<Rightarrow>
          (if expectedHeaders = [] then (s, Ok [])
           else
             (let files = (if r_ResponseHeaders r \<noteq> []
                then [(''Response Headers'', formatResponseHeaders (r_ResponseHeaders r), MimeTypeTextPlain)] else [])
              in sbind (attachAll E dir files (newStep txtHeaders) s) (\<lambda>s step.
                   (s, Ok [finishStep (passFail (categoryErrors categories ErrorCategoryResponseHeader \<noteq> [])) step])))))"

definition addResponseVerificationStep ::
  "allureEnv \<Rightarrow> string \<Rightarrow> Test \<Rightarrow> Result \<Rightarrow> (string, ErrorsByIdentifier) gomap \<Rightarrow> reportState \<Rightarrow> reportState \<times> Step gores" where
  "addResponseVerificationStep E dir t r categories s =
     (let hasError = (\<lambda>cat. categoryErrors categories cat \<noteq> []);
          codes = reportStatusCodes (Responses t);
          statusName = (if codes \<noteq> [] then txtStatus @ txtExpected @ formatStatusCodes codes @ '')'' else txtStatus);
          statusStep = finishStep (passFail (hasError ErrorCategoryStatusCode))
            (addStepParameter ''actual'' (itoa (ResponseStatusCode r)) (newStep statusName));
          bodyFiles = (if ResponseBody r \<noteq> [] then [(''Response Body'', ResponseBody r, MimeTypeApplicationJSON)] else []);
          responseStatus = passFail (hasError ErrorCategoryStatusCode \<or> hasError ErrorCategoryResponseBody \<or> hasError ErrorCategoryResponseHeader)
      in sbind (attachAll E dir bodyFiles (newStep txtBody) s) (\<lambda>s bodyStep.
         sbind (headerVerificationSteps E dir t r categories s) (\<lambda>s headerSteps.
           (s, Ok (finishStep responseStatus (addSubSteps
              (statusStep # finishStep (passFail (hasError ErrorCategoryResponseBody)) bodyStep # headerSteps) (newStep txtResponse)))))))"

fun dbQuerySteps ::
  "allureEnv \<Rightarrow> string \<Rightarrow> ErrorsByIdentifier \<Rightarrow> (nat \<times> DatabaseResult) list \<Rightarrow> reportState \<Rightarrow> reportState \<times> Step list gores" where
  "dbQuerySteps E dir dbErrors [] s = (s, Ok [])"
| "dbQuerySteps E dir dbErrors ((i, dr) # rest) s =
     (if dr_Query dr = [] then dbQuerySteps E dir dbErrors rest s
      else
        (let failed = (errorsAt dbErrors (itoa (int i)) \<noteq> []);
             files = (''Query'', ''SQL: '' @ dr_Query dr, MimeTypeTextPlain)
               # (if dr_Response dr \<noteq> [] then [(''Response'', formatDbResponse (dr_Response dr), MimeTypeTextPlain)] else [])
         in sbind (attachAll E dir files (newStep (''DB Query #'' @ itoa (int i + 1))) s) (\<lambda>s step.
            sbind (dbQuerySteps E dir dbErrors rest s) (\<lambda>s steps.
              (s, Ok (finishStep (passFail failed) step # steps))))))"

definition addDatabaseVerificationStep ::
  "allureEnv \<Rightarrow> string \<Rightarrow> Result \<Rightarrow> (string, ErrorsByIdentifier) gomap \<Rightarrow> reportState \<Rightarrow> reportState \<times> Step list gores" where
  "addDatabaseVerificationStep E dir r categories s =
     (if r_DatabaseResult r = [] then (s, Ok [])
      else
        (let dbErrors = categoryErrors categories ErrorCategoryDatabase
         in sbind (dbQuerySteps E dir dbErrors (enumerate 0 (r_DatabaseResult r)) s) (\<lambda>s steps.
              (s, Ok [finishStep (passFail (dbErrors \<noteq> [])) (addSubSteps steps (newStep txtDatabase))]))))"

definition mockVerificationSteps ::
  "(goerror \<Rightarrow> string) \<Rightarrow> Test \<Rightarrow> (string, ErrorsByIdentifier) gomap \<Rightarrow> Step list" where
  "mockVerificationSteps base t categories =
     (if serviceMocks t = [] then []
      else
        (let mockErrors = categoryErrors categories ErrorCategoryMock;
             steps = map (\<lambda>info. mockVerificationSubstep base info (errorsAt mockErrors (mi_ServiceName info)))
                       (extractMocksInfo (serviceMocks t))
         in [finishStep (passFail (mockErrors \<noteq> [])) (addSubSteps steps (newStep txtMockCalls))]))"

definition addVerificationSteps ::
  "allureEnv \<Rightarrow> string \<Rightarrow> Test \<Rightarrow> Result \<Rightarrow> reportState \<Rightarrow> reportState \<times> Step list gores" where
  "addVerificationSteps E dir t r s =
     (let categories = categorizeErrors (Errors r)
      in sbind (addResponseVerificationStep E dir t r categories s) (\<lambda>s responseStep.
         sbind (addDatabaseVerificationStep E dir r categories s) (\<lambda>s dbSteps.
           (s, Ok (responseStep # dbSteps @ mockVerificationSteps (ae_errorText E) t categories)))))"

section \<open>The report of a test\<close>

record allure2Output =
  ao_reportLocation :: string
  ao_defaultPackage :: string
  ao_defaultTestClass :: string

text \<open>\<open>absPath\<close> is \<open>filepath.Abs\<close>, which gives the empty string when it fails; that the directory cannot be made is ignored.\<close>

definition NewAllure2Output :: "(string \<Rightarrow> string) \<Rightarrow> string \<Rightarrow> allure2Output" where
  "NewAllure2Output absPath reportLocation = \<lparr>ao_reportLocation = absPath reportLocation, ao_defaultPackage = [], ao_defaultTestClass = []\<rparr>"

definition WithDefaultLabels :: "string \<Rightarrow> string \<Rightarrow> allure2Output \<Rightarrow> allure2Output" where
  "WithDefaultLabels packageLabel testClassLabel out =
     out\<lparr>ao_defaultPackage := packageLabel, ao_defaultTestClass := testClassLabel\<rparr>"

definition statusDetails :: "(goerror \<Rightarrow> string) \<Rightarrow> goerror option \<Rightarrow> (string \<times> string) option" where
  "statusDetails base err =
     map_option (\<lambda>e. (case e of EFmt text [] \<Rightarrow> text | _ \<Rightarrow> errText base e, [])) err"

definition addMetadata :: "AllureMetadata option \<Rightarrow> allureResult \<Rightarrow> allureResult" where
  "addMetadata meta r =
     (case meta of
        None \<Rightarrow> r
      | Some m \<Rightarrow>
          (let r1 = foldl (\<lambda>r l. AddLabel (lb_Name l) (lb_Value l) r) r (am_Labels m);
               r2 = foldl (\<lambda>r l. AddLink (ln_Name l) (ln_URL l) (ln_Type l) r) r1 (am_Links m)
           in foldl (\<lambda>r p. AddParameter (pm_Name p) (pm_Value p) r) r2 (am_Parameters m)))"

definition hasLabel :: "string \<Rightarrow> AllureMetadata option \<Rightarrow> bool" where
  "hasLabel name meta \<longleftrightarrow> (case meta of None \<Rightarrow> False | Some m \<Rightarrow> \<exists>l \<in> set (am_Labels m). lb_Name l = name)"

definition addLabels :: "allure2Output \<Rightarrow> Test \<Rightarrow> Result \<Rightarrow> allureResult \<Rightarrow> allureResult" where
  "addLabels out t r res0 =
     (let res1 = addMetadata (Allure t) res0;
          res2 = (if \<not> hasLabel ''package'' (Allure t) \<and> ao_defaultPackage out \<noteq> []
                  then AddLabel ''package'' (ao_defaultPackage out) res1 else res1);
          res3 = (if \<not> hasLabel ''testClass'' (Allure t) \<and> ao_defaultTestClass out \<noteq> []
                  then AddLabel ''testClass'' (ao_defaultTestClass out) res2 else res2);
          res4 = AddLabel ''language'' ''go'' (AddLabel ''framework'' ''gonkey'' res3);
          res5 = (if r_Path r \<noteq> [] then AddLabel ''story'' (r_Path r) res4 else res4)
      in foldl (\<lambda>res (k, v). AddParameter k v res) res5 (CombinedVariables t))"

definition allure2Process ::
  "allureEnv \<Rightarrow> allure2Output \<Rightarrow> Test \<Rightarrow> Result \<Rightarrow> reportState \<Rightarrow> reportState \<times> allureResult gores" where
  "allure2Process E out t r s =
     (let (s0, res0) = newResult E (Name t) s;
          res1 = (if Description t \<noteq> [] then res0\<lparr>ar_Description := Description t\<rparr> else res0);
          (status, err) = AllureStatus (ae_errorText E) r;
          res2 = res1\<lparr>ar_Status := status, ar_StatusDetails := statusDetails (ae_errorText E) err\<rparr>;
          res3 = addLabels out t r res2;
          dir = ao_reportLocation out
      in sbind (case addRequestStep E dir t r s0 of
                  (s, Err e) \<Rightarrow> (s, Err (EWrap ''failed to add request step'' [] e)) | m \<Rightarrow> m) (\<lambda>s requestStep.
         sbind (case addVerificationSteps E dir t r s of
                  (s, Err e) \<Rightarrow> (s, Err (EWrap ''failed to add verification steps'' [] e)) | m \<Rightarrow> m) (\<lambda>s steps.
           (let res = finishResult (res3\<lparr>ar_Steps := preparationSteps t @ requestStep # steps\<rparr>)
            in sbind (case saveResult E dir res s of
                        (s, Err e) \<Rightarrow> (s, Err (EWrap ''failed to save allure result'' [] e)) | m \<Rightarrow> m) (\<lambda>s _. (s, Ok res))))))"

end
