(* ===== verification/Allure2Spec.thy ===== *)
theory Allure2Spec
  imports Allure2Output RequestSpec "HOL-Library.Multiset"
begin

text \<open>
  Correctness of the Allure 2 report: every error of a result is classified once, the status of
  the report and of its steps follows from the errors, every attachment is a file that was
  written, and which errors of a mocked service appear in its step.
\<close>

section \<open>Classification\<close>

definition classOf :: "goerror \<Rightarrow> string \<times> string" where
  "classOf e =
     (case asCheckError e of
        Some ci \<Rightarrow> ci
      | None \<Rightarrow> (case asMockError e of Some svc \<Rightarrow> (ErrorCategoryMock, svc) | None \<Rightarrow> (ErrorCategoryResponseBody, [])))"

lemma errorsAt_simps [simp]:
  "errorsAt [] k = []"
  "errorsAt (appendAt k' e m) k = errorsAt m k @ (if k' = k then [e] else [])"
  by (auto simp: errorsAt_def appendAt_def split: option.split)

lemma appendAt_nonempty [simp]: "appendAt k e m \<noteq> []"
  by (cases m) (auto simp: appendAt_def)

lemma categorizeOne_class:
  "categoryErrors (categorizeOne cs e) cat =
     (if fst (classOf e) = cat then appendAt (snd (classOf e)) e (categoryErrors cs cat) else categoryErrors cs cat)"
  by (auto simp: categorizeOne_def classOf_def categoryErrors_def Let_def split: option.split prod.split)

lemma categorize_foldl:
  "errorsAt (categoryErrors (foldl categorizeOne cs es) cat) ident =
     errorsAt (categoryErrors cs cat) ident @ filter (\<lambda>e. classOf e = (cat, ident)) es"
proof (induction es arbitrary: cs)
  case (Cons e es)
  show ?case using Cons.IH [of "categorizeOne cs e"] by (cases "classOf e") (auto simp: categorizeOne_class)
qed simp

lemma categorize_empty:
  "categoryErrors (foldl categorizeOne cs es) cat = [] \<longleftrightarrow>
     categoryErrors cs cat = [] \<and> (\<forall>e \<in> set es. fst (classOf e) \<noteq> cat)"
proof (induction es arbitrary: cs)
  case (Cons e es)
  show ?case using Cons.IH [of "categorizeOne cs e"] by (auto simp: categorizeOne_class)
qed simp

lemma category_failed: "categoryErrors (categorizeErrors es) cat \<noteq> [] \<longleftrightarrow> (\<exists>e \<in> set es. fst (classOf e) = cat)"
  using categorize_empty [of "[]" es cat] by (auto simp: categorizeErrors_def categoryErrors_def)

lemma group_foldl:
  "errorsAt (foldl (\<lambda>g e. appendAt (endpointOf e) e g) m es) p = errorsAt m p @ filter (\<lambda>e. endpointOf e = p) es"
  by (induction es arbitrary: m) auto

lemma groupErrors_at: "errorsAt (groupErrorsByEndpoint es) p = filter (\<lambda>e. endpointOf e = p) es"
  using group_foldl [of "[]" es p] by (simp add: groupErrorsByEndpoint_def)

section \<open>Steps\<close>

lemma step_simps [simp]:
  "stepName (finishStep st step) = stepName step" "stepStatus (finishStep st step) = st"
  "subSteps (finishStep st step) = subSteps step" "stepAttachments (finishStep st step) = stepAttachments step"
  "subSteps (addSubSteps ss step) = subSteps step @ ss" "stepName (addSubSteps ss step) = stepName step"
  "stepAttachments (addSubSteps ss step) = stepAttachments step"
  "subSteps (addStepParameter n v step) = subSteps step" "stepAttachments (addStepParameter n v step) = stepAttachments step"
  "stepName (addStepParameter n v step) = stepName step"
  "subSteps (addStepAttachment a step) = subSteps step" "stepAttachments (addStepAttachment a step) = stepAttachments step @ [a]"
  "stepName (addStepAttachment a step) = stepName step"
  "subSteps (newStep n) = []" "stepAttachments (newStep n) = []" "stepName (newStep n) = n"
  by (cases step; simp add: newStep_def)+

fun allAttachments :: "Step \<Rightarrow> Attachment list" where
  "allAttachments (Step n st stage ps ss as) = as @ concat (map allAttachments ss)"

text \<open>Every attachment of a step, at any depth, is a file that was written.\<close>

definition isFile :: "string \<Rightarrow> reportState \<Rightarrow> Attachment \<Rightarrow> bool" where
  "isFile dir s a \<longleftrightarrow> joinPath dir (at_Source a) \<in> fst ` set (rp_files s)"

definition filed :: "string \<Rightarrow> reportState \<Rightarrow> Step \<Rightarrow> bool" where
  "filed dir s step \<longleftrightarrow> list_all (isFile dir s) (allAttachments step)"

lemma filed_Step: "filed dir s (Step n st stage ps ss as) \<longleftrightarrow> list_all (isFile dir s) as \<and> list_all (filed dir s) ss"
  by (auto simp: filed_def list_all_iff)

lemma filed_simps [simp]:
  "filed dir s (finishStep st step) \<longleftrightarrow> filed dir s step"
  "filed dir s (addStepParameter n v step) \<longleftrightarrow> filed dir s step"
  "filed dir s (addSubSteps ss step) \<longleftrightarrow> filed dir s step \<and> list_all (filed dir s) ss"
  "filed dir s (addStepAttachment a step) \<longleftrightarrow> filed dir s step \<and> isFile dir s a"
  "filed dir s (newStep n)"
  by (cases step; auto simp: filed_Step newStep_def)+

definition grows :: "reportState \<Rightarrow> reportState \<Rightarrow> bool" where
  "grows s s' \<longleftrightarrow> set (rp_files s) \<subseteq> set (rp_files s')"

lemma grows_refl [simp]: "grows s s" and grows_trans: "grows s s' \<Longrightarrow> grows s' s'' \<Longrightarrow> grows s s''"
  by (auto simp: grows_def)

lemma filed_grows: "filed dir s step \<Longrightarrow> grows s s' \<Longrightarrow> filed dir s' step"
  unfolding filed_def isFile_def grows_def by (auto simp: list_all_iff)

lemma list_filed_grows: "list_all (filed dir s) steps \<Longrightarrow> grows s s' \<Longrightarrow> list_all (filed dir s') steps"
  by (auto simp: list_all_iff intro: filed_grows)

lemma AddAttachment_filed:
  assumes "AddAttachment E dir a s = (s', Ok att)"
  shows "grows s s'" and "isFile dir s' att"
  using assms by (auto simp: AddAttachment_def Let_def grows_def isFile_def split: prod.splits res.splits)

lemma attachAll_filed:
  assumes "attachAll E dir as step s = (s', Ok step')" and "filed dir s step"
  shows "grows s s' \<and> filed dir s' step' \<and> stepName step' = stepName step"
  using assms
proof (induction as arbitrary: step s)
  case (Cons a as)
  obtain s1 out where a: "AddAttachment E dir a s = (s1, out)" by (cases "AddAttachment E dir a s")
  with Cons.prems(1) obtain att where out: "out = Ok att" by (cases out) auto
  note f = AddAttachment_filed [OF a [unfolded out]]
  have "filed dir s1 (addStepAttachment att step)" using filed_grows [OF Cons.prems(2) f(1)] f(2) by simp
  from Cons.IH [OF _ this] Cons.prems(1) a out f show ?case by (auto intro: grows_trans)
qed simp

lemma errorStep_filed [simp]: "list_all (filed dir s) (map (errorStep base) es)"
  by (simp add: list_all_iff errorStep_def)

lemma endpointSteps_filed [simp]: "list_all (filed dir s) (endpointSteps base g eps)"
  by (induction eps) (auto simp: endpointSteps_def Let_def)

lemma mockSubstep_filed [simp]: "filed dir s (mockVerificationSubstep base info es)"
  by (simp add: mockVerificationSubstep_def Let_def addEndpointGroupedErrors_def addStrategyGroupedErrors_def)

lemma mockSteps_filed [simp]: "list_all (filed dir s) (mockVerificationSteps base t cs)"
  by (simp add: mockVerificationSteps_def Let_def list_all_iff)

lemma preparation_filed [simp]: "list_all (filed dir s) (preparationSteps t)"
  by (auto simp: preparationSteps_def Let_def list_all_iff)

lemma addRequestStep_filed:
  assumes "addRequestStep E dir t r s = (s', Ok step)"
  shows "grows s s' \<and> filed dir s' step"
  using assms by (auto simp: addRequestStep_def Let_def sbind_eq_Ok simp del: attachAll.simps split: if_splits dest!: attachAll_filed)

lemma headerSteps_filed:
  assumes "headerVerificationSteps E dir t r cs s = (s', Ok steps)"
  shows "grows s s' \<and> list_all (filed dir s') steps"
  using assms
  by (auto simp: headerVerificationSteps_def Let_def sbind_eq_Ok simp del: attachAll.simps
      split: option.splits if_splits dest!: attachAll_filed)

lemma addResponse_filed:
  assumes "addResponseVerificationStep E dir t r cs s = (s', Ok step)"
  shows "grows s s' \<and> filed dir s' step \<and> stepName step = txtResponse
    \<and> stepStatus step = passFail (\<exists>cat \<in> {ErrorCategoryStatusCode, ErrorCategoryResponseBody, ErrorCategoryResponseHeader}. categoryErrors cs cat \<noteq> [])"
proof -
  obtain files s1 body hs where b: "attachAll E dir files (newStep txtBody) s = (s1, Ok body)"
    and h: "headerVerificationSteps E dir t r cs s1 = (s', Ok hs)"
    using assms by (auto simp: addResponseVerificationStep_def Let_def sbind_eq_Ok simp del: attachAll.simps)
  from attachAll_filed [OF b] headerSteps_filed [OF h] have "grows s s'" "filed dir s' body" "list_all (filed dir s') hs"
    by (auto intro: grows_trans filed_grows)
  with assms b h show ?thesis
    by (auto simp: addResponseVerificationStep_def Let_def sbind_eq_Ok simp del: attachAll.simps dest!: attachAll_filed headerSteps_filed
        intro: filed_grows)
qed

lemma dbQuerySteps_filed:
  assumes "dbQuerySteps E dir es ds s = (s', Ok steps)"
  shows "grows s s' \<and> list_all (filed dir s') steps"
  using assms
proof (induction ds arbitrary: s s' steps)
  case (Cons d ds)
  obtain i dr where d: "d = (i, dr)" by (cases d)
  show ?case
  proof (cases "dr_Query dr = []")
    case True
    with Cons d show ?thesis by simp
  next
    case False
    with Cons.prems d obtain files n s1 step steps1 where a: "attachAll E dir files (newStep n) s = (s1, Ok step)"
      and q: "dbQuerySteps E dir es ds s1 = (s', Ok steps1)"
      and st: "steps = finishStep (passFail (errorsAt es (itoa (int i)) \<noteq> [])) step # steps1"
      by (auto simp: Let_def sbind_eq_Ok simp del: attachAll.simps)
    from attachAll_filed [OF a] Cons.IH [OF q] st show ?thesis by (auto intro: grows_trans filed_grows)
  qed
qed simp

lemma addDatabase_filed:
  assumes "addDatabaseVerificationStep E dir r cs s = (s', Ok steps)"
  shows "grows s s' \<and> list_all (filed dir s') steps"
  using assms
  by (auto simp: addDatabaseVerificationStep_def Let_def sbind_eq_Ok simp del: dbQuerySteps.simps
      split: if_splits dest!: dbQuerySteps_filed)

lemma addVerification_filed:
  assumes "addVerificationSteps E dir t r s = (s', Ok steps)"
  shows "grows s s' \<and> list_all (filed dir s') steps \<and> steps \<noteq> [] \<and> stepName (hd steps) = txtResponse
    \<and> stepStatus (hd steps) = passFail (\<exists>e \<in> set (Errors r). fst (classOf e) \<in>
        {ErrorCategoryStatusCode, ErrorCategoryResponseBody, ErrorCategoryResponseHeader})"
proof -
  obtain s1 resp db where a: "addResponseVerificationStep E dir t r (categorizeErrors (Errors r)) s = (s1, Ok resp)"
    and d: "addDatabaseVerificationStep E dir r (categorizeErrors (Errors r)) s1 = (s', Ok db)"
    and st: "steps = resp # db @ mockVerificationSteps (ae_errorText E) t (categorizeErrors (Errors r))"
    using assms by (auto simp: addVerificationSteps_def Let_def sbind_eq_Ok)
  have "(\<exists>cat \<in> {ErrorCategoryStatusCode, ErrorCategoryResponseBody, ErrorCategoryResponseHeader}.
        categoryErrors (categorizeErrors (Errors r)) cat \<noteq> []) \<longleftrightarrow>
      (\<exists>e \<in> set (Errors r). fst (classOf e) \<in> {ErrorCategoryStatusCode, ErrorCategoryResponseBody, ErrorCategoryResponseHeader})"
    using category_failed [of "Errors r"] by auto
  with addResponse_filed [OF a] addDatabase_filed [OF d] st show ?thesis
    by (auto intro: grows_trans filed_grows)
qed

section \<open>The errors in the step of a mocked service\<close>

fun leafNames :: "Step \<Rightarrow> string list" where
  "leafNames (Step n st stage ps ss as) = (if ss = [] then [n] else concat (map leafNames ss))"

lemma leafNames_simps [simp]:
  "leafNames (finishStep st step) = leafNames step"
  "leafNames (newStep n) = [n]"
  "leafNames (addSubSteps ss (newStep n)) = (if ss = [] then [n] else concat (map leafNames ss))"
  "leafNames (errorStep base e) = [formatConstraintError base e]"
  by (cases step) (simp_all add: newStep_def errorStep_def)

lemma leafNames_twice [simp]:
  "addSubSteps ss' (addSubSteps ss step) = addSubSteps (ss @ ss') step"
  by (cases step) simp

definition groupedStrategy :: "mockInfo \<Rightarrow> bool" where
  "groupedStrategy info \<longleftrightarrow> mi_Strategy info \<in> {''uriVary'', ''methodVary'', ''sequence'', ''basedOnRequest''}"

definition shownErrors :: "mockInfo \<Rightarrow> goerror list \<Rightarrow> goerror list" where
  "shownErrors info errs =
     (if groupedStrategy info then filter (\<lambda>e. endpointOf e \<in> insert [] (set (mi_Endpoints info))) errs else errs)"

lemma endpointSteps_leaves:
  "concat (map leafNames (endpointSteps base g eps)) = map (formatConstraintError base) (concat (map (errorsAt g) eps))"
  by (induction eps) (auto simp: endpointSteps_def Let_def o_def)

lemma mset_by_endpoint:
  assumes "distinct eps"
  shows "mset (concat (map (\<lambda>p. filter (\<lambda>e. endpointOf e = p) es) eps)) = mset (filter (\<lambda>e. endpointOf e \<in> set eps) es)"
  using assms
proof (induction eps)
  case (Cons p eps)
  have "mset (filter (\<lambda>e. endpointOf e \<in> set (p # eps)) es) =
      mset (filter (\<lambda>e. endpointOf e = p) es) + mset (filter (\<lambda>e. endpointOf e \<in> set eps) es)"
    using Cons.prems by (induction es) auto
  with Cons show ?case by simp
qed simp

lemma grouped_leaves:
  assumes "distinct (mi_Endpoints info)" and "[] \<notin> set (mi_Endpoints info)" and "groupedStrategy info"
  shows "mset (concat (map leafNames (endpointSteps base (groupErrorsByEndpoint es) (mi_Endpoints info)
      @ map (errorStep base) (errorsAt (groupErrorsByEndpoint es) []))))
    = mset (map (formatConstraintError base) (shownErrors info es))"
proof -
  have "distinct (mi_Endpoints info @ [[]])" using assms(1,2) by simp
  from mset_by_endpoint [OF this, of es]
  have "mset (concat (map (\<lambda>p. filter (\<lambda>e. endpointOf e = p) es) (mi_Endpoints info)) @ filter (\<lambda>e. endpointOf e = []) es)
      = mset (shownErrors info es)"
    using assms(3) by (simp add: shownErrors_def)
  then have "mset (map (formatConstraintError base) (concat (map (\<lambda>p. filter (\<lambda>e. endpointOf e = p) es) (mi_Endpoints info))
      @ filter (\<lambda>e. endpointOf e = []) es)) = mset (map (formatConstraintError base) (shownErrors info es))"
    by (simp only: mset_map)
  moreover have "errorsAt (groupErrorsByEndpoint es) = (\<lambda>p. filter (\<lambda>e. endpointOf e = p) es)"
    by (rule ext) (rule groupErrors_at)
  ultimately show ?thesis by (simp add: endpointSteps_leaves o_def)
qed

lemma grouped_steps_empty:
  "endpointSteps base (groupErrorsByEndpoint es) eps @ map (errorStep base) (errorsAt (groupErrorsByEndpoint es) []) = []
     \<longleftrightarrow> (\<forall>e \<in> set es. endpointOf e \<notin> insert [] (set eps))"
  by (auto simp: endpointSteps_def Let_def groupErrors_at filter_empty_conv concat_eq_Nil_conv)

section \<open>The report\<close>

text \<open>What labels, links and parameters leave alone.\<close>

definition core :: "allureResult \<Rightarrow> string \<times> (string \<times> string) option \<times> string" where
  "core r = (ar_Status r, ar_StatusDetails r, ar_UUID r)"

lemma core_simps [simp]:
  "core (AddLabel n v r) = core r" "core (AddLink n u l r) = core r" "core (AddParameter n v r) = core r"
  "core (finishResult r) = core r" "core (r\<lparr>ar_Steps := steps\<rparr>) = core r"
  by (simp_all add: core_def AddLabel_def AddLink_def AddParameter_def finishResult_def)

lemma core_foldl: "(\<And>r x. core (f r x) = core r) \<Longrightarrow> core (foldl f r xs) = core r"
  by (induction xs arbitrary: r) auto

lemma core_addMetadata [simp]: "core (addMetadata m r) = core r"
  by (simp add: addMetadata_def Let_def core_foldl split: option.split)

lemma core_addLabels [simp]: "core (addLabels out t r res) = core res"
proof -
  have "core (foldl (\<lambda>res (k, v). AddParameter k v res) r0 kvs) = core r0" for r0 and kvs :: "(string \<times> string) list"
    by (rule core_foldl) (simp split: prod.split)
  then show ?thesis by (simp add: addLabels_def Let_def)
qed

lemma wrapped_Ok: "(case m of (s, Err e) \<Rightarrow> (s, Err (f e)) | m' \<Rightarrow> m') = (s', Ok x) \<longleftrightarrow> m = (s', Ok x)"
  by (cases m; cases "snd m") auto

lemma wrapped_unit:
  "(case m of (s, Ok u) \<Rightarrow> (s, Ok ()) | (s, Err e) \<Rightarrow> (s, Err (f e)) | (s, Panic p) \<Rightarrow> (s, Panic p)) = (s', Ok x) \<longleftrightarrow>
     m = (s', Ok x)"
  by (cases m; cases "snd m") auto

lemma saveResult_Ok:
  assumes "saveResult E dir r s = (s', Ok u)"
  shows "grows s s' \<and> (\<exists>data. ae_marshal E r = Ok data \<and> (joinPath dir (ar_UUID r @ ''-result.json''), data) \<in> set (rp_files s'))"
  using assms by (auto simp: saveResult_def Let_def grows_def split: res.splits)

lemma allure2Process_Ok:
  assumes "allure2Process E out t r s = (s', Ok res)"
  obtains s1 rq s2 steps where
    "addRequestStep E (ao_reportLocation out) t r (fst (newResult E (Name t) s)) = (s1, Ok rq)"
    and "addVerificationSteps E (ao_reportLocation out) t r s1 = (s2, Ok steps)"
    and "ar_Steps res = preparationSteps t @ rq # steps"
    and "ar_Status res = fst (AllureStatus (ae_errorText E) r)"
    and "ar_StatusDetails res = statusDetails (ae_errorText E) (snd (AllureStatus (ae_errorText E) r))"
    and "saveResult E (ao_reportLocation out) res s2 = (s', Ok ())"
proof -
  obtain s0 res0 where n: "newResult E (Name t) s = (s0, res0)" by (cases "newResult E (Name t) s")
  obtain status err where st: "AllureStatus (ae_errorText E) r = (status, err)" by (cases "AllureStatus (ae_errorText E) r")
  let ?res1 = "if Description t \<noteq> [] then res0\<lparr>ar_Description := Description t\<rparr> else res0"
  let ?res2 = "?res1\<lparr>ar_Status := status, ar_StatusDetails := statusDetails (ae_errorText E) err\<rparr>"
  obtain s1 rq s2 steps where a: "addRequestStep E (ao_reportLocation out) t r s0 = (s1, Ok rq)"
    and v: "addVerificationSteps E (ao_reportLocation out) t r s1 = (s2, Ok steps)"
    and res: "res = finishResult ((addLabels out t r ?res2)\<lparr>ar_Steps := preparationSteps t @ rq # steps\<rparr>)"
    and sv: "saveResult E (ao_reportLocation out) res s2 = (s', Ok ())"
    using assms by (auto simp: allure2Process_def Let_def n st sbind_eq_Ok wrapped_Ok wrapped_unit)
  have "core res = core ?res2" by (simp add: res)
  then have "ar_Status res = status" "ar_StatusDetails res = statusDetails (ae_errorText E) err" by (simp_all add: core_def)
  moreover have "ar_Steps res = preparationSteps t @ rq # steps" by (simp add: res finishResult_def)
  ultimately show ?thesis using that [of s1 rq s2 steps] a v sv n st by simp
qed

section \<open>Properties\<close>

text \<open>
  Every error of a result is classified exactly once: under a category and an identifier the
  report finds exactly the errors of that class, in their order. A check error has its own
  category and identifier, a mock error the category of mocks and the name of its service, and
  any other error counts as an error of the body.
\<close>

theorem categorizeErrors_exact:
  "errorsAt (categoryErrors (categorizeErrors errs) cat) ident = filter (\<lambda>e. classOf e = (cat, ident)) errs"
  using categorize_foldl [of "[]" errs cat ident] by (simp add: categorizeErrors_def categoryErrors_def)

text \<open>
  C35. The report of a test that was run: it is marked as passed, without details, exactly when the
  result has no errors; its step for the response is marked as failed exactly when there is an
  error of the status code, the body or the headers, or one without a category; every attachment
  of its steps is a file that was written; and the report itself was written.
\<close>

theorem allure2Process_report:
  assumes "allure2Process E out t r s = (s', Ok res)" and "\<not> notRunnedStatus (TestStatus r)"
  shows "(ar_Status res = ''passed'' \<longleftrightarrow> Passed r) \<and> (ar_StatusDetails res = None \<longleftrightarrow> Passed r)
    \<and> (\<exists>step \<in> set (ar_Steps res). stepName step = txtResponse \<and> stepStatus step = passFail
         (\<exists>e \<in> set (Errors r). fst (classOf e) \<in> {ErrorCategoryStatusCode, ErrorCategoryResponseBody, ErrorCategoryResponseHeader}))
    \<and> (\<forall>step \<in> set (ar_Steps res). \<forall>a \<in> set (allAttachments step).
         joinPath (ao_reportLocation out) (at_Source a) \<in> fst ` set (rp_files s'))
    \<and> (\<exists>data. ae_marshal E res = Ok data \<and> (joinPath (ao_reportLocation out) (ar_UUID res @ ''-result.json''), data) \<in> set (rp_files s'))"
proof (rule allure2Process_Ok [OF assms(1)])
  fix s1 rq s2 steps
  assume a: "addRequestStep E (ao_reportLocation out) t r (fst (newResult E (Name t) s)) = (s1, Ok rq)"
    and v: "addVerificationSteps E (ao_reportLocation out) t r s1 = (s2, Ok steps)"
    and steps: "ar_Steps res = preparationSteps t @ rq # steps"
    and status: "ar_Status res = fst (AllureStatus (ae_errorText E) r)"
      "ar_StatusDetails res = statusDetails (ae_errorText E) (snd (AllureStatus (ae_errorText E) r))"
    and sv: "saveResult E (ao_reportLocation out) res s2 = (s', Ok ())"
  note ver = addVerification_filed [OF v] and sav = saveResult_Ok [OF sv]
  have "list_all (filed (ao_reportLocation out) s') (ar_Steps res)"
    using addRequestStep_filed [OF a] ver sav steps by (auto intro: filed_grows list_filed_grows grows_trans)
  moreover from ver steps have "hd steps \<in> set (ar_Steps res)" by simp
  ultimately show ?thesis
    using ver sav status AllureStatus_Passed [OF assms(2), of "ae_errorText E"]
    by (auto simp: statusDetails_def filed_def isFile_def list_all_iff)
qed

definition exampleAllure :: allureEnv where
  "exampleAllure =
     \<lparr>ae_uuid = (\<lambda>n. ''id'' @ itoa (int n)), ae_writeFile = (\<lambda>p c. Ok ()), ae_indent = (\<lambda>s. None),
      ae_marshal = (\<lambda>r. Ok (ar_Name r)), ae_md5hex = (\<lambda>s. s), ae_errorText = (\<lambda>e. ''error'')\<rparr>"

definition exampleOutput :: allure2Output where
  "exampleOutput = \<lparr>ao_reportLocation = ''out'', ao_defaultPackage = ''p'', ao_defaultTestClass = []\<rparr>"

definition exampleAllureResult :: "goerror list \<Rightarrow> Result" where
  "exampleAllureResult errs = emptyResult\<lparr>Errors := errs\<rparr>"

theorem allure2Process_report_witness:
  "\<exists>s' res. allure2Process exampleAllure exampleOutput (exampleFormTest None) (exampleAllureResult [errNew ''bad'']) \<lparr>rp_uuids = 0, rp_files = []\<rparr>
      = (s', Ok res) \<and> ar_Status res \<noteq> ''passed''"
proof -
  let ?m = "allure2Process exampleAllure exampleOutput (exampleFormTest None) (exampleAllureResult [errNew ''bad'']) \<lparr>rp_uuids = 0, rp_files = []\<rparr>"
  have "case ?m of (s', Ok res) \<Rightarrow> True | _ \<Rightarrow> False" by code_simp
  then obtain s' res where m: "?m = (s', Ok res)" by (auto split: prod.splits res.splits)
  have st: "\<not> notRunnedStatus (TestStatus (exampleAllureResult [errNew ''bad'']))"
    and p: "\<not> Passed (exampleAllureResult [errNew ''bad''])" by code_simp+
  from allure2Process_report [OF m st] p m show ?thesis by blast
qed

text \<open>
  C36. The step of a mocked service lists the errors it should: when there is an error that belongs
  to a listed endpoint of the mock or to none, the innermost steps are exactly these errors, each
  once. For the strategies that do not group, these are all the errors of the service.
\<close>

theorem mock_errors_shown:
  assumes "distinct (mi_Endpoints info)" and "[] \<notin> set (mi_Endpoints info)" and "shownErrors info errs \<noteq> []"
  shows "mset (leafNames (mockVerificationSubstep base info errs)) = mset (map (formatConstraintError base) (shownErrors info errs))"
proof (cases "groupedStrategy info")
  case False
  with assms(3) show ?thesis
    by (auto simp: mockVerificationSubstep_def groupedStrategy_def shownErrors_def o_def)
next
  case True
  let ?g = "groupErrorsByEndpoint errs"
  let ?steps = "endpointSteps base ?g (mi_Endpoints info) @ map (errorStep base) (errorsAt ?g [])"
  from assms(3) True have "errs \<noteq> []" "?steps \<noteq> []"
    unfolding grouped_steps_empty by (auto simp: shownErrors_def filter_empty_conv)
  then have "leafNames (mockVerificationSubstep base info errs) = concat (map leafNames ?steps)"
    using True by (auto simp: mockVerificationSubstep_def addEndpointGroupedErrors_def addStrategyGroupedErrors_def
        groupedStrategy_def Let_def)
  with grouped_leaves [OF assms(1,2) True] show ?thesis by simp
qed

definition exampleMockInfo :: "string \<Rightarrow> mockInfo" where
  "exampleMockInfo strat =
     \<lparr>mi_ServiceName = ''svc'', mi_Strategy = strat, mi_Endpoints = [''/a'', ''/b''], mi_EndpointCount = 2, mi_StepsCount = 0\<rparr>"

theorem mock_errors_shown_witness:
  "mset (leafNames (mockVerificationSubstep (\<lambda>e. ''error'') (exampleMockInfo ''uriVary'')
       [EMock (ECalls ''$.uriVary./b'' 2 1 ''svc'') ''svc'', EMock (ECalls ''$'' 3 0 ''svc'') ''svc'']))
     = {#''calls: expected 2, actual 1'', ''calls: expected 3, actual 0''#}"
proof -
  let ?errs = "[EMock (ECalls ''$.uriVary./b'' 2 1 ''svc'') ''svc'', EMock (ECalls ''$'' 3 0 ''svc'') ''svc'']"
  have d: "distinct (mi_Endpoints (exampleMockInfo ''uriVary''))" "[] \<notin> set (mi_Endpoints (exampleMockInfo ''uriVary''))" by code_simp+
  have s: "shownErrors (exampleMockInfo ''uriVary'') ?errs = ?errs" by code_simp
  have f: "map (formatConstraintError (\<lambda>e. ''error'')) ?errs = [''calls: expected 2, actual 1'', ''calls: expected 3, actual 0'']"
    by code_simp
  have "shownErrors (exampleMockInfo ''uriVary'') ?errs \<noteq> []" by (simp only: s list.distinct not_False_eq_True)
  from mock_errors_shown [OF d this, of "\<lambda>e. ''error''"] show ?thesis unfolding s f by simp
qed

text \<open>
  An error of a definition nested in a definition that varies by URI or method is lost: its path
  continues past the endpoint, so the endpoint read off it is not listed, and the step of the
  service is marked as failed without any step that says why.
\<close>

theorem nested_mock_error_dropped:
  assumes "mi_Strategy info = ''uriVary'' \<or> mi_Strategy info = ''methodVary''" and "errs \<noteq> []"
    and "\<forall>e \<in> set errs. endpointOf e \<noteq> [] \<and> endpointOf e \<notin> set (mi_Endpoints info)"
  shows "stepStatus (mockVerificationSubstep base info errs) = StatusFailed \<and> subSteps (mockVerificationSubstep base info errs) = []"
proof -
  from assms(3) have "endpointSteps base (groupErrorsByEndpoint errs) (mi_Endpoints info)
      @ map (errorStep base) (errorsAt (groupErrorsByEndpoint errs) []) = []"
    unfolding grouped_steps_empty by auto
  with assms(1,2) show ?thesis by (auto simp: mockVerificationSubstep_def addEndpointGroupedErrors_def Let_def)
qed

theorem nested_mock_error_dropped_witness:
  "subSteps (mockVerificationSubstep (\<lambda>e. ''error'') (exampleMockInfo ''uriVary'')
     [EMock (ECalls ''$.uriVary./a.sequence.0'' 1 0 ''svc'') ''svc'']) = []"
proof -
  have s: "mi_Strategy (exampleMockInfo ''uriVary'') = ''uriVary'' \<or> mi_Strategy (exampleMockInfo ''uriVary'') = ''methodVary''"
    by code_simp
  have e: "\<forall>e \<in> set [EMock (ECalls ''$.uriVary./a.sequence.0'' 1 0 ''svc'') ''svc''].
      endpointOf e \<noteq> [] \<and> endpointOf e \<notin> set (mi_Endpoints (exampleMockInfo ''uriVary''))" by code_simp
  from nested_mock_error_dropped [OF s _ e] show ?thesis by blast
qed

end
