(* ===== verification/Fixtures.thy ===== *)
theory Fixtures
  imports TestLoader
begin

text \<open>
  Model of the first phase of the fixture loaders of \<open>fixtures/postgres/postgres.go\<close> and
  \<open>fixtures/mysql/mysql.go\<close>, which is the same in both and, up to the form of a table, in
  \<open>fixtures/aerospike/aerospike.go\<close>: reading the fixture files with the files they inherit from,
  templates, and the tables with their rows.

  The file system is a list of paths with what reading them gives (\<open>fixtureEnv\<close>), and the YAML
  decoder is a parameter. A decoded map is a \<open>yaml.MapSlice\<close>, which keeps the order. The loading
  context is local to one call of \<open>Load\<close>, so an error simply loses it.
\<close>

section \<open>Data\<close>

type_synonym row = "(string, yval) gomap"
type_synonym rowsDict = "(string, row) gomap"

record fixture =
  Inherits :: "string list"
  Tables :: "(yval \<times> yval) list"
  Templates :: "(yval \<times> yval) list"

record 'n loadedTable =
  lt_name :: 'n
  lt_rows :: "row list"

record 't loadContext =
  lc_files :: "string list"
  lc_tables :: "'t list"
  refsDefinition :: rowsDict
  refsInserted :: rowsDict

record fixtureEnv =
  fe_files :: "(string, string gores) gomap"
  fe_notFound :: "string \<Rightarrow> goerror"
  fe_yaml :: "string \<Rightarrow> fixture gores"

text \<open>Type assertions without a second result.\<close>

definition asString :: "yval \<Rightarrow> string gores" where
  "asString v = (case v of YStr s \<Rightarrow> Ok s | _ \<Rightarrow> Panic ''interface conversion: interface {} is not string'')"

definition asMapSlice :: "yval \<Rightarrow> (yval \<times> yval) list gores" where
  "asMapSlice v = (case v of YMap m \<Rightarrow> Ok m | _ \<Rightarrow> Panic ''interface conversion: interface {} is not yaml.MapSlice'')"

section \<open>Rows and references\<close>

definition isSpecial :: "string \<Rightarrow> bool" where
  "isSpecial k \<longleftrightarrow> k \<noteq> [] \<and> hd k = CHR ''$''"

definition rowOf :: "(yval \<times> yval) list \<Rightarrow> row gores" where
  "rowOf flds = foldM (\<lambda>r (k, v). rbind (asString k) (\<lambda>key. Ok (AList.update key v r))) [] flds"

definition resolveReference :: "rowsDict \<Rightarrow> string \<Rightarrow> row gores" where
  "resolveReference refs refName =
     (case map_of refs refName of
        None \<Rightarrow> Err (EFmt ''undefined reference %s'' [ShStr refName])
      | Some target \<Rightarrow> Ok (filter (\<lambda>(k, v). \<not> isSpecial k) target))"

definition extendRow :: "rowsDict \<Rightarrow> row \<Rightarrow> row gores" where
  "extendRow refs r =
     (case map_of r ''$extend'' of
        None \<Rightarrow> Ok r
      | Some base \<Rightarrow>
          rbind (asString base) (\<lambda>name.
          rbind (resolveReference refs name) (\<lambda>baseRow. Ok (gomerge baseRow r))))"

definition loadTemplate :: "rowsDict \<Rightarrow> yval \<times> yval \<Rightarrow> rowsDict gores" where
  "loadTemplate refs kv =
     rbind (asString (fst kv)) (\<lambda>name.
       if gohas refs name then Err (EFmt ''unable to load template %s: duplicating ref name'' [ShStr name])
       else
         rbind (asMapSlice (snd kv)) (\<lambda>flds.
         rbind (rowOf flds) (\<lambda>r.
         rbind (extendRow refs r) (\<lambda>r'. Ok (AList.update name r' refs)))))"

definition loadSourceTable :: "(string \<Rightarrow> 'n) \<Rightarrow> yval \<times> yval \<Rightarrow> 'n loadedTable gores" where
  "loadSourceTable newName kv =
     (case snd kv of
        YArr sourceRows \<Rightarrow>
          rbind (mapM (\<lambda>v. rbind (asMapSlice v) rowOf) sourceRows) (\<lambda>rows.
          rbind (asString (fst kv)) (\<lambda>name. Ok \<lparr>lt_name = newName name, lt_rows = rows\<rparr>))
      | _ \<Rightarrow> Err (errNew ''expected array at root level''))"

text \<open>What differs between the kinds of fixtures: how a template and how a table is read.\<close>

record 't fixtureFormat =
  ff_template :: "rowsDict \<Rightarrow> yval \<times> yval \<Rightarrow> rowsDict gores"
  ff_table :: "yval \<times> yval \<Rightarrow> 't gores"

definition sqlFormat :: "(string \<Rightarrow> 'n) \<Rightarrow> 'n loadedTable fixtureFormat" where
  "sqlFormat newName = \<lparr>ff_template = loadTemplate, ff_table = loadSourceTable newName\<rparr>"

text \<open>\<open>loadYml\<close> after the inherited files: templates, then tables.\<close>

definition loadContents :: "'t fixtureFormat \<Rightarrow> fixture \<Rightarrow> 't loadContext \<Rightarrow> 't loadContext gores" where
  "loadContents fmt fx ctx =
     rbind (foldM (ff_template fmt) (refsDefinition ctx) (Templates fx)) (\<lambda>refs.
     rbind (mapM (ff_table fmt) (Tables fx)) (\<lambda>ts.
       Ok (ctx\<lparr>refsDefinition := refs, lc_tables := lc_tables ctx @ ts\<rparr>)))"

section \<open>Files\<close>

definition candidates :: "string \<Rightarrow> string \<Rightarrow> string list" where
  "candidates location name =
     [location @ ''/'' @ name, location @ ''/'' @ name @ ''.yml'', location @ ''/'' @ name @ ''.yaml'']"

definition findFile :: "fixtureEnv \<Rightarrow> string \<Rightarrow> string \<Rightarrow> string gores" where
  "findFile E location name =
     (case find (gohas (fe_files E)) (candidates location name) of
        Some file \<Rightarrow> Ok file
      | None \<Rightarrow> Err (fe_notFound E (last (candidates location name))))"

definition readFixture :: "fixtureEnv \<Rightarrow> string \<Rightarrow> fixture gores" where
  "readFixture E file =
     (case map_of (fe_files E) file of
        None \<Rightarrow> Err (fe_notFound E file)
      | Some contents \<Rightarrow> rbind contents (fe_yaml E))"

text \<open>
  \<open>loadFile\<close> for the names of a list in their order. Files that were read before are skipped, so
  that files may inherit from each other in a cycle.
\<close>

function loadFiles :: "fixtureEnv \<Rightarrow> 't fixtureFormat \<Rightarrow> string \<Rightarrow> string list \<Rightarrow> 't loadContext \<Rightarrow> 't loadContext gores" where
  "loadFiles E fmt location [] ctx = Ok ctx"
| "loadFiles E fmt location (name # names) ctx =
     rbind (findFile E location name) (\<lambda>file.
       if file \<in> set (lc_files ctx) then loadFiles E fmt location names ctx
       else
         rbind (readFixture E file) (\<lambda>fx.
         rbind (loadFiles E fmt location (Inherits fx) (ctx\<lparr>lc_files := lc_files ctx @ [file]\<rparr>)) (\<lambda>ctx1.
         rbind (loadContents fmt fx ctx1) (\<lambda>ctx2.
           loadFiles E fmt location names ctx2))))"
  by pat_completeness auto

text \<open>The recursion ends: the files read only grow, and there are finitely many.\<close>

lemma loadContents_files: "loadContents fmt fx ctx = Ok ctx' \<Longrightarrow> lc_files ctx' = lc_files ctx"
  by (auto simp: loadContents_def)

lemma findFile_exists: "findFile E location name = Ok file \<Longrightarrow> file \<in> set (gokeys (fe_files E))"
  by (auto simp: findFile_def find_Some_iff split: option.splits)

lemma loadFiles_grows:
  assumes "loadFiles_dom (E, fmt, location, names, ctx)" and "loadFiles E fmt location names ctx = Ok ctx'"
  shows "set (lc_files ctx) \<subseteq> set (lc_files ctx')"
  using assms
proof (induction arbitrary: ctx' rule: loadFiles.pinduct)
  case (2 E fmt location name names ctx)
  show ?case
  proof (cases "\<exists>file. findFile E location name = Ok file \<and> file \<in> set (lc_files ctx)")
    case True
    then obtain p where f: "findFile E location name = Ok p" "p \<in> set (lc_files ctx)" by blast
    with 2(1) 2(5) have "loadFiles E fmt location names ctx = Ok ctx'" by (simp add: loadFiles.psimps)
    from 2(2) [OF f this] show ?thesis .
  next
    case False
    with 2(1) 2(5) obtain p fx ctx1 ctx2 where f: "findFile E location name = Ok p" "p \<notin> set (lc_files ctx)"
      "readFixture E p = Ok fx" "loadFiles E fmt location (Inherits fx) (ctx\<lparr>lc_files := lc_files ctx @ [p]\<rparr>) = Ok ctx1"
      "loadContents fmt fx ctx1 = Ok ctx2" "loadFiles E fmt location names ctx2 = Ok ctx'"
      by (auto simp: loadFiles.psimps)
    from 2(3) [OF f(1-4)] 2(4) [OF f(1-3) f(4,5) f(6)] loadContents_files [OF f(5)] show ?thesis by auto
  qed
qed (simp add: loadFiles.psimps)

definition unreadFiles :: "fixtureEnv \<Rightarrow> 't loadContext \<Rightarrow> nat" where
  "unreadFiles E ctx = card (set (gokeys (fe_files E)) - set (lc_files ctx))"

lemma unreadFiles_less:
  assumes "file \<in> set (gokeys (fe_files E))" and "file \<notin> set (lc_files ctx)"
    and "insert file (set (lc_files ctx)) \<subseteq> set (lc_files ctx')"
  shows "unreadFiles E ctx' < unreadFiles E ctx"
  unfolding unreadFiles_def by (rule psubset_card_mono) (use assms in auto)

termination loadFiles
proof (relation "measures [\<lambda>(E, fmt, location, names, ctx). unreadFiles E ctx, \<lambda>(E, fmt, location, names, ctx). length names]")
qed (auto intro!: unreadFiles_less dest: findFile_exists dest!: loadFiles_grows loadContents_files)

definition loadFile :: "fixtureEnv \<Rightarrow> 't fixtureFormat \<Rightarrow> string \<Rightarrow> string \<Rightarrow> 't loadContext \<Rightarrow> 't loadContext gores" where
  "loadFile E fmt location name ctx = loadFiles E fmt location [name] ctx"

definition emptyContext :: "'t loadContext" where
  "emptyContext = \<lparr>lc_files = [], lc_tables = [], refsDefinition = [], refsInserted = []\<rparr>"

text \<open>The loop of \<open>Load\<close> over the names of the fixtures.\<close>

definition gather :: "fixtureEnv \<Rightarrow> 't fixtureFormat \<Rightarrow> string \<Rightarrow> string list \<Rightarrow> 't loadContext gores" where
  "gather E fmt location names =
     foldM (\<lambda>ctx name. wrapErr (\<lambda>e. EFmt ''unable to load fixture %s: %s'' [ShStr name, ShErr e])
                           (loadFile E fmt location name ctx)) emptyContext names"

end
