(* ===== verification/FixturesSql.thy ===== *)
theory FixturesSql
  imports Fixtures "HOL-Library.List_Lexorder" "HOL-Library.Char_ord"
begin

text \<open>
  Model of the second phase of the SQL fixture loaders (\<open>fixtures/postgres/postgres.go\<close>,
  \<open>fixtures/mysql/mysql.go\<close>): the tables are emptied and filled in one transaction.

  The database is a parameter (\<open>sqlDb\<close>) that answers a statement depending on what was done in the
  transaction before it; what was done is recorded in a log of operations (\<open>txOp\<close>). The JSON form
  of a value, the text of a float and of an error are parameters too. Debug output is left out.
\<close>

section \<open>Literals\<close>

text \<open>\<open>%q\<close> of a string; characters outside ASCII are taken to be printable.\<close>

definition hexDigit :: "nat \<Rightarrow> char" where
  "hexDigit n = (''0123456789abcdef'' ! (n mod 16))"

definition quoteChar :: "char \<Rightarrow> string" where
  "quoteChar c =
     (let n = codepoint c
      in if c = CHR 0x22 \<or> c = CHR 0x5C then [CHR 0x5C, c]
         else if n = 7 then [CHR 0x5C, CHR ''a''] else if n = 8 then [CHR 0x5C, CHR ''b'']
         else if n = 9 then [CHR 0x5C, CHR ''t''] else if n = 10 then [CHR 0x5C, CHR ''n'']
         else if n = 11 then [CHR 0x5C, CHR ''v''] else if n = 12 then [CHR 0x5C, CHR ''f'']
         else if n = 13 then [CHR 0x5C, CHR ''r'']
         else if n < 32 \<or> n = 127 then [CHR 0x5C, CHR ''x'', hexDigit (n div 16), hexDigit n]
         else [c])"

definition goQuote :: "string \<Rightarrow> string" where
  "goQuote s = [CHR 0x22] @ concat (map quoteChar s) @ [CHR 0x22]"

definition escapeLiteral :: "string \<Rightarrow> string" where
  "escapeLiteral s = replaceAll (replaceAll s [CHR 0x27] [CHR 0x27, CHR 0x27]) [CHR 0x5C] [CHR 0x5C, CHR 0x5C]"

definition pgQuoteLiteral :: "string \<Rightarrow> string" where
  "pgQuoteLiteral s = (if contains s [CHR 0x5C] then ''E'' else []) @ [CHR 0x27] @ escapeLiteral s @ [CHR 0x27]"

definition mysqlQuoteLiteral :: "string \<Rightarrow> string" where
  "mysqlQuoteLiteral s = [CHR 0x27] @ escapeLiteral s @ [CHR 0x27]"

section \<open>The database\<close>

datatype txOp = OpBegin | OpExec string | OpQuery string "int list" | OpCommit | OpRollback

type_synonym txLog = "txOp list"

text \<open>Column names, the outcome of scanning each row, the error after the last row.\<close>

record sqlRows =
  sr_columns :: "string list gores"
  sr_scans :: "string option list gores list"
  sr_err :: "goerror option"

text \<open>Of \<open>Exec\<close>: the outcome, with the outcome of \<open>LastInsertId\<close>.\<close>

record sqlDb =
  db_begin :: "unit gores"
  db_exec :: "txLog \<Rightarrow> string \<Rightarrow> int gores gores"
  db_query :: "txLog \<Rightarrow> string \<Rightarrow> int list \<Rightarrow> sqlRows gores"
  db_commit :: "txLog \<Rightarrow> unit gores"
  db_marshal :: "yval \<Rightarrow> string gores"
  db_unmarshal :: "string \<Rightarrow> row gores"
  db_float :: "float64 \<Rightarrow> string"
  db_errText :: "goerror \<Rightarrow> string"
  db_scanErr :: goerror

definition txExec :: "sqlDb \<Rightarrow> string \<Rightarrow> txLog \<Rightarrow> txLog \<times> int gores gores" where
  "txExec E q log = (log @ [OpExec q], db_exec E log q)"

definition txQuery :: "sqlDb \<Rightarrow> string \<Rightarrow> int list \<Rightarrow> txLog \<Rightarrow> txLog \<times> sqlRows gores" where
  "txQuery E q args log = (log @ [OpQuery q args], db_query E log q args)"

text \<open>
  \<open>Begin\<close>, the body, \<open>Commit\<close>; the deferred \<open>Rollback\<close> is sent only when \<open>Commit\<close> was not
  reached. It runs on a panic as well. The log has the calls that reach the database; what they
  leave behind there depends on the database (\<open>txEffect\<close> in \<open>FixturesSpec\<close>).
\<close>

definition inTx :: "sqlDb \<Rightarrow> (txLog \<Rightarrow> txLog \<times> 'c gores) \<Rightarrow> txLog \<times> unit gores" where
  "inTx E body =
     (case db_begin E of
        Err e \<Rightarrow> ([], Err e)
      | Panic m \<Rightarrow> ([], Panic m)
      | Ok _ \<Rightarrow>
          (case body [OpBegin] of
             (log, Ok _) \<Rightarrow> (log @ [OpCommit], db_commit E log)
           | (log, Err e) \<Rightarrow> (log @ [OpRollback], Err e)
           | (log, Panic m) \<Rightarrow> (log @ [OpRollback], Panic m)))"

text \<open>A loop over a list that carries a context and may stop with an error.\<close>

fun loopS :: "('a \<Rightarrow> 'c \<Rightarrow> txLog \<Rightarrow> txLog \<times> 'c gores) \<Rightarrow> 'a list \<Rightarrow> 'c \<Rightarrow> txLog \<Rightarrow> txLog \<times> 'c gores" where
  "loopS f [] c log = (log, Ok c)"
| "loopS f (x # xs) c log = sbind (f x c log) (\<lambda>log c. loopS f xs c log)"

section \<open>Values\<close>

text \<open>
  A number of YAML is an \<open>int\<close> where it fits and a \<open>uint64\<close> above, which is no case of its own here:
  it is written like a map or a slice, as quoted JSON.
\<close>

fun toDbValue :: "(string \<Rightarrow> string) \<Rightarrow> sqlDb \<Rightarrow> yval \<Rightarrow> string gores" where
  "toDbValue quote E YNil = Ok ''NULL''"
| "toDbValue quote E (YStr s) = Ok (quote s)"
| "toDbValue quote E (YInt i) =
     (if i < 2 ^ 63 then Ok (itoa i) else rbind (db_marshal E (YInt i)) (\<lambda>encoded. Ok (quote encoded)))"
| "toDbValue quote E (YFloat f) = Ok (db_float E f)"
| "toDbValue quote E (YBool b) = Ok (if b then ''true'' else ''false'')"
| "toDbValue quote E v = rbind (db_marshal E v) (\<lambda>encoded. Ok (quote encoded))"

definition resolveFieldReference :: "rowsDict \<Rightarrow> string \<Rightarrow> yval gores" where
  "resolveFieldReference refs ref =
     (case splitN2 (CHR ''.'') ref of
        [p, field] \<Rightarrow>
          (if length p < 2 \<or> field = [] then Err (EFmt ''invalid reference %s, correct form is $refName.field'' [ShStr ref])
           else
             (case map_of refs (tl p) of
                None \<Rightarrow> Err (EFmt ''undefined reference %s'' [ShStr (tl p)])
              | Some target \<Rightarrow>
                  (case map_of target field of
                     None \<Rightarrow> Err (EFmt ''undefined reference field %s'' [ShStr field])
                   | Some v \<Rightarrow> Ok v)))
      | _ \<Rightarrow> Err (EFmt ''invalid reference %s, correct form is $refName.field'' [ShStr ref]))"

text \<open>The regular expression \<open>^\$eval\((.+)\)$\<close>: what is between the parentheses.\<close>

definition evalBody :: "string \<Rightarrow> string option" where
  "evalBody expr =
     (let mid = take (length expr - 7) (drop 6 expr)
      in if hasPrefix expr ''$eval('' \<and> hasSuffix expr '')'' \<and> mid \<noteq> [] \<and> CHR 0x0A \<notin> set mid then Some mid else None)"

text \<open>\<open>expr[:5]\<close> panics for a shorter expression.\<close>

definition resolveExpression ::
  "(string \<Rightarrow> string) \<Rightarrow> (goerror \<Rightarrow> string gores) \<Rightarrow> sqlDb \<Rightarrow> rowsDict \<Rightarrow> string \<Rightarrow> string gores" where
  "resolveExpression quote unresolved E refs expr =
     (if length expr < 5 then Panic ''slice bounds out of range''
      else if take 5 expr = ''$eval'' then
        (case evalBody expr of
           Some e \<Rightarrow> Ok (''('' @ e @ '')'')
         | None \<Rightarrow> Err (EFmt ''icorrect $eval() usage: %s'' [ShStr expr]))
      else
        (case resolveFieldReference refs expr of
           Ok v \<Rightarrow> toDbValue quote E v
         | Err e \<Rightarrow> unresolved e
         | Panic m \<Rightarrow> Panic m))"

section \<open>PostgreSQL\<close>

record tableName =
  tn_schema :: string
  tn_name :: string

definition newTableName :: "string \<Rightarrow> tableName" where
  "newTableName source =
     (case splitN2 (CHR ''.'') source of
        [schema, name] \<Rightarrow> \<lparr>tn_schema = (if schema = [] then ''public'' else schema), tn_name = name\<rparr>
      | parts \<Rightarrow> \<lparr>tn_schema = ''public'', tn_name = hd parts\<rparr>)"

definition getFullName :: "tableName \<Rightarrow> string" where
  "getFullName t = goQuote (tn_schema t) @ ''.'' @ goQuote (tn_name t)"

text \<open>An unresolved reference is not reported: the error is replaced by nil.\<close>

definition pgResolveExpression :: "sqlDb \<Rightarrow> rowsDict \<Rightarrow> string \<Rightarrow> string gores" where
  "pgResolveExpression E refs expr = resolveExpression pgQuoteLiteral (\<lambda>e. Ok []) E refs expr"

definition insertFields :: "row list \<Rightarrow> string list" where
  "insertFields rows = sort (remdups (concat (map (\<lambda>r. filter (\<lambda>n. \<not> isSpecial n) (gokeys r)) rows)))"

definition pgInsertValue :: "sqlDb \<Rightarrow> rowsDict \<Rightarrow> tableName \<Rightarrow> nat \<Rightarrow> row \<Rightarrow> string \<Rightarrow> string gores" where
  "pgInsertValue E refs t i r name =
     (case map_of r name of
        None \<Rightarrow> Ok ''default''
      | Some v \<Rightarrow>
          (case v of
             YStr s \<Rightarrow> (if isSpecial s then pgResolveExpression E refs s else Ok (pgQuoteLiteral s))
           | _ \<Rightarrow> wrapErr (\<lambda>e. EFmt ''unable to process %s value (row %d of %s): %s''
                       [ShStr name, ShInt (int i), ShStr (getFullName t), ShErr e]) (toDbValue pgQuoteLiteral E v)))"

definition pgBuildInsertQuery :: "sqlDb \<Rightarrow> rowsDict \<Rightarrow> tableName \<Rightarrow> row list \<Rightarrow> string gores" where
  "pgBuildInsertQuery E refs t rows =
     (let columns = insertFields rows
      in rbind (mapM (\<lambda>(i, r). rbind (mapM (pgInsertValue E refs t i r) columns)
                  (\<lambda>vs. Ok (''('' @ join '', '' vs @ '')''))) (enumerate 0 rows))
           (\<lambda>dbValues. Ok (''INSERT INTO '' @ getFullName t @ '' AS row ('' @
              join '', '' (map (\<lambda>f. [CHR 0x22] @ f @ [CHR 0x22]) columns) @ '') VALUES '' @
              join '', '' dbValues @ '' RETURNING row_to_json(row)'')))"

definition fixSequencesQuery :: string where
  "fixSequencesQuery = join [CHR 0x0A]
     [[],
      ''DO $$'',
      ''DECLARE'',
      ''    r record;'',
      ''BEGIN'',
      ''    FOR r IN ('',
      ''        SELECT 'SELECT SETVAL(' || quote_literal(quote_ident(seq_ns.nspname) || '.' || quote_ident(seq.relname))'',
      ''            || ', COALESCE(MAX(' || quote_ident(col.attname) || '), 1) ) FROM '' @ [CHR 0x27],
      ''            || quote_ident(tbl_ns.nspname) || '.' || quote_ident(tbl.relname) AS q'',
      ''        FROM pg_class seq'',
      ''            JOIN pg_namespace seq_ns ON (seq.relnamespace = seq_ns.oid)'',
      ''            JOIN pg_depend dep ON (dep.objid = seq.oid)'',
      ''            JOIN pg_class tbl ON (dep.refobjid = tbl.oid)'',
      ''            JOIN pg_namespace tbl_ns ON (tbl.relnamespace = tbl_ns.oid)'',
      ''            JOIN pg_attribute col ON (col.attrelid = tbl.oid AND dep.refobjsubid = col.attnum)'',
      ''        WHERE'',
      ''            seq.relkind = 'S'' @ [CHR 0x27],
      ''        ORDER BY seq.relname'',
      ''    ) LOOP'',
      ''        EXECUTE r.q;'',
      ''    END LOOP;'',
      ''END$$'',
      []]"

definition truncateQuery :: "tableName loadedTable list \<Rightarrow> string" where
  "truncateQuery ts =
     ''TRUNCATE TABLE '' @ join '','' (rev (remdups (rev (map (\<lambda>t. getFullName (lt_name t)) ts)))) @ '' CASCADE''"

definition pgTruncateTables :: "sqlDb \<Rightarrow> tableName loadedTable list \<Rightarrow> txLog \<Rightarrow> txLog \<times> unit gores" where
  "pgTruncateTables E ts log = sbind (txExec E (truncateQuery ts) log) (\<lambda>log _. (log, Ok ()))"

definition scanString :: "sqlDb \<Rightarrow> string option list gores \<Rightarrow> string gores" where
  "scanString E sc = rbind sc (\<lambda>cols. case cols of [Some s] \<Rightarrow> Ok s | _ \<Rightarrow> Err (db_scanErr E))"

text \<open>The reference of a named row, added to both dictionaries.\<close>

definition addReference ::
  "(row gores) \<Rightarrow> row \<Rightarrow> 't loadContext \<Rightarrow> 't loadContext gores" where
  "addReference values r ctx =
     (case map_of r ''$name'' of
        None \<Rightarrow> Ok ctx
      | Some nv \<Rightarrow>
          rbind (asString nv) (\<lambda>name.
            if gohas (refsDefinition ctx) name then Err (EFmt ''duplicating ref name %s'' [ShStr name])
            else rbind values (\<lambda>vs.
              Ok (ctx\<lparr>refsDefinition := AList.update name r (refsDefinition ctx),
                       refsInserted := AList.update name vs (refsInserted ctx)\<rparr>))))"

definition pgLoadTable ::
  "sqlDb \<Rightarrow> tableName loadedTable \<Rightarrow> tableName loadedTable loadContext \<Rightarrow> txLog \<Rightarrow> txLog \<times> tableName loadedTable loadContext gores" where
  "pgLoadTable E lt ctx log =
     sbind (log, mapM (extendRow (refsDefinition ctx)) (lt_rows lt)) (\<lambda>log rows.
     sbind (log, pgBuildInsertQuery E (refsInserted ctx) (lt_name lt) rows) (\<lambda>log query.
     sbind (txQuery E query [] log) (\<lambda>log inserted.
     sbind (log, foldM (\<lambda>ctx (r, sc). addReference (rbind (scanString E sc) (db_unmarshal E)) r ctx) ctx
                   (zip rows (sr_scans inserted))) (\<lambda>log ctx.
       (log, case sr_err inserted of
               None \<Rightarrow> Ok ctx
             | Some e \<Rightarrow> Err (EFmt (''failed to execute query. DB returned error:'' @ [CHR 0x0A] @ ''%s'') [ShErr e]))))))"

definition pgLoadOne ::
  "sqlDb \<Rightarrow> tableName loadedTable \<Rightarrow> tableName loadedTable loadContext \<Rightarrow> txLog \<Rightarrow> txLog \<times> tableName loadedTable loadContext gores" where
  "pgLoadOne E lt ctx log =
     (if lt_rows lt = [] then (log, Ok ctx)
      else (case pgLoadTable E lt ctx log of
              (log, out) \<Rightarrow> (log, wrapErr (\<lambda>e. EFmt (''failed to load table '%s' because:'' @ [CHR 0x0A] @ ''%s'')
                               [ShStr (getFullName (lt_name lt)), ShErr e]) out)))"

definition pgLoadTables :: "sqlDb \<Rightarrow> tableName loadedTable loadContext \<Rightarrow> txLog \<times> unit gores" where
  "pgLoadTables E ctx =
     inTx E (\<lambda>log.
       sbind (pgTruncateTables E (lc_tables ctx) log) (\<lambda>log _.
       sbind (loopS (pgLoadOne E) (lc_tables ctx) ctx log) (\<lambda>log _.
         txExec E fixSequencesQuery log)))"

definition pgLoad :: "fixtureEnv \<Rightarrow> sqlDb \<Rightarrow> string \<Rightarrow> string list \<Rightarrow> txLog \<times> unit gores" where
  "pgLoad F E location names = sbind ([], gather F (sqlFormat newTableName) location names) (\<lambda>_ ctx. pgLoadTables E ctx)"

section \<open>MySQL\<close>

abbreviation backquote :: "string \<Rightarrow> string" where
  "backquote s \<equiv> [CHR 0x60] @ s @ [CHR 0x60]"

definition mysqlResolveExpression :: "sqlDb \<Rightarrow> rowsDict \<Rightarrow> string \<Rightarrow> string gores" where
  "mysqlResolveExpression E refs expr = resolveExpression mysqlQuoteLiteral Err E refs expr"

definition rowInsertValue :: "sqlDb \<Rightarrow> rowsDict \<Rightarrow> yval \<Rightarrow> string gores" where
  "rowInsertValue E refs v =
     (case v of
        YStr s \<Rightarrow> (if isSpecial s then mysqlResolveExpression E refs s else Ok (mysqlQuoteLiteral s))
      | _ \<Rightarrow> toDbValue mysqlQuoteLiteral E v)"

definition mysqlBuildInsertQuery :: "sqlDb \<Rightarrow> rowsDict \<Rightarrow> string \<Rightarrow> row \<Rightarrow> string gores" where
  "mysqlBuildInsertQuery E refs t r =
     (let columns = sort (filter (\<lambda>n. \<not> isSpecial n) (gokeys r))
      in rbind (mapM (\<lambda>name. wrapErr (\<lambda>e. EFmt ''unable to process %s value (of %s): %s'' [ShStr name, ShStr t, ShErr e])
                  (case map_of r name of Some v \<Rightarrow> rowInsertValue E refs v | None \<Rightarrow> Ok ''NULL'')) columns)
           (\<lambda>vs. Ok (''INSERT INTO '' @ backquote t @ '' ('' @ join '', '' (map backquote columns) @ '') VALUES '' @
                     ''('' @ join '', '' vs @ '')'')))"

definition fetchRow :: "sqlRows \<Rightarrow> string option list gores \<Rightarrow> row gores" where
  "fetchRow rows sc =
     rbind (sr_columns rows) (\<lambda>cols.
     rbind sc (\<lambda>raw.
       Ok (foldl (\<lambda>r (c, v). AList.update c (YStr (case v of None \<Rightarrow> ''NULL'' | Some s \<Rightarrow> s)) r) [] (zip cols raw))))"

definition noIdColumn :: "string \<Rightarrow> bool" where
  "noIdColumn text \<longleftrightarrow> contains text ''1054'' \<and> contains text (''Unknown column '' @ [CHR 0x27] @ ''id'' @ [CHR 0x27])"

definition insertedRows :: "sqlDb \<Rightarrow> int gores \<Rightarrow> string \<Rightarrow> txLog \<Rightarrow> txLog \<times> sqlRows option gores" where
  "insertedRows E lastId t log =
     sbind (log, lastId) (\<lambda>log i.
       case txQuery E (''SELECT * FROM '' @ backquote t @ '' WHERE '' @ backquote ''id'' @ '' = ?'') [i] log of
         (log, Ok rows) \<Rightarrow> (log, Ok (Some rows))
       | (log, Err e) \<Rightarrow> (log, if noIdColumn (db_errText E e) then Ok None else Err e)
       | (log, Panic m) \<Rightarrow> (log, Panic m))"

definition mysqlLoadRow ::
  "sqlDb \<Rightarrow> string \<Rightarrow> row \<Rightarrow> string loadedTable loadContext \<Rightarrow> txLog \<Rightarrow> txLog \<times> string loadedTable loadContext gores" where
  "mysqlLoadRow E t r ctx log =
     sbind (log, mysqlBuildInsertQuery E (refsInserted ctx) t r) (\<lambda>log query.
     sbind (txExec E query log) (\<lambda>log lastId.
     sbind (insertedRows E lastId t log) (\<lambda>log rows.
       (log, case rows of
               None \<Rightarrow> Ok ctx
             | Some rs \<Rightarrow>
                 (case sr_scans rs of
                    [] \<Rightarrow> Err (errNew ''can't get inserted row'')
                  | sc # _ \<Rightarrow> addReference (fetchRow rs sc) r ctx)))))"

definition mysqlLoadTable ::
  "sqlDb \<Rightarrow> string loadedTable \<Rightarrow> string loadedTable loadContext \<Rightarrow> txLog \<Rightarrow> txLog \<times> string loadedTable loadContext gores" where
  "mysqlLoadTable E lt ctx log =
     (if lt_rows lt = [] then (log, Ok ctx)
      else sbind (log, mapM (extendRow (refsDefinition ctx)) (lt_rows lt)) (\<lambda>log rows.
             loopS (mysqlLoadRow E (lt_name lt)) rows ctx log))"

definition truncateTable :: "sqlDb \<Rightarrow> string \<Rightarrow> unit \<Rightarrow> txLog \<Rightarrow> txLog \<times> unit gores" where
  "truncateTable E name _ log = sbind (txExec E (''TRUNCATE TABLE '' @ backquote name) log) (\<lambda>log _. (log, Ok ()))"

definition mysqlLoadTables :: "sqlDb \<Rightarrow> string loadedTable loadContext \<Rightarrow> txLog \<times> unit gores" where
  "mysqlLoadTables E ctx =
     inTx E (\<lambda>log.
       sbind (loopS (truncateTable E) (rev (remdups (rev (map lt_name (lc_tables ctx))))) () log) (\<lambda>log _.
         loopS (mysqlLoadTable E) (lc_tables ctx) ctx log))"

definition mysqlLoad :: "fixtureEnv \<Rightarrow> sqlDb \<Rightarrow> string \<Rightarrow> string list \<Rightarrow> txLog \<times> unit gores" where
  "mysqlLoad F E location names = sbind ([], gather F (sqlFormat (\<lambda>n. n)) location names) (\<lambda>_ ctx. mysqlLoadTables E ctx)"

section \<open>Several databases\<close>

text \<open>\<open>multidb/multidb.go\<close>: the loaders are given by what loading files with them does.\<close>

fun multiLoad :: "(string, string list \<Rightarrow> 's \<Rightarrow> 's \<times> unit gores) gomap \<Rightarrow> Fixture list \<Rightarrow> 's \<Rightarrow> 's \<times> unit gores" where
  "multiLoad loaders [] s = (s, Ok ())"
| "multiLoad loaders (f # fs) s =
     (case map_of loaders (fx_DbName f) of
        None \<Rightarrow> (s, Err (EFmt ''loader %s not exists'' [ShStr (fx_DbName f)]))
      | Some load \<Rightarrow> sbind (load (fx_Files f) s) (\<lambda>s _. multiLoad loaders fs s))"

lemma multiLoad_append:
  "multiLoad loaders (fs @ gs) s = sbind (multiLoad loaders fs s) (\<lambda>s _. multiLoad loaders gs s)"
proof (induction fs arbitrary: s)
  case (Cons f fs)
  show ?case
  proof (cases "map_of loaders (fx_DbName f)")
    case (Some load)
    obtain s1 out where "load (fx_Files f) s = (s1, out)" by (cases "load (fx_Files f) s")
    with Some Cons show ?thesis by (cases out) simp_all
  qed simp
qed simp

section \<open>The choice of a loader\<close>

text \<open>\<open>fixtures/loader.go\<close>\<close>

datatype DbType = Postgres | Mysql | Aerospike | Redis | CustomLoader

datatype 'l fixtureLoader = PostgresLoader string | MysqlLoader string | AerospikeLoader string | ExternalLoader 'l

record 'l fixtureConfig =
  fc_DbType :: DbType
  fc_Location :: string
  fc_FixtureLoader :: "'l option"

definition NewLoader :: "'l fixtureConfig \<Rightarrow> 'l fixtureLoader gores" where
  "NewLoader cfg =
     (let location = trimRight (CHR ''/'') (fc_Location cfg)
      in case fc_DbType cfg of
           Postgres \<Rightarrow> Ok (PostgresLoader location)
         | Mysql \<Rightarrow> Ok (MysqlLoader location)
         | Aerospike \<Rightarrow> Ok (AerospikeLoader location)
         | _ \<Rightarrow> (case fc_FixtureLoader cfg of Some l \<Rightarrow> Ok (ExternalLoader l) | None \<Rightarrow> Panic ''unknown db type''))"

definition FetchDbType :: "string \<Rightarrow> DbType gores" where
  "FetchDbType dbType =
     (if dbType = ''postgres'' then Ok Postgres else if dbType = ''mysql'' then Ok Mysql
      else if dbType = ''aerospike'' then Ok Aerospike else if dbType = ''redis'' then Ok Redis
      else Panic ''unknown db type param'')"

end
