(* ===== verification/FixturesSpec.thy ===== *)
theory FixturesSpec
  imports FixturesSql "HOL-Library.Multiset"
begin

text \<open>
  Correctness of the fixture loaders: which files are read, what reaches the database and in which
  order, that loading is one transaction, and that literals read back as the values they quote.
\<close>

section \<open>Files\<close>

definition tablesOf :: "fixtureEnv \<Rightarrow> 't fixtureFormat \<Rightarrow> string \<Rightarrow> 't list" where
  "tablesOf F nn p =
     (case rbind (readFixture F p) (\<lambda>fx. mapM (ff_table nn) (Tables fx)) of Ok ts \<Rightarrow> ts | _ \<Rightarrow> [])"

text \<open>The files of a list of names are among the files \<open>fs\<close>.\<close>

definition found :: "fixtureEnv \<Rightarrow> string \<Rightarrow> string list \<Rightarrow> string set \<Rightarrow> bool" where
  "found F location names fs \<longleftrightarrow> (\<forall>name \<in> set names. \<exists>p \<in> fs. findFile F location name = Ok p)"

definition inheritsFound :: "fixtureEnv \<Rightarrow> string \<Rightarrow> string set \<Rightarrow> string \<Rightarrow> bool" where
  "inheritsFound F location fs p \<longleftrightarrow> (\<exists>fx. readFixture F p = Ok fx \<and> found F location (Inherits fx) fs)"

lemma found_mono: "found F location names fs \<Longrightarrow> fs \<subseteq> fs' \<Longrightarrow> found F location names fs'"
  unfolding found_def by blast

lemma inheritsFound_mono: "inheritsFound F location fs p \<Longrightarrow> fs \<subseteq> fs' \<Longrightarrow> inheritsFound F location fs' p"
  unfolding inheritsFound_def using found_mono by blast

text \<open>What loading some files adds to the context.\<close>

definition loads ::
  "fixtureEnv \<Rightarrow> 't fixtureFormat \<Rightarrow> string \<Rightarrow> string list \<Rightarrow> 't loadContext \<Rightarrow> 't loadContext \<Rightarrow> string list \<Rightarrow> bool" where
  "loads F nn location names ctx ctx' new \<longleftrightarrow>
     lc_files ctx' = lc_files ctx @ new \<and> distinct new \<and> set new \<inter> set (lc_files ctx) = {} \<and>
     found F location names (set (lc_files ctx')) \<and> (\<forall>p \<in> set new. inheritsFound F location (set (lc_files ctx')) p) \<and>
     (\<exists>order. mset order = mset new \<and> lc_tables ctx' = lc_tables ctx @ concat (map (tablesOf F nn) order))"

lemma loads_skip:
  assumes "findFile F location name = Ok p" and "p \<in> set (lc_files ctx)" and "loads F nn location names ctx ctx' new"
  shows "loads F nn location (name # names) ctx ctx' new"
  using assms unfolding loads_def found_def by auto

lemma loads_step:
  assumes p: "findFile F location name = Ok p" "p \<notin> set (lc_files ctx)" and fx: "readFixture F p = Ok fx"
    and inh: "loads F nn location (Inherits fx) (ctx\<lparr>lc_files := lc_files ctx @ [p]\<rparr>) ctx1 new1"
    and ts: "mapM (ff_table nn) (Tables fx) = Ok ts"
    and ctx2: "lc_files ctx2 = lc_files ctx1" "lc_tables ctx2 = lc_tables ctx1 @ ts"
    and rest: "loads F nn location names ctx2 ctx' new2"
  shows "loads F nn location (name # names) ctx ctx' (p # new1 @ new2)"
proof -
  from inh rest obtain o1 o2 where o1: "mset o1 = mset new1" "lc_tables ctx1 = lc_tables ctx @ concat (map (tablesOf F nn) o1)"
    and o2: "mset o2 = mset new2" "lc_tables ctx' = lc_tables ctx2 @ concat (map (tablesOf F nn) o2)"
    unfolding loads_def by auto
  have "tablesOf F nn p = ts" using fx ts by (simp add: tablesOf_def)
  with o1 o2 ctx2(2) have order: "mset (o1 @ p # o2) = mset (p # new1 @ new2)"
    "lc_tables ctx' = lc_tables ctx @ concat (map (tablesOf F nn) (o1 @ p # o2))" by auto
  have files: "lc_files ctx' = lc_files ctx @ p # new1 @ new2"
    using inh rest ctx2(1) unfolding loads_def by simp
  have sub: "set (lc_files ctx1) \<subseteq> set (lc_files ctx')" using rest ctx2(1) unfolding loads_def by auto
  have "inheritsFound F location (set (lc_files ctx')) p"
    using fx inh found_mono [OF _ sub] unfolding inheritsFound_def loads_def by auto
  moreover have "\<forall>q \<in> set new1. inheritsFound F location (set (lc_files ctx')) q"
    using inh inheritsFound_mono [OF _ sub] unfolding loads_def by auto
  moreover have "\<forall>q \<in> set new2. inheritsFound F location (set (lc_files ctx')) q"
    and "found F location names (set (lc_files ctx'))" using rest unfolding loads_def by auto
  moreover have "distinct (p # new1 @ new2)" "set (p # new1 @ new2) \<inter> set (lc_files ctx) = {}"
    using inh rest ctx2(1) p(2) unfolding loads_def by auto
  ultimately show ?thesis
    using files order p(1) unfolding loads_def found_def by (intro conjI exI [of _ "o1 @ p # o2"]) auto
qed

lemma loadContents_Ok:
  "loadContents nn fx ctx = Ok ctx' \<Longrightarrow>
     \<exists>ts. mapM (ff_table nn) (Tables fx) = Ok ts \<and> lc_files ctx' = lc_files ctx \<and> lc_tables ctx' = lc_tables ctx @ ts"
  by (auto simp: loadContents_def)

lemma loadFiles_loads:
  assumes "loadFiles F nn location names ctx = Ok ctx'"
  shows "\<exists>new. loads F nn location names ctx ctx' new"
  using assms
proof (induction F nn location names ctx arbitrary: ctx' rule: loadFiles.induct)
  case (1 F nn location ctx)
  then show ?case by (intro exI [of _ "[]"]) (simp add: loads_def found_def)
next
  case (2 F nn location name names ctx)
  from "2.prems" obtain p where p: "findFile F location name = Ok p" by auto
  show ?case
  proof (cases "p \<in> set (lc_files ctx)")
    case True
    with "2.prems" p have "loadFiles F nn location names ctx = Ok ctx'" by simp
    from "2.IH"(1) [OF p True this] show ?thesis using loads_skip [OF p True] by blast
  next
    case False
    with "2.prems" p obtain fx ctx1 ctx2 where fx: "readFixture F p = Ok fx"
      and i: "loadFiles F nn location (Inherits fx) (ctx\<lparr>lc_files := lc_files ctx @ [p]\<rparr>) = Ok ctx1"
      and c: "loadContents nn fx ctx1 = Ok ctx2" and r: "loadFiles F nn location names ctx2 = Ok ctx'" by auto
    from "2.IH"(2) [OF p False fx i] "2.IH"(3) [OF p False fx i c r] loadContents_Ok [OF c]
    show ?thesis using loads_step [OF p False fx] by blast
  qed
qed

lemma loads_trans:
  assumes "loads F nn location [name] ctx ctx1 new1" and "loads F nn location names ctx1 ctx2 new2"
  shows "loads F nn location (name # names) ctx ctx2 (new1 @ new2)"
proof -
  from assms obtain o1 o2 where o: "mset o1 = mset new1" "lc_tables ctx1 = lc_tables ctx @ concat (map (tablesOf F nn) o1)"
    "mset o2 = mset new2" "lc_tables ctx2 = lc_tables ctx1 @ concat (map (tablesOf F nn) o2)" unfolding loads_def by blast
  have sub: "set (lc_files ctx1) \<subseteq> set (lc_files ctx2)" using assms(2) unfolding loads_def by auto
  have "found F location (name # names) (set (lc_files ctx2))"
    using assms found_mono [OF _ sub, of F location "[name]"] unfolding loads_def found_def by auto
  moreover have "\<forall>p \<in> set (new1 @ new2). inheritsFound F location (set (lc_files ctx2)) p"
    using assms inheritsFound_mono [OF _ sub] unfolding loads_def by auto
  ultimately show ?thesis
    using assms o unfolding loads_def by (intro conjI exI [of _ "o1 @ o2"]) auto
qed

lemma gather_loads_from:
  assumes "foldM (\<lambda>ctx name. wrapErr (f name) (loadFile F nn location name ctx)) ctx names = Ok ctx'"
  shows "\<exists>new. loads F nn location names ctx ctx' new"
  using assms
proof (induction names arbitrary: ctx)
  case Nil
  then show ?case by (intro exI [of _ "[]"]) (simp add: loads_def found_def)
next
  case (Cons name names)
  then obtain ctx1 where a: "wrapErr (f name) (loadFile F nn location name ctx) = Ok ctx1"
    and b: "foldM (\<lambda>ctx name. wrapErr (f name) (loadFile F nn location name ctx)) ctx1 names = Ok ctx'" by auto
  from a have "loadFiles F nn location [name] ctx = Ok ctx1"
    by (cases "loadFile F nn location name ctx") (simp_all add: wrapErr_def loadFile_def del: loadFiles.simps)
  from loadFiles_loads [OF this] Cons.IH [OF b] show ?case using loads_trans by blast
qed

section \<open>Literals\<close>

text \<open>
  How a database reads a string literal: in a plain one a doubled quote stands for a quote, in one
  with escapes a backslash also protects a quote or a backslash.
\<close>

fun readPlain :: "string \<Rightarrow> (string \<times> string) option" where
  "readPlain [] = None"
| "readPlain (c # s) =
     (if c = CHR 0x27
      then (case s of
              d # t \<Rightarrow> (if d = CHR 0x27 then map_option (apfst ((#) d)) (readPlain t) else Some ([], s))
            | [] \<Rightarrow> Some ([], []))
      else map_option (apfst ((#) c)) (readPlain s))"

fun readEscaped :: "string \<Rightarrow> (string \<times> string) option" where
  "readEscaped [] = None"
| "readEscaped (c # s) =
     (if c = CHR 0x27
      then (case s of
              d # t \<Rightarrow> (if d = CHR 0x27 then map_option (apfst ((#) d)) (readEscaped t) else Some ([], s))
            | [] \<Rightarrow> Some ([], []))
      else if c = CHR 0x5C
      then (case s of
              d # t \<Rightarrow> (if d = CHR 0x27 \<or> d = CHR 0x5C then map_option (apfst ((#) d)) (readEscaped t) else None)
            | [] \<Rightarrow> None)
      else map_option (apfst ((#) c)) (readEscaped s))"

definition pgReadLiteral :: "string \<Rightarrow> (string \<times> string) option" where
  "pgReadLiteral s =
     (if hasPrefix s (''E'' @ [CHR 0x27]) then readEscaped (drop 2 s)
      else if hasPrefix s [CHR 0x27] then readPlain (tl s) else None)"

definition mysqlReadLiteral :: "string \<Rightarrow> (string \<times> string) option" where
  "mysqlReadLiteral s = (if hasPrefix s [CHR 0x27] then readEscaped (tl s) else None)"

definition noQuote :: "string \<Rightarrow> bool" where
  "noQuote rest \<longleftrightarrow> (case rest of [] \<Rightarrow> True | c # _ \<Rightarrow> c \<noteq> CHR 0x27)"

lemma escapeLiteral_simps [simp]:
  "escapeLiteral [] = []"
  "escapeLiteral (c # s) = (if c = CHR 0x27 \<or> c = CHR 0x5C then [c, c] else [c]) @ escapeLiteral s"
  by (simp_all add: escapeLiteral_def replaceAll_char)

lemma readEscaped_escape: "noQuote rest \<Longrightarrow> readEscaped (escapeLiteral s @ CHR 0x27 # rest) = Some (s, rest)"
  by (induction s) (auto simp: noQuote_def split: list.splits)

lemma readPlain_escape:
  "CHR 0x5C \<notin> set s \<Longrightarrow> noQuote rest \<Longrightarrow> readPlain (escapeLiteral s @ CHR 0x27 # rest) = Some (s, rest)"
  by (induction s) (auto simp: noQuote_def split: list.splits)

text \<open>
  The interface between the values of a statement and the literals of a database. What follows
  from it: a list of values, quoted and joined, reads back as the values.
\<close>

locale sql_literal =
  fixes quote :: "string \<Rightarrow> string" and read :: "string \<Rightarrow> (string \<times> string) option"
  assumes read_quote: "noQuote rest \<Longrightarrow> read (quote s @ rest) = Some (s, rest)"
begin

fun readList :: "nat \<Rightarrow> string \<Rightarrow> string list option" where
  "readList 0 s = None"
| "readList (Suc n) s =
     (case read s of
        None \<Rightarrow> None
      | Some (v, rest) \<Rightarrow>
          (if n = 0 then (if rest = [] then Some [v] else None)
           else if hasPrefix rest '', '' then map_option ((#) v) (readList n (drop 2 rest)) else None))"

lemma readList_join:
  assumes "vs \<noteq> []"
  shows "readList (length vs) (join '', '' (map quote vs)) = Some vs"
  using assms
proof (induction vs rule: list_nonempty_induct)
  case (single v)
  show ?case using read_quote [of "[]" v] by (simp add: noQuote_def)
next
  case (cons v vs)
  have "join '', '' (map quote (v # vs)) = quote v @ '', '' @ join '', '' (map quote vs)"
    using cons.hyps by (cases vs) simp_all
  with cons read_quote [of "'', '' @ join '', '' (map quote vs)" v] show ?case by (simp add: noQuote_def hasPrefix_def)
qed

lemma quote_inj: "quote s = quote t \<Longrightarrow> s = t"
  using read_quote [of "[]" s] read_quote [of "[]" t] by (simp add: noQuote_def)

end

lemma contains_char: "contains s [c] \<longleftrightarrow> c \<in> set s"
  by (induction s) (auto simp: hasPrefix_def)

interpretation pg_literal: sql_literal pgQuoteLiteral pgReadLiteral
proof
  fix rest s assume "noQuote rest"
  then show "pgReadLiteral (pgQuoteLiteral s @ rest) = Some (s, rest)"
    using readEscaped_escape [of rest s] readPlain_escape [of s rest]
    by (auto simp: pgReadLiteral_def pgQuoteLiteral_def hasPrefix_def contains_char)
qed

interpretation mysql_literal: sql_literal mysqlQuoteLiteral mysqlReadLiteral
  by unfold_locales (simp add: mysqlReadLiteral_def mysqlQuoteLiteral_def hasPrefix_def readEscaped_escape)

section \<open>Transactions\<close>

text \<open>Statements only: neither the begin nor the end of a transaction.\<close>

fun isStatement :: "txOp \<Rightarrow> bool" where
  "isStatement (OpExec q) = True"
| "isStatement (OpQuery q args) = True"
| "isStatement op = False"

lemma statements_no_commit: "list_all isStatement ops \<Longrightarrow> OpCommit \<notin> set ops"
  by (auto simp: list_all_iff)

definition appends :: "txLog \<Rightarrow> txLog \<times> 'a gores \<Rightarrow> bool" where
  "appends log m \<longleftrightarrow> (\<exists>ops. fst m = log @ ops \<and> list_all isStatement ops)"

named_theorems appends_intros \<open>operations only append statements to the log\<close>

lemma appends_pure [simp, appends_intros]: "appends log (log, r)"
  by (simp add: appends_def)

lemma appends_exec [simp, appends_intros]: "appends log (txExec E q log)" "appends log (txQuery E q args log)"
  by (auto simp: appends_def txExec_def txQuery_def)

lemma appends_sbind [appends_intros]:
  assumes "appends log m" and "\<And>log' x. appends log' (k log' x)"
  shows "appends log (sbind m k)"
proof -
  from assms(1) obtain ops where ops: "fst m = log @ ops" "list_all isStatement ops" by (auto simp: appends_def)
  show ?thesis
  proof (cases "snd m")
    case (Ok x)
    obtain ops' where "fst (k (fst m) x) = fst m @ ops'" "list_all isStatement ops'"
      using assms(2) [of "fst m" x] by (auto simp: appends_def)
    with ops Ok show ?thesis by (auto simp: sbind_def appends_def intro!: exI [of _ "ops @ ops'"])
  qed (use ops in \<open>auto simp: sbind_def appends_def\<close>)
qed

lemma appends_loop [appends_intros]:
  assumes "\<And>x c log. appends log (f x c log)"
  shows "appends log (loopS f xs c log)"
  using assms by (induction xs arbitrary: c log) (auto intro: appends_intros)

lemma appends_insertedRows [appends_intros]: "appends log (insertedRows E lastId t log)"
proof (cases lastId)
  case (Ok i)
  then show ?thesis
    by (auto simp: insertedRows_def appends_def txQuery_def split: res.splits)
qed (simp_all add: insertedRows_def)

lemma appends_pgLoadOne [appends_intros]: "appends log (pgLoadOne E lt ctx log)"
proof -
  have "appends log (pgLoadTable E lt ctx log)" unfolding pgLoadTable_def by (intro appends_intros)
  then show ?thesis by (auto simp: pgLoadOne_def appends_def split: prod.split)
qed

lemma appends_mysqlLoadTable [appends_intros]: "appends log (mysqlLoadTable E lt ctx log)"
proof -
  have "appends log (mysqlLoadRow E t r ctx log)" for t r ctx log
    unfolding mysqlLoadRow_def by (intro appends_intros)
  then show ?thesis unfolding mysqlLoadTable_def by (auto intro!: appends_intros)
qed

text \<open>
  What a log leaves behind in a database: the statements whose effect stays, and those of a
  transaction that is still open. Some databases end the transaction before certain statements,
  which then take effect at once, as does everything after them: \<open>implicit\<close> says which. PostgreSQL
  has no such statements among those sent here; in MySQL \<open>TRUNCATE TABLE\<close> is one.
\<close>

record dbEffect =
  de_done :: "string list"
  de_open :: "string list option"

definition runStatement :: "(string \<Rightarrow> bool) \<Rightarrow> string \<Rightarrow> dbEffect \<Rightarrow> dbEffect" where
  "runStatement implicit q d =
     (case de_open d of
        None \<Rightarrow> d\<lparr>de_done := de_done d @ [q]\<rparr>
      | Some pending \<Rightarrow>
          (if implicit q then \<lparr>de_done = de_done d @ pending @ [q], de_open = None\<rparr>
           else d\<lparr>de_open := Some (pending @ [q])\<rparr>))"

fun runOp :: "(string \<Rightarrow> bool) \<Rightarrow> txOp \<Rightarrow> dbEffect \<Rightarrow> dbEffect" where
  "runOp implicit OpBegin d = d\<lparr>de_open := Some []\<rparr>"
| "runOp implicit (OpExec q) d = runStatement implicit q d"
| "runOp implicit (OpQuery q args) d = runStatement implicit q d"
| "runOp implicit OpCommit d = \<lparr>de_done = de_done d @ (case de_open d of Some pending \<Rightarrow> pending | None \<Rightarrow> []), de_open = None\<rparr>"
| "runOp implicit OpRollback d = d\<lparr>de_open := None\<rparr>"

definition txEffect :: "(string \<Rightarrow> bool) \<Rightarrow> txLog \<Rightarrow> dbEffect" where
  "txEffect implicit log = fold (runOp implicit) log \<lparr>de_done = [], de_open = None\<rparr>"

definition mysqlImplicit :: "string \<Rightarrow> bool" where
  "mysqlImplicit q \<longleftrightarrow> hasPrefix q ''TRUNCATE ''"

fun statementsOf :: "txLog \<Rightarrow> string list" where
  "statementsOf [] = []"
| "statementsOf (OpExec q # log) = q # statementsOf log"
| "statementsOf (OpQuery q args # log) = q # statementsOf log"
| "statementsOf (op # log) = statementsOf log"

lemma statementsOf_append [simp]: "statementsOf (a @ b) = statementsOf a @ statementsOf b"
  by (induction a rule: statementsOf.induct) auto

lemma run_pending:
  "list_all isStatement ops \<Longrightarrow> de_open d = Some p \<Longrightarrow>
   fold (runOp (\<lambda>_. False)) ops d = d\<lparr>de_open := Some (p @ statementsOf ops)\<rparr>"
  by (induction ops arbitrary: d p rule: statementsOf.induct) (auto simp: runStatement_def)

lemma run_autocommit:
  "list_all isStatement ops \<Longrightarrow> de_open d = None \<Longrightarrow>
   fold (runOp implicit) ops d = d\<lparr>de_done := de_done d @ statementsOf ops\<rparr>"
  by (induction ops arbitrary: d rule: statementsOf.induct) (auto simp: runStatement_def)

text \<open>
  The contract of a loader: what it does between the begin and the end of its transaction is to
  issue statements. It gives that its effect is all or nothing.
\<close>

locale sql_loader =
  fixes body :: "sqlDb \<Rightarrow> 't loadContext \<Rightarrow> txLog \<Rightarrow> txLog \<times> 'c gores"
  assumes body_appends: "appends log (body E ctx log)"
begin

lemma atomic:
  assumes "inTx E (body E ctx) = (log, out)"
  shows "log = [] \<and> db_begin E \<noteq> Ok () \<and> out \<noteq> Ok ()
    \<or> (\<exists>ops. list_all isStatement ops \<and>
        (log = OpBegin # ops @ [OpCommit] \<and> out = db_commit E (OpBegin # ops)
         \<or> log = OpBegin # ops @ [OpRollback] \<and> out \<noteq> Ok ()))"
proof (cases "db_begin E")
  case (Ok u)
  obtain ops where "fst (body E ctx [OpBegin]) = OpBegin # ops" "list_all isStatement ops"
    using body_appends [of "[OpBegin]" E ctx] by (auto simp: appends_def)
  then show ?thesis
    using assms Ok by (cases "body E ctx [OpBegin]"; cases "snd (body E ctx [OpBegin])") (auto simp: inTx_def)
qed (use assms in \<open>auto simp: inTx_def\<close>)

text \<open>\<open>Load\<close> as a whole: nothing is sent before the files were read.\<close>

lemma load_log:
  assumes "sbind ([], m) (\<lambda>_ ctx. inTx E (body E ctx)) = (log, out)"
  shows "log = [] \<and> out \<noteq> Ok ()
    \<or> (\<exists>ops. list_all isStatement ops \<and>
        (log = OpBegin # ops @ [OpCommit] \<and> out = db_commit E (OpBegin # ops)
         \<or> log = OpBegin # ops @ [OpRollback] \<and> out \<noteq> Ok ()))"
  using assms atomic [of E _ log out] by (cases m) auto

lemma load_commits:
  assumes "sbind ([], m) (\<lambda>_ ctx. inTx E (body E ctx)) = (log, out)"
  shows "out = Ok () \<longleftrightarrow> OpCommit \<in> set log \<and> db_commit E (butlast log) = Ok ()"
  using load_log [OF assms] by (auto simp: butlast_append dest: statements_no_commit)

text \<open>Where no statement ends the transaction, the effect is all or nothing.\<close>

lemma load_effect:
  assumes "sbind ([], m) (\<lambda>_ ctx. inTx E (body E ctx)) = (log, out)"
  shows "txEffect (\<lambda>_. False) log = \<lparr>de_done = (if OpCommit \<in> set log then statementsOf log else []), de_open = None\<rparr>"
  using load_log [OF assms] by (auto simp: txEffect_def run_pending dest: statements_no_commit)

end

interpretation pg_loader: sql_loader "\<lambda>E ctx log.
       sbind (pgTruncateTables E (lc_tables ctx) log) (\<lambda>log _.
       sbind (loopS (pgLoadOne E) (lc_tables ctx) ctx log) (\<lambda>log _. txExec E fixSequencesQuery log))"
  by unfold_locales (auto simp: pgTruncateTables_def intro!: appends_intros)

interpretation mysql_loader: sql_loader "\<lambda>E ctx log.
       sbind (loopS (truncateTable E) (rev (remdups (rev (map lt_name (lc_tables ctx))))) () log) (\<lambda>log _.
         loopS (mysqlLoadTable E) (lc_tables ctx) ctx log)"
  by unfold_locales (auto simp: truncateTable_def intro!: appends_intros)

text \<open>The MySQL loader sends nothing, or a statement that empties a table comes first.\<close>

lemma fst_sbind_appends:
  assumes "\<And>log x. appends log (k log x)" and "fst m = log"
  shows "\<exists>ops. fst (sbind m k) = log @ ops \<and> list_all isStatement ops"
  using appends_sbind [OF _ assms(1), of log m] assms(2) by (cases m) (auto simp: appends_def)

lemma mysql_truncates_first:
  assumes "mysqlLoadTables E ctx = (log, out)"
  shows "(\<forall>op \<in> set log. \<not> isStatement op)
    \<or> (\<exists>n rest. log = OpBegin # OpExec (''TRUNCATE TABLE '' @ backquote n) # rest)"
proof -
  let ?names = "rev (remdups (rev (map lt_name (lc_tables ctx))))"
  let ?body = "\<lambda>log. sbind (loopS (truncateTable E) ?names () log) (\<lambda>log _. loopS (mysqlLoadTable E) (lc_tables ctx) ctx log)"
  have log: "log = [] \<or> (\<exists>op. log = fst (?body [OpBegin]) @ [op] \<and> \<not> isStatement op)"
    using assms unfolding mysqlLoadTables_def inTx_def by (auto split: res.splits prod.splits)
  show ?thesis
  proof (cases ?names)
    case Nil
    then have "lc_tables ctx = []" by simp
    with log show ?thesis by auto
  next
    case (Cons n ns)
    let ?k = "\<lambda>log _. loopS (mysqlLoadTable E) (lc_tables ctx) ctx log"
    have "fst (truncateTable E n () [OpBegin]) = [OpBegin, OpExec (''TRUNCATE TABLE '' @ backquote n)]"
      by (simp add: truncateTable_def txExec_def sbind_def split: res.split)
    moreover have a: "appends l (loopS (truncateTable E) xs u l)" "appends l (?k l u)" for l xs u
      by (auto simp: truncateTable_def intro!: appends_intros)
    ultimately obtain ops where
      t: "fst (loopS (truncateTable E) (n # ns) () [OpBegin]) = [OpBegin, OpExec (''TRUNCATE TABLE '' @ backquote n)] @ ops"
      using fst_sbind_appends [of "\<lambda>l u. loopS (truncateTable E) ns u l" "truncateTable E n () [OpBegin]"] by auto
    from fst_sbind_appends [of ?k, OF a(2) t] Cons obtain ops' where
      "fst (?body [OpBegin]) = [OpBegin, OpExec (''TRUNCATE TABLE '' @ backquote n)] @ ops @ ops'" by auto
    with log show ?thesis by auto
  qed
qed

lemma mysql_effect:
  assumes "mysqlLoad F E location names = (log, out)"
  shows "txEffect mysqlImplicit log = \<lparr>de_done = statementsOf log, de_open = None\<rparr>"
proof -
  have l: "log = [] \<or> (\<exists>ops op. list_all isStatement ops \<and> log = OpBegin # ops @ [op] \<and> op \<in> {OpCommit, OpRollback})"
    using mysql_loader.load_log assms unfolding mysqlLoad_def mysqlLoadTables_def by blast
  have t: "(\<forall>op \<in> set log. \<not> isStatement op) \<or> (\<exists>n rest. log = OpBegin # OpExec (''TRUNCATE TABLE '' @ backquote n) # rest)"
    using assms mysql_truncates_first
    by (cases "gather F (sqlFormat (\<lambda>n. n)) location names") (auto simp: mysqlLoad_def)
  from l show ?thesis
  proof (elim disjE exE conjE)
    fix ops op assume ops: "list_all isStatement ops" and log: "log = OpBegin # ops @ [op]" and op: "op \<in> {OpCommit, OpRollback}"
    show ?thesis
    proof (cases ops)
      case Nil
      with log op show ?thesis by (auto simp: txEffect_def)
    next
      case (Cons x rest)
      with t log ops obtain n where x: "x = OpExec (''TRUNCATE TABLE '' @ backquote n)" by (auto simp: list_all_iff)
      have "mysqlImplicit (''TRUNCATE TABLE '' @ backquote n)" by (simp add: mysqlImplicit_def hasPrefix_def)
      with Cons x log op ops show ?thesis by (auto simp: txEffect_def runStatement_def run_autocommit)
    qed
  qed (simp add: txEffect_def)
qed

section \<open>Order of the statements\<close>

lemma mapM_rbind_Ok:
  assumes "mapM (\<lambda>x. rbind (f x) (\<lambda>y. Ok (g y))) xs = Ok zs"
  shows "\<exists>ys. mapM f xs = Ok ys \<and> zs = map g ys"
  using assms
proof (induction xs arbitrary: zs)
  case (Cons x xs)
  then obtain y zs' where "f x = Ok y" "mapM (\<lambda>x. rbind (f x) (\<lambda>y. Ok (g y))) xs = Ok zs'" "zs = g y # zs'" by auto
  with Cons.IH show ?case by auto
qed simp

lemma pgInsertValue_Ok:
  assumes "pgInsertValue E refs t i r n = Ok v"
  shows "(map_of r n = None \<longrightarrow> v = ''default'') \<and> (\<forall>s. map_of r n = Some (YStr s) \<and> \<not> isSpecial s \<longrightarrow> v = pgQuoteLiteral s)"
  using assms by (auto simp: pgInsertValue_def)

text \<open>
  The insert statement of a table: its columns are the fields of all rows, sorted, without the
  special ones; every row has as many values as there are columns, the keyword \<open>default\<close> where
  the row lacks the field, and the quoted string where the field is an ordinary string.
\<close>

definition insertStatement :: "tableName \<Rightarrow> row list \<Rightarrow> string \<Rightarrow> bool" where
  "insertStatement t rows q \<longleftrightarrow>
     (\<exists>columns vals. sorted columns \<and> distinct columns
      \<and> set columns = {n. \<not> isSpecial n \<and> (\<exists>r \<in> set rows. n \<in> set (gokeys r))}
      \<and> length vals = length rows
      \<and> (\<forall>i < length rows. length (vals ! i) = length columns \<and> (\<forall>k < length columns.
           (map_of (rows ! i) (columns ! k) = None \<longrightarrow> vals ! i ! k = ''default'') \<and>
           (\<forall>s. map_of (rows ! i) (columns ! k) = Some (YStr s) \<and> \<not> isSpecial s \<longrightarrow> vals ! i ! k = pgQuoteLiteral s)))
      \<and> q = ''INSERT INTO '' @ getFullName t @ '' AS row ('' @ join '', '' (map (\<lambda>f. [CHR 0x22] @ f @ [CHR 0x22]) columns) @
            '') VALUES '' @ join '', '' (map (\<lambda>vs. ''('' @ join '', '' vs @ '')'') vals) @ '' RETURNING row_to_json(row)'')"

lemma pgBuildInsertQuery_shape:
  assumes "pgBuildInsertQuery E refs t rows = Ok q"
  shows "insertStatement t rows q"
proof -
  let ?cols = "insertFields rows"
  let ?row = "\<lambda>(i, r). mapM (pgInsertValue E refs t i r) ?cols"
  from assms obtain dbValues where m: "mapM (\<lambda>ir. rbind (?row ir) (\<lambda>vs. Ok (''('' @ join '', '' vs @ '')''))) (enumerate 0 rows) = Ok dbValues"
    and q: "q = ''INSERT INTO '' @ getFullName t @ '' AS row ('' @ join '', '' (map (\<lambda>f. [CHR 0x22] @ f @ [CHR 0x22]) ?cols) @
          '') VALUES '' @ join '', '' dbValues @ '' RETURNING row_to_json(row)''"
    by (auto simp: pgBuildInsertQuery_def Let_def case_prod_beta')
  from mapM_rbind_Ok [OF m] obtain vals where vals: "mapM ?row (enumerate 0 rows) = Ok vals"
    and d: "dbValues = map (\<lambda>vs. ''('' @ join '', '' vs @ '')'') vals" by blast
  have len: "length vals = length rows" using mapM_Ok_length [OF vals] by simp
  have row: "mapM (pgInsertValue E refs t i (rows ! i)) ?cols = Ok (vals ! i)" if "i < length rows" for i
    using mapM_Ok_nth [OF vals, of i] that by (simp add: nth_enumerate_eq)
  have "length (vals ! i) = length ?cols \<and> (\<forall>k < length ?cols.
         (map_of (rows ! i) (?cols ! k) = None \<longrightarrow> vals ! i ! k = ''default'') \<and>
         (\<forall>s. map_of (rows ! i) (?cols ! k) = Some (YStr s) \<and> \<not> isSpecial s \<longrightarrow> vals ! i ! k = pgQuoteLiteral s))"
    if "i < length rows" for i
    using mapM_Ok_length [OF row [OF that]] pgInsertValue_Ok [OF mapM_Ok_nth [OF row [OF that]]] by blast
  moreover have "sorted ?cols" "distinct ?cols" "set ?cols = {n. \<not> isSpecial n \<and> (\<exists>r \<in> set rows. n \<in> set (gokeys r))}"
    by (auto simp: insertFields_def)
  ultimately show ?thesis unfolding insertStatement_def using len q d by (intro exI [of _ ?cols] exI [of _ vals]) simp
qed

text \<open>The statement that inserts the rows of a table, each extended by the row it names.\<close>

definition insertFor :: "tableName loadedTable \<Rightarrow> string \<Rightarrow> bool" where
  "insertFor lt q \<longleftrightarrow>
     (\<exists>defs rows. mapM (extendRow defs) (lt_rows lt) = Ok rows \<and> insertStatement (lt_name lt) rows q)"

definition insertsOf :: "tableName loadedTable list \<Rightarrow> string list \<Rightarrow> bool" where
  "insertsOf ts qs \<longleftrightarrow> list_all2 insertFor (filter (\<lambda>t. lt_rows t \<noteq> []) ts) qs"

lemma pgLoadOne_Ok:
  assumes "pgLoadOne E lt ctx log = (log', Ok ctx')"
  shows "\<exists>qs. insertsOf [lt] qs \<and> log' = log @ map (\<lambda>q. OpQuery q []) qs"
proof (cases "lt_rows lt = []")
  case True
  with assms show ?thesis by (simp add: pgLoadOne_def insertsOf_def)
next
  case False
  from assms False obtain ctx1 where "pgLoadTable E lt ctx log = (log', Ok ctx1)"
    by (cases "pgLoadTable E lt ctx log"; cases "snd (pgLoadTable E lt ctx log)") (auto simp: pgLoadOne_def wrapErr_def)
  then obtain rows q where "mapM (extendRow (refsDefinition ctx)) (lt_rows lt) = Ok rows"
    "pgBuildInsertQuery E (refsInserted ctx) (lt_name lt) rows = Ok q" "log' = log @ [OpQuery q []]"
    by (auto simp: pgLoadTable_def sbind_eq_Ok txQuery_def)
  then have "insertFor lt q" "log' = log @ [OpQuery q []]" unfolding insertFor_def by (blast dest: pgBuildInsertQuery_shape)+
  with False show ?thesis by (intro exI [of _ "[q]"]) (simp add: insertsOf_def)
qed

lemma pgLoadAll_Ok:
  assumes "loopS (pgLoadOne E) ts ctx log = (log', Ok ctx')"
  shows "\<exists>qs. insertsOf ts qs \<and> log' = log @ map (\<lambda>q. OpQuery q []) qs"
  using assms
proof (induction ts arbitrary: ctx log)
  case (Cons t ts)
  then obtain log1 ctx1 where a: "pgLoadOne E t ctx log = (log1, Ok ctx1)"
    and b: "loopS (pgLoadOne E) ts ctx1 log1 = (log', Ok ctx')" by (auto simp: sbind_eq_Ok)
  from pgLoadOne_Ok [OF a] Cons.IH [OF b] obtain qs qs' where "insertsOf [t] qs" "insertsOf ts qs'"
    "log' = log @ map (\<lambda>q. OpQuery q []) (qs @ qs')" by auto
  then show ?case unfolding insertsOf_def by (intro exI [of _ "qs @ qs'"]) (auto dest: list_all2_appendI)
qed (simp add: insertsOf_def)

section \<open>Properties\<close>

text \<open>
  C29. Reading the fixtures ends and reads what it should: every requested name and everything that
  a file read inherits from is a file that was read, each file is read once, even when files
  inherit from each other in a cycle, and the tables to load are those of the files read, each
  file contributing its tables once.
\<close>

theorem gather_loads_closure:
  assumes "gather F nn location names = Ok ctx"
  shows "distinct (lc_files ctx)
    \<and> (\<forall>name \<in> set names. \<exists>p \<in> set (lc_files ctx). findFile F location name = Ok p)
    \<and> (\<forall>p \<in> set (lc_files ctx). \<exists>fx. readFixture F p = Ok fx \<and>
         (\<forall>name \<in> set (Inherits fx). \<exists>q \<in> set (lc_files ctx). findFile F location name = Ok q))
    \<and> (\<exists>order. mset order = mset (lc_files ctx) \<and> lc_tables ctx = concat (map (tablesOf F nn) order))"
  using gather_loads_from [OF assms [unfolded gather_def]]
  by (auto simp: loads_def emptyContext_def found_def inheritsFound_def)

definition exampleFixtures :: fixtureEnv where
  "exampleFixtures =
     \<lparr>fe_files = [(''d/a.yml'', Ok ''a''), (''d/b.yaml'', Ok ''b'')], fe_notFound = (\<lambda>p. errNew ''stat''),
      fe_yaml = (\<lambda>s. if s = ''a''
        then Ok \<lparr>Inherits = [''b''], Tables = [(YStr ''t'', YArr [YMap [(YStr ''$extend'', YStr ''base''), (YStr ''x'', YInt 2)]])],
                 Templates = []\<rparr>
        else Ok \<lparr>Inherits = [''a''], Tables = [], Templates = [(YStr ''base'', YMap [(YStr ''y'', YStr ''o'')])]\<rparr>)\<rparr>"

theorem gather_loads_closure_witness:
  "\<exists>ctx. gather exampleFixtures (sqlFormat newTableName) ''d'' [''a'', ''b''] = Ok ctx \<and> distinct (lc_files ctx) \<and> length (lc_tables ctx) = 1"
proof -
  have "case gather exampleFixtures (sqlFormat newTableName) ''d'' [''a'', ''b''] of Ok ctx \<Rightarrow> length (lc_tables ctx) = 1 | _ \<Rightarrow> False" by code_simp
  then obtain ctx where "gather exampleFixtures (sqlFormat newTableName) ''d'' [''a'', ''b''] = Ok ctx" "length (lc_tables ctx) = 1"
    by (auto split: res.splits)
  with gather_loads_closure [OF this(1)] show ?thesis by blast
qed

text \<open>
  C32. A string written into a statement reads back as itself: whatever the string is, the database
  reads the literal up to its end and no further, so a value of a fixture cannot end its literal.
\<close>

theorem sql_literal_roundtrip:
  assumes "noQuote rest"
  shows "pgReadLiteral (pgQuoteLiteral s @ rest) = Some (s, rest) \<and> mysqlReadLiteral (mysqlQuoteLiteral s @ rest) = Some (s, rest)"
  using pg_literal.read_quote [OF assms] mysql_literal.read_quote [OF assms] by blast

theorem sql_literal_roundtrip_witness:
  "pgReadLiteral (pgQuoteLiteral [CHR 0x5C, CHR 0x27, CHR '';''] @ '', 1)'') = Some ([CHR 0x5C, CHR 0x27, CHR '';''], '', 1)'')"
proof -
  have "noQuote '', 1)''" by code_simp
  from sql_literal_roundtrip [OF this] show ?thesis by blast
qed


definition exampleDb :: sqlDb where
  "exampleDb =
     \<lparr>db_begin = Ok (), db_exec = (\<lambda>log q. Ok (Ok 1)),
      db_query = (\<lambda>log q args. Ok \<lparr>sr_columns = Ok [''id'', ''n''], sr_scans = [Ok [Some ''{}'', None]], sr_err = None\<rparr>),
      db_commit = (\<lambda>log. Err (errNew ''gone'')), db_marshal = (\<lambda>v. Ok ''{}''), db_unmarshal = (\<lambda>s. Ok []),
      db_float = (\<lambda>f. ''0''), db_errText = (\<lambda>e. ''error''), db_scanErr = errNew ''scan''\<rparr>"


text \<open>
  C28. The statements of a successful load into PostgreSQL, in order: the first one empties tables and
  names every table of the fixtures, each once; then each table that has rows gets one insert, in the
  order of the tables, whose columns are the fields of its rows and which has a value list for each
  row; then the sequences are adjusted, then the transaction is committed.
\<close>

theorem pgLoad_order:
  assumes "pgLoad F E location names = (log, Ok ())"
  shows "\<exists>ctx emptied qs. gather F (sqlFormat newTableName) location names = Ok ctx
    \<and> distinct emptied \<and> set emptied = {goQuote (tn_schema n) @ ''.'' @ goQuote (tn_name n) | n. n \<in> lt_name ` set (lc_tables ctx)}
    \<and> insertsOf (lc_tables ctx) qs
    \<and> log = OpBegin # OpExec (''TRUNCATE TABLE '' @ join '','' emptied @ '' CASCADE'') # map (\<lambda>q. OpQuery q []) qs
            @ [OpExec fixSequencesQuery, OpCommit]"
proof -
  let ?body = "\<lambda>ctx log. sbind (pgTruncateTables E (lc_tables ctx) log) (\<lambda>log _.
       sbind (loopS (pgLoadOne E) (lc_tables ctx) ctx log) (\<lambda>log _. txExec E fixSequencesQuery log))"
  from assms obtain ctx where g: "gather F (sqlFormat newTableName) location names = Ok ctx" and tx: "inTx E (?body ctx) = (log, Ok ())"
    unfolding pgLoad_def pgLoadTables_def by (auto simp: sbind_eq_Ok)
  from tx obtain log1 x where b: "?body ctx [OpBegin] = (log1, Ok x)" and log: "log = log1 @ [OpCommit]"
    by (cases "?body ctx [OpBegin]"; cases "snd (?body ctx [OpBegin])") (auto simp: inTx_def split: res.splits)
  from b obtain log2 ctx2 where
    l: "loopS (pgLoadOne E) (lc_tables ctx) ctx [OpBegin, OpExec (truncateQuery (lc_tables ctx))] = (log2, Ok ctx2)"
    and log1: "log1 = log2 @ [OpExec fixSequencesQuery]"
    by (auto simp: sbind_eq_Ok pgTruncateTables_def txExec_def)
  let ?emptied = "rev (remdups (rev (map (\<lambda>t. getFullName (lt_name t)) (lc_tables ctx))))"
  have "distinct ?emptied" "set ?emptied = {goQuote (tn_schema n) @ ''.'' @ goQuote (tn_name n) | n. n \<in> lt_name ` set (lc_tables ctx)}"
    by (auto simp: getFullName_def)
  moreover from pgLoadAll_Ok [OF l] log log1 obtain qs where "insertsOf (lc_tables ctx) qs"
    "log = OpBegin # OpExec (truncateQuery (lc_tables ctx)) # map (\<lambda>q. OpQuery q []) qs @ [OpExec fixSequencesQuery, OpCommit]" by auto
  ultimately show ?thesis unfolding truncateQuery_def using g by blast
qed

definition goodDb :: sqlDb where
  "goodDb = exampleDb\<lparr>db_commit := (\<lambda>log. Ok ())\<rparr>"

theorem pgLoad_order_witness:
  "\<exists>log. pgLoad exampleFixtures goodDb ''d'' [''a''] = (log, Ok ()) \<and> hd log = OpBegin \<and> last log = OpCommit"
proof -
  have "snd (pgLoad exampleFixtures goodDb ''d'' [''a'']) = Ok ()" by code_simp
  then obtain log where l: "pgLoad exampleFixtures goodDb ''d'' [''a''] = (log, Ok ())" by (metis prod.collapse)
  from pgLoad_order [OF l] l show ?thesis by auto
qed

section \<open>References\<close>

text \<open>A row that extends a named one has its own fields, and the ordinary fields of the base besides.\<close>

lemma extendRow_fields:
  assumes "gomap_wf r" and "map_of r ''$extend'' = Some (YStr b)" and "map_of refs b = Some base"
  shows "\<exists>r'. extendRow refs r = Ok r' \<and>
    (\<forall>k. map_of r' k = (case map_of r k of Some v \<Rightarrow> Some v | None \<Rightarrow> if isSpecial k then None else map_of base k))"
  using assms by (auto simp: extendRow_def resolveReference_def asString_def map_of_gomerge map_of_filter_keys split: option.split)

text \<open>
  A reference that cannot be resolved is reported by the MySQL loader. The PostgreSQL loader puts
  nothing in its place and sends the statement.
\<close>

lemma unresolved_reference:
  assumes "length expr \<ge> 5" and "take 5 expr \<noteq> ''$eval''" and "resolveFieldReference refs expr = Err e"
  shows "mysqlResolveExpression E refs expr = Err e \<and> pgResolveExpression E refs expr = Ok []"
  using assms by (simp add: mysqlResolveExpression_def pgResolveExpression_def resolveExpression_def)

lemma pg_unresolved_reference_sent:
  "pgBuildInsertQuery E [] (newTableName ''t'') [[(''a'', YStr ''$nobody.id'')]] =
     Ok (''INSERT INTO '' @ getFullName (newTableName ''t'') @ '' AS row ('' @ [CHR 0x22] @ ''a'' @ [CHR 0x22] @
         '') VALUES () RETURNING row_to_json(row)'')"
  by (simp add: pgBuildInsertQuery_def insertFields_def pgInsertValue_def isSpecial_def pgResolveExpression_def
      resolveExpression_def resolveFieldReference_def splitN2_def)

text \<open>A reference of four characters, as to the field \<open>b\<close> of the row \<open>a\<close>, panics even when it is defined.\<close>

lemma short_reference_panics:
  assumes "map_of refs ''a'' = Some target" and "map_of target ''b'' = Some v"
  shows "resolveFieldReference refs ''$a.b'' = Ok v \<and> (\<exists>m. pgResolveExpression E refs ''$a.b'' = Panic m)
    \<and> (\<exists>m. mysqlResolveExpression E refs ''$a.b'' = Panic m)"
  using assms by (simp add: resolveFieldReference_def splitN2_def pgResolveExpression_def mysqlResolveExpression_def resolveExpression_def)

text \<open>With MySQL a reference to a column that is NULL becomes the string \<open>NULL\<close>.\<close>

lemma mysql_null_reference:
  assumes "sr_columns rows = Ok [''col'']"
  shows "\<exists>r. fetchRow rows (Ok [None]) = Ok r \<and>
    mysqlResolveExpression E [(''row'', r)] ''$row.col'' = Ok ([CHR 0x27] @ ''NULL'' @ [CHR 0x27])"
  using assms
  by (simp add: fetchRow_def mysqlResolveExpression_def resolveExpression_def resolveFieldReference_def splitN2_def mysqlQuoteLiteral_def)

text \<open>Fixtures without tables make the PostgreSQL loader send a statement that names no table.\<close>

lemma truncate_nothing: "truncateQuery [] = ''TRUNCATE TABLE  CASCADE''"
  by (simp add: truncateQuery_def)

end
