(* ===== verification/FixturesAerospike.thy ===== *)
theory FixturesAerospike
  imports FixturesSpec
begin

text \<open>
  Model of \<open>fixtures/aerospike/aerospike.go\<close> and \<open>storage/aerospike/aerospike.go\<close>: files are read as
  for SQL databases (\<open>Fixtures\<close>), with sets of records in the place of tables; the sets are emptied
  and the records written one by one, without a transaction. The client is a parameter that
  answers an operation depending on the ones before it.
\<close>

section \<open>Reading\<close>

record loadedSet =
  ls_name :: string
  ls_data :: "(string, row) gomap"

definition binMapFromYaml :: "yval \<times> yval \<Rightarrow> row gores" where
  "binMapFromYaml item =
     (case snd item of YMap bins \<Rightarrow> rowOf bins | _ \<Rightarrow> Err (errNew ''expected map/array as binmap''))"

definition setFromYaml :: "yval \<times> yval \<Rightarrow> (string, row) gomap gores" where
  "setFromYaml item =
     (case snd item of
        YMap entries \<Rightarrow>
          foldM (\<lambda>s e. rbind (asString (fst e)) (\<lambda>key. rbind (binMapFromYaml e) (\<lambda>b. Ok (AList.update key b s)))) [] entries
      | _ \<Rightarrow> Err (errNew ''expected map/array as set''))"

definition loadBinTemplate :: "rowsDict \<Rightarrow> yval \<times> yval \<Rightarrow> rowsDict gores" where
  "loadBinTemplate refs item =
     rbind (asString (fst item)) (\<lambda>name.
       if gohas refs name then Err (EFmt ''unable to load template %s: duplicating ref name'' [ShStr name])
       else
         rbind (binMapFromYaml item) (\<lambda>b.
         rbind (extendRow refs b) (\<lambda>b'. Ok (AList.update name b' refs))))"

definition loadSourceSet :: "yval \<times> yval \<Rightarrow> loadedSet gores" where
  "loadSourceSet item =
     rbind (setFromYaml item) (\<lambda>s.
     rbind (asString (fst item)) (\<lambda>name. Ok \<lparr>ls_name = name, ls_data = s\<rparr>))"

definition aerospikeFormat :: "loadedSet fixtureFormat" where
  "aerospikeFormat = \<lparr>ff_template = loadBinTemplate, ff_table = loadSourceSet\<rparr>"

section \<open>Writing\<close>

text \<open>What reaches the server: the bins of a record without \<open>$extend\<close>.\<close>

datatype asOp = AsTruncate string | AsPut string string row

type_synonym asClient = "asOp list \<Rightarrow> asOp \<Rightarrow> unit gores"

definition prepareBins :: "row \<Rightarrow> row" where
  "prepareBins binmap = filter (\<lambda>(k, v). k \<noteq> ''$extend'') binmap"

definition asDo :: "asClient \<Rightarrow> asOp \<Rightarrow> asOp list \<Rightarrow> asOp list \<times> unit gores" where
  "asDo C op log = (log @ [op], C log op)"

fun asDoAll :: "asClient \<Rightarrow> asOp list \<Rightarrow> asOp list \<Rightarrow> asOp list \<times> unit gores" where
  "asDoAll C [] log = (log, Ok ())"
| "asDoAll C (op # ops) log = sbind (asDo C op log) (\<lambda>log _. asDoAll C ops log)"

definition InsertBinMap :: "string \<Rightarrow> string \<Rightarrow> row \<Rightarrow> asOp" where
  "InsertBinMap s key binmap = AsPut s key (prepareBins binmap)"

definition loadSet :: "asClient \<Rightarrow> rowsDict \<Rightarrow> loadedSet \<Rightarrow> asOp list \<Rightarrow> asOp list \<times> unit gores" where
  "loadSet C refs s log =
     sbind (log, mapM (\<lambda>(key, b). rbind (extendRow refs b) (\<lambda>b'. Ok (key, b'))) (ls_data s)) (\<lambda>log recs.
       asDoAll C (map (\<lambda>(key, b). InsertBinMap (ls_name s) key b) recs) log)"

fun loadEachSet :: "asClient \<Rightarrow> rowsDict \<Rightarrow> loadedSet list \<Rightarrow> asOp list \<Rightarrow> asOp list \<times> unit gores" where
  "loadEachSet C refs [] log = (log, Ok ())"
| "loadEachSet C refs (s # ss) log =
     (if ls_data s = [] then loadEachSet C refs ss log
      else
        (case loadSet C refs s log of
           (log, out) \<Rightarrow>
             sbind (log, wrapErr (\<lambda>e. EFmt (''failed to load set '%s' because:'' @ [CHR 0x0A] @ ''%s'') [ShStr (ls_name s), ShErr e]) out)
               (\<lambda>log _. loadEachSet C refs ss log)))"

definition truncatedSets :: "loadedSet list \<Rightarrow> string list" where
  "truncatedSets ss = rev (remdups (rev (map ls_name ss)))"

definition loadSets :: "asClient \<Rightarrow> loadedSet loadContext \<Rightarrow> asOp list \<times> unit gores" where
  "loadSets C ctx =
     sbind (asDoAll C (map AsTruncate (truncatedSets (lc_tables ctx))) []) (\<lambda>log _.
       loadEachSet C (refsDefinition ctx) (lc_tables ctx) log)"

definition aerospikeLoad :: "fixtureEnv \<Rightarrow> asClient \<Rightarrow> string \<Rightarrow> string list \<Rightarrow> asOp list \<times> unit gores" where
  "aerospikeLoad F C location names = sbind ([], gather F aerospikeFormat location names) (\<lambda>_ ctx. loadSets C ctx)"

section \<open>What is written\<close>

lemma asDoAll_Ok: "asDoAll C ops log = (log', Ok ()) \<Longrightarrow> log' = log @ ops"
proof (induction ops arbitrary: log)
  case (Cons op ops)
  then have "asDoAll C ops (log @ [op]) = (log', Ok ())" by (auto simp: sbind_eq_Ok asDo_def)
  from Cons.IH [OF this] show ?case by simp
qed simp

text \<open>The records of a set with the ones they extend filled in.\<close>

definition putsOf :: "rowsDict \<Rightarrow> loadedSet \<Rightarrow> asOp list" where
  "putsOf refs s =
     (case mapM (\<lambda>(key, b). rbind (extendRow refs b) (\<lambda>b'. Ok (key, b'))) (ls_data s) of
        Ok recs \<Rightarrow> map (\<lambda>(key, b). InsertBinMap (ls_name s) key b) recs | _ \<Rightarrow> [])"

lemma loadEachSet_Ok:
  assumes "loadEachSet C refs ss log = (log', Ok ())"
  shows "log' = log @ concat (map (putsOf refs) ss)"
  using assms
proof (induction ss arbitrary: log)
  case (Cons s ss)
  show ?case
  proof (cases "ls_data s = []")
    case True
    with Cons show ?thesis by (simp add: putsOf_def)
  next
    case False
    obtain log1 out where l: "loadSet C refs s log = (log1, out)" by (cases "loadSet C refs s log")
    with Cons.prems False have out: "out = Ok ()" and rest: "loadEachSet C refs ss log1 = (log', Ok ())"
      by (cases out; auto simp: wrapErr_def)+
    from l out obtain recs where "mapM (\<lambda>(key, b). rbind (extendRow refs b) (\<lambda>b'. Ok (key, b'))) (ls_data s) = Ok recs"
      and d: "asDoAll C (map (\<lambda>(key, b). InsertBinMap (ls_name s) key b) recs) log = (log1, Ok ())"
      by (auto simp: loadSet_def sbind_eq_Ok)
    then have "log1 = log @ putsOf refs s" using asDoAll_Ok [OF d] by (simp add: putsOf_def)
    with Cons.IH [OF rest] show ?thesis by simp
  qed
qed simp

text \<open>
  A successful load into Aerospike empties every set of the fixtures once, in the order in
  which the sets come, before it writes the first record, and then writes the records of all sets
  in order, each with the bins of the record it extends.
\<close>

theorem aerospikeLoad_order:
  assumes "aerospikeLoad F C location names = (log, Ok ())"
  shows "\<exists>ctx. gather F aerospikeFormat location names = Ok ctx \<and> distinct (truncatedSets (lc_tables ctx)) \<and>
    set (truncatedSets (lc_tables ctx)) = ls_name ` set (lc_tables ctx) \<and>
    log = map AsTruncate (truncatedSets (lc_tables ctx)) @ concat (map (putsOf (refsDefinition ctx)) (lc_tables ctx))"
proof -
  from assms obtain ctx log1 where g: "gather F aerospikeFormat location names = Ok ctx"
    and t: "asDoAll C (map AsTruncate (truncatedSets (lc_tables ctx))) [] = (log1, Ok ())"
    and e: "loadEachSet C (refsDefinition ctx) (lc_tables ctx) log1 = (log, Ok ())"
    by (auto simp: aerospikeLoad_def loadSets_def sbind_eq_Ok)
  from g asDoAll_Ok [OF t] loadEachSet_Ok [OF e] show ?thesis by (auto simp: truncatedSets_def)
qed

definition exampleSets :: fixtureEnv where
  "exampleSets =
     \<lparr>fe_files = [(''d/a.yml'', Ok ''a'')], fe_notFound = (\<lambda>p. errNew ''stat''),
      fe_yaml = (\<lambda>s. Ok \<lparr>Inherits = [],
        Tables = [(YStr ''s'', YMap [(YStr ''k'', YMap [(YStr ''$extend'', YStr ''base''), (YStr ''x'', YInt 2)])]), (YStr ''s'', YMap [])],
        Templates = [(YStr ''base'', YMap [(YStr ''y'', YStr ''o'')])]\<rparr>)\<rparr>"

theorem aerospikeLoad_order_witness:
  "\<exists>log. aerospikeLoad exampleSets (\<lambda>log op. Ok ()) ''d'' [''a''] = (log, Ok ())
     \<and> log = [AsTruncate ''s'', AsPut ''s'' ''k'' [(''y'', YStr ''o''), (''x'', YInt 2)]] \<and> hd log = AsTruncate ''s''"
proof -
  have l: "aerospikeLoad exampleSets (\<lambda>log op. Ok ()) ''d'' [''a''] =
      ([AsTruncate ''s'', AsPut ''s'' ''k'' [(''y'', YStr ''o''), (''x'', YInt 2)]], Ok ())" by code_simp
  from aerospikeLoad_order [OF l] l show ?thesis by auto
qed

end
