(* ===== verification/FixturesRedis.thy ===== *)
theory FixturesRedis
  imports TestLoader
begin

text \<open>
  Model of \<open>fixtures/redis/\<close>: parsing of fixture files (\<open>parser/fixture.go\<close>, \<open>context.go\<close>,
  \<open>yaml.go\<close>, \<open>file.go\<close>, \<open>parser.go\<close>) and the commands sent for them (\<open>redis.go\<close>).

  A pointer to a value that may be nil is an option; reading through nil panics. The records and
  templates themselves are taken to be there. Expirations are numbers of nanoseconds. The YAML decoder, \<open>filepath.Glob\<close>, reading a file and executing a pipeline are
  parameters. Parsing follows inherited files without remembering the ones it is in, so it may not
  end: it takes a bound on the depth of inheritance and is \<open>None\<close> when the bound is not enough.
\<close>

section \<open>Data\<close>

datatype redisValue = RStr string | RInt int | RFloat float64

definition UnmarshalValue :: "yval \<Rightarrow> redisValue gores" where
  "UnmarshalValue v =
     (case v of
        YStr s \<Rightarrow> Ok (RStr s)
      | YInt i \<Rightarrow> Ok (RInt i)
      | YFloat f \<Rightarrow> Ok (RFloat f)
      | _ \<Rightarrow> Err (EFmt ''unknown value type: %T'' [ShYaml v]))"

record KeyValue =
  kv_Value :: redisValue
  kv_Expiration :: int

record Keys =
  ks_Name :: string
  ks_Extend :: string
  ks_Values :: "(string, KeyValue option) gomap"

record HashValue =
  hv_Key :: redisValue
  hv_Value :: redisValue

record ZSetValue =
  zv_Value :: redisValue
  zv_Score :: float64

text \<open>\<open>HashRecordValue\<close>, \<open>SetRecordValue\<close>, \<open>ListRecordValue\<close> and \<open>ZSetRecordValue\<close>.\<close>

record 'v recordValue =
  rv_Name :: string
  rv_Extend :: string
  rv_Values :: "'v option list"
  rv_Expiration :: int

record Templates =
  tp_Keys :: "Keys list"
  tp_Hashes :: "HashValue recordValue list"
  tp_Sets :: "redisValue recordValue list"
  tp_Lists :: "redisValue recordValue list"
  tp_ZSets :: "ZSetValue recordValue list"

record Database =
  rd_Keys :: "Keys option"
  rd_Hashes :: "(string, HashValue recordValue) gomap option"
  rd_Sets :: "(string, redisValue recordValue) gomap option"
  rd_Lists :: "(string, redisValue recordValue) gomap option"
  rd_ZSets :: "(string, ZSetValue recordValue) gomap option"

record redisFixture =
  rf_Inherits :: "string list"
  rf_Templates :: Templates
  rf_Databases :: "(int, Database) gomap"

record Context =
  keyRefs :: "(string, Keys) gomap"
  hashRefs :: "(string, HashValue recordValue) gomap"
  setRefs :: "(string, redisValue recordValue) gomap"
  listRefs :: "(string, redisValue recordValue) gomap"
  zsetRefs :: "(string, ZSetValue recordValue) gomap"

definition NewContext :: Context where
  "NewContext = \<lparr>keyRefs = [], hashRefs = [], setRefs = [], listRefs = [], zsetRefs = []\<rparr>"

section \<open>Extending records\<close>

definition copyKeyRecord :: "Keys \<Rightarrow> Keys" where
  "copyKeyRecord src = \<lparr>ks_Name = [], ks_Extend = [], ks_Values = ks_Values src\<rparr>"

definition copyRecord :: "'v recordValue \<Rightarrow> 'v recordValue" where
  "copyRecord src = src\<lparr>rv_Name := [], rv_Extend := []\<rparr>"

definition resolveRef :: "('r \<Rightarrow> 'r) \<Rightarrow> (string, 'r) gomap \<Rightarrow> string \<Rightarrow> 'r gores" where
  "resolveRef copy refs refName =
     (case map_of refs refName of None \<Rightarrow> Err (EFmt ''ref not found: %s'' [ShStr refName]) | Some r \<Rightarrow> Ok (copy r))"

definition extendKeys :: "(string, Keys) gomap \<Rightarrow> Keys \<Rightarrow> Keys gores" where
  "extendKeys refs child =
     (if ks_Extend child = [] then Ok child
      else rbind (resolveRef copyKeyRecord refs (ks_Extend child)) (\<lambda>parent.
             Ok (child\<lparr>ks_Values := gomerge (ks_Values parent) (ks_Values child)\<rparr>)))"

text \<open>
  The maps of \<open>extendSet\<close> and \<open>extendZSet\<close> have pointers as keys. The pointers of the parent are
  fresh, so only nil can be found again.
\<close>

definition mergePointers :: "'v option list \<Rightarrow> 'v option list \<Rightarrow> 'v option list" where
  "mergePointers parent child =
     foldl (\<lambda>keys v. if v = None \<and> None \<in> set keys then keys else keys @ [v]) parent child"

text \<open>In \<open>extendHash\<close> the keys are values, compared as Go compares interfaces.\<close>

fun rvEq :: "redisValue \<Rightarrow> redisValue \<Rightarrow> bool" where
  "rvEq (RFloat x) (RFloat y) \<longleftrightarrow> f64_eq x y"
| "rvEq a b \<longleftrightarrow> a = b"

definition rvLookup :: "(redisValue \<times> 'v) list \<Rightarrow> redisValue \<Rightarrow> 'v option" where
  "rvLookup m k = map_option snd (find (\<lambda>(k', v). rvEq k k') m)"

definition rvUpdate :: "redisValue \<Rightarrow> 'v \<Rightarrow> (redisValue \<times> 'v) list \<Rightarrow> (redisValue \<times> 'v) list" where
  "rvUpdate k v m =
     (if rvLookup m k = None then m @ [(k, v)] else map (\<lambda>(k', v'). (k', if rvEq k k' then v else v')) m)"

definition derefAll :: "'v option list \<Rightarrow> 'v list gores" where
  "derefAll vs = mapM (\<lambda>v. case v of Some x \<Rightarrow> Ok x | None \<Rightarrow> Panic ''nil pointer dereference'') vs"

definition mergeHash :: "HashValue option list \<Rightarrow> HashValue option list \<Rightarrow> HashValue option list gores" where
  "mergeHash parent child =
     rbind (derefAll parent) (\<lambda>ps.
     rbind (derefAll child) (\<lambda>cs.
       (let m0 = foldl (\<lambda>m v. rvUpdate (hv_Key v) v m) [] ps;
            keys0 = map hv_Key ps;
            (m1, keys1) = foldl (\<lambda>(m, keys) v.
               (rvUpdate (hv_Key v) v m, if rvLookup m (hv_Key v) = None then keys @ [hv_Key v] else keys)) (m0, keys0) cs
        in Ok (map (rvLookup m1) keys1))))"

definition extendRecord ::
  "('v option list \<Rightarrow> 'v option list \<Rightarrow> 'v option list gores) \<Rightarrow> (string, 'v recordValue) gomap \<Rightarrow> 'v recordValue \<Rightarrow> 'v recordValue gores" where
  "extendRecord merge refs child =
     (if rv_Extend child = [] then Ok child
      else rbind (resolveRef copyRecord refs (rv_Extend child)) (\<lambda>parent.
           rbind (merge (rv_Values parent) (rv_Values child)) (\<lambda>vs.
             Ok (child\<lparr>rv_Values := vs, rv_Expiration := rv_Expiration parent\<rparr>))))"

definition extendHash :: "(string, HashValue recordValue) gomap \<Rightarrow> HashValue recordValue \<Rightarrow> HashValue recordValue gores" where
  "extendHash refs child = extendRecord mergeHash refs child"

definition extendSet :: "(string, redisValue recordValue) gomap \<Rightarrow> redisValue recordValue \<Rightarrow> redisValue recordValue gores" where
  "extendSet refs child = extendRecord (\<lambda>p c. Ok (mergePointers p c)) refs child"

definition extendList :: "(string, redisValue recordValue) gomap \<Rightarrow> redisValue recordValue \<Rightarrow> redisValue recordValue gores" where
  "extendList refs child = extendRecord (\<lambda>p c. Ok (p @ c)) refs child"

definition extendZSet :: "(string, ZSetValue recordValue) gomap \<Rightarrow> ZSetValue recordValue \<Rightarrow> ZSetValue recordValue gores" where
  "extendZSet refs child = extendRecord (\<lambda>p c. Ok (mergePointers p c)) refs child"

section \<open>Templates and databases\<close>

text \<open>One template: its name is required and must be new.\<close>

definition addTemplate ::
  "('r \<Rightarrow> string) \<Rightarrow> ((string, 'r) gomap \<Rightarrow> 'r \<Rightarrow> 'r gores) \<Rightarrow> ('r \<Rightarrow> 'r) \<Rightarrow> (string, 'r) gomap \<Rightarrow> 'r \<Rightarrow> (string, 'r) gomap gores" where
  "addTemplate nameOf ext copy refs tpl =
     (if nameOf tpl = [] then Err (errNew ''template $name is required'')
      else if gohas refs (nameOf tpl) then Err (EFmt ''unable to load template %s: duplicating ref name'' [ShStr (nameOf tpl)])
      else rbind (ext refs tpl) (\<lambda>r. Ok (AList.update (nameOf tpl) (copy r) refs)))"

definition buildTemplate :: "Context \<Rightarrow> Templates \<Rightarrow> Context gores" where
  "buildTemplate ctx tp =
     rbind (foldM (addTemplate ks_Name extendKeys copyKeyRecord) (keyRefs ctx) (tp_Keys tp)) (\<lambda>ks.
     rbind (foldM (addTemplate rv_Name extendSet copyRecord) (setRefs ctx) (tp_Sets tp)) (\<lambda>ss.
     rbind (foldM (addTemplate rv_Name extendHash copyRecord) (hashRefs ctx) (tp_Hashes tp)) (\<lambda>hs.
     rbind (foldM (addTemplate rv_Name extendList copyRecord) (listRefs ctx) (tp_Lists tp)) (\<lambda>ls.
     rbind (foldM (addTemplate rv_Name extendZSet copyRecord) (zsetRefs ctx) (tp_ZSets tp)) (\<lambda>zs.
       Ok \<lparr>keyRefs = ks, hashRefs = hs, setRefs = ss, listRefs = ls, zsetRefs = zs\<rparr>)))))"

definition buildKeys :: "(string, Keys) gomap \<Rightarrow> Keys option \<Rightarrow> ((string, Keys) gomap \<times> Keys option) gores" where
  "buildKeys refs data =
     (case data of
        None \<Rightarrow> Ok (refs, None)
      | Some ks \<Rightarrow> rbind (extendKeys refs ks) (\<lambda>r.
          Ok (if ks_Name r \<noteq> [] then AList.update (ks_Name r) (copyKeyRecord r) refs else refs, Some r)))"

text \<open>\<open>buildSets\<close>, \<open>buildMaps\<close>, \<open>buildLists\<close>, \<open>buildZSets\<close>: every record of a database, in the order of the map.\<close>

fun buildRecords ::
  "string \<Rightarrow> ((string, 'v recordValue) gomap \<Rightarrow> 'v recordValue \<Rightarrow> 'v recordValue gores) \<Rightarrow> (string, 'v recordValue) gomap \<Rightarrow>
   (string, 'v recordValue) gomap \<Rightarrow> ((string, 'v recordValue) gomap \<times> (string, 'v recordValue) gomap) gores" where
  "buildRecords what ext refs [] = Ok (refs, [])"
| "buildRecords what ext refs ((k, v) # kvs) =
     rbind (wrapErr (EWrap what []) (ext refs v)) (\<lambda>r.
       let refs1 = (if rv_Name r \<noteq> [] then AList.update (rv_Name r) (copyRecord r) refs else refs)
       in rbind (buildRecords what ext refs1 kvs) (\<lambda>(refs2, rs). Ok (refs2, (k, r) # rs)))"

definition buildOptional ::
  "string \<Rightarrow> ((string, 'v recordValue) gomap \<Rightarrow> 'v recordValue \<Rightarrow> 'v recordValue gores) \<Rightarrow> (string, 'v recordValue) gomap \<Rightarrow>
   (string, 'v recordValue) gomap option \<Rightarrow> ((string, 'v recordValue) gomap \<times> (string, 'v recordValue) gomap option) gores" where
  "buildOptional what ext refs data =
     (case data of
        None \<Rightarrow> Ok (refs, None)
      | Some kvs \<Rightarrow> rbind (buildRecords what ext refs kvs) (\<lambda>(refs1, rs). Ok (refs1, Some rs)))"

definition buildDatabase :: "Context \<Rightarrow> Database \<Rightarrow> (Context \<times> Database) gores" where
  "buildDatabase ctx db =
     rbind (buildKeys (keyRefs ctx) (rd_Keys db)) (\<lambda>(ks, k).
     rbind (buildOptional ''extend hash error'' extendHash (hashRefs ctx) (rd_Hashes db)) (\<lambda>(hs, h).
     rbind (buildOptional ''extend set error'' extendSet (setRefs ctx) (rd_Sets db)) (\<lambda>(ss, s).
     rbind (buildOptional ''extend list error'' extendList (listRefs ctx) (rd_Lists db)) (\<lambda>(ls, l).
     rbind (buildOptional ''extend zset error'' extendZSet (zsetRefs ctx) (rd_ZSets db)) (\<lambda>(zs, z).
       Ok (\<lparr>keyRefs = ks, hashRefs = hs, setRefs = ss, listRefs = ls, zsetRefs = zs\<rparr>,
           \<lparr>rd_Keys = k, rd_Hashes = h, rd_Sets = s, rd_Lists = l, rd_ZSets = z\<rparr>))))))"

fun buildDatabases :: "Context \<Rightarrow> (int, Database) gomap \<Rightarrow> (Context \<times> (int, Database) gomap) gores" where
  "buildDatabases ctx [] = Ok (ctx, [])"
| "buildDatabases ctx ((i, db) # dbs) =
     rbind (buildDatabase ctx db) (\<lambda>(ctx1, db1).
     rbind (buildDatabases ctx1 dbs) (\<lambda>(ctx2, dbs2). Ok (ctx2, (i, db1) # dbs2)))"

section \<open>Files\<close>

record redisEnv =
  re_glob :: "string \<Rightarrow> string list gores"
  re_read :: "string \<Rightarrow> redisFixture gores"

definition ErrFixtureNotFound :: goerror where "ErrFixtureNotFound = errNew ''fixture not found''"
definition ErrParserNotFound :: goerror where "ErrParserNotFound = errNew ''parser not found''"

fun firstGlob :: "redisEnv \<Rightarrow> string list \<Rightarrow> string gores" where
  "firstGlob E [] = Err ErrFixtureNotFound"
| "firstGlob E (p # ps) = rbind (re_glob E p) (\<lambda>paths. case paths of [] \<Rightarrow> firstGlob E ps | f # _ \<Rightarrow> Ok f)"

text \<open>
  \<open>filepath.Join\<close> of two elements: empty ones are ignored, the rest is joined and cleaned, that is,
  empty and \<open>.\<close> elements go, and \<open>..\<close> removes the element before it, if there is one to remove.
\<close>

fun cleanElements :: "bool \<Rightarrow> string list \<Rightarrow> string list \<Rightarrow> string list" where
  "cleanElements rooted acc [] = rev acc"
| "cleanElements rooted acc (e # es) =
     (if e = [] \<or> e = ''.'' then cleanElements rooted acc es
      else if e = ''..'' then
        (case acc of
           [] \<Rightarrow> cleanElements rooted (if rooted then [] else [e]) es
         | a # acc1 \<Rightarrow> cleanElements rooted (if a = ''..'' then e # acc else acc1) es)
      else cleanElements rooted (e # acc) es)"

definition filepathClean :: "string \<Rightarrow> string" where
  "filepathClean path =
     (let rooted = hasPrefix path ''/'';
          cleaned = (if rooted then ''/'' else []) @ join ''/'' (cleanElements rooted [] (splitOn (CHR ''/'') path))
      in if cleaned = [] then ''.'' else cleaned)"

definition filepathJoin :: "string \<Rightarrow> string \<Rightarrow> string" where
  "filepathJoin a b =
     (case filter (\<lambda>e. e \<noteq> []) [a, b] of [] \<Rightarrow> [] | es \<Rightarrow> filepathClean (join ''/'' es))"

definition getFirstExistsFileName :: "redisEnv \<Rightarrow> string \<Rightarrow> string \<Rightarrow> string gores" where
  "getFirstExistsFileName E name location =
     firstGlob E (map (filepathJoin location) [name, name @ ''.yaml'', name @ ''.yml''])"

text \<open>\<open>filepath.Ext\<close> without its dot: the text after the last dot of the last path element.\<close>

definition extension :: "string \<Rightarrow> string" where
  "extension filename =
     (let base = rev (takeWhile (\<lambda>c. c \<noteq> CHR ''/'') (rev filename))
      in if CHR ''.'' \<in> set base then rev (takeWhile (\<lambda>c. c \<noteq> CHR ''.'') (rev base)) else [])"

text \<open>The registry of parsers has one entry.\<close>

definition GetParser :: "string \<Rightarrow> bool" where
  "GetParser format \<longleftrightarrow> format = ''yaml''"

fun eachInherited :: "(Context \<Rightarrow> string \<Rightarrow> Context gores option) \<Rightarrow> string list \<Rightarrow> Context \<Rightarrow> Context gores option" where
  "eachInherited parse [] ctx = Some (Ok ctx)"
| "eachInherited parse (p # ps) ctx =
     (case parse ctx p of
        None \<Rightarrow> None
      | Some (Ok ctx1) \<Rightarrow> eachInherited parse ps ctx1
      | Some (Err e) \<Rightarrow> Some (Err e)
      | Some (Panic m) \<Rightarrow> Some (Panic m))"

text \<open>\<open>Parse\<close> after the inherited files.\<close>

definition buildFixture :: "redisFixture \<Rightarrow> Context \<Rightarrow> (Context \<times> redisFixture) gores" where
  "buildFixture fx ctx =
     rbind (buildTemplate ctx (rf_Templates fx)) (\<lambda>ctx1.
     rbind (buildDatabases ctx1 (rf_Databases fx)) (\<lambda>(ctx2, dbs). Ok (ctx2, fx\<lparr>rf_Databases := dbs\<rparr>)))"

definition loadError :: "string \<Rightarrow> goerror \<Rightarrow> goerror" where
  "loadError name e = EFmt ''failed to load fixture file %s: %s'' [ShStr name, ShErr e]"

definition parseError :: "string \<Rightarrow> goerror \<Rightarrow> goerror" where
  "parseError name e = EFmt ''failed to parse fixture file %s: %s'' [ShStr name, ShErr e]"

text \<open>
  \<open>ParseFiles\<close> over the pairs of a name and a location, with \<open>Parse\<close> inlined. The cache of file
  names belongs to one call, the references are shared by all.
\<close>

fun ParseFiles :: "nat \<Rightarrow> redisEnv \<Rightarrow> string list \<Rightarrow> (string \<times> string) list \<Rightarrow> string list \<Rightarrow> Context \<Rightarrow> (Context \<times> redisFixture list) gores option" where
  "ParseFiles n E locs [] cache ctx = Some (Ok (ctx, []))"
| "ParseFiles n E locs ((name, loc) # nls) cache ctx =
     (case getFirstExistsFileName E name loc of
        Err e \<Rightarrow> Some (Err (loadError name e))
      | Panic m \<Rightarrow> Some (Panic m)
      | Ok filename \<Rightarrow>
          (if filename \<in> set cache then ParseFiles n E locs nls cache ctx
           else if \<not> GetParser (extension filename) then Some (Err ErrParserNotFound)
           else
             (case re_read E filename of
                Err e \<Rightarrow> Some (Err (parseError filename e))
              | Panic m \<Rightarrow> Some (Panic m)
              | Ok fx \<Rightarrow>
                  (case n of
                     0 \<Rightarrow> None
                   | Suc k \<Rightarrow>
                       (case eachInherited (\<lambda>ctx parent. map_option (\<lambda>r. rbind r (\<lambda>(c, fs). Ok c))
                               (ParseFiles k E locs (map (\<lambda>l. (parent, l)) locs) [] ctx)) (rf_Inherits fx) ctx of
                          None \<Rightarrow> None
                        | Some (Err e) \<Rightarrow> Some (Err (parseError filename e))
                        | Some (Panic m) \<Rightarrow> Some (Panic m)
                        | Some (Ok ctx1) \<Rightarrow>
                            (case buildFixture fx ctx1 of
                               Err e \<Rightarrow> Some (Err (parseError filename e))
                             | Panic m \<Rightarrow> Some (Panic m)
                             | Ok (ctx2, fx2) \<Rightarrow>
                                 map_option (\<lambda>r. rbind r (\<lambda>(c, fs). Ok (c, fx2 # fs)))
                                   (ParseFiles (Suc k) E locs nls (filename # cache) ctx2)))))))"

section \<open>Commands\<close>

datatype redisCmd =
    CSelect int
  | CFlushDB
  | CSet string redisValue int
  | CSAdd string "redisValue list"
  | CHSet string "redisValue list"
  | CRPush string "redisValue list"
  | CZAdd string "ZSetValue list"
  | CExpire string int

definition expireCmd :: "string \<Rightarrow> int \<Rightarrow> redisCmd list" where
  "expireCmd key e = (if e > 0 then [CExpire key e] else [])"

definition loadKeys :: "Database \<Rightarrow> redisCmd list gores" where
  "loadKeys db =
     (case rd_Keys db of
        None \<Rightarrow> Ok []
      | Some ks \<Rightarrow> mapM (\<lambda>(k, v). case v of
            None \<Rightarrow> Panic ''nil pointer dereference''
          | Some kv \<Rightarrow> Ok (CSet k (kv_Value kv) (kv_Expiration kv))) (ks_Values ks))"

definition recordCmds :: "(string \<Rightarrow> 'v list \<Rightarrow> redisCmd) \<Rightarrow> (string, 'v recordValue) gomap option \<Rightarrow> redisCmd list gores" where
  "recordCmds cmd data =
     (case data of
        None \<Rightarrow> Ok []
      | Some kvs \<Rightarrow>
          rbind (mapM (\<lambda>(k, r). rbind (derefAll (rv_Values r)) (\<lambda>vs. Ok (cmd k vs # expireCmd k (rv_Expiration r)))) kvs)
            (\<lambda>cs. Ok (concat cs)))"

definition loadSetsCmds :: "Database \<Rightarrow> redisCmd list gores" where
  "loadSetsCmds db = recordCmds CSAdd (rd_Sets db)"

definition loadHashesCmds :: "Database \<Rightarrow> redisCmd list gores" where
  "loadHashesCmds db = recordCmds (\<lambda>k vs. CHSet k (concat (map (\<lambda>v. [hv_Key v, hv_Value v]) vs))) (rd_Hashes db)"

definition loadListsCmds :: "Database \<Rightarrow> redisCmd list gores" where
  "loadListsCmds db = recordCmds CRPush (rd_Lists db)"

definition loadSortedSetsCmds :: "Database \<Rightarrow> redisCmd list gores" where
  "loadSortedSetsCmds db = recordCmds CZAdd (rd_ZSets db)"

text \<open>The pipeline of one database: queued commands do not fail, executing them may.\<close>

definition databaseCmds :: "int \<Rightarrow> Database \<Rightarrow> bool \<Rightarrow> redisCmd list gores" where
  "databaseCmds dbID db needTruncate =
     rbind (loadKeys db) (\<lambda>ks.
     rbind (loadSetsCmds db) (\<lambda>ss.
     rbind (loadHashesCmds db) (\<lambda>hs.
     rbind (loadListsCmds db) (\<lambda>ls.
     rbind (loadSortedSetsCmds db) (\<lambda>zs.
       Ok (CSelect dbID # (if needTruncate then [CFlushDB] else []) @ ks @ ss @ hs @ ls @ zs))))))"

type_synonym redisClient = "redisCmd list list \<Rightarrow> redisCmd list \<Rightarrow> unit gores"

definition loadRedisDatabase ::
  "redisClient \<Rightarrow> int \<Rightarrow> Database \<Rightarrow> bool \<Rightarrow> redisCmd list list \<Rightarrow> redisCmd list list \<times> unit gores" where
  "loadRedisDatabase C dbID db needTruncate sent =
     sbind (sent, databaseCmds dbID db needTruncate) (\<lambda>sent cmds. (sent @ [cmds], C sent cmds))"

text \<open>The loop over the databases of all fixtures, with the databases that were emptied.\<close>

fun loadData :: "redisClient \<Rightarrow> (int \<times> Database) list \<Rightarrow> int list \<Rightarrow> redisCmd list list \<Rightarrow> redisCmd list list \<times> unit gores" where
  "loadData C [] truncated sent = (sent, Ok ())"
| "loadData C ((dbID, db) # dbs) truncated sent =
     sbind (loadRedisDatabase C dbID db (dbID \<notin> set truncated) sent) (\<lambda>sent _. loadData C dbs (dbID # truncated) sent)"

definition redisLoad :: "nat \<Rightarrow> redisEnv \<Rightarrow> redisClient \<Rightarrow> string \<Rightarrow> string list \<Rightarrow> (redisCmd list list \<times> unit gores) option" where
  "redisLoad n E C fixtureDir names =
     map_option (\<lambda>out. sbind ([], out) (\<lambda>_ (ctx, fixtures). loadData C (concat (map rf_Databases fixtures)) [] []))
       (ParseFiles n E [fixtureDir] (map (\<lambda>name. (name, fixtureDir)) names) [] NewContext)"

end
