(* ===== verification/FixturesRedisSpec.thy ===== *)
theory FixturesRedisSpec
  imports FixturesRedis
begin

text \<open>
  Correctness of the Redis fixtures: when parsing ends, which databases are emptied, what a record
  that extends another contains, and where the loader differs from the ones for SQL databases.
\<close>

section \<open>Commands\<close>

text \<open>
  The contents of a database as the writes that made it: a record is written by one command, with a
  second one for its expiration, if it has one.
\<close>

definition recordWrites :: "(string \<Rightarrow> 'v list \<Rightarrow> redisCmd) \<Rightarrow> (string, 'v recordValue) gomap option \<Rightarrow> redisCmd list" where
  "recordWrites cmd data =
     concat (map (\<lambda>(k, r). cmd k (map the (rv_Values r)) # (if 0 < rv_Expiration r then [CExpire k (rv_Expiration r)] else []))
       (case data of None \<Rightarrow> [] | Some kvs \<Rightarrow> kvs))"

definition writesOf :: "Database \<Rightarrow> redisCmd list" where
  "writesOf db =
     map (\<lambda>(k, v). CSet k (kv_Value (the v)) (kv_Expiration (the v))) (case rd_Keys db of None \<Rightarrow> [] | Some ks \<Rightarrow> ks_Values ks) @
     recordWrites CSAdd (rd_Sets db) @
     recordWrites (\<lambda>k vs. CHSet k (concat (map (\<lambda>v. [hv_Key v, hv_Value v]) vs))) (rd_Hashes db) @
     recordWrites CRPush (rd_Lists db) @
     recordWrites CZAdd (rd_ZSets db)"

text \<open>What a server does with the commands: the selected database and the contents of all of them.\<close>

fun serverStep :: "redisCmd \<Rightarrow> int \<times> (int \<Rightarrow> redisCmd list) \<Rightarrow> int \<times> (int \<Rightarrow> redisCmd list)" where
  "serverStep (CSelect d) (sel, m) = (d, m)"
| "serverStep CFlushDB (sel, m) = (sel, m(sel := []))"
| "serverStep c (sel, m) = (sel, m(sel := m sel @ [c]))"

definition serverAfter :: "redisCmd list list \<Rightarrow> int \<times> (int \<Rightarrow> redisCmd list) \<Rightarrow> int \<times> (int \<Rightarrow> redisCmd list)" where
  "serverAfter sent = fold serverStep (concat sent)"

fun isWrite :: "redisCmd \<Rightarrow> bool" where
  "isWrite (CSelect d) = False"
| "isWrite CFlushDB = False"
| "isWrite c = True"

lemma server_writes: "list_all isWrite cs \<Longrightarrow> fold serverStep cs (sel, m) = (sel, m(sel := m sel @ cs))"
proof (induction cs arbitrary: m)
  case (Cons c cs)
  then have "serverStep c (sel, m) = (sel, m(sel := m sel @ [c]))" by (cases c) auto
  with Cons show ?case by (simp add: fun_eq_iff)
qed simp

lemma derefAll_the: "derefAll xs = Ok ys \<Longrightarrow> ys = map the xs"
  by (induction xs arbitrary: ys) (auto simp: derefAll_def split: option.splits)

lemma recordCmds_writes: "recordCmds cmd data = Ok cs \<Longrightarrow> cs = recordWrites cmd data"
proof (cases data)
  case (Some kvs)
  let ?f = "\<lambda>(k, r). rbind (derefAll (rv_Values r)) (\<lambda>vs. Ok (cmd k vs # expireCmd k (rv_Expiration r)))"
  let ?g = "\<lambda>(k, r). cmd k (map the (rv_Values r)) # (if 0 < rv_Expiration r then [CExpire k (rv_Expiration r)] else [])"
  have "mapM ?f kvs = Ok css \<Longrightarrow> css = map ?g kvs" for css
    by (induction kvs arbitrary: css) (auto simp: expireCmd_def dest: derefAll_the)
  moreover assume "recordCmds cmd data = Ok cs"
  ultimately show ?thesis using Some by (auto simp: recordCmds_def recordWrites_def)
qed (simp add: recordCmds_def recordWrites_def)

lemma loadKeys_writes:
  assumes "loadKeys db = Ok cs"
  shows "cs = map (\<lambda>(k, v). CSet k (kv_Value (the v)) (kv_Expiration (the v))) (case rd_Keys db of None \<Rightarrow> [] | Some ks \<Rightarrow> ks_Values ks)"
proof -
  let ?f = "\<lambda>(k, v). case v of None \<Rightarrow> Panic ''nil pointer dereference'' | Some kv \<Rightarrow> Ok (CSet k (kv_Value kv) (kv_Expiration kv))"
  have "mapM ?f kvs = Ok cs \<Longrightarrow> cs = map (\<lambda>(k, v). CSet k (kv_Value (the v)) (kv_Expiration (the v))) kvs" for kvs
    by (induction kvs arbitrary: cs) (auto split: option.splits)
  with assms show ?thesis by (auto simp: loadKeys_def split: option.splits)
qed

lemma recordWrites_isWrite: "(\<And>k vs. isWrite (cmd k vs)) \<Longrightarrow> list_all isWrite (recordWrites cmd data)"
  by (auto simp: recordWrites_def list_all_iff split: option.splits if_splits)

lemma writesOf_isWrite: "list_all isWrite (writesOf db)"
  unfolding writesOf_def by (auto simp: recordWrites_isWrite list_all_iff [of _ "map _ _"])

text \<open>A pipeline selects its database, empties it if it is told to, and writes its contents, in this order.\<close>

lemma databaseCmds_writes:
  assumes "databaseCmds dbID db trunc = Ok cmds"
  shows "cmds = CSelect dbID # (if trunc then [CFlushDB] else []) @ writesOf db"
  using assms
  by (auto simp: databaseCmds_def loadSetsCmds_def loadHashesCmds_def loadListsCmds_def loadSortedSetsCmds_def writesOf_def
      dest!: loadKeys_writes recordCmds_writes)

lemma serverAfter_pipeline:
  "fold serverStep (CSelect dbID # (if trunc then [CFlushDB] else []) @ writesOf db) (sel, m)
   = (dbID, m(dbID := (if trunc then [] else m dbID) @ writesOf db))"
  by (simp add: server_writes writesOf_isWrite)

lemma loadData_contents:
  assumes "loadData C dbs truncated sent = (sent', Ok ())"
  shows "\<exists>new. sent' = sent @ new \<and> (\<forall>sel m d. snd (serverAfter new (sel, m)) d =
    (if d \<in> fst ` set dbs \<or> d \<in> set truncated then (if d \<in> set truncated then m d else []) @
        concat (map (\<lambda>(i, db). writesOf db) (filter (\<lambda>(i, db). i = d) dbs))
     else m d))"
  using assms
proof (induction dbs arbitrary: truncated sent)
  case (Cons x dbs)
  obtain dbID db where x: "x = (dbID, db)" by (cases x)
  with Cons.prems obtain cmds where c: "databaseCmds dbID db (dbID \<notin> set truncated) = Ok cmds"
    and r: "loadData C dbs (dbID # truncated) (sent @ [cmds]) = (sent', Ok ())"
    by (auto simp: sbind_eq_Ok loadRedisDatabase_def)
  let ?m = "\<lambda>m. m(dbID := (if dbID \<notin> set truncated then [] else m dbID) @ writesOf db)"
  from Cons.IH [OF r] obtain new where new: "sent' = (sent @ [cmds]) @ new"
    and s: "\<forall>sel m d. snd (serverAfter new (sel, m)) d =
      (if d \<in> fst ` set dbs \<or> d \<in> set (dbID # truncated) then (if d \<in> set (dbID # truncated) then m d else []) @
          concat (map (\<lambda>(i, db). writesOf db) (filter (\<lambda>(i, db). i = d) dbs)) else m d)" by blast
  have "serverAfter (cmds # new) (sel, m) = serverAfter new (dbID, ?m m)" for sel m
    unfolding serverAfter_def databaseCmds_writes [OF c] concat.simps fold_append o_apply serverAfter_pipeline ..
  with new s x show ?case by (intro exI [of _ "cmds # new"]) auto
qed (auto simp: serverAfter_def)

section \<open>Files\<close>

text \<open>Inheritance is well-founded: a file ranks above the files it inherits from.\<close>

definition ranked :: "redisEnv \<Rightarrow> string list \<Rightarrow> (string \<Rightarrow> nat) \<Rightarrow> bool" where
  "ranked E locs rank \<longleftrightarrow>
     (\<forall>f fx p l g. re_read E f = Ok fx \<and> p \<in> set (rf_Inherits fx) \<and> l \<in> set locs \<and> getFirstExistsFileName E p l = Ok g
        \<longrightarrow> rank g < rank f)"

lemma eachInherited_returns:
  "(\<And>p c. p \<in> set ps \<Longrightarrow> parse c p \<noteq> None) \<Longrightarrow> eachInherited parse ps ctx \<noteq> None"
  by (induction ps arbitrary: ctx) (auto split: option.split res.split)

lemma ParseFiles_returns:
  assumes "ranked E locs rank" and "\<forall>(name, loc) \<in> set nls. \<forall>g. getFirstExistsFileName E name loc = Ok g \<longrightarrow> rank g < n"
  shows "ParseFiles n E locs nls cache ctx \<noteq> None"
  using assms(2)
proof (induction n arbitrary: nls cache ctx rule: less_induct)
  case (less n)
  show ?case using less.prems
  proof (induction nls arbitrary: cache ctx)
    case (Cons nl nls)
    obtain name loc where nl: "nl = (name, loc)" by (cases nl)
    have rest: "ParseFiles n E locs nls cache' ctx' \<noteq> None" for cache' ctx' using Cons by simp
    show ?case
    proof (cases "getFirstExistsFileName E name loc")
      case (Ok f)
      with Cons.prems nl have f: "rank f < n" by auto
      then obtain k where n: "n = Suc k" by (cases n) auto
      show ?thesis
      proof (cases "re_read E f")
        case (Ok fx)
        have "ParseFiles k E locs (map (\<lambda>l. (p, l)) locs) [] c \<noteq> None" if "p \<in> set (rf_Inherits fx)" for p c
          using less.IH [of k "map (\<lambda>l. (p, l)) locs"] assms(1) Ok that f n unfolding ranked_def by fastforce
        then have "eachInherited (\<lambda>ctx parent. map_option (\<lambda>r. rbind r (\<lambda>(c, fs). Ok c))
            (ParseFiles k E locs (map (\<lambda>l. (parent, l)) locs) [] ctx)) (rf_Inherits fx) ctx \<noteq> None"
          by (intro eachInherited_returns) simp
        with Ok \<open>getFirstExistsFileName E name loc = Ok f\<close> nl n rest show ?thesis
          by (auto split: option.split res.split prod.split)
      qed (use nl rest \<open>getFirstExistsFileName E name loc = Ok f\<close> in auto)
    qed (use nl in auto)
  qed simp
qed

section \<open>Properties\<close>

text \<open>
  C30. What a load leaves in Redis, whatever was there before: when inheritance is well-founded
  (\<open>ranked\<close>) the load ends, and if it returns nil, every database that some fixture mentions holds
  exactly what the fixtures write to it, those of all the fixtures in their order, and the other
  databases are as they were. So a database is emptied before anything is written to it and not
  again by a later fixture.
\<close>

theorem redis_load_contents:
  assumes "ranked E [dir] rank" and "\<forall>name \<in> set names. \<forall>g. getFirstExistsFileName E name dir = Ok g \<longrightarrow> rank g < n"
  shows "\<exists>sent out. redisLoad n E C dir names = Some (sent, out) \<and>
    (out = Ok () \<longrightarrow> (\<exists>ctx fixtures dbs.
       ParseFiles n E [dir] (map (\<lambda>name. (name, dir)) names) [] NewContext = Some (Ok (ctx, fixtures)) \<and>
       dbs = concat (map rf_Databases fixtures) \<and>
       (\<forall>sel before d. snd (serverAfter sent (sel, before)) d =
          (if d \<in> fst ` set dbs then concat (map (\<lambda>(i, db). writesOf db) (filter (\<lambda>(i, db). i = d) dbs)) else before d))))"
proof -
  have "ParseFiles n E [dir] (map (\<lambda>name. (name, dir)) names) [] NewContext \<noteq> None"
    using ParseFiles_returns [OF assms(1)] assms(2) by auto
  then obtain parsed where p: "ParseFiles n E [dir] (map (\<lambda>name. (name, dir)) names) [] NewContext = Some parsed" by blast
  let ?load = "sbind ([], parsed) (\<lambda>_ (ctx, fixtures). loadData C (concat (map rf_Databases fixtures)) [] [])"
  obtain sent out where s: "?load = (sent, out)" by (cases ?load)
  then have r: "redisLoad n E C dir names = Some (sent, out)" using p by (simp add: redisLoad_def)
  have "\<exists>ctx fixtures dbs. ParseFiles n E [dir] (map (\<lambda>name. (name, dir)) names) [] NewContext = Some (Ok (ctx, fixtures)) \<and>
       dbs = concat (map rf_Databases fixtures) \<and>
       (\<forall>sel before d. snd (serverAfter sent (sel, before)) d =
          (if d \<in> fst ` set dbs then concat (map (\<lambda>(i, db). writesOf db) (filter (\<lambda>(i, db). i = d) dbs)) else before d))"
    if "out = Ok ()"
  proof -
    from s that obtain ctx fixtures where f: "parsed = Ok (ctx, fixtures)"
      and l: "loadData C (concat (map rf_Databases fixtures)) [] [] = (sent, Ok ())" by (auto simp: sbind_eq_Ok)
    from loadData_contents [OF l] p f show ?thesis by auto
  qed
  with r show ?thesis by blast
qed

definition noTemplates :: Templates where
  "noTemplates = \<lparr>tp_Keys = [], tp_Hashes = [], tp_Sets = [], tp_Lists = [], tp_ZSets = []\<rparr>"

definition keysDb :: "string \<Rightarrow> Database" where
  "keysDb k =
     \<lparr>rd_Keys = Some \<lparr>ks_Name = [], ks_Extend = [], ks_Values = [(k, Some \<lparr>kv_Value = RInt 1, kv_Expiration = 0\<rparr>)]\<rparr>,
      rd_Hashes = None, rd_Sets = None, rd_Lists = None, rd_ZSets = None\<rparr>"

definition exampleRedis :: redisEnv where
  "exampleRedis =
     \<lparr>re_glob = (\<lambda>p. Ok (if hasSuffix p ''.yaml'' then [p] else [])),
      re_read = (\<lambda>f. Ok \<lparr>rf_Inherits = (if f = ''d/a.yaml'' then [''b''] else []), rf_Templates = noTemplates,
                         rf_Databases = [(1, keysDb f)]\<rparr>)\<rparr>"

text \<open>The file \<open>a\<close> inherits from \<open>b\<close>; both write to database 1.\<close>

lemma exampleRedis_ranked: "ranked exampleRedis [''d''] (\<lambda>f. if f = ''d/a.yaml'' then 1 else 0)"
proof -
  have "getFirstExistsFileName exampleRedis ''b'' ''d'' = Ok ''d/b.yaml''" by code_simp
  then show ?thesis unfolding ranked_def by (auto simp: exampleRedis_def split: if_splits)
qed

theorem redis_load_contents_witness:
  "\<exists>sent. redisLoad 3 exampleRedis (\<lambda>sent cmds. Ok ()) ''d'' [''a'', ''b''] = Some (sent, Ok ())
     \<and> snd (serverAfter sent (0, \<lambda>_. [CSet ''old'' (RInt 0) 0])) 1 = [CSet ''d/a.yaml'' (RInt 1) 0, CSet ''d/b.yaml'' (RInt 1) 0]
     \<and> snd (serverAfter sent (0, \<lambda>_. [CSet ''old'' (RInt 0) 0])) 2 = [CSet ''old'' (RInt 0) 0]"
proof -
  let ?files = "map (\<lambda>name. (name, ''d'')) [''a'', ''b'']"
  have "\<forall>name \<in> set [''a'', ''b'']. \<forall>g. getFirstExistsFileName exampleRedis name ''d'' = Ok g \<longrightarrow> (if g = ''d/a.yaml'' then 1 else 0) < (3::nat)"
    by simp
  from redis_load_contents [OF exampleRedis_ranked this, of "\<lambda>sent cmds. Ok ()"]
  obtain sent out where l: "redisLoad 3 exampleRedis (\<lambda>sent cmds. Ok ()) ''d'' [''a'', ''b''] = Some (sent, out)"
    and c: "out = Ok () \<Longrightarrow> \<exists>ctx fixtures dbs. ParseFiles 3 exampleRedis [''d''] ?files [] NewContext = Some (Ok (ctx, fixtures)) \<and>
       dbs = concat (map rf_Databases fixtures) \<and>
       (\<forall>sel before d. snd (serverAfter sent (sel, before)) d =
          (if d \<in> fst ` set dbs then concat (map (\<lambda>(i, db). writesOf db) (filter (\<lambda>(i, db). i = d) dbs)) else before d))" by blast
  have "case redisLoad 3 exampleRedis (\<lambda>sent cmds. Ok ()) ''d'' [''a'', ''b''] of Some (sent, Ok _) \<Rightarrow> True | _ \<Rightarrow> False" by code_simp
  with l have o: "out = Ok ()" by (auto split: res.splits)
  from c [OF o] obtain ctx fixtures dbs where p: "ParseFiles 3 exampleRedis [''d''] ?files [] NewContext = Some (Ok (ctx, fixtures))"
    and dbs: "dbs = concat (map rf_Databases fixtures)"
    and a: "snd (serverAfter sent (sel, before)) d =
          (if d \<in> fst ` set dbs then concat (map (\<lambda>(i, db). writesOf db) (filter (\<lambda>(i, db). i = d) dbs)) else before d)" for sel before d
    by blast
  have "case ParseFiles 3 exampleRedis [''d''] ?files [] NewContext of
      Some (Ok (ctx, fixtures)) \<Rightarrow> concat (map rf_Databases fixtures) = [(1, keysDb ''d/a.yaml''), (1, keysDb ''d/b.yaml'')] | _ \<Rightarrow> False"
    by code_simp
  then have "dbs = [(1, keysDb ''d/a.yaml''), (1, keysDb ''d/b.yaml'')]" unfolding p dbs by simp
  with a l o show ?thesis by (simp add: writesOf_def keysDb_def recordWrites_def)
qed

text \<open>
  C31. Parsing ends when inheritance is well-founded: if every file ranks above the files it inherits
  from, a bound on the depth above the ranks of the requested files is enough, and the parser
  returns fixtures, an error or a panic.
\<close>

theorem ParseFiles_terminates:
  assumes "ranked E locs rank"
    and "\<forall>(name, loc) \<in> set nls. \<forall>g. getFirstExistsFileName E name loc = Ok g \<longrightarrow> rank g < n"
  shows "\<exists>out. ParseFiles n E locs nls cache ctx = Some out"
  using ParseFiles_returns [OF assms, of cache ctx] by blast

theorem ParseFiles_terminates_witness:
  "\<exists>out. ParseFiles 2 exampleRedis [''d''] [(''a'', ''d'')] [] NewContext = Some out"
proof -
  have "\<forall>(name, loc) \<in> set [(''a'', ''d'')]. \<forall>g. getFirstExistsFileName exampleRedis name loc = Ok g \<longrightarrow>
      (if g = ''d/a.yaml'' then 1 else 0) < (2::nat)" by simp
  from ParseFiles_terminates [OF exampleRedis_ranked this] show ?thesis .
qed

section \<open>Where the loader surprises\<close>

text \<open>A file that inherits from itself is parsed forever: no bound is enough.\<close>

lemma self_inheritance_diverges:
  assumes "getFirstExistsFileName E p loc = Ok f" and "GetParser (extension f)" and "re_read E f = Ok fx" and "rf_Inherits fx = [p]"
  shows "ParseFiles n E [loc] [(p, loc)] [] ctx = None"
proof (induction n arbitrary: ctx)
  case (Suc n)
  with assms show ?case by simp
qed (use assms in simp)

text \<open>
  Two files that inherit from the same file with a template cannot both be inherited from: the
  common file is parsed twice and its template is then a duplicate.
\<close>

definition diamondRedis :: redisEnv where
  "diamondRedis = exampleRedis
     \<lparr>re_read := (\<lambda>f. Ok \<lparr>rf_Inherits = (if f = ''d/a.yaml'' then [''b'', ''c''] else if f = ''d/t.yaml'' then [] else [''t'']),
        rf_Templates = (if f = ''d/t.yaml'' then noTemplates\<lparr>tp_Keys := [\<lparr>ks_Name = ''base'', ks_Extend = [], ks_Values = []\<rparr>]\<rparr> else noTemplates),
        rf_Databases = []\<rparr>)\<rparr>"

lemma diamond_inheritance_fails:
  "(case ParseFiles 4 diamondRedis [''d''] [(''b'', ''d'')] [] NewContext of Some (Ok _) \<Rightarrow> True | _ \<Rightarrow> False)
   \<and> (case ParseFiles 4 diamondRedis [''d''] [(''a'', ''d'')] [] NewContext of Some (Err e) \<Rightarrow> True | _ \<Rightarrow> False)"
  by (rule conjI; code_simp)

text \<open>
  Only the requested files contribute databases: what an inherited file loads by itself is not
  loaded with the file that inherits from it. SQL fixtures load the tables of both.
\<close>

lemma inherited_databases_not_loaded:
  "ParseFiles n E locs nls cache ctx = Some (Ok (ctx', fixtures)) \<Longrightarrow> length fixtures \<le> length nls"
proof (induction nls arbitrary: cache ctx fixtures)
  case (Cons nl nls)
  obtain name loc where nl: "nl = (name, loc)" by (cases nl)
  have le: "length fs \<le> length nls" if "ParseFiles m E locs nls c x = Some (Ok (ctx', fs))" "n = m" for fs c x m
    using Cons.IH [of c x fs] that by simp
  from Cons.prems nl show ?case by (auto split: res.splits if_splits option.splits nat.splits prod.splits dest: le)
qed simp

text \<open>A file with the ending \<open>.yml\<close> is found but never parsed.\<close>

lemma yml_has_no_parser:
  assumes "getFirstExistsFileName E name loc = Ok f" and "extension f = ''yml''"
  shows "ParseFiles n E locs ((name, loc) # nls) [] ctx = Some (Err ErrParserNotFound)"
  using assms by (simp add: GetParser_def)

text \<open>A record that extends another gets the other's expiration, whatever it says itself.\<close>

lemma extend_loses_expiration:
  assumes "rv_Extend child \<noteq> []" and "map_of refs (rv_Extend child) = Some parent"
  shows "\<exists>r. extendSet refs child = Ok r \<and> rv_Expiration r = rv_Expiration parent"
    "\<exists>r. extendList refs child = Ok r \<and> rv_Expiration r = rv_Expiration parent \<and> rv_Values r = rv_Values parent @ rv_Values child"
  using assms by (simp_all add: extendSet_def extendList_def extendRecord_def resolveRef_def copyRecord_def)

text \<open>Keys of a record override the keys of the record it extends.\<close>

lemma extendKeys_values:
  assumes "ks_Extend child \<noteq> []" and "map_of refs (ks_Extend child) = Some parent" and "gomap_wf (ks_Values child)"
  shows "\<exists>r. extendKeys refs child = Ok r \<and>
    (\<forall>k. map_of (ks_Values r) k = (case map_of (ks_Values child) k of Some v \<Rightarrow> Some v | None \<Rightarrow> map_of (ks_Values parent) k))"
  using assms by (auto simp: extendKeys_def resolveRef_def copyKeyRecord_def map_of_gomerge split: option.split)

text \<open>Without nil entries, a set that extends another has the members of both.\<close>

lemma mergePointers_values:
  assumes "None \<notin> set child"
  shows "mergePointers parent child = parent @ child"
  using assms
proof (induction child arbitrary: parent)
  case (Cons v child)
  then show ?case by (auto simp: mergePointers_def)
qed (simp add: mergePointers_def)

end
