(* ===== verification/EntryPoints.thy ===== *)
theory EntryPoints
  imports RunnerSpec FixturesSql Allure2Output
begin

text \<open>
  Model of the programs around the runner: the command (\<open>main.go\<close>) and the two helpers for Go
  tests (\<open>runner/runner_testing.go\<close>, \<open>runner/runner_multidb.go\<close>): validation of the settings, the
  choice of the fixture loader, the checkers and the report, the handler that turns outcomes into
  verdicts of \<open>testing.T\<close>, and the exit status.

  The environment, the parsers of URLs and the connections to storages are parameters.
  \<open>log.Fatal\<close> and \<open>t.Fatal\<close> are errors. Reading flags is left to the library.
\<close>

section \<open>The command\<close>

record mainConfig =
  mc_Host :: string
  mc_TestsLocation :: string
  mc_DbDsn :: string
  mc_AerospikeHost :: string
  mc_RedisURL :: string
  mc_FixturesLocation :: string
  mc_EnvFile :: string
  mc_Allure :: bool
  mc_AllureFormat :: string
  mc_Verbose :: bool
  mc_Debug :: bool
  mc_DbType :: string

record ('db, 'as) storages =
  st_db :: "'db option"
  st_aerospike :: "'as option"

text \<open>The values of the flags before the command line is read, and the override by the environment.\<close>

definition defaultConfig :: mainConfig where
  "defaultConfig =
     \<lparr>mc_Host = [], mc_TestsLocation = [], mc_DbDsn = [], mc_AerospikeHost = [], mc_RedisURL = [], mc_FixturesLocation = [],
      mc_EnvFile = [], mc_Allure = True, mc_AllureFormat = ''v2'', mc_Verbose = False, mc_Debug = False, mc_DbType = ''postgres''\<rparr>"

definition getConfig :: "(string \<Rightarrow> string) \<Rightarrow> (mainConfig \<Rightarrow> mainConfig) \<Rightarrow> mainConfig" where
  "getConfig getenv parseFlags =
     (let cfg = parseFlags defaultConfig; envFormat = getenv ''GONKEY_ALLURE_FORMAT''
      in if envFormat \<noteq> [] then cfg\<lparr>mc_AllureFormat := envFormat\<rparr> else cfg)"

definition validateConfig :: "mainConfig \<Rightarrow> mainConfig gores" where
  "validateConfig cfg =
     (if mc_Host cfg = [] then Err (errNew ''service hostname not provided'')
      else
        (let host = (if hasPrefix (mc_Host cfg) ''http://'' \<or> hasPrefix (mc_Host cfg) ''https://'' then mc_Host cfg
                     else ''http://'' @ mc_Host cfg);
             cfg1 = cfg\<lparr>mc_Host := trimRight (CHR ''/'') host\<rparr>
         in if mc_TestsLocation cfg1 = [] then Err (errNew ''no tests location provided'') else Ok cfg1))"

text \<open>\<open>hostParts[1]\<close> panics when there is no colon.\<close>

definition parseAerospikeHost :: "string \<Rightarrow> (string \<times> int \<times> string) gores" where
  "parseAerospikeHost dsn =
     (case splitOn (CHR ''/'') dsn of
        [host, namespace] \<Rightarrow>
          (case splitOn (CHR '':'') host of
             address # port # _ \<Rightarrow>
               (case atoi port of
                  Some p \<Rightarrow> Ok (address, p, namespace)
                | None \<Rightarrow> Err (EFmt ''couldn't parse port: %s'' [ShStr namespace]))
           | _ \<Rightarrow> Panic ''index out of range [1] with length 1'')
      | _ \<Rightarrow> Err (EFmt ''couldn't parse aerospike host %v, should be in form of host:port/namespace'' [ShStr dsn]))"

definition initDB :: "(string \<Rightarrow> string \<Rightarrow> 'db gores) \<Rightarrow> mainConfig \<Rightarrow> 'db option gores" where
  "initDB sqlOpen cfg =
     (if mc_DbDsn cfg \<noteq> [] then rbind (sqlOpen ''postgres'' (mc_DbDsn cfg)) (\<lambda>db. Ok (Some db)) else Ok None)"

definition initAerospike :: "(string \<Rightarrow> int \<Rightarrow> string \<Rightarrow> 'as gores) \<Rightarrow> mainConfig \<Rightarrow> 'as option gores" where
  "initAerospike newClient cfg =
     (if mc_AerospikeHost cfg \<noteq> []
      then rbind (parseAerospikeHost (mc_AerospikeHost cfg)) (\<lambda>(address, port, namespace).
             rbind (wrapErr (EWrap ''Couldn't connect to aerospike: '' []) (newClient address port namespace)) (\<lambda>c. Ok (Some c)))
      else Ok None)"

definition initStorages ::
  "(string \<Rightarrow> string \<Rightarrow> 'db gores) \<Rightarrow> (string \<Rightarrow> int \<Rightarrow> string \<Rightarrow> 'as gores) \<Rightarrow> mainConfig \<Rightarrow> ('db, 'as) storages gores" where
  "initStorages sqlOpen newClient cfg =
     rbind (initDB sqlOpen cfg) (\<lambda>db.
     rbind (initAerospike newClient cfg) (\<lambda>as. Ok \<lparr>st_db = db, st_aerospike = as\<rparr>))"

datatype mainLoader = SqlLoader "unit fixtureLoader" | RedisLoader string string

definition initLoaders :: "(string \<Rightarrow> string gores) \<Rightarrow> ('db, 'as) storages \<Rightarrow> mainConfig \<Rightarrow> mainLoader option gores" where
  "initLoaders parseRedisURL sts cfg =
     (if mc_FixturesLocation cfg = [] then Ok None
      else if st_db sts \<noteq> None \<or> st_aerospike sts \<noteq> None then
        rbind (FetchDbType (mc_DbType cfg)) (\<lambda>ty.
        rbind (NewLoader \<lparr>fc_DbType = ty, fc_Location = mc_FixturesLocation cfg, fc_FixtureLoader = None\<rparr>) (\<lambda>l. Ok (Some (SqlLoader l))))
      else if mc_DbType cfg = ''redis'' then
        (case parseRedisURL (mc_RedisURL cfg) of
           Ok opts \<Rightarrow> Ok (Some (RedisLoader (mc_FixturesLocation cfg) opts))
         | Err e \<Rightarrow> Panic ''redis_url attribute is not a valid URL''
         | Panic m \<Rightarrow> Panic m)
      else Err (errNew ''you should specify db_dsn to load fixtures''))"

type_synonym checkFun = "Test \<Rightarrow> Result \<Rightarrow> (Result \<times> goerror list) gores"

definition mainCheckers :: "libs \<Rightarrow> database option \<Rightarrow> checkFun list" where
  "mainCheckers L db = responseBodyCheck L # (case db of None \<Rightarrow> [] | Some d \<Rightarrow> [responseDbCheck L d])"

datatype reportKind = NoReport | ReportV1 string | ReportV2 allure2Output

definition mainReport :: "mainConfig \<Rightarrow> reportKind gores" where
  "mainReport cfg =
     (if \<not> mc_Allure cfg then Ok NoReport
      else if mc_AllureFormat cfg \<in> {''v1'', ''xml''} then Ok (ReportV1 ''./allure-results'')
      else if mc_AllureFormat cfg \<in> {''v2'', ''json'', []}
        then Ok (ReportV2 \<lparr>ao_reportLocation = ''./allure-results'', ao_defaultPackage = [], ao_defaultTestClass = []\<rparr>)
      else Err (EFmt ''unknown allure format: %s (supported: v1, v2, xml, json)'' [ShStr (mc_AllureFormat cfg)]))"

definition proxyURLFromEnv :: "(string \<Rightarrow> string) \<Rightarrow> (string \<Rightarrow> 'u gores) \<Rightarrow> 'u option gores" where
  "proxyURLFromEnv getenv parse =
     (if getenv ''HTTP_PROXY'' \<noteq> [] then rbind (parse (getenv ''HTTP_PROXY'')) (\<lambda>u. Ok (Some u)) else Ok None)"

text \<open>The exit status of the command after the run.\<close>

definition exitCode :: "ConsoleHandler gores \<Rightarrow> nat" where
  "exitCode out =
     (case out of
        Ok h \<Rightarrow> (if Success (summary h) then 0 else 1)
      | Err e \<Rightarrow> 1
      | Panic m \<Rightarrow> 2)"

section \<open>The loop over the tests for any handler\<close>

text \<open>The loop of \<open>Runner.Run\<close> in \<open>runner/runner.go\<close> with the handler it was made with.\<close>

fun runLoopWith :: "('h \<Rightarrow> outcome \<Rightarrow> 'h gores) \<Rightarrow> config \<Rightarrow> Test list \<Rightarrow> runState \<Rightarrow> 'h \<Rightarrow> runState \<times> 'h gores" where
  "runLoopWith handle cfg [] st h = (st, Ok h)"
| "runLoopWith handle cfg (t # ts) st h =
     (case buildTestExecutor cfg t st of
        (st1, out) \<Rightarrow>
          (case handle h out of
             Ok h1 \<Rightarrow> runLoopWith handle cfg ts st1 h1
           | Err e \<Rightarrow> (st1, Err (EWrap ''test %s error'' [ShStr (Name t)] e))
           | Panic p \<Rightarrow> (st1, Panic p)))"

definition RunWith :: "('h \<Rightarrow> outcome \<Rightarrow> 'h gores) \<Rightarrow> config \<Rightarrow> Test list gores \<Rightarrow> runState \<Rightarrow> 'h \<Rightarrow> runState \<times> 'h gores" where
  "RunWith handle cfg load st h =
     (case load of
        Ok tests \<Rightarrow> runLoopWith handle cfg (map (focusStatus (checkHasFocused tests)) tests) st h
      | Err e \<Rightarrow> (st, Err e)
      | Panic p \<Rightarrow> (st, Panic p))"

lemma runLoopWith_console: "runLoopWith HandleTest cfg ts st h = runLoop cfg ts st h"
  by (induction ts arbitrary: st h) (auto split: prod.split res.split)

lemma RunWith_console: "RunWith HandleTest cfg load st h = Run cfg load st h"
  by (simp add: RunWith_def Run_def runLoopWith_console split: res.split)

section \<open>Go tests\<close>

datatype verdict = TPassed | TFailed | TSkipped

text \<open>The verdicts of the subtests so far. After \<open>t.Fatal\<close> the error is returned to the runner.\<close>

definition testingHandle :: "verdict list \<Rightarrow> outcome \<Rightarrow> verdict list gores" where
  "testingHandle vs out =
     (case out of
        Skipped \<Rightarrow> Ok (vs @ [TSkipped])
      | Broken \<Rightarrow> Ok (vs @ [TSkipped])
      | Finished r \<Rightarrow> Ok (vs @ [if Passed r then TPassed else TFailed])
      | Failed e \<Rightarrow> Err e
      | Panicked p \<Rightarrow> Panic p)"

definition testCheckers :: "libs \<Rightarrow> database option \<Rightarrow> checkFun list \<Rightarrow> checkFun list" where
  "testCheckers L db extra =
     [grpcResponseCheck L, responseBodyCheck L, responseHeaderCheck L]
     @ (case db of None \<Rightarrow> [] | Some d \<Rightarrow> [responseDbCheck L d]) @ extra"

definition multiDbCheckers :: "libs \<Rightarrow> (string, database) gomap \<Rightarrow> checkFun list \<Rightarrow> checkFun list" where
  "multiDbCheckers L dbs extra = [responseBodyCheck L, responseHeaderCheck L, responseMultiDbCheck L dbs] @ extra"

definition testReport :: "(string \<Rightarrow> string) \<Rightarrow> string \<Rightarrow> string \<Rightarrow> reportKind gores" where
  "testReport getenv pkg testClass =
     (let allureDir = getenv ''GONKEY_ALLURE_DIR'';
          format = (if getenv ''GONKEY_ALLURE_FORMAT'' = [] then ''v2'' else getenv ''GONKEY_ALLURE_FORMAT'')
      in if allureDir = [] then Ok NoReport
         else if format \<in> {''v1'', ''xml''} then Ok (ReportV1 allureDir)
         else if format \<in> {''v2'', ''json''}
           then Ok (ReportV2 (WithDefaultLabels pkg testClass \<lparr>ao_reportLocation = allureDir, ao_defaultPackage = [], ao_defaultTestClass = []\<rparr>))
         else Err (EFmt ''unknown GONKEY_ALLURE_FORMAT: %s (supported: v1, v2, xml, json)'' [ShStr format]))"

text \<open>The environment variables that tell the tested service where the mocks are.\<close>

definition registerMocksEnvironment :: "(string \<Rightarrow> string) \<Rightarrow> Mocks \<Rightarrow> (string, string) gomap \<Rightarrow> (string, string) gomap gores" where
  "registerMocksEnvironment toUpper ms env =
     foldM (\<lambda>env (n, m). rbind (ServerAddr m) (\<lambda>addr. Ok (AList.update (''GONKEY_MOCK_'' @ toUpper n) addr env))) env ms"

definition registerGrpcMocksEnvironment :: "(string \<Rightarrow> string) \<Rightarrow> GrpcMocks \<Rightarrow> (string, string) gomap \<Rightarrow> (string, string) gomap" where
  "registerGrpcMocksEnvironment toUpper g env =
     foldl (\<lambda>env (n, m). AList.update (''GONKEY_GRPC_MOCK_'' @ toUpper n) (grpcAddr m) env) env (gs_mocks g)"

text \<open>The loaders of several databases, one for each connection.\<close>

definition multiDbLoaders :: "string \<Rightarrow> (string, DbType) gomap \<Rightarrow> (string, unit fixtureLoader) gomap gores" where
  "multiDbLoaders location dbMap =
     mapM (\<lambda>(name, ty). rbind (NewLoader \<lparr>fc_DbType = ty, fc_Location = location, fc_FixtureLoader = None\<rparr>) (\<lambda>l. Ok (name, l))) dbMap"

definition getDbConnMap :: "(string, 'db \<times> DbType) gomap \<Rightarrow> (string, 'db) gomap" where
  "getDbConnMap dbMap = foldl (\<lambda>r (n, c). AList.update n (fst c) r) [] dbMap"

end
