(* ===== verification/EntryPointsSpec.thy ===== *)
theory EntryPointsSpec
  imports EntryPoints
begin

text \<open>
  Correctness of the entry points: the contract between the runner and the handler of outcomes,
  the exit status of the command, the verdicts of Go tests, and which expectations the command
  leaves unchecked.
\<close>

section \<open>Handlers\<close>

abbreviation ended :: "outcome \<Rightarrow> bool" where
  "ended out \<equiv> isSkipped out \<or> isBroken out \<or> isPassing out \<or> isFailing out"

text \<open>
  What the runner relies on of a handler: it accepts the outcomes of tests that came to an end, and
  returns the error or panics for the others.
\<close>

locale test_handler =
  fixes handle :: "'h \<Rightarrow> outcome \<Rightarrow> 'h gores"
  assumes accepts: "ended out \<Longrightarrow> \<exists>h'. handle h out = Ok h'"
    and rejects: "handle h (Failed e) = Err e" "handle h (Panicked p) = Panic p"
begin

lemma handle_Ok_ended: "handle h out = Ok h' \<Longrightarrow> ended out"
  by (cases out) (auto simp: rejects)

lemma loop_Ok_iff: "(\<exists>h'. snd (runLoopWith handle cfg ts st h) = Ok h') \<longleftrightarrow> list_all ended (runTrace cfg ts st)"
proof (induction ts arbitrary: st h)
  case (Cons t ts)
  obtain st1 out where b: "buildTestExecutor cfg t st = (st1, out)" by (cases "buildTestExecutor cfg t st")
  show ?case
  proof (cases "ended out")
    case True
    then obtain h1 where "handle h out = Ok h1" using accepts by blast
    with b True Cons.IH [of st1 h1] show ?thesis by simp
  next
    case False
    then have "handle h out \<noteq> Ok h1" for h1 using handle_Ok_ended by blast
    with b False show ?thesis by (auto split: res.split)
  qed
qed simp

lemma Run_Ok_iff:
  "(\<exists>h'. snd (RunWith handle cfg load st h) = Ok h') \<longleftrightarrow>
     (\<exists>tests. load = Ok tests \<and> list_all ended (runTrace cfg (map (focusStatus (checkHasFocused tests)) tests) st))"
  by (cases load) (simp_all add: RunWith_def loop_Ok_iff)

end

interpretation console_handler: test_handler HandleTest
proof
  fix out h assume "ended out" then show "\<exists>h'. HandleTest h out = Ok h'" by (cases out) (auto simp: HandleTest_def)
qed (simp_all add: HandleTest_def)

interpretation testing_handler: test_handler testingHandle
proof
  fix out h assume "ended out" then show "\<exists>h'. testingHandle h out = Ok h'" by (cases out) (auto simp: testingHandle_def)
qed (simp_all add: testingHandle_def)

section \<open>Verdicts\<close>

fun verdictOf :: "outcome \<Rightarrow> verdict" where
  "verdictOf (Finished r) = (if Passed r then TPassed else TFailed)"
| "verdictOf Skipped = TSkipped"
| "verdictOf Broken = TSkipped"
| "verdictOf out = TFailed"

lemma testing_loop:
  assumes "snd (runLoopWith testingHandle cfg ts st vs) = Ok vs'"
  shows "vs' = vs @ map verdictOf (runTrace cfg ts st)"
  using assms
proof (induction ts arbitrary: st vs)
  case (Cons t ts)
  obtain st1 out where b: "buildTestExecutor cfg t st = (st1, out)" by (cases "buildTestExecutor cfg t st")
  with Cons.prems obtain vs1 where h: "testingHandle vs out = Ok vs1" by (cases "testingHandle vs out") auto
  then have "vs1 = vs @ [verdictOf out]" by (cases out) (auto simp: testingHandle_def)
  with Cons.IH [of st1 vs1] Cons.prems b h show ?case by simp
qed simp

lemma countOf_zero: "countOf P outs = 0 \<longleftrightarrow> (\<forall>out \<in> set outs. \<not> P out)"
  by (auto simp: countOf_def filter_empty_conv)

section \<open>The exit status\<close>

lemma exitCode_zero_iff:
  "exitCode (snd (Run cfg load st NewConsoleHandler)) = 0 \<longleftrightarrow>
     (\<exists>tests. load = Ok tests \<and> list_all (\<lambda>out. isSkipped out \<or> isBroken out \<or> isPassing out)
        (runTrace cfg (map (focusStatus (checkHasFocused tests)) tests) st))"
proof (cases "\<exists>h. snd (Run cfg load st NewConsoleHandler) = Ok h")
  case True
  then obtain h where h: "snd (Run cfg load st NewConsoleHandler) = Ok h" by blast
  then obtain tests where load: "load = Ok tests" by (cases load) (auto simp: Run_def)
  let ?outs = "runTrace cfg (map (focusStatus (checkHasFocused tests)) tests) st"
  have "failedTests h = countOf isFailing ?outs" "list_all ended ?outs"
    using runLoop_counts [of cfg "map (focusStatus (checkHasFocused tests)) tests" st NewConsoleHandler h] h load
    by (simp_all add: Run_def NewConsoleHandler_def)
  moreover have "isFailing out \<Longrightarrow> \<not> isSkipped out \<and> \<not> isBroken out \<and> \<not> isPassing out" for out by (cases out) auto
  ultimately show ?thesis using h load by (auto simp: exitCode_def summary_def countOf_zero list_all_iff)
next
  case False
  then have "\<not> (\<exists>tests. load = Ok tests \<and> list_all ended (runTrace cfg (map (focusStatus (checkHasFocused tests)) tests) st))"
    using console_handler.Run_Ok_iff [of cfg load st NewConsoleHandler] by (simp add: RunWith_console)
  with False show ?thesis by (auto simp: exitCode_def list_all_iff split: res.splits)
qed

section \<open>Checkers of the command\<close>

lemma responseBodyCheck_headers: "responseBodyCheck L (t\<lparr>ResponseHeaders := hs\<rparr>) r = responseBodyCheck L t r"
proof -
  let ?t = "t\<lparr>ResponseHeaders := hs\<rparr>"
  have fields: "bodyParams ?t = bodyParams t" "Name ?t = Name t" "Responses ?t = Responses t" "Transport ?t = Transport t"
    by (simp_all add: bodyParams_def)
  show ?thesis unfolding responseBodyCheck_def compareJsonBody_def compareXmlBody_def GetResponse_def fields ..
qed

lemma responseDbCheck_headers: "responseDbCheck L db (t\<lparr>ResponseHeaders := hs\<rparr>) r = responseDbCheck L db t r"
  by (simp add: responseDbCheck_def runDbChecks_def ownDbCheck_def)

section \<open>Properties\<close>

text \<open>
  Under \<open>go test\<close> a run that ends without an error has one subtest for each test, in order:
  skipped for a skipped or broken test, passed for a result without errors, failed for one with
  errors.
\<close>

theorem testing_verdicts:
  assumes "snd (RunWith testingHandle cfg (Ok tests) st []) = Ok vs"
  shows "vs = map verdictOf (runTrace cfg (map (focusStatus (checkHasFocused tests)) tests) st)"
  using testing_loop [of cfg "map (focusStatus (checkHasFocused tests)) tests" st "[]" vs] assms by (simp add: RunWith_def)

theorem testing_verdicts_witness:
  "\<exists>vs. snd (RunWith testingHandle (exampleConfig (Ok (exampleResult ''bad''))) (Ok [exampleTest ''skipped'', exampleTest []]) exampleState []) = Ok vs
     \<and> vs = [TSkipped, TFailed]"
proof -
  let ?cfg = "exampleConfig (Ok (exampleResult ''bad''))"
  let ?ts = "[exampleTest ''skipped'', exampleTest []]"
  have "case snd (RunWith testingHandle ?cfg (Ok ?ts) exampleState []) of Ok vs \<Rightarrow> True | _ \<Rightarrow> False" by code_simp
  then obtain vs where vs: "snd (RunWith testingHandle ?cfg (Ok ?ts) exampleState []) = Ok vs" by (auto split: res.splits)
  have t: "map verdictOf (runTrace ?cfg (map (focusStatus (checkHasFocused ?ts)) ?ts) exampleState) = [TSkipped, TFailed]" by code_simp
  from testing_verdicts [OF vs] vs t show ?thesis by simp
qed

text \<open>
  The command never checks response headers: whatever headers a test expects, the result of its
  checkers is the same. The helpers for Go tests have the checker for headers.
\<close>

theorem command_ignores_response_headers:
  "runCheckers (cfg\<lparr>cf_checkers := mainCheckers L db\<rparr>) (t\<lparr>ResponseHeaders := hs\<rparr>) r =
     runCheckers (cfg\<lparr>cf_checkers := mainCheckers L db\<rparr>) t r"
  by (simp add: runCheckers_def mainCheckers_def responseBodyCheck_headers responseDbCheck_headers split: option.split)

section \<open>Settings\<close>

lemma validateConfig_host:
  assumes "validateConfig cfg = Ok cfg'"
  shows "mc_TestsLocation cfg' \<noteq> [] \<and> mc_Host cfg \<noteq> [] \<and> (mc_Host cfg' \<noteq> [] \<longrightarrow> last (mc_Host cfg') \<noteq> CHR ''/'')"
proof -
  have "s' \<noteq> [] \<longrightarrow> last s' \<noteq> CHR ''/''" if "s' = trimRight (CHR ''/'') s" for s s' :: string
    using that hd_dropWhile [of "\<lambda>x. x = CHR ''/''" "rev s"] by (auto simp: trimRight_def last_rev)
  with assms show ?thesis by (auto simp: validateConfig_def Let_def split: if_splits)
qed

lemma parseAerospikeHost_parts:
  assumes "CHR ''/'' \<notin> set address" "CHR '':'' \<notin> set address" "CHR ''/'' \<notin> set port" "CHR '':'' \<notin> set port" "CHR ''/'' \<notin> set namespace"
    and "atoi port = Some p"
  shows "parseAerospikeHost (address @ '':'' @ port @ ''/'' @ namespace) = Ok (address, p, namespace)"
proof -
  have "splitOn (CHR ''/'') ((address @ '':'' @ port) @ CHR ''/'' # namespace) = [address @ '':'' @ port, namespace]"
    using assms by (subst splitOn_append) (auto simp: splitOn_notin)
  moreover have "splitOn (CHR '':'') (address @ '':'' @ port) = [address, port]"
    using assms splitOn_append [of "CHR '':''" address port] by (simp add: splitOn_notin)
  ultimately show ?thesis using assms(6) by (simp add: parseAerospikeHost_def)
qed

text \<open>Without a port the command does not report the mistake but panics.\<close>

lemma parseAerospikeHost_no_port_panics:
  assumes "CHR ''/'' \<notin> set host" "CHR '':'' \<notin> set host" "CHR ''/'' \<notin> set namespace"
  shows "\<exists>m. parseAerospikeHost (host @ ''/'' @ namespace) = Panic m"
  using assms splitOn_append [of "CHR ''/''" host namespace] by (simp add: parseAerospikeHost_def splitOn_notin)

text \<open>The command opens the database of the fixtures as PostgreSQL, also when it is told to use MySQL.\<close>

lemma mysql_opened_as_postgres:
  assumes "mc_DbDsn cfg \<noteq> []" and "mc_DbType cfg = ''mysql''" and "mc_FixturesLocation cfg \<noteq> []"
  shows "initDB sqlOpen cfg = rbind (sqlOpen ''postgres'' (mc_DbDsn cfg)) (\<lambda>db. Ok (Some db))
    \<and> initLoaders parse \<lparr>st_db = Some db, st_aerospike = None\<rparr> cfg = Ok (Some (SqlLoader (MysqlLoader (trimRight (CHR ''/'') (mc_FixturesLocation cfg)))))"
  using assms by (simp add: initDB_def initLoaders_def FetchDbType_def NewLoader_def)

end
