(* ===== verification/Outputs.thy ===== *)
theory Outputs
  imports EntryPoints
begin

text \<open>
  Model of the other outputs: the console (\<open>output/console_colored/console_colored.go\<close>), the output
  of Go tests (\<open>output/testing/testing.go\<close>) and the Allure 1 report
  (\<open>output/allure_report/allure.go\<close>, \<open>allure_report.go\<close> and \<open>beans/\<close>), with what they promise.

  The texts made by \<open>text/template\<close>, with their colours, are a parameter; so are random
  identifiers, files and the XML form of a suite. Times are left out.
\<close>

section \<open>Console\<close>

record consoleOutput =
  co_verbose :: bool
  co_dots :: int
  co_printed :: "string list"

definition NewConsoleOutput :: "bool \<Rightarrow> consoleOutput" where
  "NewConsoleOutput verbose = \<lparr>co_verbose = verbose, co_dots = 0, co_printed = []\<rparr>"

definition consoleProcess :: "(Result \<Rightarrow> string gores) \<Rightarrow> Result \<Rightarrow> consoleOutput \<Rightarrow> consoleOutput \<times> unit gores" where
  "consoleProcess renderResult r out =
     (if \<not> Passed r \<or> co_verbose out then
        sbind (out, renderResult r) (\<lambda>out text. (out\<lparr>co_printed := co_printed out @ [text]\<rparr>, Ok ()))
      else
        (let dots = co_dots out + 1
         in (out\<lparr>co_dots := dots,
                 co_printed := co_printed out @ [''.''] @ (if dots mod 80 = 0 then [[CHR 0x0A]] else [])\<rparr>, Ok ())))"

fun formatErrorsFrom :: "(goerror \<Rightarrow> string) \<Rightarrow> nat \<Rightarrow> string \<Rightarrow> goerror list \<Rightarrow> string" where
  "formatErrorsFrom base i prevCategory [] = []"
| "formatErrorsFrom base i prevCategory (err # errs) =
     (let currentCategory = (case asCheckError err of Some (cat, ident) \<Rightarrow> cat | None \<Rightarrow> [])
      in (if i > 0 \<and> prevCategory \<noteq> [] \<and> currentCategory \<noteq> prevCategory then [CHR 0x0A] else [])
         @ itoa (int i + 1) @ '') '' @ errText base err @ [CHR 0x0A]
         @ formatErrorsFrom base (i + 1) currentCategory errs)"

definition formatErrorsWithCategories :: "(goerror \<Rightarrow> string) \<Rightarrow> goerror list \<Rightarrow> string" where
  "formatErrorsWithCategories base errs = formatErrorsFrom base 0 [] errs"

definition successCount :: "Summary \<Rightarrow> int" where
  "successCount s = Total s - sum_Broken s - sum_Failed s - sum_Skipped s"

definition ShowSummary :: "Summary \<Rightarrow> string" where
  "ShowSummary s =
     [CHR 0x0A] @ ''success '' @ itoa (successCount s) @ '', failed '' @ itoa (sum_Failed s) @ '', skipped '' @ itoa (sum_Skipped s) @
     '', broken '' @ itoa (sum_Broken s) @ '', total '' @ itoa (Total s) @ [CHR 0x0A]"

section \<open>Go tests\<close>

definition testingProcess :: "(Result \<Rightarrow> string gores) \<Rightarrow> Result \<Rightarrow> string list \<Rightarrow> string list \<times> unit gores" where
  "testingProcess renderResult r printed =
     (if \<not> Passed r then sbind (printed, renderResult r) (\<lambda>printed text. (printed @ [text @ [CHR 0x0A]], Ok ()))
      else (printed, Ok ()))"

section \<open>Allure 1\<close>

record v1Attachment =
  va_Title :: string
  va_Type :: string
  va_Size :: nat
  va_Source :: string

record TestCase =
  tc_Status :: string
  tc_Name :: string
  tc_Labels :: "(string \<times> string) list"
  tc_Attachments :: "v1Attachment list"
  tc_Desc :: string
  tc_Failure :: "string \<times> string"

definition NewTestCase :: "string \<Rightarrow> TestCase" where
  "NewTestCase name = \<lparr>tc_Status = [], tc_Name = name, tc_Labels = [], tc_Attachments = [], tc_Desc = [], tc_Failure = ([], [])\<rparr>"

definition SetDescriptionOrDefaultValue :: "string \<Rightarrow> string \<Rightarrow> TestCase \<Rightarrow> TestCase" where
  "SetDescriptionOrDefaultValue desc defVal c = c\<lparr>tc_Desc := (if desc = [] then defVal else desc)\<rparr>"

definition caseAddLabel :: "string \<Rightarrow> string \<Rightarrow> TestCase \<Rightarrow> TestCase" where
  "caseAddLabel name val c = c\<lparr>tc_Labels := tc_Labels c @ [(name, val)]\<rparr>"

text \<open>\<open>strings.Split\<close> for a non-empty separator.\<close>

function splitString :: "string \<Rightarrow> string \<Rightarrow> string list" where
  "splitString sep [] = [[]]"
| "splitString sep (c # s) =
     (if sep \<noteq> [] \<and> hasPrefix (c # s) sep then [] # splitString sep (drop (length sep) (c # s))
      else (case splitString sep s of w # ws \<Rightarrow> (c # w) # ws | [] \<Rightarrow> [[c]]))"
  by pat_completeness auto
termination
  by (relation "measure (\<lambda>(sep, s). length s)") (auto simp: neq_Nil_conv)

text \<open>The separator is the text \<open>\trace\<close> of the source: a tab, then \<open>race\<close>.\<close>

definition endCase :: "(goerror \<Rightarrow> string) \<Rightarrow> string \<Rightarrow> goerror option \<Rightarrow> TestCase \<Rightarrow> TestCase" where
  "endCase text status err c =
     (case err of
        None \<Rightarrow> c\<lparr>tc_Status := status\<rparr>
      | Some e \<Rightarrow>
          (let msg = splitString ([CHR 0x09] @ ''race'') (case e of EFmt m [] \<Rightarrow> m | _ \<Rightarrow> errText text e)
           in c\<lparr>tc_Status := status, tc_Failure := (hd msg, join [CHR 0x0A] (tl msg))\<rparr>))"

record Suite =
  su_Name :: string
  su_Cases :: "TestCase list"

record Allure1 =
  a1_Suites :: "Suite list"
  a1_TargetDir :: string
  a1_report :: reportState

record allure1Env =
  v1_uuid :: "nat \<Rightarrow> string"
  v1_writeFile :: "string \<Rightarrow> string \<Rightarrow> unit gores"
  v1_marshal :: "Suite \<Rightarrow> string gores"
  v1_errorText :: "goerror \<Rightarrow> string"

text \<open>
  The case a suite works on is the one added last; all updates go through the pointer to it.
  \<open>GetCurrentSuite\<close> takes the first suite and panics without one.
\<close>

definition updateCurrent :: "(TestCase \<Rightarrow> TestCase) \<Rightarrow> Allure1 \<Rightarrow> Allure1 gores" where
  "updateCurrent f a =
     (case a1_Suites a of
        [] \<Rightarrow> Panic ''index out of range [0] with length 0''
      | s # ss \<Rightarrow>
          (if su_Cases s = [] then Panic ''nil pointer dereference''
           else Ok (a\<lparr>a1_Suites := s\<lparr>su_Cases := butlast (su_Cases s) @ [f (last (su_Cases s))]\<rparr> # ss\<rparr>)))"

definition StartSuite :: "string \<Rightarrow> Allure1 \<Rightarrow> Allure1" where
  "StartSuite name a = a\<lparr>a1_Suites := a1_Suites a @ [\<lparr>su_Name = name, su_Cases = []\<rparr>]\<rparr>"

definition StartCase :: "string \<Rightarrow> Allure1 \<Rightarrow> Allure1 gores" where
  "StartCase testName a =
     (case a1_Suites a of
        [] \<Rightarrow> Panic ''index out of range [0] with length 0''
      | s # ss \<Rightarrow> Ok (a\<lparr>a1_Suites := s\<lparr>su_Cases := su_Cases s @ [NewTestCase testName]\<rparr> # ss\<rparr>))"

text \<open>The media type and the ending of every attachment.\<close>

definition getBufferInfo :: "string \<times> string" where
  "getBufferInfo = (''text/plain'', ''txt'')"

text \<open>Writing a file under a new random name.\<close>

definition writeRandomFile :: "allure1Env \<Rightarrow> string \<Rightarrow> string \<Rightarrow> string \<Rightarrow> reportState \<Rightarrow> reportState \<times> string \<times> unit gores" where
  "writeRandomFile E pathDir suffix content rep =
     (let fileName = v1_uuid E (rp_uuids rep) @ suffix; p = joinPath pathDir fileName;
          rep1 = rep\<lparr>rp_uuids := rp_uuids rep + 1\<rparr>; written = v1_writeFile E p content
      in (if written = Ok () then rep1\<lparr>rp_files := rp_files rep1 @ [(p, content)]\<rparr> else rep1, fileName, written))"

definition writeBuffer :: "allure1Env \<Rightarrow> string \<Rightarrow> string \<Rightarrow> string \<Rightarrow> reportState \<Rightarrow> reportState \<times> string \<times> unit gores" where
  "writeBuffer E pathDir content ext rep = writeRandomFile E pathDir (''-attachment.'' @ ext) content rep"

definition writeSuite :: "allure1Env \<Rightarrow> string \<Rightarrow> Suite \<Rightarrow> reportState \<Rightarrow> reportState \<times> unit gores" where
  "writeSuite E pathDir suite rep =
     sbind (rep, v1_marshal E suite) (\<lambda>rep b.
       (case writeRandomFile E pathDir ''-testsuite.xml'' b rep of (rep1, fileName, written) \<Rightarrow> (rep1, written)))"

text \<open>The error of writing the file is dropped.\<close>

definition v1AddAttachment :: "allure1Env \<Rightarrow> string \<Rightarrow> string \<Rightarrow> Allure1 \<Rightarrow> Allure1 gores" where
  "v1AddAttachment E title content a =
     (case getBufferInfo of (mime, ext) \<Rightarrow>
      (case writeBuffer E (a1_TargetDir a) content ext (a1_report a) of (rep, name, _) \<Rightarrow>
         updateCurrent
           (\<lambda>c. c\<lparr>tc_Attachments := tc_Attachments c @ [\<lparr>va_Title = title, va_Type = mime, va_Size = length content, va_Source = name\<rparr>]\<rparr>)
           (a\<lparr>a1_report := rep\<rparr>)))"

definition NewAllure1Output :: "string \<Rightarrow> string \<Rightarrow> Allure1" where
  "NewAllure1Output suiteName dir =
     StartSuite suiteName \<lparr>a1_Suites = [], a1_TargetDir = dir, a1_report = \<lparr>rp_uuids = 0, rp_files = []\<rparr>\<rparr>"

text \<open>Title and text of the attachments of a result, in order.\<close>

definition v1Attachments :: "Result \<Rightarrow> (string \<times> string) list" where
  "v1Attachments r =
     [(''Request'', ''Query: '' @ r_Query r @ '' '' @ [CHR 0x5C] @ ''n Body: '' @ r_RequestBody r),
      (''Response'', ''Body: '' @ ResponseBody r)]
     @ concat (map (\<lambda>(i, d).
         if dr_Query d \<noteq> []
         then [(''Db Query #'' @ itoa (int i + 1), ''SQL string: '' @ dr_Query d),
               (''Db Response #'' @ itoa (int i + 1), ''Response: ['' @ join '' '' (dr_Response d) @ '']'')]
         else []) (enumerate 0 (r_DatabaseResult r)))"

definition allure1Process :: "allure1Env \<Rightarrow> Test \<Rightarrow> Result \<Rightarrow> Allure1 \<Rightarrow> Allure1 gores" where
  "allure1Process E t r a =
     rbind (StartCase (Name t) a) (\<lambda>a.
     rbind (updateCurrent (\<lambda>c. caseAddLabel ''story'' (r_Path r)
              (SetDescriptionOrDefaultValue (Description t) ''No description'' c)) a) (\<lambda>a.
     rbind (foldM (\<lambda>a (title, content). v1AddAttachment E title content a) a (v1Attachments r)) (\<lambda>a.
       (case AllureStatus (v1_errorText E) r of
          (status, err) \<Rightarrow> updateCurrent (endCase (v1_errorText E) status err) a))))"

definition EndSuite :: "allure1Env \<Rightarrow> Allure1 \<Rightarrow> Allure1 \<times> unit gores" where
  "EndSuite E a =
     (case a1_Suites a of
        [] \<Rightarrow> (a, Panic ''index out of range [0] with length 0'')
      | s # ss \<Rightarrow>
          sbind (if su_Cases s \<noteq> []
                 then (case writeSuite E (a1_TargetDir a) s (a1_report a) of (rep, out) \<Rightarrow> (a\<lparr>a1_report := rep\<rparr>, out))
                 else (a, Ok ()))
            (\<lambda>a _. (a\<lparr>a1_Suites := ss\<rparr>, Ok ())))"

text \<open>\<open>Finalize\<close> drops the error.\<close>

definition allure1Finalize :: "allure1Env \<Rightarrow> Allure1 \<Rightarrow> Allure1" where
  "allure1Finalize E a = fst (EndSuite E a)"

section \<open>What the outputs promise\<close>

fun consoleAll :: "(Result \<Rightarrow> string gores) \<Rightarrow> Result list \<Rightarrow> consoleOutput \<Rightarrow> consoleOutput \<times> unit gores" where
  "consoleAll renderResult [] out = (out, Ok ())"
| "consoleAll renderResult (r # rs) out = sbind (consoleProcess renderResult r out) (\<lambda>out _. consoleAll renderResult rs out)"

text \<open>Without \<open>-v\<close> there is a dot for every test that passed.\<close>

lemma console_dots:
  assumes "snd (consoleAll renderResult rs out) = Ok ()" and "\<not> co_verbose out"
  shows "co_dots (fst (consoleAll renderResult rs out)) = co_dots out + int (length (filter Passed rs))"
  using assms
proof (induction rs arbitrary: out)
  case (Cons r rs)
  obtain out1 res where p: "consoleProcess renderResult r out = (out1, res)" by (cases "consoleProcess renderResult r out")
  with Cons.prems(1) have ok: "res = Ok ()" and rest: "snd (consoleAll renderResult rs out1) = Ok ()" by (cases res; simp)+
  from p ok Cons.prems(2) have "\<not> co_verbose out1 \<and> co_dots out1 = co_dots out + (if Passed r then 1 else 0)"
    by (cases "renderResult r") (auto simp: consoleProcess_def Let_def split: if_splits)
  with Cons.IH [OF rest] p ok show ?case by auto
qed simp

text \<open>In the texts of the errors nothing is lost: each is there, numbered from one.\<close>

lemma formatErrors_lists:
  "k < length errs \<Longrightarrow>
     \<exists>before after. formatErrorsFrom base i prev errs =
       before @ itoa (int i + int k + 1) @ '') '' @ errText base (errs ! k) @ [CHR 0x0A] @ after"
proof (induction errs arbitrary: i prev k)
  case (Cons e errs)
  show ?case
  proof (cases k)
    case 0
    let ?cur = "case asCheckError e of Some (cat, ident) \<Rightarrow> cat | None \<Rightarrow> []"
    have "formatErrorsFrom base i prev (e # errs) =
        (if i > 0 \<and> prev \<noteq> [] \<and> ?cur \<noteq> prev then [CHR 0x0A] else [])
        @ itoa (int i + int k + 1) @ '') '' @ errText base ((e # errs) ! k) @ [CHR 0x0A] @ formatErrorsFrom base (i + 1) ?cur errs"
      using 0 by (simp add: Let_def)
    then show ?thesis by blast
  next
    case (Suc k')
    let ?cur = "case asCheckError e of Some (cat, ident) \<Rightarrow> cat | None \<Rightarrow> []"
    from Suc Cons.prems Cons.IH [of k' "i + 1" ?cur] obtain b a where
      ba: "formatErrorsFrom base (i + 1) ?cur errs = b @ itoa (int (i + 1) + int k' + 1) @ '') '' @ errText base (errs ! k') @ [CHR 0x0A] @ a"
      by auto
    have "formatErrorsFrom base i prev (e # errs) =
        ((if i > 0 \<and> prev \<noteq> [] \<and> ?cur \<noteq> prev then [CHR 0x0A] else []) @ itoa (int i + 1) @ '') '' @ errText base e @ [CHR 0x0A] @ b)
        @ itoa (int i + int k + 1) @ '') '' @ errText base ((e # errs) ! k) @ [CHR 0x0A] @ a"
      using ba Suc by (simp add: Let_def algebra_simps)
    then show ?thesis by blast
  qed
qed simp

lemma v1AddAttachment_adds:
  assumes "a1_Suites a = [\<lparr>su_Name = n, su_Cases = cs @ [c]\<rparr>]"
  shows "\<exists>a1 x. v1AddAttachment E title content a = Ok a1 \<and> va_Title x = title \<and>
    a1_Suites a1 = [\<lparr>su_Name = n, su_Cases = cs @ [c\<lparr>tc_Attachments := tc_Attachments c @ [x]\<rparr>]\<rparr>]"
proof -
  let ?x = "\<lparr>va_Title = title, va_Type = ''text/plain'', va_Size = length content,
      va_Source = v1_uuid E (rp_uuids (a1_report a)) @ ''-attachment.txt''\<rparr>"
  show ?thesis
    using assms by (intro exI [of _ "THE a1. v1AddAttachment E title content a = Ok a1"] exI [of _ ?x])
      (simp add: v1AddAttachment_def getBufferInfo_def writeBuffer_def writeRandomFile_def updateCurrent_def Let_def)
qed

lemma v1_attachments_added:
  assumes "a1_Suites a = [\<lparr>su_Name = n, su_Cases = cs @ [c]\<rparr>]"
  shows "\<exists>a' xs. foldM (\<lambda>a (title, content). v1AddAttachment E title content a) a atts = Ok a' \<and>
    a1_Suites a' = [\<lparr>su_Name = n, su_Cases = cs @ [c\<lparr>tc_Attachments := tc_Attachments c @ xs\<rparr>]\<rparr>] \<and> map va_Title xs = map fst atts"
  using assms
proof (induction atts arbitrary: a c)
  case Nil
  then show ?case by (intro exI [of _ a] exI [of _ "[]"]) simp
next
  case (Cons at atts)
  obtain title content where at: "at = (title, content)" by (cases at)
  obtain a1 x where a1: "v1AddAttachment E title content a = Ok a1" "va_Title x = title"
    and s1: "a1_Suites a1 = [\<lparr>su_Name = n, su_Cases = cs @ [c\<lparr>tc_Attachments := tc_Attachments c @ [x]\<rparr>]\<rparr>]"
    using v1AddAttachment_adds [OF Cons.prems, of E title content] by blast
  from Cons.IH [OF s1] obtain a' xs where "foldM (\<lambda>a (title, content). v1AddAttachment E title content a) a1 atts = Ok a'"
    "a1_Suites a' = [\<lparr>su_Name = n, su_Cases = cs @ [c\<lparr>tc_Attachments := tc_Attachments c @ x # xs\<rparr>]\<rparr>]" "map va_Title xs = map fst atts"
    by auto
  with a1 at show ?case by (intro exI [of _ a'] exI [of _ "x # xs"]) simp
qed

lemma allure1Process_adds:
  assumes "a1_Suites a = [\<lparr>su_Name = n, su_Cases = cs\<rparr>]"
  shows "\<exists>a' c. allure1Process E t r a = Ok a' \<and> a1_Suites a' = [\<lparr>su_Name = n, su_Cases = cs @ [c]\<rparr>] \<and>
    tc_Name c = Name t \<and> tc_Status c = fst (AllureStatus (v1_errorText E) r) \<and> map va_Title (tc_Attachments c) = map fst (v1Attachments r)"
proof -
  let ?c = "caseAddLabel ''story'' (r_Path r) (SetDescriptionOrDefaultValue (Description t) ''No description'' (NewTestCase (Name t)))"
  obtain a1 where s: "StartCase (Name t) a = Ok a1" "a1_Suites a1 = [\<lparr>su_Name = n, su_Cases = cs @ [NewTestCase (Name t)]\<rparr>]"
    using assms by (auto simp: StartCase_def)
  then obtain a2 where u: "updateCurrent (\<lambda>c. caseAddLabel ''story'' (r_Path r)
      (SetDescriptionOrDefaultValue (Description t) ''No description'' c)) a1 = Ok a2" "a1_Suites a2 = [\<lparr>su_Name = n, su_Cases = cs @ [?c]\<rparr>]"
    by (auto simp: updateCurrent_def)
  obtain status err where st: "AllureStatus (v1_errorText E) r = (status, err)" by (cases "AllureStatus (v1_errorText E) r")
  from v1_attachments_added [OF u(2), of E "v1Attachments r"] obtain a3 xs where
    f: "foldM (\<lambda>a (title, content). v1AddAttachment E title content a) a2 (v1Attachments r) = Ok a3"
    "a1_Suites a3 = [\<lparr>su_Name = n, su_Cases = cs @ [?c\<lparr>tc_Attachments := tc_Attachments ?c @ xs\<rparr>]\<rparr>]" "map va_Title xs = map fst (v1Attachments r)"
    by blast
  have "tc_Attachments ?c = []" "tc_Name ?c = Name t"
    by (simp_all add: caseAddLabel_def SetDescriptionOrDefaultValue_def NewTestCase_def)
  with s u f st show ?thesis by (auto simp: allure1Process_def updateCurrent_def endCase_def Let_def split: option.split)
qed

lemma v1_suite_cases:
  assumes "a1_Suites a = [\<lparr>su_Name = n, su_Cases = cs\<rparr>]"
  shows "\<exists>a' new. foldM (\<lambda>a (t, r). allure1Process E t r a) a trs = Ok a' \<and> a1_Suites a' = [\<lparr>su_Name = n, su_Cases = cs @ new\<rparr>] \<and>
    list_all2 (\<lambda>c (t, r). tc_Name c = Name t \<and> tc_Status c = fst (AllureStatus (v1_errorText E) r) \<and>
      map va_Title (tc_Attachments c) = map fst (v1Attachments r)) new trs"
  using assms
proof (induction trs arbitrary: a cs)
  case (Cons tr trs)
  obtain t r where tr: "tr = (t, r)" by (cases tr)
  from allure1Process_adds [OF Cons.prems, of E t r] obtain a1 c where c: "allure1Process E t r a = Ok a1"
    "a1_Suites a1 = [\<lparr>su_Name = n, su_Cases = cs @ [c]\<rparr>]" "tc_Name c = Name t" "tc_Status c = fst (AllureStatus (v1_errorText E) r)"
    "map va_Title (tc_Attachments c) = map fst (v1Attachments r)" by blast
  from Cons.IH [OF c(2)] obtain a' new where "foldM (\<lambda>a (t, r). allure1Process E t r a) a1 trs = Ok a'"
    "a1_Suites a' = [\<lparr>su_Name = n, su_Cases = cs @ c # new\<rparr>]"
    "list_all2 (\<lambda>c (t, r). tc_Name c = Name t \<and> tc_Status c = fst (AllureStatus (v1_errorText E) r) \<and>
      map va_Title (tc_Attachments c) = map fst (v1Attachments r)) new trs" by auto
  with c tr show ?case by (intro exI [of _ a'] exI [of _ "c # new"]) simp
qed simp

text \<open>
  The Allure 1 report of a run never fails while tests are processed, and its suite has one
  case for each test, in their order, with the name of the test, the status that follows from the
  errors of its result, and an attachment for the request, the response and every database query.
\<close>

theorem allure1_report:
  "\<exists>a s. foldM (\<lambda>a (t, r). allure1Process E t r a) (NewAllure1Output name dir) trs = Ok a \<and> a1_Suites a = [s] \<and> su_Name s = name \<and>
     list_all2 (\<lambda>c (t, r). tc_Name c = Name t \<and> tc_Status c = fst (AllureStatus (v1_errorText E) r) \<and>
       map va_Title (tc_Attachments c) = map fst (v1Attachments r)) (su_Cases s) trs"
proof -
  have "a1_Suites (NewAllure1Output name dir) = [\<lparr>su_Name = name, su_Cases = []\<rparr>]" by (simp add: NewAllure1Output_def StartSuite_def)
  from v1_suite_cases [OF this, of E trs] show ?thesis by fastforce
qed

text \<open>
  The line that ends a run on the console adds up: the number of successes it prints is the
  number of tests that were executed and passed.
\<close>

theorem summary_line_success:
  assumes "snd (Run cfg (Ok tests) st NewConsoleHandler) = Ok h"
  shows "successCount (summary h) = countOf isPassing (runTrace cfg (map (focusStatus (checkHasFocused tests)) tests) st)"
proof -
  let ?outs = "runTrace cfg (map (focusStatus (checkHasFocused tests)) tests) st"
  have "snd (runLoop cfg (map (focusStatus (checkHasFocused tests)) tests) st NewConsoleHandler) = Ok h" using assms by (simp add: Run_def)
  from runLoop_counts [OF this] have c: "totalTests h = int (length ?outs)" "skippedTests h = countOf isSkipped ?outs"
    "brokenTests h = countOf isBroken ?outs" "failedTests h = countOf isFailing ?outs"
    "list_all (\<lambda>out. isSkipped out \<or> isBroken out \<or> isPassing out \<or> isFailing out) ?outs" by (simp_all add: NewConsoleHandler_def)
  have "int (length outs) = countOf isSkipped outs + countOf isBroken outs + countOf isPassing outs + countOf isFailing outs"
    if "list_all (\<lambda>out. isSkipped out \<or> isBroken out \<or> isPassing out \<or> isFailing out) outs" for outs
    using that
  proof (induction outs)
    case (Cons out outs)
    then show ?case by (cases out) auto
  qed simp
  from this [OF c(5)] c show ?thesis by (simp add: successCount_def summary_def)
qed

theorem summary_line_success_witness:
  "\<exists>h. snd (Run (exampleConfig (Ok (exampleResult ''bad''))) (Ok [exampleTest ''skipped'', exampleTest []]) exampleState NewConsoleHandler) = Ok h
     \<and> successCount (summary h) = 0"
proof -
  let ?cfg = "exampleConfig (Ok (exampleResult ''bad''))"
  let ?ts = "[exampleTest ''skipped'', exampleTest []]"
  have h: "snd (Run ?cfg (Ok ?ts) exampleState NewConsoleHandler)
      = Ok \<lparr>totalTests = 2, failedTests = 1, skippedTests = 1, brokenTests = 0\<rparr>" by code_simp
  have z: "countOf isPassing (runTrace ?cfg (map (focusStatus (checkHasFocused ?ts)) ?ts) exampleState) = 0" by code_simp
  from summary_line_success [OF h] h z show ?thesis by simp
qed

end
