(* ===== verification/ResultText.thy ===== *)
theory ResultText
  imports Outputs
begin

text \<open>
  The text of a result: the templates of \<open>renderResult\<close> in
  \<open>output/console_colored/console_colored.go\<close> and \<open>output/testing/testing.go\<close>, written out with the
  white space that \<open>text/template\<close> trims at \<open>{{-\<close> and with maps in the order of their keys. Both
  templates are the same up to the colours, which are a parameter, and the list of errors. The test
  is the one the transport stored in the result.
\<close>

section \<open>Parts of the text\<close>

abbreviation newline :: string where "newline \<equiv> [CHR 0x0A]"

record palette =
  pl_green :: "string \<Rightarrow> string"
  pl_cyan :: "string \<Rightarrow> string"
  pl_yellow :: "string \<Rightarrow> string"
  pl_danger :: "string \<Rightarrow> string"
  pl_success :: "string \<Rightarrow> string"

definition noColours :: palette where
  "noColours = \<lparr>pl_green = id, pl_cyan = id, pl_yellow = id, pl_danger = id, pl_success = id\<rparr>"

definition orElse :: "string \<Rightarrow> string \<Rightarrow> string" where
  "orElse s alternative = (if s \<noteq> [] then s else alternative)"

definition mapText :: "string \<Rightarrow> (string, string) gomap \<Rightarrow> string" where
  "mapText title kvs =
     (if kvs = [] then []
      else newline @ ''    '' @ title @ '':'' @ concat (map (\<lambda>(k, v). newline @ ''      '' @ k @ '': '' @ v) (sort_key fst kvs)))"

definition requestText :: "palette \<Rightarrow> Test \<Rightarrow> Result \<Rightarrow> string" where
  "requestText pl t r =
     newline @ ''       Name: '' @ pl_green pl (Name t)
     @ newline @ ''       Description:'' @ pl_green pl (orElse (Description t) '' No description'')
     @ newline @ ''       File: '' @ pl_green pl (Filename t)
     @ newline @ newline @ ''Request:''
     @ newline @ ''     Method: '' @ pl_cyan pl (Method' t)
     @ newline @ ''       Path: '' @ pl_cyan pl (RequestURL t)
     @ newline @ ''      Query: '' @ pl_cyan pl (QueryParams t)
     @ mapText ''Headers'' (HeadersVal t) @ mapText ''Cookies'' (CookiesVal t)
     @ newline @ ''       Body:'' @ newline @ pl_cyan pl (orElse (r_RequestBody r) ''<no body>'')"

definition responseText :: "palette \<Rightarrow> Result \<Rightarrow> string" where
  "responseText pl r =
     newline @ newline @ ''Response:''
     @ newline @ ''     Status: '' @ pl_cyan pl (r_ResponseStatus r)
     @ newline @ ''       Body:'' @ newline @ pl_yellow pl (orElse (ResponseBody r) ''<no body>'')"

definition databaseText :: "palette \<Rightarrow> nat \<Rightarrow> DatabaseResult \<Rightarrow> string" where
  "databaseText pl i d =
     newline
     @ (if dr_Query d = [] then []
        else newline @ ''       Db Request #'' @ itoa (int i + 1) @ '':'' @ newline @ pl_cyan pl (dr_Query d)
             @ newline @ ''       Db Response #'' @ itoa (int i + 1) @ '':'' @ newline
             @ concat (map (\<lambda>v. newline @ pl_yellow pl v) (dr_Response d)) @ newline)
     @ newline"

definition resultText :: "palette \<Rightarrow> (goerror list \<Rightarrow> string) \<Rightarrow> Test \<Rightarrow> Result \<Rightarrow> string" where
  "resultText pl errorsText t r =
     requestText pl t r @ responseText pl r @ newline @ newline
     @ concat (map (\<lambda>(i, d). databaseText pl i d) (enumerate 0 (r_DatabaseResult r)))
     @ newline @ newline
     @ (if Errors r \<noteq> []
        then newline @ ''     Result: '' @ pl_danger pl ''ERRORS!'' @ newline @ newline @ ''Errors:'' @ newline @ errorsText (Errors r) @ newline
        else newline @ ''     Result: '' @ pl_success pl ''OK'' @ newline)
     @ newline"

section \<open>The two outputs\<close>

definition consoleRender :: "palette \<Rightarrow> (goerror \<Rightarrow> string) \<Rightarrow> Test \<Rightarrow> Result \<Rightarrow> string gores" where
  "consoleRender pl base t r = Ok (resultText pl (formatErrorsWithCategories base) t r)"

text \<open>The list of errors in the template of \<open>testing.go\<close>.\<close>

definition numberedErrors :: "(goerror \<Rightarrow> string) \<Rightarrow> goerror list \<Rightarrow> string" where
  "numberedErrors base errs =
     concat (map (\<lambda>(i, e). newline @ itoa (int i + 1) @ '') '' @ errText base e @ newline) (enumerate 0 errs))"

definition testingRender :: "(goerror \<Rightarrow> string) \<Rightarrow> Test \<Rightarrow> Result \<Rightarrow> string gores" where
  "testingRender base t r = Ok (resultText noColours (numberedErrors base) t r)"

section \<open>Every error is in the text\<close>

definition showsErrors :: "(goerror \<Rightarrow> string) \<Rightarrow> goerror list \<Rightarrow> string \<Rightarrow> bool" where
  "showsErrors base errs text \<longleftrightarrow>
     (\<forall>k < length errs. \<exists>before after.
        text = before @ itoa (int k + 1) @ '') '' @ errText base (errs ! k) @ newline @ after)"

lemma showsErrors_context:
  assumes "showsErrors base errs text"
  shows "showsErrors base errs (a @ text @ b)"
  unfolding showsErrors_def
proof (intro allI impI)
  fix k
  assume "k < length errs"
  with assms obtain x y where "text = x @ itoa (int k + 1) @ '') '' @ errText base (errs ! k) @ newline @ y"
    unfolding showsErrors_def by blast
  then have "a @ text @ b = (a @ x) @ itoa (int k + 1) @ '') '' @ errText base (errs ! k) @ newline @ (y @ b)" by simp
  then show "\<exists>before after. a @ text @ b = before @ itoa (int k + 1) @ '') '' @ errText base (errs ! k) @ newline @ after" by blast
qed

lemma formatErrors_shows: "showsErrors base errs (formatErrorsWithCategories base errs)"
  unfolding showsErrors_def formatErrorsWithCategories_def
  using formatErrors_lists [where i = 0 and prev = "[]"] by fastforce

lemma numberedErrors_shows: "showsErrors base errs (numberedErrors base errs)"
  unfolding showsErrors_def
proof (intro allI impI)
  fix k
  assume k: "k < length errs"
  let ?f = "\<lambda>(i, e). newline @ itoa (int i + 1) @ '') '' @ errText base e @ newline"
  have "enumerate 0 errs = take k (enumerate 0 errs) @ (k, errs ! k) # drop (Suc k) (enumerate 0 errs)"
    using k id_take_nth_drop [of k "enumerate 0 errs"] by (simp add: nth_enumerate_eq)
  then have "concat (map ?f (enumerate 0 errs)) =
      concat (map ?f (take k (enumerate 0 errs) @ (k, errs ! k) # drop (Suc k) (enumerate 0 errs)))" by (rule arg_cong)
  then have "numberedErrors base errs = (concat (map ?f (take k (enumerate 0 errs))) @ newline) @ itoa (int k + 1) @ '') '' @
      errText base (errs ! k) @ newline @ concat (map ?f (drop (Suc k) (enumerate 0 errs)))"
    unfolding numberedErrors_def by (simp only: map_append list.map concat_append concat.simps prod.case append.assoc)
  then show "\<exists>before after. numberedErrors base errs = before @ itoa (int k + 1) @ '') '' @ errText base (errs ! k) @ newline @ after"
    by blast
qed

lemma resultText_shows:
  assumes "Errors r \<noteq> []" and "showsErrors base (Errors r) (errorsText (Errors r))"
  shows "showsErrors base (Errors r) (resultText pl errorsText t r)"
proof -
  have "\<exists>a b. resultText pl errorsText t r = a @ errorsText (Errors r) @ b"
    unfolding resultText_def using assms(1) by (simp del: append_assoc append.simps) (metis append.assoc)
  with assms(2) show ?thesis using showsErrors_context by metis
qed

section \<open>Properties\<close>

text \<open>
  A failed test explains itself: the console and the output of Go tests print one text for it,
  and the text has every error of the result, with its number, in full. The numbers count from one
  in the order of the errors.
\<close>

theorem failed_result_printed:
  assumes "\<not> Passed r"
  shows "(\<exists>text. co_printed (fst (consoleProcess (consoleRender pl base t) r out)) = co_printed out @ [text]
      \<and> showsErrors base (Errors r) text)
    \<and> (\<exists>text. fst (testingProcess (testingRender base t) r printed) = printed @ [text] \<and> showsErrors base (Errors r) text)"
proof (rule conjI)
  have e: "Errors r \<noteq> []" using assms by (simp add: Passed_def)
  show "\<exists>text. co_printed (fst (consoleProcess (consoleRender pl base t) r out)) = co_printed out @ [text]
      \<and> showsErrors base (Errors r) text"
    using assms resultText_shows [OF e, where errorsText = "formatErrorsWithCategories base", OF formatErrors_shows] by (simp add: consoleProcess_def consoleRender_def)
  show "\<exists>text. fst (testingProcess (testingRender base t) r printed) = printed @ [text] \<and> showsErrors base (Errors r) text"
    using assms showsErrors_context [OF resultText_shows [OF e, where errorsText = "numberedErrors base", OF numberedErrors_shows], where a = "[]" and b = newline]
    by (simp add: testingProcess_def testingRender_def)
qed

theorem failed_result_printed_witness:
  "\<exists>text. co_printed (fst (consoleProcess (consoleRender noColours (\<lambda>_. []) (exampleTest []))
      ((exampleResult ''x'')\<lparr>Errors := [NewBodyError ''no'']\<rparr>) (NewConsoleOutput False))) = [text]
    \<and> showsErrors (\<lambda>_. []) [NewBodyError ''no''] text"
  using failed_result_printed [of "(exampleResult ''x'')\<lparr>Errors := [NewBodyError ''no'']\<rparr>" noColours "\<lambda>_. []" "exampleTest []" "NewConsoleOutput False"]
  by (simp add: Passed_def NewConsoleOutput_def)

end
