(* ===== verification/CmdRunner.thy ===== *)
theory CmdRunner
  imports Values
begin

text \<open>
  Model of \<open>cmd_runner/\<close>: running the script of a test with a limit on its time, on Unix
  (\<open>cmd_runner.go\<close>) and on Windows (\<open>cmd_runner_windows.go\<close>).

  The process is a parameter: whether it can be started, and what the channel of its end delivers
  before a timer of \<open>n\<close> nanoseconds fires (\<open>pr_done n\<close>; \<open>None\<close> when the timer is first). The lines that
  are printed are part of the result; they are those up to the end of the script's output, which is
  taken to be closed once the script has ended or was killed: a script that ignores the signal and
  keeps its output open keeps the runner waiting.
\<close>

section \<open>Running a script\<close>

record process =
  pr_pipe :: "unit gores"
  pr_start :: "unit gores"
  pr_done :: "int \<Rightarrow> goerror option option"
  pr_getpgid :: "unit gores"
  pr_kill :: "unit gores"
  pr_stdout :: "string list"

text \<open>The command that is executed, and the limit in seconds.\<close>

definition scriptCommand :: "string \<Rightarrow> string" where
  "scriptCommand scriptPath = trimRight (CHR 0x0A) scriptPath"

definition scriptTimeout :: "int \<Rightarrow> int" where
  "scriptTimeout timeout = (if timeout \<le> 0 then 3 else timeout)"

text \<open>\<open>time.Duration(timeout) * time.Second\<close>, a product of 64-bit integers that wraps around.\<close>

definition timerNanos :: "int \<Rightarrow> int" where
  "timerNanos timeout = sint (word_of_int timeout * 1000000000 :: 64 word)"

definition waitProcess :: "(process \<Rightarrow> unit gores) \<Rightarrow> int \<Rightarrow> process \<Rightarrow> string list gores" where
  "waitProcess stop timeout p =
     rbind (case pr_done p (timerNanos timeout) of
              None \<Rightarrow> rbind (stop p) (\<lambda>_. Ok [''Process killed as timeout('' @ itoa timeout @ '') reached''])
            | Some (Some e) \<Rightarrow> Err (EFmt ''process finished with error = %v'' [ShErr e])
            | Some None \<Rightarrow> Ok [''Process finished successfully''])
       (\<lambda>log. Ok (log @ pr_stdout p))"

definition runProcess :: "(process \<Rightarrow> unit gores) \<Rightarrow> (string \<Rightarrow> process) \<Rightarrow> string \<Rightarrow> int \<Rightarrow> string list gores" where
  "runProcess stop exec scriptPath timeout =
     (let p = exec (scriptCommand scriptPath)
      in rbind (pr_pipe p) (\<lambda>_. rbind (pr_start p) (\<lambda>_. waitProcess stop (scriptTimeout timeout) p)))"

definition killGroup :: "process \<Rightarrow> unit gores" where
  "killGroup p = rbind (pr_getpgid p) (\<lambda>_. pr_kill p)"

definition CmdRun :: "(string \<Rightarrow> process) \<Rightarrow> string \<Rightarrow> int \<Rightarrow> string list gores" where
  "CmdRun exec scriptPath timeout = runProcess killGroup exec scriptPath timeout"

definition CmdRunWindows :: "(string \<Rightarrow> process) \<Rightarrow> string \<Rightarrow> int \<Rightarrow> string list gores" where
  "CmdRunWindows exec scriptPath timeout = runProcess pr_kill exec scriptPath timeout"

text \<open>The script step of the runner, which only sees the error.\<close>

definition cmdRunStep :: "(string \<Rightarrow> process) \<Rightarrow> string \<Rightarrow> int \<Rightarrow> unit gores" where
  "cmdRunStep exec scriptPath timeout = rbind (CmdRun exec scriptPath timeout) (\<lambda>_. Ok ())"

section \<open>When a script step succeeds\<close>

lemma scriptTimeout_positive: "0 < scriptTimeout timeout"
  by (simp add: scriptTimeout_def)

text \<open>For a limit of up to 292 years nothing wraps around.\<close>

lemma timerNanos_exact: "0 \<le> n \<Longrightarrow> n \<le> 9223372036 \<Longrightarrow> timerNanos n = n * 1000000000"
proof -
  assume n: "0 \<le> n" "n \<le> 9223372036"
  have "word_of_int n * (1000000000 :: 64 word) = word_of_int (n * 1000000000)" by simp
  then have "timerNanos n = signed_take_bit 63 (n * 1000000000)" unfolding timerNanos_def by (simp only: sint_sbintrunc') simp
  with n show ?thesis by (simp add: signed_take_bit_int_eq_self)
qed

lemma runProcess_Ok_iff:
  "(\<exists>log. runProcess stop exec scriptPath timeout = Ok log) \<longleftrightarrow>
     pr_pipe (exec (scriptCommand scriptPath)) = Ok () \<and> pr_start (exec (scriptCommand scriptPath)) = Ok () \<and>
     (case pr_done (exec (scriptCommand scriptPath)) (timerNanos (scriptTimeout timeout)) of
        None \<Rightarrow> stop (exec (scriptCommand scriptPath)) = Ok ()
      | Some e \<Rightarrow> e = None)"
  by (auto simp: runProcess_def waitProcess_def Let_def rbind_eq_Ok split: option.splits)

text \<open>
  C24. A script step succeeds exactly when the script could be started and either ended without an
  error within its time, or did not end in time and its process group could be killed: a script
  that is stopped because of its timeout does not fail the test. The time is three seconds unless
  the test gives a positive number of seconds, counted in nanoseconds in a 64-bit integer.
\<close>

theorem script_step_outcome:
  "cmdRunStep exec scriptPath timeout = Ok () \<longleftrightarrow>
     (let p = exec (trimRight (CHR 0x0A) scriptPath); seconds = (if 0 < timeout then timeout else 3);
          limit = sint (word_of_int seconds * 1000000000 :: 64 word)
      in pr_pipe p = Ok () \<and> pr_start p = Ok () \<and>
         (pr_done p limit = Some None \<or> pr_done p limit = None \<and> pr_getpgid p = Ok () \<and> pr_kill p = Ok ()))"
proof -
  have "cmdRunStep exec scriptPath timeout = Ok () \<longleftrightarrow> (\<exists>log. runProcess killGroup exec scriptPath timeout = Ok log)"
    by (auto simp: cmdRunStep_def CmdRun_def rbind_eq_Ok)
  then show ?thesis
    unfolding runProcess_Ok_iff
    by (auto simp: Let_def scriptCommand_def scriptTimeout_def timerNanos_def killGroup_def rbind_eq_Ok split: option.splits)
qed

end
