(* ===== verification/Command.thy ===== *)
theory Command
  imports EntryPointsSpec ResultText CmdRunner
begin

text \<open>
  The three programs as wholes: \<open>main\<close> (\<open>main.go\<close>), \<open>RunWithTesting\<close> (\<open>runner/runner_testing.go\<close>) and
  \<open>RunWithMultiDb\<close> (\<open>runner/runner_multidb.go\<close>): reading the settings, publishing the addresses of
  the mocks, wiring loaders, checkers and outputs into a runner, and the run.

  What surrounds the program is a record: the environment file, the parsers of URLs, the
  connections, the files of the tests, processes, and the transport as a function of the host, the
  gRPC host and the proxy. Environment variables are a map. \<open>log.Fatal\<close> and \<open>t.Fatal\<close> are errors.
\<close>

section \<open>Surroundings\<close>

type_synonym environment = "(string, string) gomap"

definition getEnv :: "environment \<Rightarrow> string \<Rightarrow> string" where
  "getEnv env name = (case map_of env name of Some v \<Rightarrow> v | None \<Rightarrow> [])"

type_synonym outputFun = "Test \<Rightarrow> Result \<Rightarrow> unit gores"

record 'u world =
  wo_libs :: libs
  wo_f2i :: "float64 \<Rightarrow> int"
  wo_realloc :: bool
  wo_exec :: "string \<Rightarrow> process"
  wo_dotenv :: "string \<Rightarrow> environment \<Rightarrow> environment gores"
  wo_parseURL :: "string \<Rightarrow> 'u gores"
  wo_parseRedisURL :: "string \<Rightarrow> string gores"
  wo_toUpper :: "string \<Rightarrow> string"
  wo_sqlOpen :: "string \<Rightarrow> string \<Rightarrow> database gores"
  wo_aerospike :: "string \<Rightarrow> int \<Rightarrow> string \<Rightarrow> unit gores"
  wo_load :: "mainLoader \<Rightarrow> string list \<Rightarrow> unit gores"
  wo_loader :: loaderEnv
  wo_files :: "string \<Rightarrow> fsnode gores"
  wo_transport :: "string \<Rightarrow> string \<Rightarrow> 'u option \<Rightarrow> Test \<Rightarrow> traffic list \<times> Result gores"
  wo_report :: "reportKind \<Rightarrow> outputFun list"

text \<open>\<open>New\<close> of \<open>runner.go\<close>: what the runner starts with.\<close>

definition newRunState :: "Mocks option \<Rightarrow> GrpcMocks option \<Rightarrow> runState" where
  "newRunState ms g = \<lparr>rs_vars = [], rs_mocks = ms, rs_grpc = g, rs_transports = []\<rparr>"

definition newConfig :: "'u world \<Rightarrow> environment \<Rightarrow> string \<Rightarrow> string \<Rightarrow> 'u option \<Rightarrow> config" where
  "newConfig W env host grpcHost proxy =
     \<lparr>cf_libs = wo_libs W, cf_getenv = getEnv env, cf_f2i = wo_f2i W, cf_realloc = wo_realloc W, cf_fixtures = None,
      cf_fixturesMultiDb = None, cf_mocksLoader = False, cf_grpcLoader = False, cf_cmdRun = cmdRunStep (wo_exec W),
      cf_execute = wo_transport W host grpcHost proxy, cf_checkers = [], cf_outputs = []\<rparr>"

definition AddCheckers :: "checkFun list \<Rightarrow> config \<Rightarrow> config" where
  "AddCheckers c cfg = cfg\<lparr>cf_checkers := cf_checkers cfg @ c\<rparr>"

definition AddOutput :: "outputFun list \<Rightarrow> config \<Rightarrow> config" where
  "AddOutput o' cfg = cfg\<lparr>cf_outputs := cf_outputs cfg @ o'\<rparr>"

section \<open>The command\<close>

text \<open>The environment file: an error is only logged.\<close>

definition loadEnvFile :: "'u world \<Rightarrow> mainConfig \<Rightarrow> environment \<Rightarrow> environment" where
  "loadEnvFile W mc env =
     (if mc_EnvFile mc \<noteq> [] then (case wo_dotenv W (mc_EnvFile mc) env of Ok env1 \<Rightarrow> env1 | _ \<Rightarrow> env) else env)"

definition initRunner :: "'u world \<Rightarrow> environment \<Rightarrow> mainConfig \<Rightarrow> mainLoader option \<Rightarrow> 'u option \<Rightarrow> config" where
  "initRunner W env mc loader proxy = (newConfig W env (mc_Host mc) [] proxy)\<lparr>cf_fixtures := map_option (wo_load W) loader\<rparr>"

text \<open>Everything that \<open>main\<close> prepares: the configuration of the runner and the loaded tests.\<close>

definition prepareMain :: "'u world \<Rightarrow> (mainConfig \<Rightarrow> mainConfig) \<Rightarrow> environment \<Rightarrow> (config \<times> Test list gores) gores" where
  "prepareMain W parseFlags env =
     rbind (validateConfig (getConfig (getEnv env) parseFlags)) (\<lambda>mc.
     let env1 = loadEnvFile W mc env
     in rbind (initStorages (wo_sqlOpen W) (wo_aerospike W) mc) (\<lambda>sts.
        rbind (initLoaders (wo_parseRedisURL W) sts mc) (\<lambda>loader.
        rbind (proxyURLFromEnv (getEnv env1) (wo_parseURL W)) (\<lambda>proxy.
        rbind (mainReport mc) (\<lambda>report.
          Ok (AddOutput (wo_report W report)
               (AddCheckers (mainCheckers (wo_libs W) (st_db sts))
               (AddOutput [\<lambda>t r. snd (consoleProcess (consoleRender noColours (errorText (wo_libs W)) t) r (NewConsoleOutput (mc_Verbose mc)))]
                 (initRunner W env1 mc loader proxy))),
              loadTests (wo_loader W) [] (mc_TestsLocation mc) (wo_files W (mc_TestsLocation mc))))))))"

definition runMain :: "'u world \<Rightarrow> (mainConfig \<Rightarrow> mainConfig) \<Rightarrow> environment \<Rightarrow> ConsoleHandler gores" where
  "runMain W parseFlags env =
     rbind (prepareMain W parseFlags env) (\<lambda>(cfg, load). snd (Run cfg load (newRunState None None) NewConsoleHandler))"

text \<open>The exit status, and the last line that is printed.\<close>

definition mainProgram :: "'u world \<Rightarrow> (mainConfig \<Rightarrow> mainConfig) \<Rightarrow> environment \<Rightarrow> nat \<times> string option" where
  "mainProgram W parseFlags env =
     (let out = runMain W parseFlags env
      in (exitCode out, case out of Ok h \<Rightarrow> Some (ShowSummary (summary h)) | _ \<Rightarrow> None))"

section \<open>Go tests\<close>

record 'l testParams =
  tp_Server :: "string option"
  tp_GrpcHost :: string
  tp_TestsDir :: string
  tp_Mocks :: "Mocks option"
  tp_GrpcMocks :: "GrpcMocks option"
  tp_FixturesDir :: string
  tp_DB :: "database option"
  tp_hasAerospike :: bool
  tp_DbType :: DbType
  tp_EnvFilePath :: string
  tp_OutputFunc :: "outputFun option"
  tp_Checkers :: "checkFun list"
  tp_FixtureLoader :: "'l option"
  tp_AllurePackage :: string
  tp_AllureTestClass :: string

definition testingOutput :: "libs \<Rightarrow> outputFun" where
  "testingOutput L = (\<lambda>t r. snd (testingProcess (testingRender (errorText L) t) r []))"

text \<open>The addresses of the mocks, then the environment file, whose error ends the test.\<close>

definition publishMocks :: "'u world \<Rightarrow> Mocks option \<Rightarrow> GrpcMocks option \<Rightarrow> string \<Rightarrow> environment \<Rightarrow> environment gores" where
  "publishMocks W ms g envFile env =
     rbind (case ms of None \<Rightarrow> Ok env | Some ms \<Rightarrow> registerMocksEnvironment (wo_toUpper W) ms env) (\<lambda>env1.
     let env2 = (case g of None \<Rightarrow> env1 | Some g \<Rightarrow> registerGrpcMocksEnvironment (wo_toUpper W) g env1)
     in if envFile \<noteq> [] then wo_dotenv W envFile env2 else Ok env2)"

definition testFixtures :: "'l testParams \<Rightarrow> 'l fixtureLoader option gores" where
  "testFixtures p =
     (if tp_DB p \<noteq> None \<or> tp_hasAerospike p \<or> tp_FixtureLoader p \<noteq> None
      then rbind (NewLoader \<lparr>fc_DbType = tp_DbType p, fc_Location = tp_FixturesDir p, fc_FixtureLoader = tp_FixtureLoader p\<rparr>) (\<lambda>l. Ok (Some l))
      else Ok None)"

definition initTestRunner ::
  "'u world \<Rightarrow> ('l fixtureLoader \<Rightarrow> string list \<Rightarrow> unit gores) \<Rightarrow> 'l testParams \<Rightarrow> environment \<Rightarrow> 'l fixtureLoader option \<Rightarrow> 'u option \<Rightarrow> config" where
  "initTestRunner W loadWith p env loader proxy =
     (newConfig W env (case tp_Server p of None \<Rightarrow> [] | Some url \<Rightarrow> url) (tp_GrpcHost p) proxy)
       \<lparr>cf_mocksLoader := tp_Mocks p \<noteq> None, cf_grpcLoader := tp_GrpcMocks p \<noteq> None, cf_fixtures := map_option loadWith loader\<rparr>"

definition prepareTesting ::
  "'u world \<Rightarrow> ('l fixtureLoader \<Rightarrow> string list \<Rightarrow> unit gores) \<Rightarrow> 'l testParams \<Rightarrow> environment \<Rightarrow> (config \<times> environment) gores" where
  "prepareTesting W loadWith p env =
     rbind (publishMocks W (tp_Mocks p) (tp_GrpcMocks p) (tp_EnvFilePath p) env) (\<lambda>env1.
     rbind (testFixtures p) (\<lambda>loader.
     rbind (proxyURLFromEnv (getEnv env1) (wo_parseURL W)) (\<lambda>proxy.
     rbind (testReport (getEnv env1) (tp_AllurePackage p) (tp_AllureTestClass p)) (\<lambda>report.
       Ok (AddCheckers (testCheckers (wo_libs W) (tp_DB p) (tp_Checkers p))
            (AddOutput (wo_report W report)
            (AddOutput [case tp_OutputFunc p of Some o' \<Rightarrow> o' | None \<Rightarrow> testingOutput (wo_libs W)]
              (initTestRunner W loadWith p env1 loader proxy))),
           env1)))))"

definition RunWithTesting ::
  "'u world \<Rightarrow> ('l fixtureLoader \<Rightarrow> string list \<Rightarrow> unit gores) \<Rightarrow> 'l testParams \<Rightarrow> environment \<Rightarrow> runState \<times> verdict list gores" where
  "RunWithTesting W loadWith p env =
     (let st = newRunState (tp_Mocks p) (tp_GrpcMocks p)
      in sbind (st, prepareTesting W loadWith p env) (\<lambda>st (cfg, env1).
           RunWith testingHandle cfg
             (loadTests (wo_loader W) (getEnv env1 ''GONKEY_FILE_FILTER'') (tp_TestsDir p) (wo_files W (tp_TestsDir p))) st []))"

section \<open>Go tests with several databases\<close>

record multiParams =
  mp_Server :: "string option"
  mp_TestsDir :: string
  mp_Mocks :: "Mocks option"
  mp_FixturesDir :: string
  mp_DbMap :: "(string, database \<times> DbType) gomap"
  mp_EnvFilePath :: string
  mp_OutputFunc :: "outputFun option"
  mp_Checkers :: "checkFun list"
  mp_FixtureLoader :: "(Fixture list \<Rightarrow> unit gores) option"

definition multiFixtures ::
  "((string, unit fixtureLoader) gomap \<Rightarrow> Fixture list \<Rightarrow> unit gores) \<Rightarrow> multiParams \<Rightarrow> (Fixture list \<Rightarrow> unit gores) gores" where
  "multiFixtures loadWith p =
     (case mp_FixtureLoader p of
        Some l \<Rightarrow> Ok l
      | None \<Rightarrow> rbind (multiDbLoaders (mp_FixturesDir p) (map (\<lambda>(n, c). (n, snd c)) (mp_DbMap p))) (\<lambda>loaders. Ok (loadWith loaders)))"

text \<open>The report is always in the first format.\<close>

definition multiReport :: "environment \<Rightarrow> reportKind" where
  "multiReport env = (if getEnv env ''GONKEY_ALLURE_DIR'' \<noteq> [] then ReportV1 (getEnv env ''GONKEY_ALLURE_DIR'') else NoReport)"

definition prepareMultiDb ::
  "'u world \<Rightarrow> ((string, unit fixtureLoader) gomap \<Rightarrow> Fixture list \<Rightarrow> unit gores) \<Rightarrow> multiParams \<Rightarrow> environment \<Rightarrow> (config \<times> environment) gores" where
  "prepareMultiDb W loadWith p env =
     rbind (publishMocks W (mp_Mocks p) None (mp_EnvFilePath p) env) (\<lambda>env1.
     rbind (multiFixtures loadWith p) (\<lambda>load.
     rbind (proxyURLFromEnv (getEnv env1) (wo_parseURL W)) (\<lambda>proxy.
     rbind (case mp_Server p of None \<Rightarrow> Panic ''invalid memory address or nil pointer dereference'' | Some url \<Rightarrow> Ok url) (\<lambda>host.
       Ok (AddCheckers (multiDbCheckers (wo_libs W) (getDbConnMap (mp_DbMap p)) (mp_Checkers p))
            (AddOutput (wo_report W (multiReport env1))
            (AddOutput [case mp_OutputFunc p of Some o' \<Rightarrow> o' | None \<Rightarrow> testingOutput (wo_libs W)]
              ((newConfig W env1 host [] proxy)\<lparr>cf_mocksLoader := mp_Mocks p \<noteq> None, cf_fixturesMultiDb := Some load\<rparr>))),
           env1)))))"

definition RunWithMultiDb ::
  "'u world \<Rightarrow> ((string, unit fixtureLoader) gomap \<Rightarrow> Fixture list \<Rightarrow> unit gores) \<Rightarrow> multiParams \<Rightarrow> environment \<Rightarrow> runState \<times> verdict list gores" where
  "RunWithMultiDb W loadWith p env =
     (let st = newRunState (mp_Mocks p) None
      in sbind (st, prepareMultiDb W loadWith p env) (\<lambda>st (cfg, env1).
           RunWith testingHandle cfg
             (loadTests (wo_loader W) (getEnv env1 ''GONKEY_FILE_FILTER'') (mp_TestsDir p) (wo_files W (mp_TestsDir p))) st []))"

end
