(* ===== verification/CommandSpec.thy ===== *)
theory CommandSpec
  imports Command
begin

text \<open>
  What the programs promise: the exit status of the command, the verdicts of Go tests, and the
  addresses of mocks in the environment.
\<close>

section \<open>Addresses of mocks\<close>

lemma registerMocks_keeps:
  assumes "registerMocksEnvironment up ms env = Ok env'" and "key \<notin> (\<lambda>(n, m). ''GONKEY_MOCK_'' @ up n) ` set ms"
  shows "map_of env' key = map_of env key"
  using assms unfolding registerMocksEnvironment_def
  by (induction ms arbitrary: env) (auto simp: update_conv)

lemma registerMocks_address:
  assumes "registerMocksEnvironment up ms env = Ok env'" and "(n, m) \<in> set ms" and "distinct (map (\<lambda>(n, m). up n) ms)"
  shows "\<exists>addr. ServerAddr m = Ok addr \<and> map_of env' (''GONKEY_MOCK_'' @ up n) = Some addr"
  using assms
proof (induction ms arbitrary: env)
  case (Cons nm ms)
  obtain n1 m1 where nm: "nm = (n1, m1)" by (cases nm)
  with Cons.prems(1) obtain addr where a: "ServerAddr m1 = Ok addr"
    and r: "registerMocksEnvironment up ms (AList.update (''GONKEY_MOCK_'' @ up n1) addr env) = Ok env'"
    by (auto simp: registerMocksEnvironment_def)
  show ?case
  proof (cases "(n, m) \<in> set ms")
    case True
    with Cons.IH [OF r] Cons.prems(3) show ?thesis by simp
  next
    case False
    with Cons.prems(2) nm have e: "n = n1" "m = m1" by auto
    have "''GONKEY_MOCK_'' @ up n1 \<notin> (\<lambda>(n, m). ''GONKEY_MOCK_'' @ up n) ` set ms"
      using Cons.prems(3) nm by (auto simp: image_def)
    from registerMocks_keeps [OF r this] a e show ?thesis by (simp add: update_conv)
  qed
qed simp

lemma registerGrpc_keeps:
  assumes "\<forall>s. key \<noteq> ''GONKEY_GRPC_MOCK_'' @ s"
  shows "map_of (registerGrpcMocksEnvironment up g env) key = map_of env key"
proof -
  have "map_of (foldl (\<lambda>env (n, m). AList.update (''GONKEY_GRPC_MOCK_'' @ up n) (grpcAddr m) env) env ms) key = map_of env key" for ms
    using assms by (induction ms arbitrary: env) (auto simp: update_conv split: prod.split)
  then show ?thesis by (simp add: registerGrpcMocksEnvironment_def)
qed

section \<open>Fields of the configurations\<close>

lemma prepareTesting_getenv: "prepareTesting W loadWith p env = Ok (cfg, env1) \<Longrightarrow> cf_getenv cfg = getEnv env1"
  by (auto simp: prepareTesting_def AddCheckers_def AddOutput_def initTestRunner_def newConfig_def)

lemma prepareTesting_env:
  "prepareTesting W loadWith p env = Ok (cfg, env1) \<Longrightarrow>
     publishMocks W (tp_Mocks p) (tp_GrpcMocks p) (tp_EnvFilePath p) env = Ok env1"
  by (auto simp: prepareTesting_def)

text \<open>The two helpers for Go tests choose different formats of the report for the same settings.\<close>

lemma multi_report_format:
  assumes "getEnv env ''GONKEY_ALLURE_DIR'' = dir" and "dir \<noteq> []" and "getEnv env ''GONKEY_ALLURE_FORMAT'' \<in> {[], ''v2'', ''json''}"
  shows "multiReport env = ReportV1 dir \<and> (\<exists>out. testReport (getEnv env) pkg cls = Ok (ReportV2 out))"
  using assms by (auto simp: multiReport_def testReport_def)

text \<open>Without a server the helper for several databases panics, the other one uses no host.\<close>

lemma multi_needs_server: "mp_Server p = None \<Longrightarrow> prepareMultiDb W loadWith p env \<noteq> Ok x"
  by (auto simp: prepareMultiDb_def)

section \<open>Example\<close>

definition exampleWorld :: "Result gores \<Rightarrow> unit world" where
  "exampleWorld out =
     \<lparr>wo_libs = exampleLibs, wo_f2i = (\<lambda>_. 0), wo_realloc = False,
      wo_exec = (\<lambda>_. \<lparr>pr_pipe = Ok (), pr_start = Ok (), pr_done = (\<lambda>_. Some None), pr_getpgid = Ok (), pr_kill = Ok (), pr_stdout = []\<rparr>),
      wo_dotenv = (\<lambda>_ env. Ok env), wo_parseURL = (\<lambda>_. Ok ()), wo_parseRedisURL = Ok, wo_toUpper = id,
      wo_sqlOpen = (\<lambda>_ _. Ok (\<lambda>_. Ok [])), wo_aerospike = (\<lambda>_ _ _. Ok ()), wo_load = (\<lambda>_ _. Ok ()),
      wo_loader = \<lparr>tmplExec = (\<lambda>s _. Ok s), yamlDecode = (\<lambda>_. Ok [exampleDefinition\<lparr>Cases := [], DatabaseChecks := [], ResponseTmpls := [(200, ''null'')]\<rparr>]), osStat = (\<lambda>_. Ok ())\<rparr>,
      wo_files = (\<lambda>_. Ok (FsFile (Ok ''tests''))),
      wo_transport = (\<lambda>_ _ _ t. ([HttpRequest ''a'' (exampleExchange ''GET'' ''/'' [])], out)),
      wo_report = (\<lambda>_. [])\<rparr>"

definition exampleParams :: "unit testParams" where
  "exampleParams =
     \<lparr>tp_Server = None, tp_GrpcHost = [], tp_TestsDir = ''tests'',
      tp_Mocks = Some [(''a'', (NewServiceMock ''a'' (Some (NewDefinition ''$'' [] (Some nopReply) CallsNoConstraint)))\<lparr>sm_listener := Some ''127.0.0.1:80''\<rparr>)],
      tp_GrpcMocks = None, tp_FixturesDir = [], tp_DB = None, tp_hasAerospike = False, tp_DbType = Postgres, tp_EnvFilePath = [],
      tp_OutputFunc = None, tp_Checkers = [], tp_FixtureLoader = None, tp_AllurePackage = [], tp_AllureTestClass = []\<rparr>"

section \<open>Properties\<close>

text \<open>
  C7. The command ends with status 0 exactly when its settings are valid, everything it needs could
  be opened, the tests could be loaded, and every one of them was skipped, was broken or passed. A
  wrong setting, a test that fails, that cannot be executed or that panics makes the status
  different from 0.
\<close>

theorem main_exit_status:
  "fst (mainProgram W parseFlags env) = 0 \<longleftrightarrow>
     (\<exists>cfg tests. prepareMain W parseFlags env = Ok (cfg, Ok tests) \<and>
        list_all (\<lambda>out. isSkipped out \<or> isBroken out \<or> isPassing out)
          (runTrace cfg (map (focusStatus (checkHasFocused tests)) tests) (newRunState None None)))"
proof (cases "prepareMain W parseFlags env")
  case (Ok x)
  obtain cfg load where x: "x = (cfg, load)" by (cases x)
  with Ok exitCode_zero_iff [of cfg load "newRunState None None"] show ?thesis
    by (auto simp: mainProgram_def runMain_def Let_def)
qed (simp_all add: mainProgram_def runMain_def exitCode_def)

text \<open>
  C8. Under \<open>go test\<close> the helper succeeds exactly when the settings are usable, the tests of the
  directory could be loaded and every one of them came to an end; it then has one subtest for each
  test, in order: skipped for a skipped or broken test, passed for a result without errors, failed
  for one with errors.
\<close>

theorem go_test_verdicts:
  "snd (RunWithTesting W loadWith p env) = Ok vs \<longleftrightarrow>
     (\<exists>cfg env1 tests outs. prepareTesting W loadWith p env = Ok (cfg, env1) \<and>
        loadTests (wo_loader W) (getEnv env1 ''GONKEY_FILE_FILTER'') (tp_TestsDir p) (wo_files W (tp_TestsDir p)) = Ok tests \<and>
        outs = runTrace cfg (map (focusStatus (checkHasFocused tests)) tests) (newRunState (tp_Mocks p) (tp_GrpcMocks p)) \<and>
        list_all (\<lambda>out. isSkipped out \<or> isBroken out \<or> isPassing out \<or> isFailing out) outs \<and> vs = map verdictOf outs)"
  (is "_ \<longleftrightarrow> ?rhs")
proof (cases "prepareTesting W loadWith p env")
  case (Ok x)
  obtain cfg env1 where x: "x = (cfg, env1)" by (cases x)
  let ?st = "newRunState (tp_Mocks p) (tp_GrpcMocks p)"
  let ?load = "loadTests (wo_loader W) (getEnv env1 ''GONKEY_FILE_FILTER'') (tp_TestsDir p) (wo_files W (tp_TestsDir p))"
  have run: "RunWithTesting W loadWith p env = RunWith testingHandle cfg ?load ?st []"
    using Ok x by (simp add: RunWithTesting_def)
  show ?thesis
  proof (cases ?load)
    case load: (Ok tests)
    let ?outs = "runTrace cfg (map (focusStatus (checkHasFocused tests)) tests) ?st"
    have v: "vs = map verdictOf ?outs" if "snd (RunWith testingHandle cfg ?load ?st []) = Ok vs" for vs
      using that load testing_loop [of cfg "map (focusStatus (checkHasFocused tests)) tests" ?st "[]" vs] by (simp add: RunWith_def)
    have e: "(\<exists>vs. snd (RunWith testingHandle cfg ?load ?st []) = Ok vs) \<longleftrightarrow> list_all ended ?outs"
      using testing_handler.Run_Ok_iff [of cfg ?load ?st "[]"] load by simp
    from v e Ok x load show ?thesis unfolding run by auto
  qed (use Ok x run in \<open>simp_all add: RunWith_def\<close>)
qed (simp_all add: RunWithTesting_def Let_def)

text \<open>
  C40. When the tests run, the tested service can find its mocks: with started mocks whose names
  differ in upper case, and no environment file, the variable \<open>GONKEY_MOCK_\<close> with the name of a mock
  has the address the mock listens at. A mock that was not started ends the helper instead.
\<close>

theorem mock_addresses_published:
  assumes "prepareTesting W loadWith p env = Ok (cfg, env1)" and "tp_EnvFilePath p = []" and "tp_Mocks p = Some ms"
    and "(n, m) \<in> set ms" and "distinct (map (\<lambda>(n, m). wo_toUpper W n) ms)"
  shows "ServerAddr m = Ok (cf_getenv cfg (''GONKEY_MOCK_'' @ wo_toUpper W n))"
proof -
  from prepareTesting_env [OF assms(1)] assms(2,3) obtain env0 where
    r: "registerMocksEnvironment (wo_toUpper W) ms env = Ok env0"
    and e: "env1 = (case tp_GrpcMocks p of None \<Rightarrow> env0 | Some g \<Rightarrow> registerGrpcMocksEnvironment (wo_toUpper W) g env0)"
    by (auto simp: publishMocks_def Let_def)
  have "\<forall>s. ''GONKEY_MOCK_'' @ wo_toUpper W n \<noteq> ''GONKEY_GRPC_MOCK_'' @ s" by simp
  from registerGrpc_keeps [OF this] e
  have "map_of env1 (''GONKEY_MOCK_'' @ wo_toUpper W n) = map_of env0 (''GONKEY_MOCK_'' @ wo_toUpper W n)"
    by (auto split: option.splits)
  with registerMocks_address [OF r assms(4,5)] show ?thesis
    unfolding prepareTesting_getenv [OF assms(1)] by (auto simp: getEnv_def)
qed

theorem mock_addresses_published_witness:
  "\<exists>cfg env1. prepareTesting (exampleWorld (Ok (exampleResult ''null''))) (\<lambda>_ _. Ok ()) exampleParams [] = Ok (cfg, env1)
     \<and> cf_getenv cfg ''GONKEY_MOCK_a'' = ''127.0.0.1:80''"
proof -
  let ?W = "exampleWorld (Ok (exampleResult ''null''))"
  let ?m = "(NewServiceMock ''a'' (Some (NewDefinition ''$'' [] (Some nopReply) CallsNoConstraint)))\<lparr>sm_listener := Some ''127.0.0.1:80''\<rparr>"
  have "case prepareTesting ?W (\<lambda>_ _. Ok ()) exampleParams [] of Ok x \<Rightarrow> True | _ \<Rightarrow> False" by code_simp
  then obtain cfg env1 where p: "prepareTesting ?W (\<lambda>_ _. Ok ()) exampleParams [] = Ok (cfg, env1)" by (auto split: res.splits)
  have "ServerAddr ?m = Ok (cf_getenv cfg (''GONKEY_MOCK_'' @ wo_toUpper ?W ''a''))"
    by (rule mock_addresses_published [OF p, where ms = "[(''a'', ?m)]"]) (simp_all add: exampleParams_def)
  then have "cf_getenv cfg ''GONKEY_MOCK_a'' = ''127.0.0.1:80''" by (simp add: ServerAddr_def exampleWorld_def)
  with p show ?thesis by blast
qed

end
