(* ===== verification/Allure1Steps.thy ===== *)
theory Allure1Steps
  imports Outputs
begin

text \<open>
  The steps of Allure 1 (\<open>output/allure_report/beans/step.go\<close>; \<open>StartStep\<close>, \<open>EndStep\<close>, \<open>CreateStep\<close> and
  the step of \<open>StartCase\<close> in \<open>output/allure_report/allure.go\<close>). Steps point to their parent and are
  shared, so they live in a store; \<open>ss_current\<close> is the entry of \<open>currentStep\<close> for the current suite.
  Times and attachments of steps are left out. A method called on a nil step panics when it
  reaches a field.
\<close>

section \<open>Steps in a store\<close>

type_synonym stepRef = nat

record Step1 =
  s1_Parent :: "stepRef option"
  s1_Status :: string
  s1_Name :: string
  s1_Steps :: "stepRef list"

record stepState =
  ss_store :: "(stepRef, Step1) gomap"
  ss_next :: stepRef
  ss_current :: "stepRef option"

definition NewStep1 :: "string \<Rightarrow> Step1" where
  "NewStep1 name = \<lparr>s1_Parent = None, s1_Status = [], s1_Name = name, s1_Steps = []\<rparr>"

definition allocStep :: "string \<Rightarrow> stepState \<Rightarrow> stepState \<times> stepRef" where
  "allocStep name s =
     (s\<lparr>ss_store := AList.update (ss_next s) (NewStep1 name) (ss_store s), ss_next := ss_next s + 1\<rparr>, ss_next s)"

text \<open>A field of a step that may be nil.\<close>

definition derefStep :: "stepRef option \<Rightarrow> stepState \<Rightarrow> (stepRef \<times> Step1) gores" where
  "derefStep p s =
     (case p of
        None \<Rightarrow> Panic ''invalid memory address or nil pointer dereference''
      | Some a \<Rightarrow> (case map_of (ss_store s) a of Some x \<Rightarrow> Ok (a, x) | None \<Rightarrow> Panic ''invalid memory address or nil pointer dereference''))"

definition addStepTo :: "stepRef option \<Rightarrow> stepRef option \<Rightarrow> stepState \<Rightarrow> stepState \<times> unit gores" where
  "addStepTo receiver step s =
     (case step of
        None \<Rightarrow> (s, Ok ())
      | Some b \<Rightarrow>
          sbind (s, derefStep receiver s) (\<lambda>s (a, x).
            (s\<lparr>ss_store := AList.update a (x\<lparr>s1_Steps := s1_Steps x @ [b]\<rparr>) (ss_store s)\<rparr>, Ok ())))"

definition endStepObj :: "string \<Rightarrow> stepRef option \<Rightarrow> stepState \<Rightarrow> stepState \<times> unit gores" where
  "endStepObj status receiver s =
     sbind (s, derefStep receiver s) (\<lambda>s (a, x).
       (s\<lparr>ss_store := AList.update a (x\<lparr>s1_Status := status\<rparr>) (ss_store s)\<rparr>, Ok ()))"

section \<open>Operations\<close>

definition startCaseStep :: "string \<Rightarrow> stepState \<Rightarrow> stepState" where
  "startCaseStep testName s = (case allocStep testName s of (s1, a) \<Rightarrow> s1\<lparr>ss_current := Some a\<rparr>)"

text \<open>The new step is overwritten by the current one before it is used.\<close>

definition StartStep1 :: "string \<Rightarrow> stepState \<Rightarrow> stepState \<times> unit gores" where
  "StartStep1 sname s =
     (let s1 = fst (allocStep sname s); step = ss_current s1
      in sbind (s1, derefStep step s1) (\<lambda>s (a, x).
         sbind (addStepTo (s1_Parent x) step s) (\<lambda>s _. (s\<lparr>ss_current := step\<rparr>, Ok ()))))"

definition EndStep1 :: "string \<Rightarrow> stepState \<Rightarrow> stepState \<times> unit gores" where
  "EndStep1 status s =
     sbind (endStepObj status (ss_current s) s) (\<lambda>s _.
     sbind (s, derefStep (ss_current s) s) (\<lambda>s (a, x).
       (s\<lparr>ss_current := s1_Parent x\<rparr>, Ok ())))"

definition CreateStep :: "string \<Rightarrow> (stepState \<Rightarrow> stepState \<times> unit gores) \<Rightarrow> stepState \<Rightarrow> stepState \<times> unit gores" where
  "CreateStep name stepFunc s =
     sbind (StartStep1 name s) (\<lambda>s _. sbind (stepFunc s) (\<lambda>s _. EndStep1 ''passed'' s))"

text \<open>\<open>PendingCase\<close>: a case that ends at once.\<close>

definition PendingCase :: "(goerror \<Rightarrow> string) \<Rightarrow> string \<Rightarrow> Allure1 \<Rightarrow> Allure1 gores" where
  "PendingCase text testName a =
     rbind (StartCase testName a) (updateCurrent (endCase text ''pending'' (Some (errNew ''test ignored''))))"

section \<open>No step ever has a parent\<close>

datatype stepCall = CallStartCase string | CallStartStep string | CallEndStep string

fun stepCallRun :: "stepCall \<Rightarrow> stepState \<Rightarrow> stepState" where
  "stepCallRun (CallStartCase n) s = startCaseStep n s"
| "stepCallRun (CallStartStep n) s = fst (StartStep1 n s)"
| "stepCallRun (CallEndStep st) s = fst (EndStep1 st s)"

definition orphans :: "stepState \<Rightarrow> bool" where
  "orphans s \<longleftrightarrow> (\<forall>(a, x) \<in> set (ss_store s). s1_Parent x = None)"

lemma update_subset: "set (AList.update a x m) \<subseteq> insert (a, x) (set m)"
  by (induction m) auto

lemma orphans_update:
  "orphans s \<Longrightarrow> s1_Parent x = None \<Longrightarrow> orphans (s\<lparr>ss_store := AList.update a x (ss_store s)\<rparr>)"
  using update_subset [of a x "ss_store s"] unfolding orphans_def by auto

lemma orphans_fields [simp]:
  "orphans (s\<lparr>ss_next := n\<rparr>) = orphans s" "orphans (s\<lparr>ss_current := c\<rparr>) = orphans s"
  by (simp_all add: orphans_def)

lemma orphans_allocStep: "orphans s \<Longrightarrow> orphans (fst (allocStep name s))"
  using orphans_update [of s "NewStep1 name" "ss_next s"] by (simp add: allocStep_def NewStep1_def orphans_def)

lemma derefStep_orphan: "orphans s \<Longrightarrow> derefStep p s = Ok (a, x) \<Longrightarrow> s1_Parent x = None"
  by (auto simp: derefStep_def orphans_def dest!: map_of_SomeD split: option.splits)

lemma endStepObj_orphans: "orphans s \<Longrightarrow> orphans (fst (endStepObj status p s))"
  using derefStep_orphan [of s p] by (auto simp: endStepObj_def sbind_def orphans_update split: res.split)

text \<open>Adding a step needs the parent of the current one, which there never is.\<close>

lemma StartStep1_orphan_panics:
  assumes "orphans s"
  shows "\<exists>m. StartStep1 name s = (fst (allocStep name s), Panic m)"
proof -
  let ?s = "fst (allocStep name s)"
  have o: "orphans ?s" using assms by (rule orphans_allocStep)
  show ?thesis
  proof (cases "ss_current ?s")
    case None
    then show ?thesis by (simp add: StartStep1_def Let_def derefStep_def)
  next
    case (Some b)
    show ?thesis
    proof (cases "map_of (ss_store ?s) b")
      case None
      with Some show ?thesis by (simp add: StartStep1_def Let_def derefStep_def)
    next
      case x: (Some x)
      then have "derefStep (Some b) ?s = Ok (b, x)" by (simp add: derefStep_def)
      moreover from derefStep_orphan [OF o this] have "s1_Parent x = None" .
      ultimately show ?thesis using Some by (simp add: StartStep1_def Let_def addStepTo_def derefStep_def)
    qed
  qed
qed

lemma stepCallRun_orphans: "orphans s \<Longrightarrow> orphans (stepCallRun c s)"
proof (cases c)
  case (CallStartStep n)
  assume "orphans s"
  with CallStartStep StartStep1_orphan_panics [of s n] orphans_allocStep [of s n] show ?thesis by auto
next
  case (CallEndStep st)
  assume o: "orphans s"
  let ?r = "endStepObj st (ss_current s) s"
  have "orphans (fst ?r)" using o by (rule endStepObj_orphans)
  then have "orphans (fst (EndStep1 st s))"
    unfolding EndStep1_def by (auto simp: sbind_def split: res.split prod.split)
  with CallEndStep show ?thesis by simp
next
  case (CallStartCase n)
  assume "orphans s"
  with CallStartCase orphans_allocStep [of s n] show ?thesis by (simp add: startCaseStep_def case_prod_beta)
qed

section \<open>Properties\<close>

text \<open>
  No step can be added to an Allure 1 report: after any sequence of started cases, started and
  ended steps, \<open>StartStep\<close> dereferences the parent of the current step, which is never set, so
  creating a step panics before its function is called.
\<close>

theorem steps_cannot_be_created:
  assumes "ss_store s0 = []"
  shows "\<exists>s' m. CreateStep name stepFunc (fold stepCallRun ops s0) = (s', Panic m)"
proof -
  have "orphans s0" using assms by (simp add: orphans_def)
  then have "orphans (fold stepCallRun ops s0)"
    by (induction ops arbitrary: s0) (auto simp: stepCallRun_orphans)
  from StartStep1_orphan_panics [OF this, of name] show ?thesis by (auto simp: CreateStep_def)
qed

theorem steps_cannot_be_created_witness:
  "\<exists>s' m. CreateStep ''step'' (\<lambda>s. (s, Ok ())) (fold stepCallRun [CallStartCase ''case'']
     \<lparr>ss_store = [], ss_next = 0, ss_current = None\<rparr>) = (s', Panic m)"
  by (rule steps_cannot_be_created) simp

end
