(* ===== verification/TestClone.thy ===== *)
theory TestClone
  imports Models
begin

text \<open>
  \<open>Test.Clone\<close> of \<open>testloader/yaml_file/test.go\<close> on a store of shared objects. A test is given by the
  fields that hold maps, slices or pointers, by name; its other fields are copied with the struct.
  An object is a map or slice of values, which are plain data or references to further objects:
  the inner maps of a map of maps, the definitions of mocks, the database checks.
\<close>

section \<open>Objects and stores\<close>

type_synonym ref = nat

datatype 'v entry = Plain 'v | Inner ref

datatype 'v object = Object "('v \<times> 'v entry) list"

record 'v store =
  so_heap :: "ref \<Rightarrow> 'v object"
  so_next :: ref

datatype testField =
    FProtoSource | FVariables | FHeadersVal | FCookiesVal | FMocksDefinition | FGrpcMocksDefinition | FResponseTmpls
  | FVariablesToSet | FDefResponseHeaders | FResponses | FCombinedVariables | FResponseHeaders | FDbResponse | FDbChecks
  | FForm | FAllure | FCases | FFixtureFiles | FFixturesListMultiDb | FDatabaseChecks | FDbResponseTmpl

type_synonym testRefs = "testField \<Rightarrow> ref option"

definition alloc :: "'v object \<Rightarrow> 'v store \<Rightarrow> 'v store \<times> ref" where
  "alloc ob s = (s\<lparr>so_heap := (so_heap s)(so_next s := ob), so_next := so_next s + 1\<rparr>, so_next s)"

definition writeObj :: "ref \<Rightarrow> 'v object \<Rightarrow> 'v store \<Rightarrow> 'v store" where
  "writeObj a ob s = s\<lparr>so_heap := (so_heap s)(a := ob)\<rparr>"

section \<open>Copying\<close>

text \<open>\<open>maps.Clone\<close>, \<open>slices.Clone\<close> and the copy of a struct: nil stays nil, the elements are shared.\<close>

definition cloneShallow :: "ref option \<Rightarrow> 'v store \<Rightarrow> 'v store \<times> ref option" where
  "cloneShallow p s =
     (case p of
        None \<Rightarrow> (s, None)
      | Some a \<Rightarrow> (case alloc (so_heap s a) s of (s1, b) \<Rightarrow> (s1, Some b)))"

text \<open>The loop \<open>for k, v := range m { res[k] = maps.Clone(v) }\<close>.\<close>

fun cloneEntries :: "('v \<times> 'v entry) list \<Rightarrow> 'v store \<Rightarrow> 'v store \<times> ('v \<times> 'v entry) list" where
  "cloneEntries [] s = (s, [])"
| "cloneEntries ((k, e) # es) s =
     (case (case e of Plain v \<Rightarrow> (s, Plain v) | Inner a \<Rightarrow> (case alloc (so_heap s a) s of (s1, b) \<Rightarrow> (s1, Inner b))) of
        (s1, e1) \<Rightarrow> (case cloneEntries es s1 of (s2, es1) \<Rightarrow> (s2, (k, e1) # es1)))"

definition cloneNested :: "ref option \<Rightarrow> 'v store \<Rightarrow> 'v store \<times> ref option" where
  "cloneNested p s =
     (case p of
        None \<Rightarrow> (s, None)
      | Some a \<Rightarrow>
          (case so_heap s a of Object es \<Rightarrow>
             (case cloneEntries es s of (s1, es1) \<Rightarrow> (case alloc (Object es1) s1 of (s2, b) \<Rightarrow> (s2, Some b)))))"

text \<open>The assignments of \<open>Clone\<close> in their order.\<close>

definition nestedFields :: "testField list" where
  "nestedFields = [FVariablesToSet, FDefResponseHeaders, FResponseHeaders]"

definition cloneOrder :: "testField list" where
  "cloneOrder =
     [FProtoSource, FVariables, FHeadersVal, FCookiesVal, FMocksDefinition, FGrpcMocksDefinition, FResponseTmpls,
      FVariablesToSet, FDefResponseHeaders, FResponses, FCombinedVariables, FResponseHeaders, FDbResponse, FDbChecks]"

fun cloneFields :: "testField list \<Rightarrow> testRefs \<Rightarrow> testRefs \<Rightarrow> 'v store \<Rightarrow> 'v store \<times> testRefs" where
  "cloneFields [] t res s = (s, res)"
| "cloneFields (f # fs) t res s =
     (case (if f \<in> set nestedFields then cloneNested (t f) s else cloneShallow (t f) s) of
        (s1, p) \<Rightarrow> cloneFields fs t (res(f := p)) s1)"

definition Clone :: "testRefs \<Rightarrow> 'v store \<Rightarrow> 'v store \<times> testRefs" where
  "Clone t s = cloneFields cloneOrder t t s"

section \<open>What can be seen\<close>

text \<open>The contents of a field, with the inner objects read as well.\<close>

definition entryView :: "'v store \<Rightarrow> 'v entry \<Rightarrow> 'v + 'v object" where
  "entryView s e = (case e of Plain v \<Rightarrow> Inl v | Inner a \<Rightarrow> Inr (so_heap s a))"

definition view :: "'v store \<Rightarrow> ref option \<Rightarrow> ('v \<times> ('v + 'v object)) list option" where
  "view s p = map_option (\<lambda>a. case so_heap s a of Object es \<Rightarrow> map (\<lambda>(k, e). (k, entryView s e)) es) p"

fun innerRefs :: "'v object \<Rightarrow> ref set" where
  "innerRefs (Object es) = {a. \<exists>k. (k, Inner a) \<in> set es}"

text \<open>References point to objects that exist.\<close>

definition fieldOk :: "'v store \<Rightarrow> ref option \<Rightarrow> bool" where
  "fieldOk s p \<longleftrightarrow> (\<forall>a. p = Some a \<longrightarrow> a < so_next s \<and> (\<forall>b \<in> innerRefs (so_heap s a). b < so_next s))"

definition extends :: "'v store \<Rightarrow> 'v store \<Rightarrow> bool" where
  "extends s s' \<longleftrightarrow> so_next s \<le> so_next s' \<and> (\<forall>a < so_next s. so_heap s' a = so_heap s a)"

lemma extends_refl [simp]: "extends s s"
  by (simp add: extends_def)

lemma extends_trans: "extends s s' \<Longrightarrow> extends s' s'' \<Longrightarrow> extends s s''"
  by (auto simp: extends_def)

lemma extends_alloc: "alloc ob s = (s', a) \<Longrightarrow> extends s s' \<and> a = so_next s \<and> so_heap s' a = ob \<and> so_next s' = so_next s + 1"
  by (auto simp: alloc_def extends_def)

lemma extends_view:
  assumes "extends s s'" and "fieldOk s p"
  shows "view s' p = view s p \<and> fieldOk s' p"
proof (cases p)
  case (Some a)
  with assms have a: "a < so_next s" and b: "\<forall>b \<in> innerRefs (so_heap s a). b < so_next s" by (auto simp: fieldOk_def)
  obtain es where es: "so_heap s a = Object es" by (cases "so_heap s a")
  with assms a have es': "so_heap s' a = Object es" by (simp add: extends_def)
  have "entryView s' e = entryView s e" if "(k, e) \<in> set es" for k e
    using that assms(1) b es by (cases e) (auto simp: entryView_def extends_def)
  with Some es es' a b assms(1) show ?thesis by (auto simp: view_def fieldOk_def extends_def)
qed (simp add: view_def fieldOk_def)

text \<open>Writing to an object that is newer than a store cannot be seen in the fields of that store.\<close>

lemma writeObj_view:
  assumes "extends s s'" and "fieldOk s p" and "so_next s \<le> a"
  shows "view (writeObj a ob s') p = view s p"
proof -
  have "extends s (writeObj a ob s')" using assms(1,3) by (auto simp: extends_def writeObj_def)
  with extends_view [OF this assms(2)] show ?thesis by blast
qed

text \<open>Nor can a write to an object that a field does not reach.\<close>

lemma writeObj_unreached:
  assumes "p \<noteq> Some a" and "\<forall>b. p = Some b \<longrightarrow> a \<notin> innerRefs (so_heap s b)"
  shows "view (writeObj a ob s) p = view s p"
proof (cases p)
  case (Some b)
  obtain es where es: "so_heap s b = Object es" by (cases "so_heap s b")
  have "entryView (writeObj a ob s) e = entryView s e" if "(k, e) \<in> set es" for k e
    using that assms(2) Some es by (cases e) (auto simp: entryView_def writeObj_def)
  with Some es assms(1) show ?thesis by (auto simp: view_def writeObj_def)
qed (simp add: view_def)

section \<open>One field\<close>

text \<open>What copying a field promises: the same contents, in an object that did not exist before.\<close>

definition copied :: "'v store \<Rightarrow> ref option \<Rightarrow> 'v store \<Rightarrow> ref option \<Rightarrow> bool" where
  "copied s p s' q \<longleftrightarrow> extends s s' \<and> view s' q = view s p \<and> fieldOk s' q \<and> (\<forall>b. q = Some b \<longrightarrow> so_next s \<le> b)"

lemma cloneShallow_copied:
  assumes "fieldOk s p" and "cloneShallow p s = (s', q)"
  shows "copied s p s' q"
proof (cases p)
  case (Some a)
  with assms(2) obtain b where al: "alloc (so_heap s a) s = (s', b)" and q: "q = Some b"
    by (auto simp: cloneShallow_def split: prod.splits)
  note e = extends_alloc [OF al]
  have "view s' (Some a) = view s (Some a)" "fieldOk s' (Some a)" using extends_view [of s s' p] e assms(1) Some by auto
  moreover have "so_heap s' b = so_heap s' a" using e assms(1) Some unfolding extends_def fieldOk_def by auto
  ultimately show ?thesis using Some q e by (auto simp: copied_def view_def fieldOk_def)
qed (use assms in \<open>auto simp: cloneShallow_def copied_def view_def fieldOk_def\<close>)

lemma cloneEntries_copied:
  assumes "\<forall>k a. (k, Inner a) \<in> set es \<longrightarrow> a < so_next s" and "cloneEntries es s = (s', es')"
  shows "extends s s' \<and> map (\<lambda>(k, e). (k, entryView s' e)) es' = map (\<lambda>(k, e). (k, entryView s e)) es
    \<and> (\<forall>k a. (k, Inner a) \<in> set es' \<longrightarrow> so_next s \<le> a \<and> a < so_next s')"
  using assms
proof (induction es s arbitrary: s' es' rule: cloneEntries.induct)
  case (2 k e es s)
  obtain s1 e1 where h: "(case e of Plain v \<Rightarrow> (s, Plain v) | Inner a \<Rightarrow> (case alloc (so_heap s a) s of (s1, b) \<Rightarrow> (s1, Inner b))) = (s1, e1)"
    by (rule prod.exhaust)
  obtain s2 es1 where r: "cloneEntries es s1 = (s2, es1)" by (cases "cloneEntries es s1")
  from "2.prems"(2) h r have res: "s' = s2" "es' = (k, e1) # es1" by auto
  have step: "extends s s1 \<and> entryView s1 e1 = entryView s e \<and> (\<forall>a. e1 = Inner a \<longrightarrow> so_next s \<le> a \<and> a < so_next s1)"
    using h by (cases e) (auto simp: entryView_def dest!: extends_alloc split: prod.splits)
  have old: "a < so_next s" if "(k', Inner a) \<in> set es" for k' a using "2.prems"(1) that by (meson list.set_intros(2))
  with step have "\<forall>k a. (k, Inner a) \<in> set es \<longrightarrow> a < so_next s1" unfolding extends_def by (meson less_le_trans)
  from "2.IH" [OF h [symmetric] this r] have IH: "extends s1 s2"
    "map (\<lambda>(k, e). (k, entryView s2 e)) es1 = map (\<lambda>(k, e). (k, entryView s1 e)) es"
    "\<forall>k a. (k, Inner a) \<in> set es1 \<longrightarrow> so_next s1 \<le> a \<and> a < so_next s2" by auto
  have "entryView s2 e1 = entryView s e" using step IH(1) by (cases e1) (auto simp: entryView_def extends_def)
  moreover have "entryView s1 x = entryView s x" if "(k', x) \<in> set es" for k' x
    using that old step by (cases x) (auto simp: entryView_def extends_def)
  then have "map (\<lambda>(k, e). (k, entryView s1 e)) es = map (\<lambda>(k, e). (k, entryView s e)) es" by auto
  moreover have "so_next s \<le> so_next s1" "so_next s1 \<le> so_next s2" using step IH(1) by (simp_all add: extends_def)
  ultimately show ?case
    using res IH step extends_trans [of s s1 s2] by fastforce
qed auto

lemma cloneNested_copied:
  assumes "fieldOk s p" and "cloneNested p s = (s', q)"
  shows "copied s p s' q \<and> (\<forall>b c. q = Some b \<and> c \<in> innerRefs (so_heap s' b) \<longrightarrow> so_next s \<le> c)"
proof (cases p)
  case (Some a)
  obtain es where es: "so_heap s a = Object es" by (cases "so_heap s a")
  obtain s1 es1 where c: "cloneEntries es s = (s1, es1)" by (cases "cloneEntries es s")
  obtain b where al: "alloc (Object es1) s1 = (s', b)" and q: "q = Some b"
    using assms(2) Some es c by (auto simp: cloneNested_def split: prod.splits)
  have "\<forall>k a. (k, Inner a) \<in> set es \<longrightarrow> a < so_next s" using assms(1) Some es by (auto simp: fieldOk_def)
  note ce = cloneEntries_copied [OF this c] and e = extends_alloc [OF al]
  have "entryView s' x = entryView s1 x" if "(k, x) \<in> set es1" for k x
    using that ce e by (cases x) (auto simp: entryView_def extends_def)
  then have "map (\<lambda>(k, x). (k, entryView s' x)) es1 = map (\<lambda>(k, x). (k, entryView s1 x)) es1" by auto
  moreover have "c < so_next s' \<and> so_next s \<le> c" if "(k, Inner c) \<in> set es1" for k c
    using that ce e by (meson extends_def less_le_trans)
  ultimately show ?thesis
    using ce e es Some q extends_trans [of s s1 s'] by (auto simp: copied_def view_def fieldOk_def extends_def)
qed (use assms in \<open>auto simp: cloneNested_def copied_def view_def fieldOk_def\<close>)

section \<open>All fields\<close>

lemma cloneFields_copied:
  assumes "\<forall>f. fieldOk s0 (t f)" and "extends s0 s" and "distinct fs"
    and "cloneFields fs t res s = (s', res')"
  shows "extends s s' \<and> (\<forall>f. f \<notin> set fs \<longrightarrow> res' f = res f)
    \<and> (\<forall>f \<in> set fs. view s' (res' f) = view s0 (t f) \<and> fieldOk s' (res' f) \<and> (\<forall>b. res' f = Some b \<longrightarrow> so_next s0 \<le> b)
        \<and> (f \<in> set nestedFields \<longrightarrow> (\<forall>b. res' f = Some b \<longrightarrow> (\<forall>c \<in> innerRefs (so_heap s' b). so_next s0 \<le> c))))"
  using assms(2-)
proof (induction fs arbitrary: res s)
  case (Cons f fs)
  obtain s1 p where h: "(if f \<in> set nestedFields then cloneNested (t f) s else cloneShallow (t f) s) = (s1, p)"
    by (rule prod.exhaust)
  with Cons.prems have r: "cloneFields fs t (res(f := p)) s1 = (s', res')" by simp
  have ok: "view s (t f) = view s0 (t f)" "fieldOk s (t f)" using extends_view [OF Cons.prems(1)] assms(1) by blast+
  have c: "copied s (t f) s1 p"
    using h cloneShallow_copied [OF ok(2)] cloneNested_copied [OF ok(2)] by (auto split: if_splits)
  then have e: "extends s0 s1" using Cons.prems(1) extends_trans by (auto simp: copied_def)
  note IH = Cons.IH [OF e _ r, THEN conjunct1] Cons.IH [OF e _ r, THEN conjunct2, THEN conjunct1]
    Cons.IH [OF e _ r, THEN conjunct2, THEN conjunct2]
  have d: "distinct fs" and x: "extends s1 s'" and p: "res' f = p" using IH(1,2) Cons.prems(2) by auto
  have "view s' p = view s1 p \<and> fieldOk s' p" using extends_view [OF x] c by (auto simp: copied_def)
  then have "view s' (res' f) = view s0 (t f) \<and> fieldOk s' (res' f) \<and> (\<forall>b. res' f = Some b \<longrightarrow> so_next s0 \<le> b)"
    using c ok(1) Cons.prems(1) p by (auto simp: copied_def extends_def)
  moreover have "so_next s0 \<le> k" if "f \<in> set nestedFields" "p = Some b" "k \<in> innerRefs (so_heap s' b)" for b k
  proof -
    have "b < so_next s1" using c that(2) by (auto simp: copied_def fieldOk_def)
    with x that(3) have "k \<in> innerRefs (so_heap s1 b)" by (simp add: extends_def)
    with cloneNested_copied [OF ok(2)] h that(1,2) have "so_next s \<le> k" by (auto split: if_splits)
    with Cons.prems(1) show ?thesis by (simp add: extends_def)
  qed
  ultimately show ?case
    using IH(2,3) [OF d] x c p extends_trans [of s s1 s'] by (auto simp: copied_def)
qed simp

text \<open>The elements of a shallow copy are those of the original, references included.\<close>

lemma cloneFields_shares:
  assumes "\<forall>f. fieldOk s0 (t f)" and "extends s0 s" and "distinct fs" and "cloneFields fs t res s = (s', res')"
    and "f \<in> set fs" and "f \<notin> set nestedFields" and "t f = Some a"
  shows "\<exists>b. res' f = Some b \<and> so_heap s' b = so_heap s0 a"
  using assms(2-5)
proof (induction fs arbitrary: res s)
  case (Cons g fs)
  obtain s1 p where h: "(if g \<in> set nestedFields then cloneNested (t g) s else cloneShallow (t g) s) = (s1, p)"
    by (rule prod.exhaust)
  with Cons.prems have r: "cloneFields fs t (res(g := p)) s1 = (s', res')" by simp
  have ok: "fieldOk s (t g)" using extends_view [OF Cons.prems(1)] assms(1) by blast
  have c: "copied s (t g) s1 p"
    using h cloneShallow_copied [OF ok] cloneNested_copied [OF ok] by (auto split: if_splits)
  then have e: "extends s0 s1" using Cons.prems(1) extends_trans by (auto simp: copied_def)
  show ?case
  proof (cases "g = f")
    case True
    with h assms(6,7) obtain b where b: "alloc (so_heap s a) s = (s1, b)" "p = Some b"
      by (auto simp: cloneShallow_def split: prod.splits)
    from cloneFields_copied [OF assms(1) e _ r] Cons.prems(2) True have f: "extends s1 s'" "res' f = p" by auto
    have "a < so_next s0" using assms(1,7) by (auto simp: fieldOk_def)
    with extends_alloc [OF b(1)] f b(2) Cons.prems(1) show ?thesis by (auto simp: extends_def)
  next
    case False
    with Cons.IH [OF e _ r] Cons.prems(2,4) show ?thesis by auto
  qed
qed simp

section \<open>Properties\<close>

text \<open>
  C23. \<open>Clone\<close> copies a test faithfully and separates the copy from the original as far as the code
  says. Every field of the clone has the contents of the original, which is unchanged. The maps and
  slices of the clone and its protobuf source are new objects; for the three maps of maps, the
  variables to set and the two maps of response headers, the inner maps are new as well. So no later
  write to one of these objects can be seen in the original, and no write to an object that existed
  before can be seen in the maps of maps of the clone. What is shared is exact: the elements of the
  other copied maps and slices, such as the definitions of mocks and the database checks, are the
  elements of the original, and the form, the Allure data, the cases, the fixtures and the database
  checks of the definition are the same objects.
\<close>

theorem clone_isolates:
  assumes "\<forall>f. fieldOk s (t f)" and "Clone t s = (s', t')"
    and "nested = {FVariablesToSet, FDefResponseHeaders, FResponseHeaders}"
    and "same = {FForm, FAllure, FCases, FFixtureFiles, FFixturesListMultiDb, FDatabaseChecks, FDbResponseTmpl}"
  shows "(\<forall>f. view s' (t' f) = view s (t f) \<and> view s' (t f) = view s (t f))
    \<and> (\<forall>f a ob g. f \<notin> same \<and> t' f = Some a \<longrightarrow> view (writeObj a ob s') (t g) = view s (t g))
    \<and> (\<forall>f a b ob g. f \<in> nested \<and> t' f = Some a \<and> b \<in> innerRefs (so_heap s' a) \<longrightarrow>
          view (writeObj b ob s') (t g) = view s (t g))
    \<and> (\<forall>f a ob. f \<in> nested \<and> a < so_next s \<longrightarrow> view (writeObj a ob s') (t' f) = view s (t f))
    \<and> (\<forall>f a. f \<notin> nested \<and> f \<notin> same \<and> t f = Some a \<longrightarrow> (\<exists>b. t' f = Some b \<and> so_heap s' b = so_heap s a))
    \<and> (\<forall>f \<in> same. t' f = t f)"
proof -
  have d: "distinct cloneOrder" and o: "f \<in> set cloneOrder \<longleftrightarrow> f \<notin> same" and n: "f \<in> set nestedFields \<longleftrightarrow> f \<in> nested"
    and ns: "f \<in> nested \<longrightarrow> f \<notin> same" for f
    using assms(3,4) by (cases f; simp add: cloneOrder_def nestedFields_def)+
  note C = assms(2) [unfolded Clone_def]
  note c = cloneFields_copied [OF assms(1) extends_refl d C]
  have e: "extends s s'" and f: "f \<notin> same \<Longrightarrow> view s' (t' f) = view s (t f) \<and> (\<forall>a. t' f = Some a \<longrightarrow> so_next s \<le> a)"
    and i: "f \<in> nested \<Longrightarrow> t' f = Some a \<Longrightarrow> b \<in> innerRefs (so_heap s' a) \<Longrightarrow> so_next s \<le> b"
    and u: "f \<in> same \<Longrightarrow> t' f = t f" for f a b
    using c o n ns by blast+
  have old: "view s' (t f) = view s (t f)" for f using extends_view [OF e] assms(1) by blast
  have w: "view (writeObj a ob s') (t g) = view s (t g)" if "so_next s \<le> a" for a ob g
    using writeObj_view [OF e _ that] assms(1) by blast
  have "view (writeObj a ob s') (t' f) = view s (t f)" if "f \<in> nested" "a < so_next s" for f a ob
    using writeObj_unreached [of "t' f" a s' ob] f [of f] i [OF that(1)] ns [of f] that by fastforce
  moreover have "\<exists>b. t' f = Some b \<and> so_heap s' b = so_heap s a" if "f \<notin> nested" "f \<notin> same" "t f = Some a" for f a
    using cloneFields_shares [OF assms(1) extends_refl d C _ _ that(3)] that o n by blast
  moreover have "view s' (t' f) = view s (t f)" for f using f old u by (cases "f \<in> same") auto
  ultimately show ?thesis using old w f i u by blast
qed

theorem clone_isolates_witness:
  "let s = \<lparr>so_heap = (\<lambda>a. if a = 0 then Object [(''200'', Inner 1)] else Object [(''k'', Plain ''v'')]), so_next = 2\<rparr>;
       t = (\<lambda>f. if f = FVariablesToSet then Some 0 else None)
   in case Clone t s of (s', t') \<Rightarrow>
        t' FVariablesToSet = Some 3 \<and> so_heap s' 3 = Object [(''200'', Inner 2)]
        \<and> view (writeObj 2 (Object []) s') (t FVariablesToSet) = Some [(''200'', Inr (Object [(''k'', Plain ''v'')]))]
        \<and> view (writeObj 1 (Object []) s') (t' FVariablesToSet) = Some [(''200'', Inr (Object [(''k'', Plain ''v'')]))]"
proof -
  let ?s = "\<lparr>so_heap = (\<lambda>a. if a = 0 then Object [(''200'', Inner 1)] else Object [(''k'', Plain ''v'')]), so_next = 2\<rparr>"
  let ?t = "\<lambda>f. if f = FVariablesToSet then Some 0 else None"
  obtain s' t' where c: "Clone ?t ?s = (s', t')" by (cases "Clone ?t ?s")
  have "snd (Clone ?t ?s) FVariablesToSet = Some 3" "so_heap (fst (Clone ?t ?s)) 3 = Object [(''200'', Inner 2)]"
    by code_simp+
  with c have r: "t' FVariablesToSet = Some 3" "so_heap s' 3 = Object [(''200'', Inner 2)]" by simp_all
  have f: "\<forall>f. fieldOk ?s (?t f)" by (auto simp: fieldOk_def)
  note ci = clone_isolates [OF f c refl refl, THEN conjunct2, THEN conjunct2]
  have "view (writeObj 2 (Object []) s') (?t FVariablesToSet) = view ?s (?t FVariablesToSet)"
    using ci [THEN conjunct1, rule_format, of FVariablesToSet 3 2 "Object []" FVariablesToSet] r by simp
  moreover have "view (writeObj 1 (Object []) s') (t' FVariablesToSet) = view ?s (?t FVariablesToSet)"
    using ci [THEN conjunct2, THEN conjunct1] by simp
  ultimately show ?thesis using c r by (simp add: Let_def view_def entryView_def)
qed

end
