(* ===== verification/GrpcDescriptors.thy ===== *)
theory GrpcDescriptors
  imports GrpcMock
begin

text \<open>
  The rest of \<open>mocks/grpc/\<close>: the descriptor source over the global registry with its cache
  (\<open>registry.go\<close>), the conversions of JSON to protobuf bytes (\<open>loader.go\<close>), the list of services for
  reflection (\<open>reflection.go\<close>) and the codec of the server (\<open>server.go\<close>).

  The files of the global registry are a list, in the order in which they are visited; \<open>wrap\<close> is
  \<open>desc.WrapFile\<close>. Message descriptors, dynamic messages and their encodings belong to the protobuf
  libraries and are parameters.
\<close>

section \<open>Descriptors\<close>

record rawFile =
  rf_Path :: string
  rf_Services :: "string list"

record 'm methodDesc =
  md_Name :: string
  md_Input :: 'm
  md_Output :: 'm

record 'm serviceDesc =
  sd_Name :: string
  sd_Methods :: "'m methodDesc list"

record 'm fileDesc =
  fd_Services :: "'m serviceDesc list"
  fd_Messages :: "(string \<times> 'm) list"

datatype 'm symbol = ServiceSymbol "'m serviceDesc" | MessageSymbol 'm

type_synonym 'm wrapper = "rawFile \<Rightarrow> 'm fileDesc gores"
type_synonym 'm fileCache = "(string, 'm fileDesc) gomap"

definition wrapFile :: "'m wrapper \<Rightarrow> rawFile \<Rightarrow> 'm fileCache \<Rightarrow> 'm fileCache \<times> 'm fileDesc gores" where
  "wrapFile wrap fd cache =
     (case map_of cache (rf_Path fd) of
        Some d \<Rightarrow> (cache, Ok d)
      | None \<Rightarrow> sbind (cache, wrap fd) (\<lambda>cache d. (AList.update (rf_Path fd) d cache, Ok d)))"

definition ListServices :: "rawFile list \<Rightarrow> string list" where
  "ListServices files =
     foldl (\<lambda>services name. if name \<in> set services then services else services @ [name]) [] (concat (map rf_Services files))"

text \<open>The services of a file come before its messages.\<close>

definition symbolIn :: "string \<Rightarrow> 'm fileDesc \<Rightarrow> 'm symbol option" where
  "symbolIn name d =
     (case find (\<lambda>s. sd_Name s = name) (fd_Services d) of
        Some s \<Rightarrow> Some (ServiceSymbol s)
      | None \<Rightarrow> map_option (\<lambda>(n, m). MessageSymbol m) (find (\<lambda>(n, m). n = name) (fd_Messages d)))"

fun findSymbolFrom :: "'m wrapper \<Rightarrow> string \<Rightarrow> rawFile list \<Rightarrow> 'm fileCache \<Rightarrow> 'm fileCache \<times> 'm symbol option" where
  "findSymbolFrom wrap name [] cache = (cache, None)"
| "findSymbolFrom wrap name (fd # fds) cache =
     (case wrapFile wrap fd cache of
        (cache1, Ok d) \<Rightarrow>
          (case symbolIn name d of Some s \<Rightarrow> (cache1, Some s) | None \<Rightarrow> findSymbolFrom wrap name fds cache1)
      | (cache1, _) \<Rightarrow> findSymbolFrom wrap name fds cache1)"

definition FindSymbol :: "'m wrapper \<Rightarrow> rawFile list \<Rightarrow> string \<Rightarrow> 'm fileCache \<Rightarrow> 'm fileCache \<times> 'm symbol gores" where
  "FindSymbol wrap files name cache =
     (case findSymbolFrom wrap name files cache of
        (cache1, Some s) \<Rightarrow> (cache1, Ok s)
      | (cache1, None) \<Rightarrow> (cache1, Err (EFmt ''symbol not found: %s'' [ShStr name])))"

section \<open>From JSON to protobuf\<close>

text \<open>
  \<open>encode m body\<close> is \<open>UnmarshalJSON\<close> of a dynamic message of type \<open>m\<close>, \<open>marshal\<close> its wire form. The
  input and the output conversion of the source differ only in the type they take.
\<close>

record ('m, 'd) protoLib =
  pb_unmarshal :: "'m \<Rightarrow> string \<Rightarrow> 'd gores"
  pb_marshal :: "'d \<Rightarrow> string option gores"

definition jsonToProto ::
  "('m, 'd) protoLib \<Rightarrow> ('m methodDesc \<Rightarrow> 'm) \<Rightarrow> (string \<Rightarrow> 'm symbol gores) \<Rightarrow> string \<Rightarrow> string \<Rightarrow> string \<Rightarrow> string option gores" where
  "jsonToProto P typeOf findSym service method jsonBody =
     (case findSym service of
        Err e \<Rightarrow> Err (EWrap ''find service %q'' [ShStr service] e)
      | Panic p \<Rightarrow> Panic p
      | Ok (MessageSymbol m) \<Rightarrow> Err (EFmt ''symbol %q is not a service descriptor'' [ShStr service])
      | Ok (ServiceSymbol s) \<Rightarrow>
          (case find (\<lambda>md. md_Name md = method) (sd_Methods s) of
             None \<Rightarrow> Err (EFmt ''method %q not found in service %q'' [ShStr method, ShStr service])
           | Some md \<Rightarrow>
               (case pb_unmarshal P (typeOf md) jsonBody of
                  Err e \<Rightarrow> Err (EWrap ''unmarshal JSON for %q.%q'' [ShStr service, ShStr method] e)
                | Panic p \<Rightarrow> Panic p
                | Ok msg \<Rightarrow>
                    (case pb_marshal P msg of
                       Err e \<Rightarrow> Err (EWrap ''marshal proto for %q.%q'' [ShStr service, ShStr method] e)
                     | other \<Rightarrow> other))))"

text \<open>The conversions of a registry that was made without a descriptor source.\<close>

definition registryDescriptors :: "('m, 'd) protoLib \<Rightarrow> 'm wrapper \<Rightarrow> rawFile list \<Rightarrow> 'm fileCache \<Rightarrow> descriptors" where
  "registryDescriptors P wrap files cache =
     \<lparr>jsonToProtoInputBytes = jsonToProto P md_Input (\<lambda>name. snd (FindSymbol wrap files name cache)),
      jsonToProtoBytes = jsonToProto P md_Output (\<lambda>name. snd (FindSymbol wrap files name cache))\<rparr>"

definition NewGrpcMocks :: "('m, 'd) protoLib \<Rightarrow> 'm wrapper \<Rightarrow> rawFile list \<Rightarrow> descriptors option \<Rightarrow> GrpcMocks" where
  "NewGrpcMocks P wrap files ds =
     \<lparr>gs_mocks = [], gs_source = Some (case ds of Some d \<Rightarrow> d | None \<Rightarrow> registryDescriptors P wrap files [])\<rparr>"

section \<open>Reflection and codec\<close>

definition GetServiceInfo :: "rawFile list \<Rightarrow> (string, unit) gomap" where
  "GetServiceInfo files = foldl (\<lambda>m name. AList.update name () m) [] (concat (map rf_Services files))"

datatype 'd codecValue = RawBytes string | Message 'd | OtherValue

definition codecMarshal :: "('d \<Rightarrow> string gores) \<Rightarrow> 'd codecValue \<Rightarrow> string gores" where
  "codecMarshal protoMarshal v =
     (case v of
        RawBytes b \<Rightarrow> Ok b
      | Message m \<Rightarrow> protoMarshal m
      | OtherValue \<Rightarrow> Err (EFmt ''grpcmock: Marshal expects []byte or proto.Message, got %T'' []))"

text \<open>The value that \<open>v\<close> holds after decoding.\<close>

definition codecUnmarshal :: "(string \<Rightarrow> 'd \<Rightarrow> 'd gores) \<Rightarrow> string \<Rightarrow> 'd codecValue \<Rightarrow> 'd codecValue gores" where
  "codecUnmarshal protoUnmarshal data v =
     (case v of
        RawBytes _ \<Rightarrow> Ok (RawBytes data)
      | Message m \<Rightarrow> rbind (protoUnmarshal data m) (\<lambda>m1. Ok (Message m1))
      | OtherValue \<Rightarrow> Err (EFmt ''grpcmock: Unmarshal expects *[]byte or proto.Message, got %T'' []))"

text \<open>A raw frame passes the codec unchanged, in both directions.\<close>

lemma codec_raw: "rbind (codecMarshal pm (RawBytes b)) (\<lambda>data. codecUnmarshal pu data (RawBytes old)) = Ok (RawBytes b)"
  by (simp add: codecMarshal_def codecUnmarshal_def)

section \<open>The cache cannot be seen\<close>

text \<open>The symbol by the files alone: the first file that can be read and has it.\<close>

definition findSymbolSpec :: "'m wrapper \<Rightarrow> string \<Rightarrow> rawFile list \<Rightarrow> 'm symbol option" where
  "findSymbolSpec wrap name files =
     (case filter (\<lambda>s. s \<noteq> None) (map (\<lambda>fd. case wrap fd of Ok d \<Rightarrow> symbolIn name d | _ \<Rightarrow> None) files) of
        s # _ \<Rightarrow> s | [] \<Rightarrow> None)"

definition cacheOk :: "'m wrapper \<Rightarrow> rawFile list \<Rightarrow> 'm fileCache \<Rightarrow> bool" where
  "cacheOk wrap files cache \<longleftrightarrow> (\<forall>fd \<in> set files. \<forall>d. map_of cache (rf_Path fd) = Some d \<longrightarrow> wrap fd = Ok d)"

lemma wrapFile_cached:
  assumes "cacheOk wrap files cache" and "fd \<in> set files" and "inj_on rf_Path (set files)"
  shows "cacheOk wrap files (fst (wrapFile wrap fd cache))"
    and "(case snd (wrapFile wrap fd cache) of Ok d \<Rightarrow> symbolIn name d | _ \<Rightarrow> None) = (case wrap fd of Ok d \<Rightarrow> symbolIn name d | _ \<Rightarrow> None)"
proof -
  show "cacheOk wrap files (fst (wrapFile wrap fd cache))"
    using assms by (auto simp: wrapFile_def cacheOk_def sbind_def update_conv dest: inj_onD split: option.split res.split if_splits)
  show "(case snd (wrapFile wrap fd cache) of Ok d \<Rightarrow> symbolIn name d | _ \<Rightarrow> None) = (case wrap fd of Ok d \<Rightarrow> symbolIn name d | _ \<Rightarrow> None)"
    using assms(1,2) by (auto simp: wrapFile_def cacheOk_def sbind_def split: option.split res.split)
qed

lemma findSymbolFrom_spec:
  assumes "cacheOk wrap files cache" and "set fds \<subseteq> set files" and "inj_on rf_Path (set files)"
  shows "cacheOk wrap files (fst (findSymbolFrom wrap name fds cache))
    \<and> snd (findSymbolFrom wrap name fds cache) = findSymbolSpec wrap name fds"
  using assms(1,2)
proof (induction fds arbitrary: cache)
  case (Cons fd fds)
  then have fd: "fd \<in> set files" and sub: "set fds \<subseteq> set files" by auto
  obtain cache1 r where w: "wrapFile wrap fd cache = (cache1, r)" by (cases "wrapFile wrap fd cache")
  note c = wrapFile_cached [OF Cons.prems(1) fd assms(3), unfolded w fst_conv snd_conv]
  note IH = Cons.IH [OF c(1) sub]
  show ?case
  proof (cases r)
    case (Ok d)
    with c(2) [of name] w IH show ?thesis
      by (cases "symbolIn name d") (auto simp: findSymbolSpec_def c(1))
  qed (use c(2) [of name] w IH in \<open>auto simp: findSymbolSpec_def\<close>)
qed (simp add: findSymbolSpec_def)

text \<open>The caches that lookups leave behind, starting from the empty one.\<close>

inductive lookedUp :: "'m wrapper \<Rightarrow> rawFile list \<Rightarrow> 'm fileCache \<Rightarrow> bool" for wrap files where
  fresh: "lookedUp wrap files []"
| lookup: "lookedUp wrap files cache \<Longrightarrow> lookedUp wrap files (fst (FindSymbol wrap files name cache))"

lemma FindSymbol_fst: "fst (FindSymbol wrap files name cache) = fst (findSymbolFrom wrap name files cache)"
  by (simp add: FindSymbol_def split: prod.split option.split)

lemma lookedUp_ok:
  assumes "lookedUp wrap files cache" and "inj_on rf_Path (set files)"
  shows "cacheOk wrap files cache"
  using assms(1)
proof induction
  case (lookup cache name)
  from findSymbolFrom_spec [OF lookup.IH subset_refl assms(2), of name] show ?case by (simp add: FindSymbol_fst)
qed (simp add: cacheOk_def)

lemma FindSymbol_spec:
  assumes "lookedUp wrap files cache" and "inj_on rf_Path (set files)"
  shows "snd (FindSymbol wrap files name cache) =
    (case findSymbolSpec wrap name files of Some s \<Rightarrow> Ok s | None \<Rightarrow> Err (EFmt ''symbol not found: %s'' [ShStr name]))"
  using findSymbolFrom_spec [OF lookedUp_ok [OF assms] subset_refl assms(2), of name]
  by (auto simp: FindSymbol_def split: prod.split option.split)

section \<open>Example\<close>

definition exampleFiles :: "rawFile list" where
  "exampleFiles = [\<lparr>rf_Path = ''bad'', rf_Services = []\<rparr>, \<lparr>rf_Path = ''a'', rf_Services = [''svc'']\<rparr>]"

definition exampleWrap :: "nat wrapper" where
  "exampleWrap fd =
     (if rf_Path fd = ''bad'' then Err (errNew ''unreadable'')
      else Ok \<lparr>fd_Services = [\<lparr>sd_Name = ''svc'', sd_Methods = [\<lparr>md_Name = ''M'', md_Input = 1, md_Output = 2\<rparr>]\<rparr>], fd_Messages = [(''msg'', 3)]\<rparr>)"

section \<open>Properties\<close>



text \<open>
  Loading a definition with a response body stores the wire form of the body as a message of
  the method's output type, and with an expected request that of its input type.
\<close>

lemma grpc_bodies_converted:
  assumes "gs_source g = Some (registryDescriptors P wrap files cache)"
    and "grpcDefinitionOf f2i g name m = Ok def" and "stringField m ''responseBody'' = body" and "body \<noteq> []"
  shows "jsonToProto P md_Output (\<lambda>name. snd (FindSymbol wrap files name cache)) (gd_Service def) (gd_Method def) body
    = Ok (gd_Response def)"
  using assms
  by (auto simp: grpcDefinitionOf_def Let_def convertBody_def registryDescriptors_def split: if_splits res.splits)

end
