(* ===== verification/Allure2Store.thy ===== *)
theory Allure2Store
  imports Allure2
begin

text \<open>
  The operations of \<open>output/allure_report/allure2/models.go\<close> that build a result, and its steps as the
  program keeps them: a slice of steps in an array, where \<open>StartStep\<close> and \<open>StartSubStep\<close> append a step
  and return a pointer into the array. An append to a full array copies the steps into a new one, and
  a pointer into the old array then points to a step that is no longer part of the result.

  \<open>Allure2\<close> builds a step as a value and appends it when it is complete. \<open>steps_through_pointers\<close>
  shows that this is the same as long as a step is complete before the next one is started beside it,
  which is how \<open>allure2_output.go\<close> uses them; \<open>late_update_lost\<close> shows that it is not otherwise.
\<close>

section \<open>Building a result\<close>

definition WithDescription :: "string \<Rightarrow> allureResult \<Rightarrow> allureResult" where
  "WithDescription desc r = r\<lparr>ar_Description := desc\<rparr>"

definition WithStatus :: "string \<Rightarrow> allureResult \<Rightarrow> allureResult" where
  "WithStatus status r = r\<lparr>ar_Status := status\<rparr>"

definition WithStatusDetails :: "string \<Rightarrow> string \<Rightarrow> allureResult \<Rightarrow> allureResult" where
  "WithStatusDetails message trace r = r\<lparr>ar_StatusDetails := Some (message, trace)\<rparr>"

definition AddLabels :: "(string \<times> string) list \<Rightarrow> allureResult \<Rightarrow> allureResult" where
  "AddLabels labels r = r\<lparr>ar_Labels := ar_Labels r @ labels\<rparr>"

definition NewSeverityLabel :: "string \<Rightarrow> string \<times> string" where
  "NewSeverityLabel severity = (''severity'', severity)"

definition NewFeatureLabel :: "string \<Rightarrow> string \<times> string" where
  "NewFeatureLabel feature = (''feature'', feature)"

definition NewStoryLabel :: "string \<Rightarrow> string \<times> string" where
  "NewStoryLabel story = (''story'', story)"

definition NewEpicLabel :: "string \<Rightarrow> string \<times> string" where
  "NewEpicLabel epic = (''epic'', epic)"

definition NewOwnerLabel :: "string \<Rightarrow> string \<times> string" where
  "NewOwnerLabel owner = (''owner'', owner)"

definition NewTagLabel :: "string \<Rightarrow> string \<times> string" where
  "NewTagLabel tag = (''tag'', tag)"

lemma AddLabels_fold: "AddLabels labels r = foldl (\<lambda>r (n, v). AddLabel n v r) r labels"
proof (induction labels arbitrary: r)
  case (Cons l labels)
  obtain n v where "l = (n, v)" by (cases l)
  with Cons [of "AddLabel n v r", symmetric] show ?case by (simp add: AddLabels_def AddLabel_def)
qed (simp add: AddLabels_def)

text \<open>An attachment of the result itself: the file is written first, and nothing is attached if that fails.\<close>

definition resultAddAttachment ::
  "allureEnv \<Rightarrow> string \<Rightarrow> string \<times> string \<times> string \<Rightarrow> reportState \<times> allureResult \<Rightarrow> (reportState \<times> allureResult) \<times> unit gores" where
  "resultAddAttachment E targetDir ncm sr =
     (case AddAttachment E targetDir ncm (fst sr) of
        (s1, Ok att) \<Rightarrow> ((s1, (snd sr)\<lparr>ar_Attachments := ar_Attachments (snd sr) @ [att]\<rparr>), Ok ())
      | (s1, Err e) \<Rightarrow> ((s1, snd sr), Err e)
      | (s1, Panic p) \<Rightarrow> ((s1, snd sr), Panic p))"

lemma resultAddAttachment_files:
  "snd (resultAddAttachment E dir ncm (s, r)) = Ok () \<Longrightarrow>
     \<exists>att content. ar_Attachments (snd (fst (resultAddAttachment E dir ncm (s, r)))) = ar_Attachments r @ [att]
       \<and> rp_files (fst (fst (resultAddAttachment E dir ncm (s, r)))) = rp_files s @ [(joinPath dir (at_Source att), content)]"
  by (auto simp: resultAddAttachment_def AddAttachment_def Let_def split: prod.splits res.splits)

section \<open>Slices of steps\<close>

record slice =
  sl_array :: nat
  sl_len :: nat

record 's stepStore =
  so_arrays :: "nat \<Rightarrow> 's list"
  so_next :: nat

type_synonym pointer = "nat \<times> nat"

definition contents :: "'s stepStore \<Rightarrow> slice \<Rightarrow> 's list" where
  "contents st sl = take (sl_len sl) (so_arrays st (sl_array sl))"

definition sliceOk :: "'s stepStore \<Rightarrow> slice \<Rightarrow> bool" where
  "sliceOk st sl \<longleftrightarrow> sl_len sl \<le> length (so_arrays st (sl_array sl)) \<and> sl_array sl < so_next st"

text \<open>
  \<open>append\<close>: in place while there is room, otherwise into a new array with \<open>spare\<close> more places,
  filled with \<open>zero\<close>.
\<close>

definition appendSlice :: "nat \<Rightarrow> 's \<Rightarrow> 's \<Rightarrow> 's stepStore \<times> slice \<Rightarrow> 's stepStore \<times> slice" where
  "appendSlice spare zero x ss =
     (case ss of (st, sl) \<Rightarrow>
        (let arr = so_arrays st (sl_array sl)
         in if sl_len sl < length arr
            then (st\<lparr>so_arrays := (so_arrays st)(sl_array sl := arr[sl_len sl := x])\<rparr>, sl\<lparr>sl_len := sl_len sl + 1\<rparr>)
            else (st\<lparr>so_arrays := (so_arrays st)(so_next st := contents st sl @ [x] @ replicate spare zero), so_next := so_next st + 1\<rparr>,
                  \<lparr>sl_array = so_next st, sl_len = sl_len sl + 1\<rparr>)))"

text \<open>\<open>&r.Steps[len(r.Steps)-1]\<close>\<close>

definition lastPointer :: "slice \<Rightarrow> pointer" where
  "lastPointer sl = (sl_array sl, sl_len sl - 1)"

definition StartStep :: "nat \<Rightarrow> Step \<Rightarrow> string \<Rightarrow> Step stepStore \<times> slice \<Rightarrow> (Step stepStore \<times> slice) \<times> pointer" where
  "StartStep spare zero name ss =
     (case appendSlice spare zero (newStep name) ss of (st1, sl1) \<Rightarrow> ((st1, sl1), lastPointer sl1))"

text \<open>A method of \<open>*Step\<close>, such as \<open>Finish\<close> or \<open>AddParameter\<close>, called on a pointer.\<close>

definition throughPointer :: "('s \<Rightarrow> 's) \<Rightarrow> pointer \<Rightarrow> 's stepStore \<Rightarrow> 's stepStore" where
  "throughPointer f p st =
     (case p of (a, i) \<Rightarrow> st\<lparr>so_arrays := (so_arrays st)(a := (so_arrays st a)[i := f (so_arrays st a ! i)])\<rparr>)"

lemma appendSlice_contents:
  "sliceOk st sl \<Longrightarrow> appendSlice spare zero x (st, sl) = (st1, sl1) \<Longrightarrow>
     contents st1 sl1 = contents st sl @ [x] \<and> sliceOk st1 sl1 \<and> 0 < sl_len sl1"
  by (auto simp: appendSlice_def contents_def sliceOk_def Let_def take_Suc_conv_app_nth split: if_splits)

lemma throughPointer_last:
  assumes "sliceOk st sl" and "0 < sl_len sl"
  shows "contents (throughPointer f (lastPointer sl) st) sl = butlast (contents st sl) @ [f (last (contents st sl))]
    \<and> sliceOk (throughPointer f (lastPointer sl) st) sl"
proof -
  let ?arr = "so_arrays st (sl_array sl)"
  obtain n where n: "sl_len sl = Suc n" using assms(2) by (cases "sl_len sl") auto
  with assms(1) have len: "n < length ?arr" by (simp add: sliceOk_def)
  then have c: "contents st sl = take n ?arr @ [?arr ! n]" by (simp add: contents_def n take_Suc_conv_app_nth)
  have "take (Suc n) (?arr[n := f (?arr ! n)]) = take n ?arr @ [f (?arr ! n)]"
    using len by (simp add: take_Suc_conv_app_nth)
  with c assms(1) show ?thesis by (simp add: throughPointer_def lastPointer_def contents_def sliceOk_def n)
qed

text \<open>A step that is started and completed through its pointer.\<close>

definition completeStep :: "nat \<Rightarrow> Step \<Rightarrow> string \<times> (Step \<Rightarrow> Step) list \<Rightarrow> Step stepStore \<times> slice \<Rightarrow> Step stepStore \<times> slice" where
  "completeStep spare zero nf ss =
     (case StartStep spare zero (fst nf) ss of ((st1, sl1), p) \<Rightarrow> (foldl (\<lambda>st f. throughPointer f p st) st1 (snd nf), sl1))"

lemma updates_last:
  assumes "sliceOk st sl" and "0 < sl_len sl" and "contents st sl = xs @ [x]"
  shows "contents (foldl (\<lambda>st f. throughPointer f (lastPointer sl) st) st fs) sl = xs @ [foldl (\<lambda>x f. f x) x fs]
    \<and> sliceOk (foldl (\<lambda>st f. throughPointer f (lastPointer sl) st) st fs) sl"
  using assms
proof (induction fs arbitrary: st x)
  case (Cons f fs)
  with throughPointer_last [OF Cons.prems(1,2), of f]
  have "contents (throughPointer f (lastPointer sl) st) sl = xs @ [f x]" "sliceOk (throughPointer f (lastPointer sl) st) sl" by simp_all
  from Cons.IH [OF this(2) Cons.prems(2) this(1)] show ?case by simp
qed simp

lemma completeStep_contents:
  assumes "sliceOk st sl" and "completeStep spare zero nf (st, sl) = (st1, sl1)"
  shows "contents st1 sl1 = contents st sl @ [foldl (\<lambda>x f. f x) (newStep (fst nf)) (snd nf)] \<and> sliceOk st1 sl1"
proof -
  obtain st0 sl0 where a: "appendSlice spare zero (newStep (fst nf)) (st, sl) = (st0, sl0)" by fastforce
  note A = appendSlice_contents [OF assms(1) a]
  with assms(2) a have "sl1 = sl0" "st1 = foldl (\<lambda>st f. throughPointer f (lastPointer sl0) st) st0 (snd nf)"
    by (auto simp: completeStep_def StartStep_def)
  with updates_last [of st0 sl0 "contents st sl" "newStep (fst nf)" "snd nf"] A show ?thesis by simp
qed

text \<open>Steps completed one after the other are the values that \<open>Allure2\<close> appends, whatever the capacities are.\<close>

theorem steps_through_pointers:
  assumes "sliceOk st sl"
  shows "contents (fst (foldl (\<lambda>ss (spare, nf). completeStep spare zero nf ss) (st, sl) todo))
      (snd (foldl (\<lambda>ss (spare, nf). completeStep spare zero nf ss) (st, sl) todo))
    = contents st sl @ map (\<lambda>(spare, name, fs). foldl (\<lambda>x f. f x) (newStep name) fs) todo"
  using assms
proof (induction todo arbitrary: st sl)
  case (Cons sn todo)
  obtain spare name fs where sn: "sn = (spare, name, fs)" by (metis prod_cases3)
  obtain st1 sl1 where c: "completeStep spare zero (name, fs) (st, sl) = (st1, sl1)" by fastforce
  with completeStep_contents [OF Cons.prems c] Cons.IH [of st1 sl1] show ?case by (simp add: sn)
qed simp

text \<open>When the next step needed a new array, what is done through the pointer to an earlier step is lost.\<close>

theorem late_update_lost:
  assumes "sliceOk st sl" and "sl_len sl = length (so_arrays st (sl_array sl))" and "StartStep spare zero name (st, sl) = ((st1, sl1), p)"
  shows "contents (throughPointer f (lastPointer sl) st1) sl1 = contents st1 sl1"
  using assms
  by (auto simp: StartStep_def appendSlice_def Let_def throughPointer_def lastPointer_def contents_def sliceOk_def split: if_splits)

end
