(* ===== verification/ClosedLoop.thy ===== *)
theory ClosedLoop
  imports RunState RequestSpec Concurrency
begin

text \<open>
  A test as a whole system: the runner sends the request of the test over the HTTP transport to the
  service under test, the service calls the mocks and reads their answers, and what it answers
  itself comes back as the result. \<open>Runner\<close> takes the calls of the mocks and the result from a
  function of the test; here they come out of the interaction.

  A service is a program (\<open>program\<close>) that replies or makes a call and goes on with the answer, and it
  keeps a state of its own between requests. A call reaches the mock that listens at its host, as
  \<open>ServeHTTP\<close> of \<open>mocks/service_mock.go\<close>; the answer is what the calls on the response writer
  amount to under the rules of \<open>net/http\<close>. Parameters (\<open>netEnv\<close>): the headers that the client and the
  server of \<open>net/http\<close> add, the texts of status codes, and the gRPC transport, whose server is not
  followed here.
\<close>

section \<open>Requests and responses on the wire\<close>

record netEnv =
  ne_requestHeaders :: "outRequest \<Rightarrow> (string, string list) gomap"
  ne_responseHeaders :: "int \<Rightarrow> (string, string list) gomap \<Rightarrow> string \<Rightarrow> (string, string list) gomap"
  ne_statusText :: "int \<Rightarrow> string"
  ne_grpc :: "Test \<Rightarrow> Result gores"

definition deliver :: "netEnv \<Rightarrow> outRequest \<Rightarrow> exchange" where
  "deliver N rq =
     \<lparr>writer = \<lparr>wcalls = [], hijacker = Some None\<rparr>,
      req = \<lparr>Method = or_Method rq, URLPath = or_Path rq, RawQuery = or_RawQuery rq, Header = ne_requestHeaders N rq,
             Body = \<lparr>unread = or_Body rq, readError = None\<rparr>\<rparr>\<rparr>"

text \<open>
  The state of a response writer. The first \<open>WriteHeader\<close> fixes the status and the headers, a \<open>Write\<close>
  before it fixes status 200; informational codes are sent at once and fix nothing; a code out of
  range panics, which closes the connection.
\<close>

record response =
  rp_status :: "int option"
  rp_header :: "(string, string list) gomap"
  rp_sent :: "(string, string list) gomap"
  rp_body :: string
  rp_closed :: bool

definition bodyAllowed :: "int \<Rightarrow> bool" where
  "bodyAllowed code \<longleftrightarrow> \<not> (100 \<le> code \<and> code \<le> 199) \<and> code \<noteq> 204 \<and> code \<noteq> 304"

definition fixStatus :: "int \<Rightarrow> response \<Rightarrow> response" where
  "fixStatus code s = (if rp_status s = None then s\<lparr>rp_status := Some code, rp_sent := rp_header s\<rparr> else s)"

fun respond :: "response \<Rightarrow> wcall \<Rightarrow> response" where
  "respond s (HeaderAdd k v) = s\<lparr>rp_header := headerAdd k v (rp_header s)\<rparr>"
| "respond s (WriteHeader code) =
     (if rp_status s \<noteq> None then s
      else if code < 100 \<or> 999 < code then s\<lparr>rp_closed := True\<rparr>
      else if 100 \<le> code \<and> code \<le> 199 \<and> code \<noteq> 101 then s
      else fixStatus code s)"
| "respond s (Write b) =
     (let s1 = fixStatus 200 s
      in if bodyAllowed (the (rp_status s1)) then s1\<lparr>rp_body := rp_body s1 @ b\<rparr> else s1)"
| "respond s CloseConn = s\<lparr>rp_closed := True\<rparr>"

definition answer :: "netEnv \<Rightarrow> string \<Rightarrow> wcall list \<Rightarrow> httpResponse gores" where
  "answer N method cs =
     (let s = fixStatus 200 (foldl respond \<lparr>rp_status = None, rp_header = [], rp_sent = [], rp_body = [], rp_closed = False\<rparr> cs);
          code = the (rp_status s)
      in if rp_closed s then Err (errNew ''EOF'')
         else Ok \<lparr>hr_Status = itoa code @ '' '' @ ne_statusText N code, hr_StatusCode = code,
                  hr_Header = ne_responseHeaders N code (rp_sent s) (rp_body s),
                  hr_Body = Ok (if method = ''HEAD'' then [] else rp_body s), hr_Close = Ok ()\<rparr>)"

section \<open>Services\<close>

datatype 'a program = Reply 'a | Call outRequest "httpResponse gores \<Rightarrow> 'a program"

type_synonym 'w handler = "request \<Rightarrow> 'w \<Rightarrow> ('w \<times> wcall list) program"
type_synonym 'w service = "outRequest \<Rightarrow> 'w \<Rightarrow> ('w \<times> httpResponse gores) program"

text \<open>\<open>http.HandleFunc\<close> and the default mux, for patterns that are paths without a final slash.\<close>

definition notFound :: "wcall list" where
  "notFound = [HeaderAdd ''Content-Type'' ''text/plain; charset=utf-8'', HeaderAdd ''X-Content-Type-Options'' ''nosniff'',
     WriteHeader 404, Write (''404 page not found'' @ [CHR 0x0A])]"

definition serveMux :: "(string, 'w handler) gomap \<Rightarrow> 'w handler" where
  "serveMux routes r w = (case map_of routes (URLPath r) of Some h \<Rightarrow> h r w | None \<Rightarrow> Reply (w, notFound))"

definition serviceOf :: "netEnv \<Rightarrow> 'w handler \<Rightarrow> 'w service" where
  "serviceOf N h rq w = map_program (\<lambda>(w1, cs). (w1, answer N (or_Method rq) cs)) (h (req (deliver N rq)) w)"

section \<open>Interaction with the mocks\<close>

definition mockAnswer :: "netEnv \<Rightarrow> libs \<Rightarrow> outRequest \<Rightarrow> ServiceMock \<Rightarrow> httpResponse gores" where
  "mockAnswer N L rq m =
     (case ServeHTTP L (deliver N rq) m of
        (m1, x1, Ok _) \<Rightarrow> answer N (or_Method rq) (wcalls (writer x1))
      | _ \<Rightarrow> Err (errNew ''EOF''))"

definition callMock :: "netEnv \<Rightarrow> libs \<Rightarrow> outRequest \<Rightarrow> Mocks \<Rightarrow> Mocks \<times> traffic list \<times> httpResponse gores" where
  "callMock N L rq ms =
     (case find (\<lambda>(n, m). sm_listener m = Some (or_Host rq)) ms of
        None \<Rightarrow> (ms, [], Err (EFmt ''dial tcp %s: connect: connection refused'' [ShStr (or_Host rq)]))
      | Some (n, m) \<Rightarrow> (serveHttp L n (deliver N rq) ms, [HttpRequest n (deliver N rq)], mockAnswer N L rq m))"

primrec interact :: "netEnv \<Rightarrow> libs \<Rightarrow> 'a program \<Rightarrow> Mocks \<Rightarrow> Mocks \<times> traffic list \<times> 'a" where
  "interact N L (Reply a) ms = (ms, [], a)"
| "interact N L (Call rq k) ms =
     (case callMock N L rq ms of
        (ms1, es, resp) \<Rightarrow> (case interact N L (k resp) ms1 of (ms2, es2, a) \<Rightarrow> (ms2, es @ es2, a)))"

text \<open>The mocks end where serving the observed requests one after the other takes them.\<close>

lemma callMock_serve: "callMock N L rq ms = (ms', es, resp) \<Longrightarrow>
    rs_mocks st = Some ms \<Longrightarrow> serveAll L es st = st\<lparr>rs_mocks := Some ms'\<rparr>"
  by (auto simp: callMock_def split: option.splits)

lemma interact_serve:
  "interact N L p ms = (ms', es, a) \<Longrightarrow> rs_mocks st = Some ms \<Longrightarrow> serveAll L es st = st\<lparr>rs_mocks := Some ms'\<rparr>"
proof (induction p arbitrary: ms ms' es a st)
  case (Call rq k)
  obtain ms1 es1 resp where c: "callMock N L rq ms = (ms1, es1, resp)" by (metis prod_cases3)
  obtain es2 where i: "interact N L (k resp) ms1 = (ms', es2, a)" and es: "es = es1 @ es2"
    using Call.prems(1) c by (auto split: prod.splits)
  have s: "serveAll L es1 st = st\<lparr>rs_mocks := Some ms1\<rparr>" by (rule callMock_serve [OF c Call.prems(2)])
  from Call.IH [OF _ i, of "st\<lparr>rs_mocks := Some ms1\<rparr>"] show ?case by (simp add: es s)
qed simp

lemma interact_no_mocks: "fst (interact N L p []) = [] \<and> fst (snd (interact N L p [])) = []"
  by (induction p) (auto simp: callMock_def split: prod.split)

section \<open>A test against the service\<close>

record 'w testbed =
  tb_net :: netEnv
  tb_env :: httpEnv
  tb_host :: string
  tb_service :: "'w service"

text \<open>The transport with the service at the other end: the state, the requests the mocks got, the result.\<close>

definition closedExecute ::
  "'w testbed \<Rightarrow> libs \<Rightarrow> transportKind \<Rightarrow> Test \<Rightarrow> runState \<Rightarrow> 'w \<Rightarrow> runState \<times> traffic list \<times> 'w \<times> Result gores" where
  "closedExecute B L kind v st w =
     (case kind of
        GrpcTransport \<Rightarrow> (st, [], w, ne_grpc (tb_net B) v)
      | HttpTransport \<Rightarrow>
          (case newRequest (tb_env B) (tb_host B) v of
             Ok rq \<Rightarrow>
               (case interact (tb_net B) L (tb_service B rq w) (case rs_mocks st of None \<Rightarrow> [] | Some ms \<Rightarrow> ms) of
                  (ms1, es, w1, resp) \<Rightarrow>
                    (st\<lparr>rs_mocks := map_option (\<lambda>_. ms1) (rs_mocks st)\<rparr>, es, w1,
                     httpExecute ((tb_env B)\<lparr>he_do := \<lambda>_. resp\<rparr>) (tb_host B) v))
           | Err e \<Rightarrow> (st, [], w, Err e)
           | Panic p \<Rightarrow> (st, [], w, Panic p)))"

text \<open>\<open>executeTest\<close> up to the call of the transport.\<close>

definition prepareTest :: "config \<Rightarrow> Test \<Rightarrow> runState \<Rightarrow> runState \<times> (Test \<times> transportKind) gores" where
  "prepareTest cfg t st =
     sbind (withVariables cfg t st) (\<lambda>st v.
     sbind (st, loadFixtures cfg v) (\<lambda>st _.
     sbind (setupMocks cfg v st) (\<lambda>st _.
     sbind (st, runScript cfg (BeforeScript v) (sp_Timeout (BeforeScriptParams v))) (\<lambda>st _.
     sbind (getTransportExecutor v st) (\<lambda>st kind. (st, Ok (v, kind)))))))"

lemma executeTest_prepared:
  "executeTest cfg t st =
     sbind (prepareTest cfg t st) (\<lambda>st (v, kind). sbind (transportExecute cfg v st) (\<lambda>st r. afterTransport cfg v st r))"
  unfolding executeTest_split prepareTest_def sbind_assoc by simp

definition closedTest :: "'w testbed \<Rightarrow> config \<Rightarrow> Test \<Rightarrow> runState \<times> 'w \<Rightarrow> (runState \<times> 'w) \<times> Result gores" where
  "closedTest B cfg t s =
     (case s of (st, w) \<Rightarrow>
        (case prepareTest cfg t st of
           (st1, Ok (v, kind)) \<Rightarrow>
             (case closedExecute B (cf_libs cfg) kind v st1 w of
                (st2, es, w1, out) \<Rightarrow> (case sbind (st2, out) (afterTransport cfg v) of (st3, r) \<Rightarrow> ((st3, w1), r)))
         | (st1, Err e) \<Rightarrow> ((st1, w), Err e)
         | (st1, Panic p) \<Rightarrow> ((st1, w), Panic p)))"

section \<open>A run against the service\<close>

text \<open>
  What was observed of the transport in a test, as the environment of \<open>executeTest\<close>. The outputs get
  the test as \<open>executeTest\<close> leaves it under that environment.
\<close>

definition observed :: "'w testbed \<Rightarrow> config \<Rightarrow> Test \<Rightarrow> runState \<Rightarrow> 'w \<Rightarrow> config" where
  "observed B cfg t st w =
     (case prepareTest cfg t st of
        (st1, Ok (v, kind)) \<Rightarrow>
          (case closedExecute B (cf_libs cfg) kind v st1 w of (st2, es, w1, out) \<Rightarrow> cfg\<lparr>cf_execute := \<lambda>_. (es, out)\<rparr>)
      | _ \<Rightarrow> cfg)"

definition closedBuild :: "'w testbed \<Rightarrow> config \<Rightarrow> Test \<Rightarrow> runState \<times> 'w \<Rightarrow> (runState \<times> 'w) \<times> outcome" where
  "closedBuild B cfg test s =
     (if Status test = ''broken'' then (s, Broken)
      else if Status test = ''skipped'' then (s, Skipped)
      else case closedTest B cfg test s of
          (s1, Ok r) \<Rightarrow>
            (case processOutputs (cf_outputs cfg) (testAfter (observed B cfg test (fst s) (snd s)) test (fst s)) r of
               Ok _ \<Rightarrow> (s1, Finished r)
             | Err e \<Rightarrow> (s1, Failed e)
             | Panic p \<Rightarrow> (s1, Panicked p))
        | (s1, Err e) \<Rightarrow> (s1, Failed e)
        | (s1, Panic p) \<Rightarrow> (s1, Panicked p))"

fun closedLoop :: "'w testbed \<Rightarrow> config \<Rightarrow> Test list \<Rightarrow> runState \<times> 'w \<Rightarrow> ConsoleHandler \<Rightarrow> (runState \<times> 'w) \<times> ConsoleHandler gores" where
  "closedLoop B cfg [] s h = (s, Ok h)"
| "closedLoop B cfg (t # ts) s h =
     (case closedBuild B cfg t s of
        (s1, out) \<Rightarrow>
          (case HandleTest h out of
             Ok h1 \<Rightarrow> closedLoop B cfg ts s1 h1
           | Err e \<Rightarrow> (s1, Err (EWrap ''test %s error'' [ShStr (Name t)] e))
           | Panic p \<Rightarrow> (s1, Panic p)))"

definition closedRun :: "'w testbed \<Rightarrow> config \<Rightarrow> Test list \<Rightarrow> runState \<times> 'w \<Rightarrow> ConsoleHandler \<Rightarrow> (runState \<times> 'w) \<times> ConsoleHandler gores" where
  "closedRun B cfg tests s h = closedLoop B cfg (map (focusStatus (checkHasFocused tests)) tests) s h"

section \<open>The whole system refines the model of the runner\<close>

lemma closedExecute_serve:
  assumes "closedExecute B L kind v st w = (st2, es, w1, out)"
  shows "serveAll L es st = st2"
proof (cases "rs_mocks st")
  case None
  then have id: "st\<lparr>rs_mocks := None\<rparr> = st" by simp
  have none: "interact N L p [] = (ms', es, a) \<Longrightarrow> es = []" for N and p :: "('a \<times> httpResponse gores) program" and ms' a
    using interact_no_mocks [of N L p] by simp
  from None assms show ?thesis
    by (auto simp: closedExecute_def id split: transportKind.splits res.splits prod.splits dest!: none)
next
  case (Some ms)
  with assms interact_serve [OF _ Some, of "tb_net B" L] show ?thesis
    by (auto simp: closedExecute_def split: transportKind.splits res.splits prod.splits)
qed

lemma prepareTest_observed: "prepareTest (cfg\<lparr>cf_execute := ex\<rparr>) = prepareTest cfg"
  by (intro ext) (simp add: prepareTest_def execute_irrelevant)

lemma afterTransport_observed: "afterTransport (cfg\<lparr>cf_execute := ex\<rparr>) = afterTransport cfg"
  by (intro ext) (simp add: afterTransport_def execute_irrelevant)

lemma closedTest_executeTest:
  "(fst (fst (closedTest B cfg t (st, w))), snd (closedTest B cfg t (st, w))) = executeTest (observed B cfg t st w) t st"
proof (cases "prepareTest cfg t st")
  case (Pair st1 p)
  show ?thesis
  proof (cases p)
    case (Ok vk)
    obtain v kind where vk: "vk = (v, kind)" by (cases vk)
    obtain st2 es w1 out where e: "closedExecute B (cf_libs cfg) kind v st1 w = (st2, es, w1, out)" by (metis prod_cases4)
    have o: "observed B cfg t st w = cfg\<lparr>cf_execute := \<lambda>_. (es, out)\<rparr>" by (simp add: observed_def Pair Ok vk e)
    have "transportExecute (cfg\<lparr>cf_execute := \<lambda>_. (es, out)\<rparr>) v st1 = (st2, out)"
      using closedExecute_serve [OF e] by (simp add: transportExecute_def)
    then show ?thesis
      by (simp add: executeTest_prepared o prepareTest_observed afterTransport_observed closedTest_def Pair Ok vk e split: prod.split)
  qed (simp_all add: executeTest_prepared observed_def closedTest_def Pair)
qed

lemma observed_fields: "cf_outputs (observed B cfg t st w) = cf_outputs cfg"
  by (simp add: observed_def split: prod.split res.split)

lemma closedBuild_buildTestExecutor:
  "(fst (fst (closedBuild B cfg t (st, w))), snd (closedBuild B cfg t (st, w))) = buildTestExecutor (observed B cfg t st w) t st"
proof -
  obtain s1 w1 r where c: "closedTest B cfg t (st, w) = ((s1, w1), r)" by (metis prod_cases3 surj_pair)
  with closedTest_executeTest [of B cfg t st w] have "executeTest (observed B cfg t st w) t st = (s1, r)" by simp
  with c show ?thesis by (simp add: closedBuild_def buildTestExecutor_def observed_fields split: res.split)
qed

section \<open>Services with an invariant\<close>

primrec allReplies :: "('a \<Rightarrow> bool) \<Rightarrow> 'a program \<Rightarrow> bool" where
  "allReplies P (Reply a) = P a"
| "allReplies P (Call rq k) = (\<forall>resp. allReplies P (k resp))"

lemma allReplies_map [simp]: "allReplies P (map_program f p) = allReplies (\<lambda>a. P (f a)) p"
  by (induction p) auto

lemma allReplies_mono: "allReplies P p \<Longrightarrow> (\<And>a. P a \<Longrightarrow> Q a) \<Longrightarrow> allReplies Q p"
  by (induction p) auto

lemma interact_allReplies: "allReplies P p \<Longrightarrow> interact N L p ms = (ms', es, a) \<Longrightarrow> P a"
proof (induction p arbitrary: ms ms' es)
  case (Call rq k)
  obtain ms1 es1 resp where "callMock N L rq ms = (ms1, es1, resp)" by (metis prod_cases3)
  with Call.prems(2) obtain es2 where "interact N L (k resp) ms1 = (ms', es2, a)" by (auto split: prod.splits)
  with Call.IH [OF _ _ this] Call.prems(1) show ?case by auto
qed simp

locale tested_service =
  fixes handle :: "'w handler" and inv :: "'w \<Rightarrow> bool"
  assumes handle_keeps: "inv w \<Longrightarrow> allReplies (\<lambda>(w1, cs). inv w1) (handle r w)"
begin

lemma service_keeps: "inv w \<Longrightarrow> allReplies (\<lambda>(w1, resp). inv w1) (serviceOf N handle rq w)"
  using handle_keeps [of w "req (deliver N rq)"] by (auto simp: serviceOf_def split_beta')

lemma execute_keeps:
  "inv w \<Longrightarrow> tb_service B = serviceOf N handle \<Longrightarrow> closedExecute B L kind v st w = (st2, es, w1, out) \<Longrightarrow> inv w1"
  by (auto simp: closedExecute_def split: transportKind.splits res.splits prod.splits
      dest!: interact_allReplies [OF service_keeps, rotated])

lemma test_keeps:
  assumes "inv w" and "tb_service B = serviceOf N handle" and "closedTest B cfg t (st, w) = ((st1, w1), r)"
  shows "inv w1"
  using assms(3) execute_keeps [OF assms(1,2)] assms(1) by (auto simp: closedTest_def split: prod.splits res.splits)

lemma build_keeps:
  assumes "inv w" and "tb_service B = serviceOf N handle" and "closedBuild B cfg t (st, w) = ((st1, w1), out)"
  shows "inv w1"
proof -
  obtain st2 w2 r where c: "closedTest B cfg t (st, w) = ((st2, w2), r)" by (metis prod_cases3 surj_pair)
  with assms(1,3) test_keeps [OF assms(1,2) c] show ?thesis
    by (auto simp: closedBuild_def split: if_splits res.splits)
qed

lemma loop_keeps: "inv w \<Longrightarrow> tb_service B = serviceOf N handle \<Longrightarrow> inv (snd (fst (closedLoop B cfg ts (st, w) h)))"
proof (induction ts arbitrary: st w h)
  case (Cons t ts)
  obtain st1 w1 out where b: "closedBuild B cfg t (st, w) = ((st1, w1), out)" by (metis prod_cases3 surj_pair)
  with build_keeps [OF Cons.prems b] Cons.IH [of w1 st1] Cons.prems show ?case by (auto split: res.split)
qed simp

lemma run_keeps: "inv w \<Longrightarrow> tb_service B = serviceOf N handle \<Longrightarrow> inv (snd (fst (closedRun B cfg ts (st, w) h)))"
  unfolding closedRun_def by (rule loop_keeps)

end

section \<open>Example\<close>

text \<open>A network that adds nothing, and a service that asks the mock at address \<open>mock\<close> and counts its requests.\<close>

definition exampleNet :: netEnv where
  "exampleNet =
     \<lparr>ne_requestHeaders = or_Header, ne_responseHeaders = (\<lambda>code h b. h), ne_statusText = (\<lambda>_. ''OK''), ne_grpc = (\<lambda>_. Ok emptyResult)\<rparr>"

definition exampleEnv :: httpEnv where
  "exampleEnv =
     \<lparr>he_urlParse = (\<lambda>u. Ok \<lparr>up_Host = ''sut'', up_Path = u, up_RawQuery = []\<rparr>), he_parseMediaType = (\<lambda>_. Err (errNew ''no media type'')),
      he_randomBoundary = ''b'', he_openFile = (\<lambda>_. Err (errNew ''no such file'')), he_do = (\<lambda>_. Err (errNew ''not connected''))\<rparr>"

definition exampleAsk :: "nat handler" where
  "exampleAsk r n =
     Call \<lparr>or_Method = ''GET'', or_Host = ''mock'', or_Path = ''/'', or_RawQuery = [], or_Header = [], or_Body = []\<rparr>
       (\<lambda>resp. Reply (n + 1, case resp of Ok x \<Rightarrow> [Write (itoa (hr_StatusCode x))] | _ \<Rightarrow> [WriteHeader 500]))"

definition exampleBed :: "nat testbed" where
  "exampleBed = \<lparr>tb_net = exampleNet, tb_env = exampleEnv, tb_host = [], tb_service = serviceOf exampleNet exampleAsk\<rparr>"

definition exampleMocked :: runState where
  "exampleMocked =
     exampleState\<lparr>rs_mocks := Some [(''svc'', (NewServiceMock ''svc'' (Some (NewDefinition ''$'' [] (Some nopReply) 1)))\<lparr>sm_listener := Some ''mock''\<rparr>)]\<rparr>"

definition exampleAskTest :: Test where
  "exampleAskTest = testWithoutCases [] (exampleDefinition\<lparr>ResponseTmpls := [(200, ''204'')]\<rparr>)"

section \<open>Properties\<close>

text \<open>
  The model of the runner is right about whole systems: when a service under test calls the
  mocks and reacts to their answers, the outcome of a test and the state it leaves, mocks included,
  are those of the runner's model with the requests and the response that were observed.
\<close>

lemma closed_test_refines_runner:
  "(fst (fst (closedBuild B cfg t (st, w))), snd (closedBuild B cfg t (st, w))) = buildTestExecutor (observed B cfg t st w) t st
   \<and> (\<forall>st1 v rq ms ms1 es w1 resp.
        prepareTest cfg t st = (st1, Ok (v, HttpTransport)) \<and> newRequest (tb_env B) (tb_host B) v = Ok rq \<and> rs_mocks st1 = Some ms
        \<and> interact (tb_net B) (cf_libs cfg) (tb_service B rq w) ms = (ms1, es, w1, resp)
        \<longrightarrow> cf_execute (observed B cfg t st w) v = (es, httpExecute ((tb_env B)\<lparr>he_do := \<lambda>_. resp\<rparr>) (tb_host B) v)
          \<and> rs_mocks (foldl (\<lambda>s e. serve (cf_libs cfg) e s) st1 es) = Some ms1)"
proof -
  have "rs_mocks (serveAll (cf_libs cfg) es st1) = Some ms1"
    if "rs_mocks st1 = Some ms" "interact (tb_net B) (cf_libs cfg) (tb_service B rq w) ms = (ms1, es, w1, resp)" for st1 ms rq ms1 es w1 resp
    using interact_serve [OF that(2,1)] by simp
  then show ?thesis
    by (auto simp: closedBuild_buildTestExecutor observed_def closedExecute_def)
qed

text \<open>
  C10. Fixtures come first: when the fixtures of a test cannot be loaded, the run ends with an error
  that names the test, the service under test has seen no request of this test nor of any later
  one, and the mocks are as they were.
\<close>

theorem failed_fixtures_stop_run:
  assumes "loadFixtures cfg (snd (applyVars (cf_getenv cfg) (loadVars (CombinedVariables t) (rs_vars st)) t)) = Err e"
    and "Status t \<notin> {''broken'', ''skipped''}"
  shows "closedLoop B cfg (t # ts) (st, w) h =
    ((st\<lparr>rs_vars := loadVars (CombinedVariables t) (rs_vars st)\<rparr>, w), Err (EWrap ''test %s error'' [ShStr (Name t)] e))"
  using assms by (simp add: closedBuild_def closedTest_def prepareTest_def withVariables_def Let_def HandleTest_def)

theorem failed_fixtures_stop_run_witness:
  "let cfg = (exampleConfig (Err (errNew ''unused'')))\<lparr>cf_fixtures := Some (\<lambda>files. Err (errNew ''no such table''))\<rparr>;
       t = exampleAskTest\<lparr>FixtureFiles := Some [''users'']\<rparr>;
       e = EWrap ''test %s error'' [ShStr (Name t)] (EWrap ''unable to load fixtures [%s], error'' [ShStr ''users''] (errNew ''no such table''))
   in fst (fst (closedLoop exampleBed cfg [t, exampleAskTest] (exampleMocked, 7) NewConsoleHandler)) = exampleMocked
     \<and> snd (fst (closedLoop exampleBed cfg [t, exampleAskTest] (exampleMocked, 7) NewConsoleHandler)) = 7
     \<and> snd (closedLoop exampleBed cfg [t, exampleAskTest] (exampleMocked, 7) NewConsoleHandler) = Err e"
proof -
  let ?cfg = "(exampleConfig (Err (errNew ''unused'')))\<lparr>cf_fixtures := Some (\<lambda>files. Err (errNew ''no such table''))\<rparr>"
  let ?t = "exampleAskTest\<lparr>FixtureFiles := Some [''users'']\<rparr>"
  let ?e = "EWrap ''unable to load fixtures [%s], error'' [ShStr ''users''] (errNew ''no such table'')"
  have l: "loadFixtures ?cfg (snd (applyVars (cf_getenv ?cfg) (loadVars (CombinedVariables ?t) (rs_vars exampleMocked)) ?t)) = Err ?e" by code_simp
  have s: "Status ?t \<notin> {''broken'', ''skipped''}" by code_simp
  have v: "exampleMocked\<lparr>rs_vars := loadVars (CombinedVariables ?t) (rs_vars exampleMocked)\<rparr> = exampleMocked"
    by (simp add: exampleMocked_def exampleState_def exampleAskTest_def testWithoutCases_def exampleDefinition_def loadVars_def)
  show ?thesis unfolding Let_def failed_fixtures_stop_run [OF l s] v by simp
qed

end
