(* ===== verification/StatelessMocks.thy ===== *)
theory StatelessMocks
  imports ClosedLoop
begin

text \<open>
  Mocks whose answers do not depend on the order of requests. Of the reply strategies of
  \<open>mocks/reply_strategy.go\<close> only the sequence answers by position; a tree of definitions without
  sequences counts its calls but answers every request the same way at any time. So the programs of a
  service that calls such mocks concurrently get the same answers under every schedule.
\<close>

section \<open>Definitions without sequences\<close>

fun stateless :: "mockDefinition \<Rightarrow> bool"
  and statelessStrategy :: "strategy \<Rightarrow> bool"
where
  "stateless (Definition p cs st sn n cc) = (case st of None \<Rightarrow> True | Some s \<Rightarrow> statelessStrategy s)"
| "statelessStrategy (uriVaryReply b vs) = list_all (\<lambda>(k, d). stateless d) vs"
| "statelessStrategy (methodVaryReply vs) = list_all (\<lambda>(k, d). stateless d) vs"
| "statelessStrategy (sequentialReply c ds) = False"
| "statelessStrategy (basedOnRequestReply ds) = list_all stateless ds"
| "statelessStrategy s = True"

lemma stateless_reset:
  "stateless (ResetRunningContext d) = stateless d"
  "statelessStrategy (resetStrategy s) = statelessStrategy s"
  by (induction d and s rule: stateless_statelessStrategy.induct)
     (auto simp: list.pred_map o_def list.pred_set split: option.splits; fastforce)+

lemma reset_accessors:
  "requestConstraints (ResetRunningContext d) = requestConstraints d" "path (ResetRunningContext d) = path d"
  by (cases d; simp)+

text \<open>The answer is that of the definition without its counters.\<close>

lemma Execute_stateless:
  "stateless d \<Longrightarrow> snd (Execute L x (ResetRunningContext d)) = snd (Execute L x d)"
  "stateless d \<Longrightarrow> snd (ExecuteWithoutVerifying L x (ResetRunningContext d)) = snd (ExecuteWithoutVerifying L x d)"
  "statelessStrategy s \<Longrightarrow> snd (HandleRequest L x (resetStrategy s)) = snd (HandleRequest L x s)"
  "list_all (\<lambda>(k, d). stateless d) vs \<Longrightarrow>
     snd (varyHandle L x m (map (\<lambda>(k, d). (k, ResetRunningContext d)) vs)) = snd (varyHandle L x m vs)"
  "list_all stateless ds \<Longrightarrow> snd (sequenceHandle L x i (map ResetRunningContext ds)) = snd (sequenceHandle L x i ds)"
  "list_all stateless ds \<Longrightarrow> snd (basedHandle L x errs (map ResetRunningContext ds)) = snd (basedHandle L x errs ds)"
proof (induction L x d and L x d and L x s and L x m vs and L x i ds and L x errs ds
    rule: Execute_ExecuteWithoutVerifying_HandleRequest_varyHandle_sequenceHandle_basedHandle.induct)
  case (1 L x p cs st sn n cc)
  obtain r1 out where "executeConstraints L cs (req x) p = (r1, out)" by (cases "executeConstraints L cs (req x) p")
  with 1 show ?case by (cases st; cases out) (auto simp: case_prod_beta)
next
  case (17 L x errors d ds)
  obtain r1 out where v: "verifyRequestConstraints L (requestConstraints d) (req x) (path d) = (r1, out)"
    by (cases "verifyRequestConstraints L (requestConstraints d) (req x) (path d)")
  show ?case
  proof (cases out)
    case (Ok errs)
    with v 17 show ?thesis by (cases errs) (auto simp: reset_accessors case_prod_beta)
  qed (simp_all add: v reset_accessors)
qed (auto simp: reset_accessors case_prod_beta split: prod.splits res.splits option.splits list.splits nat.splits)


section \<open>Services without sequences\<close>

text \<open>What of the mocks decides their answers.\<close>

definition mocksStatic :: "Mocks \<Rightarrow> (string \<times> string option \<times> mockDefinition option) list" where
  "mocksStatic ms = map (\<lambda>(n, m). (n, sm_listener m, map_option ResetRunningContext (currentDef m))) ms"

definition statelessMocks :: "Mocks \<Rightarrow> bool" where
  "statelessMocks ms \<longleftrightarrow> (\<forall>(n, addr, d) \<in> set (mocksStatic ms). \<forall>d'. d = Some d' \<longrightarrow> stateless d')"

lemma currentDef_stored: "currentDef m = Some d \<Longrightarrow> currentDef ((storeDef d' m)\<lparr>sm_errors := es\<rparr>) = Some d'"
  "currentDef m = Some d \<Longrightarrow> currentDef (storeDef d' m) = Some d'"
  by (auto simp: currentDef_def storeDef_def split: currentMock.splits)

lemma sm_listener_storeDef: "sm_listener (storeDef d m) = sm_listener m"
  by (simp add: storeDef_def split: currentMock.split)

lemma ServeHTTP_static:
  "sm_listener (fst (ServeHTTP L x m)) = sm_listener m
   \<and> map_option ResetRunningContext (currentDef (fst (ServeHTTP L x m))) = map_option ResetRunningContext (currentDef m)"
proof (cases "currentDef m")
  case (Some d)
  obtain d1 x1 out where e: "Execute L x d = (d1, x1, out)" by (metis prod_cases3)
  with Execute_reset(1) [of L x d] have "ResetRunningContext d1 = ResetRunningContext d" by simp
  with Some e show ?thesis
    by (auto simp: ServeHTTP_def currentDef_stored [OF Some] sm_listener_storeDef split: res.split)
qed (simp add: ServeHTTP_def)

lemma mocksStatic_serveHttp: "mocksStatic (serveHttp L n x ms) = mocksStatic ms"
  by (auto simp: mocksStatic_def serveHttp_def ServeHTTP_static)

lemma mocksStatic_callMock: "mocksStatic (fst (callMock N L rq ms)) = mocksStatic ms"
  by (auto simp: callMock_def mocksStatic_serveHttp split: option.split)

lemma mockAnswer_static:
  assumes "map_option ResetRunningContext (currentDef m) = map_option ResetRunningContext (currentDef m')"
    and "\<forall>d. map_option ResetRunningContext (currentDef m) = Some d \<longrightarrow> stateless d"
  shows "mockAnswer N L rq m = mockAnswer N L rq m'"
proof (cases "currentDef m")
  case None
  with assms(1) show ?thesis by (simp add: mockAnswer_def ServeHTTP_def)
next
  case (Some d)
  with assms(1) obtain d' where d': "currentDef m' = Some d'" "ResetRunningContext d = ResetRunningContext d'"
    by (cases "currentDef m'") auto
  have "stateless (ResetRunningContext d)" using assms(2) Some by simp
  then have "stateless d" "stateless d'" using stateless_reset(1) [of d] stateless_reset(1) [of d'] d'(2) by simp_all
  then have "snd (Execute L x d) = snd (Execute L x d')" for x
    using Execute_stateless(1) [of d L x] Execute_stateless(1) [of d' L x] d'(2) by simp
  then have eq: "Execute L x d = (d1, x1, out) \<Longrightarrow> \<exists>d2. Execute L x d' = (d2, x1, out)" for x d1 x1 out
    by (metis prod.collapse snd_conv)
  obtain d1 x1 out where e: "Execute L (deliver N rq) d = (d1, x1, out)" by (metis prod_cases3)
  with eq obtain d2 where "Execute L (deliver N rq) d' = (d2, x1, out)" by blast
  with e show ?thesis by (simp add: mockAnswer_def ServeHTTP_def Some d' split: res.split)
qed

lemma callMock_static:
  assumes "mocksStatic ms = mocksStatic ms'" and "statelessMocks ms"
  shows "snd (snd (callMock N L rq ms)) = snd (snd (callMock N L rq ms'))"
  using assms
proof (induction ms arbitrary: ms')
  case (Cons nm ms)
  obtain n m where nm: "nm = (n, m)" by (cases nm)
  with Cons.prems(1) obtain m' ms1 where ms': "ms' = (n, m') # ms1" and l: "sm_listener m' = sm_listener m"
    and d: "map_option ResetRunningContext (currentDef m) = map_option ResetRunningContext (currentDef m')"
    and t: "mocksStatic ms = mocksStatic ms1"
    by (cases ms') (auto simp: mocksStatic_def)
  have "mockAnswer N L rq m = mockAnswer N L rq m'"
    using Cons.prems(2) nm d by (intro mockAnswer_static) (auto simp: statelessMocks_def mocksStatic_def)
  moreover have "snd (snd (callMock N L rq ms)) = snd (snd (callMock N L rq ms1))"
    using Cons.IH [OF t] Cons.prems(2) by (simp add: statelessMocks_def mocksStatic_def)
  ultimately show ?case by (auto simp: callMock_def nm ms' l split: option.splits)
qed (simp add: mocksStatic_def)

lemma statelessMocks_static: "mocksStatic ms = mocksStatic ms' \<Longrightarrow> statelessMocks ms = statelessMocks ms'"
  by (simp add: statelessMocks_def)

section \<open>What a program returns\<close>

definition resultOf :: "netEnv \<Rightarrow> libs \<Rightarrow> Mocks \<Rightarrow> 'a program \<Rightarrow> 'a" where
  "resultOf N L ms p = snd (snd (interact N L p ms))"

lemma resultOf_Reply [simp]: "resultOf N L ms (Reply a) = a"
  by (simp add: resultOf_def)

lemma resultOf_Call:
  "callMock N L rq ms = (ms1, es, resp) \<Longrightarrow> resultOf N L ms (Call rq k) = resultOf N L ms1 (k resp)"
  by (simp add: resultOf_def case_prod_beta)

lemma resultOf_static:
  "mocksStatic ms = mocksStatic ms' \<Longrightarrow> statelessMocks ms \<Longrightarrow> resultOf N L ms p = resultOf N L ms' p"
proof (induction p arbitrary: ms ms')
  case (Call rq k)
  obtain ms1 es resp where c: "callMock N L rq ms = (ms1, es, resp)" by (metis prod_cases3)
  obtain ms2 es' resp' where c': "callMock N L rq ms' = (ms2, es', resp')" by (metis prod_cases3)
  have "resp' = resp" using callMock_static [OF Call.prems, of N L rq] c c' by simp
  moreover have s: "mocksStatic ms1 = mocksStatic ms" "mocksStatic ms2 = mocksStatic ms'"
    using mocksStatic_callMock [of N L rq ms] mocksStatic_callMock [of N L rq ms'] c c' by simp_all
  moreover have "resultOf N L ms1 (k resp) = resultOf N L ms2 (k resp)"
    by (rule Call.IH) (use s Call.prems statelessMocks_static [OF s(1)] in simp_all)
  ultimately show ?case by (simp add: resultOf_Call [OF c] resultOf_Call [OF c'])
qed simp

end
