(* ===== verification/TrafficLights.thy ===== *)
theory TrafficLights
  imports ClosedLoop
begin

text \<open>
  The demonstration service \<open>examples/traffic-lights-demo/main.go\<close>: a light that is read at
  \<open>/light/get\<close> and set at \<open>/light/set\<close>, guarded by a read-write lock.

  The handlers come first, as a service that tests can be run against. Then the requests are taken
  apart into the accesses to memory they make, interleaved with those of other requests: a Go string
  is a pointer and a length, written and read one after the other, so the lock is what keeps a reader
  from seeing the bytes of one light with the length of another. \<open>log.Fatal\<close> ends the process.

  Parameters: the syntax tree of a JSON text with its members in the order of the text, the JSON form
  of a string, and the texts of errors.
\<close>

section \<open>Handlers\<close>

record exLibs =
  ex_tree :: "string \<Rightarrow> jval gores"
  ex_quote :: "string \<Rightarrow> string"
  ex_errText :: "goerror \<Rightarrow> string"

definition lightRed :: string where "lightRed = ''red''"

definition lightYellow :: string where "lightYellow = ''yellow''"

definition lightGreen :: string where "lightGreen = ''green''"

definition validLight :: "string \<Rightarrow> bool" where
  "validLight l \<longleftrightarrow> l \<in> {lightRed, lightYellow, lightGreen}"

definition validateRequest :: "string \<Rightarrow> unit gores" where
  "validateRequest light =
     (if light \<noteq> lightRed \<and> light \<noteq> lightYellow \<and> light \<noteq> lightGreen
      then Err (EFmt ''incorrect current light: %s'' [ShStr light]) else Ok ())"

text \<open>
  \<open>json.Unmarshal\<close> into a struct with one exported field: members whose name is the field's up to
  case are stored in order, \<open>null\<close> changes nothing, and of the members of a wrong type the first is
  reported at the end.
\<close>

definition unmarshalString :: "jval \<Rightarrow> string \<Rightarrow> string \<times> goerror option" where
  "unmarshalString v cur =
     (case v of
        JStr s \<Rightarrow> (s, None)
      | JNil \<Rightarrow> (cur, None)
      | _ \<Rightarrow> (cur, Some (errNew ''json: cannot unmarshal into Go struct field of type string'')))"

definition unmarshalMember ::
  "string \<Rightarrow> (jval \<Rightarrow> 'f \<Rightarrow> 'f \<times> goerror option) \<Rightarrow> 'f \<times> goerror option \<Rightarrow> string \<times> jval \<Rightarrow> 'f \<times> goerror option" where
  "unmarshalMember name dec st kv =
     (if equalFold (fst kv) name
      then (case dec (snd kv) (fst st) of (x, e) \<Rightarrow> (x, case snd st of None \<Rightarrow> e | Some _ \<Rightarrow> snd st))
      else st)"

definition unmarshalStruct :: "string \<Rightarrow> (jval \<Rightarrow> 'f \<Rightarrow> 'f \<times> goerror option) \<Rightarrow> 'f \<Rightarrow> jval \<Rightarrow> 'f gores" where
  "unmarshalStruct name dec zero v =
     (case v of
        JMap kvs \<Rightarrow>
          (case foldl (unmarshalMember name dec) (zero, None) kvs of (x, None) \<Rightarrow> Ok x | (x, Some e) \<Rightarrow> Err e)
      | JNil \<Rightarrow> Ok zero
      | _ \<Rightarrow> Err (errNew ''json: cannot unmarshal into Go value of struct type''))"

definition marshalLights :: "exLibs \<Rightarrow> string \<Rightarrow> string" where
  "marshalLights X light = ''{'' @ ex_quote X ''currentLight'' @ '':'' @ ex_quote X light @ ''}''"

definition lightGet :: "exLibs \<Rightarrow> string \<Rightarrow> wcall list" where
  "lightGet X light = [HeaderAdd ''Content-Type'' ''application/json'', Write (marshalLights X light)]"

text \<open>\<open>http.Error\<close> on a writer without headers.\<close>

definition httpError :: "string \<Rightarrow> int \<Rightarrow> wcall list" where
  "httpError msg code =
     [HeaderAdd ''Content-Type'' ''text/plain; charset=utf-8'', HeaderAdd ''X-Content-Type-Options'' ''nosniff'',
      WriteHeader code, Write (msg @ [CHR 0x0A])]"

text \<open>The light a request asks for: \<open>None\<close> when the body cannot be read, which ends the process.\<close>

definition requestedLight :: "exLibs \<Rightarrow> request \<Rightarrow> string gores option" where
  "requestedLight X r =
     (case snd (readAll r) of
        Ok body \<Rightarrow>
          Some (rbind (ex_tree X body) (\<lambda>v. rbind (unmarshalStruct ''currentLight'' unmarshalString [] v) (\<lambda>light.
                rbind (validateRequest light) (\<lambda>_. Ok light))))
      | _ \<Rightarrow> None)"

definition lightSet :: "exLibs \<Rightarrow> request \<Rightarrow> string \<Rightarrow> (string \<times> wcall list) option" where
  "lightSet X r light =
     (case requestedLight X r of
        None \<Rightarrow> None
      | Some (Ok new) \<Rightarrow> Some (new, [])
      | Some (Err e) \<Rightarrow> Some (light, httpError (ex_errText X e) 400)
      | Some (Panic p) \<Rightarrow> Some (light, [CloseConn]))"

text \<open>\<open>initServer\<close>; the state is the light, or \<open>None\<close> when the process has ended.\<close>

definition lightsRoutes :: "exLibs \<Rightarrow> (string, string option handler) gomap" where
  "lightsRoutes X =
     [(''/light/get'', \<lambda>r w. Reply (case w of None \<Rightarrow> (None, [CloseConn]) | Some l \<Rightarrow> (Some l, lightGet X l))),
      (''/light/set'', \<lambda>r w. Reply (case w of None \<Rightarrow> (None, [CloseConn])
         | Some l \<Rightarrow> (case lightSet X r l of None \<Rightarrow> (None, [CloseConn]) | Some (l1, cs) \<Rightarrow> (Some l1, cs))))]"

definition lightsHandler :: "exLibs \<Rightarrow> string option handler" where
  "lightsHandler X r w = (if w = None then Reply (None, [CloseConn]) else serveMux (lightsRoutes X) r w)"

lemma requestedLight_valid: "requestedLight X r = Some (Ok l) \<Longrightarrow> validLight l"
  by (auto simp: requestedLight_def validateRequest_def validLight_def split: res.splits if_splits)

lemma lightSet_valid: "lightSet X r l = Some (l1, cs) \<Longrightarrow> validLight l \<Longrightarrow> validLight l1"
  by (auto simp: lightSet_def requestedLight_valid split: option.splits res.splits)

text \<open>A client whose body cannot be read ends the process for everyone.\<close>

lemma unreadable_body_exits: "readError (Body r) = Some e \<Longrightarrow> lightSet X r l = None"
  by (simp add: lightSet_def requestedLight_def readAll_def)

definition lightOk :: "string option \<Rightarrow> bool" where
  "lightOk w \<longleftrightarrow> (\<forall>l. w = Some l \<longrightarrow> validLight l)"

interpretation traffic_lights: tested_service "lightsHandler X" lightOk
  by unfold_locales
     (auto simp: lightsHandler_def serveMux_def lightsRoutes_def lightOk_def split: option.split dest: lightSet_valid)

lemma valid_lights: "validLight lightRed" "validLight lightYellow" "validLight lightGreen"
  by (simp_all add: validLight_def)

section \<open>Requests as accesses to shared memory\<close>

datatype lightRequest = GetLight | SetLight request

datatype phase =
    Waiting
  | Locked
  | GotData string
  | Parsed string
  | WroteData string
  | Replied "wcall list"
  | Released "wcall list"

record lightState =
  ls_data :: string
  ls_len :: nat
  ls_phase :: "nat \<Rightarrow> phase"
  ls_order :: "nat list"
  ls_exited :: bool

definition lightInit :: lightState where
  "lightInit = \<lparr>ls_data = lightRed, ls_len = length lightRed, ls_phase = (\<lambda>_. Waiting), ls_order = [], ls_exited = False\<rparr>"

text \<open>Between locking and unlocking.\<close>

definition inSection :: "phase \<Rightarrow> bool" where
  "inSection p \<longleftrightarrow> (case p of Waiting \<Rightarrow> False | Released _ \<Rightarrow> False | _ \<Rightarrow> True)"

text \<open>\<open>RLock\<close> waits for a writer, \<open>Lock\<close> for everyone.\<close>

definition mayLock :: "(nat \<Rightarrow> lightRequest) \<Rightarrow> nat \<Rightarrow> lightState \<Rightarrow> bool" where
  "mayLock reqs i s \<longleftrightarrow> (\<forall>j. inSection (ls_phase s j) \<longrightarrow> reqs i = GetLight \<and> reqs j = GetLight)"

abbreviation goto :: "nat \<Rightarrow> phase \<Rightarrow> lightState \<Rightarrow> lightState" where
  "goto i p s \<equiv> s\<lparr>ls_phase := (ls_phase s)(i := p)\<rparr>"

text \<open>\<open>ls_order\<close> records the requests in the order in which they took effect; no step reads it.\<close>

abbreviation reply :: "nat \<Rightarrow> wcall list \<Rightarrow> lightState \<Rightarrow> lightState" where
  "reply i cs s \<equiv> s\<lparr>ls_phase := (ls_phase s)(i := Replied cs), ls_order := ls_order s @ [i]\<rparr>"

inductive lightStep :: "exLibs \<Rightarrow> (nat \<Rightarrow> lightRequest) \<Rightarrow> lightState \<Rightarrow> lightState \<Rightarrow> bool" for X reqs where
  lock: "\<not> ls_exited s \<Longrightarrow> ls_phase s i = Waiting \<Longrightarrow> mayLock reqs i s \<Longrightarrow> lightStep X reqs s (goto i Locked s)"
| readData: "\<not> ls_exited s \<Longrightarrow> ls_phase s i = Locked \<Longrightarrow> reqs i = GetLight \<Longrightarrow>
    lightStep X reqs s (goto i (GotData (ls_data s)) s)"
| readLen: "\<not> ls_exited s \<Longrightarrow> ls_phase s i = GotData d \<Longrightarrow>
    lightStep X reqs s (reply i (lightGet X (take (ls_len s) d)) s)"
| fatal: "\<not> ls_exited s \<Longrightarrow> ls_phase s i = Locked \<Longrightarrow> reqs i = SetLight r \<Longrightarrow> requestedLight X r = None \<Longrightarrow>
    lightStep X reqs s (s\<lparr>ls_exited := True\<rparr>)"
| refuse: "\<not> ls_exited s \<Longrightarrow> ls_phase s i = Locked \<Longrightarrow> reqs i = SetLight r \<Longrightarrow> requestedLight X r = Some (Err e) \<Longrightarrow>
    lightStep X reqs s (reply i (httpError (ex_errText X e) 400) s)"
| abort: "\<not> ls_exited s \<Longrightarrow> ls_phase s i = Locked \<Longrightarrow> reqs i = SetLight r \<Longrightarrow> requestedLight X r = Some (Panic p) \<Longrightarrow>
    lightStep X reqs s (reply i [CloseConn] s)"
| accept: "\<not> ls_exited s \<Longrightarrow> ls_phase s i = Locked \<Longrightarrow> reqs i = SetLight r \<Longrightarrow> requestedLight X r = Some (Ok l) \<Longrightarrow>
    lightStep X reqs s (goto i (Parsed l) s)"
| writeData: "\<not> ls_exited s \<Longrightarrow> ls_phase s i = Parsed l \<Longrightarrow>
    lightStep X reqs s ((goto i (WroteData l) s)\<lparr>ls_data := l\<rparr>)"
| writeLen: "\<not> ls_exited s \<Longrightarrow> ls_phase s i = WroteData l \<Longrightarrow>
    lightStep X reqs s ((reply i [] s)\<lparr>ls_len := length l\<rparr>)"
| unlock: "\<not> ls_exited s \<Longrightarrow> ls_phase s i = Replied cs \<Longrightarrow> lightStep X reqs s (goto i (Released cs) s)"

section \<open>One request after the other\<close>

text \<open>The light as an abstract object: a request changes it and is answered in one step.\<close>

fun lightEffect :: "exLibs \<Rightarrow> lightRequest \<Rightarrow> string \<Rightarrow> string \<times> wcall list" where
  "lightEffect X GetLight l = (l, lightGet X l)"
| "lightEffect X (SetLight r) l = (case lightSet X r l of Some res \<Rightarrow> res | None \<Rightarrow> (l, []))"

definition lightAfter :: "exLibs \<Rightarrow> (nat \<Rightarrow> lightRequest) \<Rightarrow> nat list \<Rightarrow> string" where
  "lightAfter X reqs order = foldl (\<lambda>l i. fst (lightEffect X (reqs i) l)) lightRed order"

fun lightReplies :: "exLibs \<Rightarrow> (nat \<Rightarrow> lightRequest) \<Rightarrow> nat list \<Rightarrow> string \<Rightarrow> (nat \<times> wcall list) list" where
  "lightReplies X reqs [] l = []"
| "lightReplies X reqs (i # is) l =
     (i, snd (lightEffect X (reqs i) l)) # lightReplies X reqs is (fst (lightEffect X (reqs i) l))"

lemma lightAfter_snoc: "lightAfter X reqs (is @ [i]) = fst (lightEffect X (reqs i) (lightAfter X reqs is))"
  by (simp add: lightAfter_def)

lemma lightReplies_snoc:
  "lightReplies X reqs (is @ [i]) l =
     lightReplies X reqs is l @ [(i, snd (lightEffect X (reqs i) (foldl (\<lambda>l i. fst (lightEffect X (reqs i) l)) l is)))]"
  by (induction "is" arbitrary: l) simp_all

abbreviation repliesIn :: "exLibs \<Rightarrow> (nat \<Rightarrow> lightRequest) \<Rightarrow> nat list \<Rightarrow> (nat \<times> wcall list) list" where
  "repliesIn X reqs order \<equiv> lightReplies X reqs order lightRed"

lemma repliesIn_snoc:
  "repliesIn X reqs (is @ [i]) = repliesIn X reqs is @ [(i, snd (lightEffect X (reqs i) (lightAfter X reqs is)))]"
  by (simp add: lightReplies_snoc lightAfter_def)

section \<open>Invariant\<close>

fun phaseOk :: "exLibs \<Rightarrow> (nat \<Rightarrow> lightRequest) \<Rightarrow> lightState \<Rightarrow> nat \<Rightarrow> phase \<Rightarrow> bool" where
  "phaseOk X reqs s i (GotData d) \<longleftrightarrow> reqs i = GetLight \<and> d = lightAfter X reqs (ls_order s)"
| "phaseOk X reqs s i (Parsed l) \<longleftrightarrow> (\<exists>r. reqs i = SetLight r \<and> requestedLight X r = Some (Ok l))"
| "phaseOk X reqs s i (WroteData l) \<longleftrightarrow> (\<exists>r. reqs i = SetLight r \<and> requestedLight X r = Some (Ok l)) \<and> ls_data s = l"
| "phaseOk X reqs s i (Replied cs) \<longleftrightarrow> (i, cs) \<in> set (repliesIn X reqs (ls_order s))"
| "phaseOk X reqs s i (Released cs) \<longleftrightarrow> (i, cs) \<in> set (repliesIn X reqs (ls_order s))"
| "phaseOk X reqs s i p \<longleftrightarrow> True"

definition answered :: "phase \<Rightarrow> bool" where
  "answered p \<longleftrightarrow> (\<exists>cs. p = Replied cs \<or> p = Released cs)"

definition exclusive :: "(nat \<Rightarrow> lightRequest) \<Rightarrow> lightState \<Rightarrow> bool" where
  "exclusive reqs s \<longleftrightarrow>
     (\<forall>i j. i \<noteq> j \<longrightarrow> inSection (ls_phase s i) \<longrightarrow> inSection (ls_phase s j) \<longrightarrow> reqs i = GetLight \<and> reqs j = GetLight)"

definition lightInv :: "exLibs \<Rightarrow> (nat \<Rightarrow> lightRequest) \<Rightarrow> lightState \<Rightarrow> bool" where
  "lightInv X reqs s \<longleftrightarrow>
     exclusive reqs s \<and> (\<forall>i. phaseOk X reqs s i (ls_phase s i))
     \<and> ((\<forall>i l. ls_phase s i \<noteq> WroteData l) \<longrightarrow> ls_data s = lightAfter X reqs (ls_order s))
     \<and> ls_len s = length (lightAfter X reqs (ls_order s))
     \<and> distinct (ls_order s) \<and> set (ls_order s) = {i. answered (ls_phase s i)}"

lemma lightInvD:
  assumes "lightInv X reqs s"
  shows "exclusive reqs s" "phaseOk X reqs s i (ls_phase s i)"
    "(\<forall>i l. ls_phase s i \<noteq> WroteData l) \<Longrightarrow> ls_data s = lightAfter X reqs (ls_order s)"
    "ls_len s = length (lightAfter X reqs (ls_order s))" "distinct (ls_order s)" "set (ls_order s) = {i. answered (ls_phase s i)}"
  using assms unfolding lightInv_def by blast+

lemmas phase_simps = inSection_def answered_def

lemma inSection_simps [simp]:
  "\<not> inSection Waiting" "inSection Locked" "inSection (GotData d)" "inSection (Parsed l)" "inSection (WroteData l)" "inSection (Replied cs)" "\<not> inSection (Released cs)"
  by (simp_all add: inSection_def)

lemma answered_simps [simp]:
  "\<not> answered Waiting" "\<not> answered Locked" "\<not> answered (GotData d)" "\<not> answered (Parsed l)" "\<not> answered (WroteData l)"
  "answered (Replied cs)" "answered (Released cs)"
  by (simp_all add: answered_def)

lemma lightInv_init: "lightInv X reqs lightInit"
  by (simp add: lightInv_def lightInit_def exclusive_def lightAfter_def)

text \<open>A step inside the critical section, before the reply.\<close>

lemma lightInv_goto:
  assumes "lightInv X reqs s" and "answered p \<longleftrightarrow> answered (ls_phase s i)"
    and "inSection p \<longrightarrow> inSection (ls_phase s i) \<or> mayLock reqs i s"
    and "phaseOk X reqs s i p" and "\<forall>l. p \<noteq> WroteData l" and "\<forall>l. ls_phase s i \<noteq> WroteData l"
  shows "lightInv X reqs (goto i p s)"
proof -
  note I = lightInvD [OF assms(1)]
  have "exclusive reqs (goto i p s)"
    using I(1) assms(3) unfolding exclusive_def mayLock_def by (metis fun_upd_apply lightState.simps(3) lightState.surjective lightState.update_convs(3))
  moreover have "phaseOk X reqs (goto i p s) j q = phaseOk X reqs s j q" for j q by (cases q) simp_all
  moreover have "ls_data s = lightAfter X reqs (ls_order s)" if "\<forall>j l. ls_phase (goto i p s) j \<noteq> WroteData l"
  proof (rule I(3))
    show "\<forall>j l. ls_phase s j \<noteq> WroteData l" using that assms(6) by (auto split: if_splits)
  qed
  ultimately show ?thesis
    using I assms(2,4-) unfolding lightInv_def by (auto split: if_splits)
qed

text \<open>A writer is alone in the critical section.\<close>

lemma writer_alone: "lightInv X reqs s \<Longrightarrow> inSection (ls_phase s i) \<Longrightarrow> reqs i = SetLight r \<Longrightarrow> j \<noteq> i \<Longrightarrow> \<not> inSection (ls_phase s j)"
  using lightInvD(1) unfolding exclusive_def by (metis lightRequest.distinct(1))

lemma no_torn_write:
  assumes "lightInv X reqs s" and "inSection (ls_phase s i)" and "\<forall>l. ls_phase s i \<noteq> WroteData l"
  shows "ls_data s = lightAfter X reqs (ls_order s)"
proof (rule lightInvD(3) [OF assms(1)], intro allI notI)
  fix j l
  assume w: "ls_phase s j = WroteData l"
  with assms(3) have "i \<noteq> j" by auto
  moreover from lightInvD(2) [OF assms(1), of j] w obtain r where "reqs j = SetLight r" by auto
  ultimately have "\<not> inSection (ls_phase s i)" using writer_alone [OF assms(1), of j r i] w by simp
  with assms(2) show False by simp
qed

text \<open>The step with which a request takes effect.\<close>

lemma lightInv_reply:
  assumes inv: "lightInv X reqs s" and i: "inSection (ls_phase s i)" "\<not> answered (ls_phase s i)"
    and eff: "lightEffect X (reqs i) (lightAfter X reqs (ls_order s)) = (l, cs)"
    and alone: "l = lightAfter X reqs (ls_order s) \<or> (\<forall>j. j \<noteq> i \<longrightarrow> \<not> inSection (ls_phase s j))"
    and others: "\<forall>j l. j \<noteq> i \<longrightarrow> ls_phase s j \<noteq> WroteData l"
  shows "lightInv X reqs ((reply i cs s)\<lparr>ls_data := l, ls_len := length l\<rparr>)"
proof -
  let ?s = "(reply i cs s)\<lparr>ls_data := l, ls_len := length l\<rparr>"
  note I = lightInvD [OF inv]
  have after: "lightAfter X reqs (ls_order ?s) = l" using eff by (simp add: lightAfter_snoc)
  have replies: "repliesIn X reqs (ls_order ?s) = repliesIn X reqs (ls_order s) @ [(i, cs)]" using eff by (simp add: repliesIn_snoc)
  have ok: "phaseOk X reqs ?s j (ls_phase s j)" if "j \<noteq> i" for j
    using I(2) [of j] that others alone after replies by (cases "ls_phase s j") auto
  have "exclusive reqs ?s" using I(1) i(1) unfolding exclusive_def by (simp add: phase_simps)
  moreover have "\<forall>j. phaseOk X reqs ?s j (ls_phase ?s j)" using ok replies by simp
  moreover have "i \<notin> set (ls_order s)" using I(6) i(2) by simp
  ultimately show ?thesis using I(5,6) after unfolding lightInv_def by auto
qed

lemma lightInv_reply_same:
  assumes "lightInv X reqs s" and "inSection (ls_phase s i)" and "\<not> answered (ls_phase s i)" and "\<forall>l. ls_phase s i \<noteq> WroteData l"
    and "lightEffect X (reqs i) (lightAfter X reqs (ls_order s)) = (lightAfter X reqs (ls_order s), cs)"
  shows "lightInv X reqs (reply i cs s)"
proof -
  note d = no_torn_write [OF assms(1,2,4)] and n = lightInvD(4) [OF assms(1)]
  have o: "\<forall>j l. j \<noteq> i \<longrightarrow> ls_phase s j \<noteq> WroteData l"
  proof (intro allI impI notI)
    fix j l
    assume "j \<noteq> i" and w: "ls_phase s j = WroteData l"
    moreover from lightInvD(2) [OF assms(1), of j] w obtain r where "reqs j = SetLight r" by auto
    ultimately show False using writer_alone [OF assms(1), of j r i] assms(2) by simp
  qed
  have "(reply i cs s)\<lparr>ls_data := lightAfter X reqs (ls_order s), ls_len := length (lightAfter X reqs (ls_order s))\<rparr> = reply i cs s"
    using d n by simp
  with lightInv_reply [OF assms(1-3,5) disjI1 [OF refl] o] show ?thesis by simp
qed

lemma lightInv_step: "lightStep X reqs s s' \<Longrightarrow> lightInv X reqs s \<Longrightarrow> lightInv X reqs s'"
proof (induction rule: lightStep.induct)
  case (readData s i)
  with no_torn_write [of X reqs s i] show ?case by (intro lightInv_goto) auto
next
  case (readLen s i d)
  then have "reqs i = GetLight" "d = lightAfter X reqs (ls_order s)" using lightInvD(2) [of X reqs s i] by auto
  with readLen lightInvD(4) [of X reqs s] show ?case by (intro lightInv_reply_same) auto
next
  case (fatal s i r)
  have "phaseOk X reqs (s\<lparr>ls_exited := True\<rparr>) j q = phaseOk X reqs s j q" for j q by (cases q) simp_all
  with fatal show ?case by (simp add: lightInv_def exclusive_def)
next
  case (writeData s i l)
  then obtain r where r: "reqs i = SetLight r" "requestedLight X r = Some (Ok l)" using lightInvD(2) [of X reqs s i] by auto
  note I = lightInvD [OF writeData.prems] and alone = writer_alone [OF writeData.prems _ r(1)]
  have "phaseOk X reqs ((goto i (WroteData l) s)\<lparr>ls_data := l\<rparr>) j (ls_phase s j)" if "j \<noteq> i" for j
    using I(2) [of j] alone [of j] that writeData.hyps by (cases "ls_phase s j") auto
  moreover have "exclusive reqs ((goto i (WroteData l) s)\<lparr>ls_data := l\<rparr>)"
    using I(1) writeData.hyps unfolding exclusive_def by simp
  ultimately show ?case using I r writeData.hyps unfolding lightInv_def by (auto split: if_splits)
next
  case (writeLen s i l)
  then obtain r where r: "reqs i = SetLight r" "requestedLight X r = Some (Ok l)" and d: "ls_data s = l"
    using lightInvD(2) [of X reqs s i] by auto
  have alone: "\<forall>j. j \<noteq> i \<longrightarrow> \<not> inSection (ls_phase s j)" using writer_alone [OF writeLen.prems _ r(1)] writeLen.hyps by simp
  then have "\<forall>j l. j \<noteq> i \<longrightarrow> ls_phase s j \<noteq> WroteData l" by (metis inSection_simps(5))
  with lightInv_reply [OF writeLen.prems, of i l "[]"] alone r writeLen.hyps
  have "lightInv X reqs ((reply i [] s)\<lparr>ls_data := l, ls_len := length l\<rparr>)" by (simp add: lightSet_def)
  moreover have "(reply i [] s)\<lparr>ls_data := l, ls_len := length l\<rparr> = (reply i [] s)\<lparr>ls_len := length l\<rparr>"
    by (rule lightState.equality) (simp_all add: d)
  ultimately show ?case by simp
next
  case (unlock s i cs)
  with lightInvD(2) [OF unlock.prems, of i] show ?case by (intro lightInv_goto) auto
qed (auto intro!: lightInv_goto lightInv_reply_same simp: lightSet_def)

lemma lightInv_reach: "(lightStep X reqs)\<^sup>*\<^sup>* lightInit s \<Longrightarrow> lightInv X reqs s"
  by (induction rule: rtranclp_induct) (auto intro: lightInv_init lightInv_step)

text \<open>Whoever is in the critical section can go on, so nobody waits forever for a lock that is never freed.\<close>

lemma section_progress:
  assumes "lightInv X reqs s" and "\<not> ls_exited s" and "inSection (ls_phase s i)"
  shows "\<exists>s'. lightStep X reqs s s'"
proof (cases "ls_phase s i")
  case Locked
  show ?thesis
  proof (cases "reqs i")
    case GetLight
    with Locked assms(2) show ?thesis by (blast intro: lightStep.readData)
  next
    case (SetLight r)
    show ?thesis
    proof (cases "requestedLight X r")
      case None
      with Locked SetLight assms(2) show ?thesis by (blast intro: lightStep.fatal)
    next
      case (Some out)
      with Locked SetLight assms(2) show ?thesis
        by (cases out) (blast intro: lightStep.accept lightStep.refuse lightStep.abort)+
    qed
  qed
qed (use assms in \<open>auto intro: lightStep.intros\<close>)

lemma lights_progress:
  assumes "(lightStep X reqs)\<^sup>*\<^sup>* lightInit s" and "\<not> ls_exited s" and "\<forall>cs. ls_phase s i \<noteq> Released cs"
  shows "\<exists>s'. lightStep X reqs s s'"
proof (cases "inSection (ls_phase s i)")
  case True
  with section_progress [OF lightInv_reach [OF assms(1)] assms(2)] show ?thesis by blast
next
  case False
  with assms(3) have w: "ls_phase s i = Waiting" by (cases "ls_phase s i") auto
  show ?thesis
  proof (cases "mayLock reqs i s")
    case True
    with w assms(2) show ?thesis by (blast intro: lightStep.lock)
  next
    case False
    with section_progress [OF lightInv_reach [OF assms(1)] assms(2)] show ?thesis by (auto simp: mayLock_def)
  qed
qed

lemma lightStep_order: "lightStep X reqs s s' \<Longrightarrow> \<exists>more. ls_order s' = ls_order s @ more"
  by (induction rule: lightStep.induct) simp_all

lemma lightSteps_order: "(lightStep X reqs)\<^sup>*\<^sup>* s s' \<Longrightarrow> \<exists>more. ls_order s' = ls_order s @ more"
  by (induction rule: rtranclp_induct) (use lightStep_order in \<open>force+\<close>)

lemma lightAfter_valid: "validLight (lightAfter X reqs order)"
proof (induction order rule: rev_induct)
  case (snoc i order)
  then show ?case
    by (cases "reqs i") (auto simp: lightAfter_snoc split: option.split dest: lightSet_valid)
qed (simp add: lightAfter_def valid_lights)

section \<open>Example\<close>

definition exampleX :: exLibs where
  "exampleX =
     \<lparr>ex_tree = (\<lambda>s. if s = ''green'' then Ok (JMap [(''CurrentLIGHT'', JStr ''green'')]) else if s = ''blue'' then Ok (JMap [(''currentLight'', JStr ''blue'')])
         else Err (errNew ''invalid character'')),
      ex_quote = (\<lambda>s. [CHR 0x22] @ s @ [CHR 0x22]), ex_errText = (\<lambda>e. ''incorrect current light'')\<rparr>"

definition exampleSet :: "string \<Rightarrow> request" where
  "exampleSet b = \<lparr>Method = ''POST'', URLPath = ''/light/set'', RawQuery = [], Header = [], Body = \<lparr>unread = b, readError = None\<rparr>\<rparr>"

section \<open>Properties\<close>

text \<open>
  C12. The lock of the demonstration service makes its requests atomic: however the memory accesses of
  any number of requests are interleaved, a request that writes is alone between locking and
  unlocking, every answered request got the answer it would get if the requests were handled one
  after the other in the order in which they took effect, which agrees with real time, and when nobody
  holds the lock the memory has the light that this sequence leaves. The light in it is always
  one of the three.
\<close>

theorem lights_linearizable:
  assumes "(lightStep X reqs)\<^sup>*\<^sup>* lightInit s" and "(lightStep X reqs)\<^sup>*\<^sup>* s s'"
  shows "(\<forall>i j r. i \<noteq> j \<and> inSection (ls_phase s' i) \<and> inSection (ls_phase s' j) \<longrightarrow> reqs i \<noteq> SetLight r)
    \<and> distinct (ls_order s') \<and> (\<exists>later. ls_order s' = ls_order s @ later)
    \<and> (\<forall>i cs. ls_phase s' i = Released cs \<longrightarrow> (i, cs) \<in> set (lightReplies X reqs (ls_order s') lightRed))
    \<and> ((\<forall>i. \<not> inSection (ls_phase s' i)) \<longrightarrow> take (ls_len s') (ls_data s') = lightAfter X reqs (ls_order s'))
    \<and> validLight (lightAfter X reqs (ls_order s'))"
proof -
  have "lightInv X reqs s'" using lightInv_reach rtranclp_trans [OF assms] by blast
  note I = lightInvD [OF this]
  have "ls_data s' = lightAfter X reqs (ls_order s')" if "\<forall>i. \<not> inSection (ls_phase s' i)"
    using I(3) that by (metis inSection_simps(5))
  with I(4) have m: "(\<forall>i. \<not> inSection (ls_phase s' i)) \<longrightarrow> take (ls_len s') (ls_data s') = lightAfter X reqs (ls_order s')" by simp
  have "(i, cs) \<in> set (repliesIn X reqs (ls_order s'))" if "ls_phase s' i = Released cs" for i cs
    using I(2) [of i] that by simp
  moreover have "\<forall>i j r. i \<noteq> j \<and> inSection (ls_phase s' i) \<and> inSection (ls_phase s' j) \<longrightarrow> reqs i \<noteq> SetLight r"
    using I(1) unfolding exclusive_def by (metis lightRequest.distinct(1))
  ultimately show ?thesis using m I(5) lightSteps_order [OF assms(2)] lightAfter_valid by blast
qed

theorem lights_linearizable_witness:
  "\<exists>s. (lightStep exampleX (\<lambda>i. if i = 0 then SetLight (exampleSet ''green'') else GetLight))\<^sup>*\<^sup>* lightInit s
     \<and> ls_phase s 0 = Released [] \<and> ls_phase s 1 = Locked \<and> ls_order s = [0] \<and> distinct (ls_order s)
     \<and> lightAfter exampleX (\<lambda>i. if i = 0 then SetLight (exampleSet ''green'') else GetLight) [0] = lightGreen"
proof -
  let ?R = "\<lambda>i::nat. if i = 0 then SetLight (exampleSet ''green'') else GetLight"
  let ?step = "lightStep exampleX ?R"
  let ?s1 = "goto 0 Locked lightInit"
  let ?s2 = "goto 0 (Parsed ''green'') ?s1"
  let ?s3 = "(goto 0 (WroteData ''green'') ?s2)\<lparr>ls_data := ''green''\<rparr>"
  let ?s4 = "(reply 0 [] ?s3)\<lparr>ls_len := length ''green''\<rparr>"
  let ?s5 = "goto 0 (Released []) ?s4"
  let ?s6 = "goto 1 Locked ?s5"
  have r: "requestedLight exampleX (exampleSet ''green'') = Some (Ok ''green'')" by code_simp
  have "?step lightInit ?s1" by (rule lightStep.lock) (simp_all add: lightInit_def mayLock_def)
  moreover have "?step ?s1 ?s2" by (rule lightStep.accept [OF _ _ _ r]) (simp_all add: lightInit_def)
  moreover have "?step ?s2 ?s3" by (rule lightStep.writeData) (simp_all add: lightInit_def)
  moreover have "?step ?s3 ?s4" by (rule lightStep.writeLen) (simp_all add: lightInit_def)
  moreover have "?step ?s4 ?s5" by (rule lightStep.unlock) (simp_all add: lightInit_def)
  moreover have "?step ?s5 ?s6" by (rule lightStep.lock) (simp_all add: lightInit_def mayLock_def)
  ultimately have steps: "?step\<^sup>*\<^sup>* lightInit ?s6" by (meson converse_rtranclp_into_rtranclp r_into_rtranclp)
  have "lightAfter exampleX ?R [0] = lightGreen"
    using r by (simp add: lightAfter_def lightSet_def lightGreen_def)
  moreover have "distinct (ls_order ?s6)" using lights_linearizable [OF steps rtranclp.rtrancl_refl] by blast
  ultimately show ?thesis using steps by (intro exI [of _ ?s6]) (simp add: lightInit_def)
qed

end
