(* ===== verification/ExampleServices.thy ===== *)
theory ExampleServices
  imports StatelessMocks TrafficLights
begin

text \<open>
  The other services under \<open>examples/\<close>: programs that gonkey tests in the repository, with their
  backends mocked. \<open>examples/mock-field-json-str\<close>, \<open>examples/mock-xml-matching\<close> and
  \<open>examples/mock-body-matching\<close> post to the backend and report whether it answered with status 200;
  \<open>examples/xml-body-matching\<close> and \<open>examples/with-cases-example\<close> have no backend;
  \<open>examples/grpc/server\<close> looks a user up; \<open>examples/mock-based-on-request\<close> makes four requests at the
  same time and adds up the answers.

  Parameters: \<open>httpEnv\<close> parses URLs as in the HTTP transport, \<open>exLibs\<close> has JSON, the address of the
  backend is the value of \<open>BACKEND_ADDR\<close>. \<open>value\<close> decodes a JSON object with a member \<open>value\<close> into an
  \<open>int64\<close>, \<open>wait\<close> is \<open>errgroup.Group.Wait\<close> as a function of the errors in the order in which the
  goroutines return.
\<close>

section \<open>Posting to a backend\<close>

text \<open>\<open>http.Post\<close> followed by the rest of the program.\<close>

definition httpPost :: "httpEnv \<Rightarrow> string \<Rightarrow> string \<Rightarrow> string \<Rightarrow> (httpResponse gores \<Rightarrow> 'a program) \<Rightarrow> 'a program" where
  "httpPost E url contentType body k =
     (case httpNewRequest E ''POST'' url body of
        Ok rq \<Rightarrow> Call (rq\<lparr>or_Header := headerSet ''Content-Type'' contentType (or_Header rq)\<rparr>) k
      | Err e \<Rightarrow> k (Err e)
      | Panic p \<Rightarrow> k (Panic p))"

definition statusOk :: "httpResponse gores \<Rightarrow> unit gores" where
  "statusOk res =
     rbind res (\<lambda>r. if hr_StatusCode r \<noteq> 200 then Err (EFmt ''backend response status code %d'' [ShInt (hr_StatusCode r)]) else Ok ())"

definition postProcess :: "httpEnv \<Rightarrow> string \<Rightarrow> string \<Rightarrow> (unit gores \<Rightarrow> 'a program) \<Rightarrow> 'a program" where
  "postProcess E addr body k = httpPost E (''http://'' @ addr @ ''/process'') ''application/json'' body (\<lambda>res. k (statusOk res))"

definition quoted :: "string \<Rightarrow> string" where
  "quoted s = [CHR 0x22] @ s @ [CHR 0x22]"

definition statusError :: "wcall list" where
  "statusError = [Write (''{'' @ quoted ''status'' @ '': '' @ quoted ''error'' @ ''}'')]"

definition statusReply :: "string \<Rightarrow> 'w \<Rightarrow> unit gores \<Rightarrow> ('w \<times> wcall list) program" where
  "statusReply content w out =
     Reply (w, case out of Ok _ \<Rightarrow> [HeaderAdd ''Content-Type'' ''application/json'', Write content] | _ \<Rightarrow> statusError)"

definition statusOkBody :: string where
  "statusOkBody = ''{'' @ quoted ''status'' @ '': '' @ quoted ''ok'' @ ''}''"

subsection \<open>A proxy\<close>

record BackendParams =
  bp_ClientCode :: string
  bp_OriginBody :: string

definition marshalBackendParams :: "exLibs \<Rightarrow> BackendParams \<Rightarrow> string" where
  "marshalBackendParams X p =
     ''{'' @ quoted ''client_code'' @ '':'' @ ex_quote X (bp_ClientCode p) @ '','' @ quoted ''origin_request''
       @ '':{'' @ quoted ''body'' @ '':'' @ ex_quote X (bp_OriginBody p) @ ''}}''"

definition proxyBackendPost :: "httpEnv \<Rightarrow> exLibs \<Rightarrow> string \<Rightarrow> string \<Rightarrow> (unit gores \<Rightarrow> 'a program) \<Rightarrow> 'a program" where
  "proxyBackendPost E X addr originBody k =
     postProcess E addr (marshalBackendParams X \<lparr>bp_ClientCode = ''proxy'', bp_OriginBody = originBody\<rparr>) k"

definition ProxyRequest :: "httpEnv \<Rightarrow> exLibs \<Rightarrow> string \<Rightarrow> 'w handler" where
  "ProxyRequest E X addr r w =
     (case snd (readAll r) of
        Ok body \<Rightarrow> proxyBackendPost E X addr body (statusReply statusOkBody w)
      | _ \<Rightarrow> Reply (w, statusError))"

subsection \<open>Fixed bodies\<close>

text \<open>A raw string literal of the source, by its lines.\<close>

definition literal :: "string list \<Rightarrow> string" where
  "literal ls = join [CHR 0x0A] ls"

definition tabs :: "nat \<Rightarrow> string" where
  "tabs n = replicate n (CHR 0x09)"

definition personXML :: string where
  "personXML = literal
     [[], tabs 1 @ ''<Person>'',
      tabs 2 @ ''<FullName>Harry Potter</FullName>'',
      tabs 2 @ ''<Company>Hogwarts School of Witchcraft and Wizardry</Company>'',
      tabs 2 @ ''<Email where='' @ quoted ''home'' @ ''>hpotter@gmail.com</Email>'',
      tabs 2 @ ''<Email where='' @ quoted ''work'' @ ''>hpotter@hog.gb</Email>'',
      tabs 2 @ ''<Group>'', tabs 3 @ ''<Value>Jinxes</Value>'', tabs 3 @ ''<Value>Hexes</Value>'', tabs 2 @ ''</Group>'',
      tabs 2 @ ''<Addr>4 Privet Drive</Addr>'', tabs 1 @ ''</Person>'', tabs 1]"

definition xmlDo :: "httpEnv \<Rightarrow> string \<Rightarrow> 'w handler" where
  "xmlDo E addr r w = postProcess E addr personXML (statusReply statusOkBody w)"

definition heroQuery :: string where
  "heroQuery = literal
     [''query HeroNameAndFriends {'', ''      hero {'', ''        name'', ''        friends {'', ''          name'', ''        }'', ''      }'', ''    }'']"

definition heroReply :: string where
  "heroReply = literal
     [''{'', ''  '' @ quoted ''data'' @ '': {'', ''    '' @ quoted ''hero'' @ '': {'', ''      '' @ quoted ''name'' @ '': '' @ quoted ''R2-D2'' @ '','',
      ''      '' @ quoted ''friends'' @ '': ['', ''        {'', ''          '' @ quoted ''name'' @ '': '' @ quoted ''Luke Skywalker'', ''        },'',
      ''        {'', ''          '' @ quoted ''name'' @ '': '' @ quoted ''Han Solo'', ''        },'',
      ''        {'', ''          '' @ quoted ''name'' @ '': '' @ quoted ''Leia Organa'', ''        }'', ''      ]'', ''    }'', ''  }'', ''}'']"

definition heroDo :: "httpEnv \<Rightarrow> string \<Rightarrow> 'w handler" where
  "heroDo E addr r w = postProcess E addr heroQuery (statusReply heroReply w)"

definition soapReply :: string where
  "soapReply = join crlf
     [''<?xml version='' @ quoted ''1.0'' @ '' encoding='' @ quoted ''UTF-8'' @ ''?>'',
      ''      <SOAP-ENV:Envelope xmlns:SOAP-ENV='' @ quoted ''http://schemas.xmlsoap.org/soap/envelope/'',
      ''                         xmlns:ns1='' @ quoted ''http://app.example.com'' @ ''>'',
      ''      '' @ tabs 1 @ ''<SOAP-ENV:Body>'', ''      '' @ tabs 2 @ ''<ns1:notifyResponse/>'',
      ''      '' @ tabs 1 @ ''</SOAP-ENV:Body>'', ''      </SOAP-ENV:Envelope>'']"

definition soapDo :: "'w handler" where
  "soapDo r w = Reply (w, [HeaderAdd ''Content-Type'' ''application/xml'', Write soapReply])"

subsection \<open>Cases\<close>

text \<open>Errors of reading and decoding are ignored: what was stored before them stays.\<close>

definition buildRequest :: "exLibs \<Rightarrow> string \<Rightarrow> string" where
  "buildRequest X jsonRequest =
     (case ex_tree X jsonRequest of
        Ok (JMap kvs) \<Rightarrow> fst (foldl (unmarshalMember ''name'' unmarshalString) ([], None) kvs)
      | _ \<Rightarrow> [])"

definition buildResponse :: "int \<Rightarrow> string" where
  "buildResponse num = ''{'' @ quoted ''num'' @ '':'' @ itoa num @ ''}''"

definition casesDo :: "exLibs \<Rightarrow> 'w handler" where
  "casesDo X r w =
     Reply (w, [Write (buildResponse
       (if Method r \<noteq> ''POST'' then 0 else if buildRequest X (unread (Body r)) = ''a'' then 1 else 2))])"

subsection \<open>Users\<close>

record UserService =
  us_users :: "(string, string) gomap"

definition NewUserService :: "(string, string) gomap \<Rightarrow> UserService" where
  "NewUserService users = \<lparr>us_users = users\<rparr>"

text \<open>The answer is a user with identifier and name, or a status code with its message.\<close>

definition GetUser :: "UserService \<Rightarrow> string \<Rightarrow> int \<times> goerror + string \<times> string" where
  "GetUser s userId =
     (case map_of (us_users s) userId of
        None \<Rightarrow> Inl (5, EFmt ''user %q not found'' [ShStr userId])
      | Some name \<Rightarrow> Inr (userId, name))"

subsection \<open>Routes\<close>

definition proxyRoutes :: "httpEnv \<Rightarrow> exLibs \<Rightarrow> string \<Rightarrow> (string, 'w handler) gomap" where
  "proxyRoutes E X addr = [(''/proxy'', ProxyRequest E X addr)]"

definition xmlRoutes :: "httpEnv \<Rightarrow> string \<Rightarrow> (string, 'w handler) gomap" where
  "xmlRoutes E addr = [(''/do'', xmlDo E addr)]"

definition heroRoutes :: "httpEnv \<Rightarrow> string \<Rightarrow> (string, 'w handler) gomap" where
  "heroRoutes E addr = [(''/do'', heroDo E addr)]"

definition soapRoutes :: "(string, 'w handler) gomap" where
  "soapRoutes = [(''/do'', soapDo)]"

definition casesRoutes :: "exLibs \<Rightarrow> (string, 'w handler) gomap" where
  "casesRoutes X = [(''/do'', casesDo X)]"

text \<open>
  The services keep no state between requests, whatever the mocks answer: each is a service whose
  state satisfies any predicate it satisfied before.
\<close>

lemma postProcess_keeps: "P w \<Longrightarrow> allReplies (\<lambda>(w1, cs). P w1) (postProcess E addr body (statusReply content w))"
  by (simp add: postProcess_def httpPost_def statusReply_def split: res.split)

interpretation proxy_service: tested_service "serveMux (proxyRoutes E X addr)" P
  by unfold_locales (auto simp: serveMux_def proxyRoutes_def ProxyRequest_def proxyBackendPost_def postProcess_keeps split: res.split)

interpretation xml_service: tested_service "serveMux (xmlRoutes E addr)" P
  by unfold_locales (auto simp: serveMux_def xmlRoutes_def xmlDo_def postProcess_keeps)

interpretation hero_service: tested_service "serveMux (heroRoutes E addr)" P
  by unfold_locales (auto simp: serveMux_def heroRoutes_def heroDo_def postProcess_keeps)

interpretation soap_service: tested_service "serveMux soapRoutes" P
  by unfold_locales (auto simp: serveMux_def soapRoutes_def soapDo_def)

interpretation cases_service: tested_service "serveMux (casesRoutes X)" P
  by unfold_locales (auto simp: serveMux_def casesRoutes_def casesDo_def)

text \<open>What a client of the proxy sees is whether the backend answered with status 200, and the backend gets one request.\<close>

lemma proxy_reports_backend:
  assumes "readable r" and "URLPath r = ''/proxy''"
    and "httpNewRequest E ''POST'' (''http://'' @ addr @ ''/process'')
      (marshalBackendParams X \<lparr>bp_ClientCode = ''proxy'', bp_OriginBody = unread (Body r)\<rparr>) = Ok rq0"
    and "rq = rq0\<lparr>or_Header := headerSet ''Content-Type'' ''application/json'' (or_Header rq0)\<rparr>"
  shows "interact N L (serveMux (proxyRoutes E X addr) r w) ms =
    (case callMock N L rq ms of (ms1, es, resp) \<Rightarrow>
       (ms1, es, w, if \<exists>x. resp = Ok x \<and> hr_StatusCode x = 200
                    then [HeaderAdd ''Content-Type'' ''application/json'', Write statusOkBody] else statusError))"
  using assms
  by (auto simp: serveMux_def proxyRoutes_def ProxyRequest_def proxyBackendPost_def postProcess_def httpPost_def readAll_def
      statusReply_def statusOk_def split: prod.split res.split)

section \<open>Requests at the same time\<close>

text \<open>The request of one goroutine: the value in the answer, or 0, and the error.\<close>

definition doRequest :: "httpEnv \<Rightarrow> (string \<Rightarrow> 64 word gores) \<Rightarrow> string \<Rightarrow> string \<Rightarrow> string \<Rightarrow> string \<Rightarrow> (64 word \<times> goerror option) program" where
  "doRequest E value addr params method reqBody =
     (case httpNewRequest E method (''http://'' @ addr @ ''/request?'' @ params) reqBody of
        Err e \<Rightarrow> Reply (0, Some (EWrap ''failed to build request: %w'' [] e))
      | Panic p \<Rightarrow> Reply (0, Some (errNew p))
      | Ok rq \<Rightarrow> Call rq (\<lambda>res. Reply
          (case res of
             Err e \<Rightarrow> (0, Some e)
           | Panic p \<Rightarrow> (0, Some (errNew p))
           | Ok r \<Rightarrow>
               if hr_StatusCode r \<noteq> 200 then (0, Some (EFmt ''backend response status code %d'' [ShInt (hr_StatusCode r)]))
               else (case hr_Body r of
                  Ok body \<Rightarrow> (case value body of
                      Ok v \<Rightarrow> (v, None)
                    | Err e \<Rightarrow> (0, Some (EWrap ''cannot unmarshal response body %w'' [] e))
                    | Panic p \<Rightarrow> (0, Some (errNew p)))
                | Err e \<Rightarrow> (0, Some (EWrap ''cannot read response body %w'' [] e))
                | Panic p \<Rightarrow> (0, Some (errNew p))))))"

definition doRequests :: "httpEnv \<Rightarrow> (string \<Rightarrow> 64 word gores) \<Rightarrow> string \<Rightarrow> (64 word \<times> goerror option) program list" where
  "doRequests E value addr =
     [doRequest E value addr ''key=value1'' ''GET'' [], doRequest E value addr ''key=value2'' ''GET'' [],
      doRequest E value addr ''value=3'' ''GET'' [],
      doRequest E value addr ''value=4'' ''POST'' (''{'' @ quoted ''data'' @ '':{'' @ quoted ''value'' @ '': 10}}'')]"

datatype goroutine = Running "(64 word \<times> goerror option) program" | Returning "goerror option" | Stopped

record group =
  gr_routines :: "goroutine list"
  gr_mocks :: Mocks
  gr_total :: "64 word"
  gr_errs :: "goerror option list"

definition groupStart :: "(64 word \<times> goerror option) program list \<Rightarrow> Mocks \<Rightarrow> group" where
  "groupStart ps ms = \<lparr>gr_routines = map Running ps, gr_mocks = ms, gr_total = 0, gr_errs = []\<rparr>"

text \<open>A goroutine asks the backend, adds to the total atomically, or returns.\<close>

inductive groupStep :: "netEnv \<Rightarrow> libs \<Rightarrow> group \<Rightarrow> group \<Rightarrow> bool" for N L where
  ask: "i < length (gr_routines s) \<Longrightarrow> gr_routines s ! i = Running (Call rq k) \<Longrightarrow> callMock N L rq (gr_mocks s) = (ms, es, resp) \<Longrightarrow>
    groupStep N L s (s\<lparr>gr_routines := (gr_routines s)[i := Running (k resp)], gr_mocks := ms\<rparr>)"
| add: "i < length (gr_routines s) \<Longrightarrow> gr_routines s ! i = Running (Reply (v, e)) \<Longrightarrow>
    groupStep N L s (s\<lparr>gr_routines := (gr_routines s)[i := Returning e], gr_total := gr_total s + v\<rparr>)"
| return: "i < length (gr_routines s) \<Longrightarrow> gr_routines s ! i = Returning e \<Longrightarrow>
    groupStep N L s (s\<lparr>gr_routines := (gr_routines s)[i := Stopped], gr_errs := gr_errs s @ [e]\<rparr>)"

definition allStopped :: "group \<Rightarrow> bool" where
  "allStopped s \<longleftrightarrow> (\<forall>g \<in> set (gr_routines s). g = Stopped)"

definition doReply :: "exLibs \<Rightarrow> (goerror option list \<Rightarrow> goerror option) \<Rightarrow> group \<Rightarrow> wcall list" where
  "doReply X wait s =
     (case wait (gr_errs s) of
        Some e \<Rightarrow> [WriteHeader 500, Write (ex_errText X e)]
      | None \<Rightarrow> [Write (''{'' @ quoted ''total'' @ '':'' @ itoa (sint (gr_total s)) @ ''}'')])"

section \<open>The total does not depend on the schedule\<close>

lemma sum_list_map_update:
  fixes f :: "'a \<Rightarrow> 'b::comm_monoid_add"
  shows "i < length xs \<Longrightarrow> sum_list (map f (xs[i := y])) + f (xs ! i) = sum_list (map f xs) + f y"
proof (induction xs arbitrary: i)
  case (Cons x xs)
  then show ?case by (cases i) (auto simp: ac_simps)
qed simp

text \<open>What a goroutine will still add to the total and to the returned errors.\<close>

fun valueLeft :: "netEnv \<Rightarrow> libs \<Rightarrow> Mocks \<Rightarrow> goroutine \<Rightarrow> 64 word" where
  "valueLeft N L ms (Running p) = fst (resultOf N L ms p)"
| "valueLeft N L ms g = 0"

fun errorLeft :: "netEnv \<Rightarrow> libs \<Rightarrow> Mocks \<Rightarrow> goroutine \<Rightarrow> goerror option multiset" where
  "errorLeft N L ms (Running p) = {#snd (resultOf N L ms p)#}"
| "errorLeft N L ms (Returning e) = {#e#}"
| "errorLeft N L ms Stopped = {#}"

definition groupSum :: "netEnv \<Rightarrow> libs \<Rightarrow> Mocks \<Rightarrow> group \<Rightarrow> 64 word \<times> goerror option multiset" where
  "groupSum N L ms s =
     (gr_total s + sum_list (map (valueLeft N L ms) (gr_routines s)), mset (gr_errs s) + sum_list (map (errorLeft N L ms) (gr_routines s)))"

lemma groupSum_start:
  "groupSum N L ms (groupStart ps ms) =
     (sum_list (map (\<lambda>p. fst (resultOf N L ms p)) ps), mset (map (\<lambda>p. snd (resultOf N L ms p)) ps))"
  by (induction ps) (simp_all add: groupSum_def groupStart_def)

lemma groupStep_keeps:
  assumes "groupStep N L s s'" and "mocksStatic (gr_mocks s) = mocksStatic ms" and "statelessMocks ms"
  shows "mocksStatic (gr_mocks s') = mocksStatic ms \<and> groupSum N L ms s' = groupSum N L ms s"
  using assms
proof (induction rule: groupStep.induct)
  case (ask i s rq k ms' es resp)
  have stat: "mocksStatic ms' = mocksStatic ms" using mocksStatic_callMock [of N L rq "gr_mocks s"] ask by simp
  have "statelessMocks (gr_mocks s)" "statelessMocks ms'" using statelessMocks_static ask.prems stat by blast+
  then have "resultOf N L ms (Call rq k) = resultOf N L ms (k resp)"
    using resultOf_Call [OF ask.hyps(3), of k] resultOf_static [OF ask.prems(1), of N L "Call rq k"] resultOf_static [OF stat, of N L "k resp"] by simp
  then show ?case
    using sum_list_map_update [OF ask.hyps(1), of "valueLeft N L ms" "Running (k resp)"]
      sum_list_map_update [OF ask.hyps(1), of "errorLeft N L ms" "Running (k resp)"] ask.hyps(2) stat
    by (simp add: groupSum_def)
next
  case (add i s v e)
  then show ?case
    using sum_list_map_update [OF add.hyps(1), of "valueLeft N L ms" "Returning e"]
      sum_list_map_update [OF add.hyps(1), of "errorLeft N L ms" "Returning e"]
    by (simp add: groupSum_def ac_simps)
next
  case (return i s e)
  then show ?case
    using sum_list_map_update [OF return.hyps(1), of "valueLeft N L ms" Stopped]
      sum_list_map_update [OF return.hyps(1), of "errorLeft N L ms" Stopped]
    by (simp add: groupSum_def ac_simps)
qed

lemma groupSteps_sum:
  assumes "(groupStep N L)\<^sup>*\<^sup>* (groupStart ps ms) s" and "statelessMocks ms"
  shows "mocksStatic (gr_mocks s) = mocksStatic ms \<and> groupSum N L ms s = groupSum N L ms (groupStart ps ms)"
  using assms(1)
proof (induction rule: rtranclp_induct)
  case base
  show ?case by (simp add: groupStart_def)
next
  case (step s s')
  with groupStep_keeps [OF step.hyps(2) _ assms(2)] show ?case by simp
qed

lemma groupSum_stopped:
  assumes "allStopped s"
  shows "groupSum N L ms s = (gr_total s, mset (gr_errs s))"
proof -
  have "sum_list (map (valueLeft N L ms) gs) = 0 \<and> sum_list (map (errorLeft N L ms) gs) = {#}"
    if "\<forall>g \<in> set gs. g = Stopped" for gs
    using that by (induction gs) simp_all
  from this [of "gr_routines s"] assms show ?thesis by (simp add: groupSum_def allStopped_def)
qed

text \<open>Every goroutine can run to its end, and then the next one.\<close>

lemma routine_returns:
  assumes "i < length (gr_routines s)" and "gr_routines s ! i = Returning e"
  shows "\<exists>s'. groupStep N L s s' \<and> gr_routines s' = (gr_routines s)[i := Stopped]"
  using groupStep.return [OF assms, of N L] by (intro exI conjI) auto

lemma routine_finishes:
  "i < length (gr_routines s) \<Longrightarrow> gr_routines s ! i = Running p \<Longrightarrow>
     \<exists>s'. (groupStep N L)\<^sup>*\<^sup>* s s' \<and> gr_routines s' = (gr_routines s)[i := Stopped]"
proof (induction p arbitrary: s)
  case (Reply a)
  let ?s = "s\<lparr>gr_routines := (gr_routines s)[i := Returning (snd a)], gr_total := gr_total s + fst a\<rparr>"
  have "groupStep N L s ?s" using groupStep.add [of i s "fst a" "snd a"] Reply by simp
  moreover obtain s' where "groupStep N L ?s s'" "gr_routines s' = (gr_routines s)[i := Stopped]"
    using routine_returns [of i ?s "snd a" N L] Reply by auto
  ultimately show ?case by (meson converse_rtranclp_into_rtranclp r_into_rtranclp)
next
  case (Call rq k)
  obtain ms es resp where "callMock N L rq (gr_mocks s) = (ms, es, resp)" by (metis prod_cases3)
  from groupStep.ask [OF Call.prems this]
  have step: "groupStep N L s (s\<lparr>gr_routines := (gr_routines s)[i := Running (k resp)], gr_mocks := ms\<rparr>)" .
  obtain s' where "(groupStep N L)\<^sup>*\<^sup>* (s\<lparr>gr_routines := (gr_routines s)[i := Running (k resp)], gr_mocks := ms\<rparr>) s'"
      "gr_routines s' = (gr_routines s)[i := Stopped]"
    using Call.IH [of "k resp" "s\<lparr>gr_routines := (gr_routines s)[i := Running (k resp)], gr_mocks := ms\<rparr>"] Call.prems by auto
  with step show ?case by (meson converse_rtranclp_into_rtranclp)
qed

lemma routine_ends:
  assumes "i < length (gr_routines s)"
  shows "\<exists>s'. (groupStep N L)\<^sup>*\<^sup>* s s' \<and> gr_routines s' = (gr_routines s)[i := Stopped]"
proof (cases "gr_routines s ! i")
  case (Running p)
  with routine_finishes [OF assms] show ?thesis by blast
next
  case (Returning e)
  with routine_returns [OF assms] show ?thesis by (meson r_into_rtranclp)
next
  case Stopped
  then show ?thesis by (metis list_update_id rtranclp.rtrancl_refl)
qed

lemma group_finishes: "\<exists>s'. (groupStep N L)\<^sup>*\<^sup>* s s' \<and> allStopped s'"
proof -
  have "\<exists>s'. (groupStep N L)\<^sup>*\<^sup>* s s' \<and> length (gr_routines s') = length (gr_routines s) \<and> (\<forall>i < n. gr_routines s' ! i = Stopped)"
    if "n \<le> length (gr_routines s)" for n
    using that
  proof (induction n)
    case (Suc n)
    then obtain s1 where s1: "(groupStep N L)\<^sup>*\<^sup>* s s1" "length (gr_routines s1) = length (gr_routines s)"
        "\<forall>i < n. gr_routines s1 ! i = Stopped" by auto
    with Suc.prems routine_ends [of n s1 N L] obtain s2 where "(groupStep N L)\<^sup>*\<^sup>* s1 s2" "gr_routines s2 = (gr_routines s1)[n := Stopped]"
      by auto
    with s1 Suc.prems show ?case by (intro exI [of _ s2]) (auto simp: nth_list_update less_Suc_eq)
  qed (auto intro: rtranclp.rtrancl_refl)
  from this [OF le_refl] obtain s' where "(groupStep N L)\<^sup>*\<^sup>* s s'" "\<forall>i < length (gr_routines s'). gr_routines s' ! i = Stopped"
    by auto
  moreover from this(2) have "allStopped s'" by (auto simp: allStopped_def in_set_conv_nth)
  ultimately show ?thesis by blast
qed

section \<open>Example\<close>

text \<open>The mock of \<open>examples/mock-based-on-request/cases/do.yaml\<close>, with numbers for JSON texts.\<close>

definition simpleURL :: "string \<Rightarrow> urlParts gores" where
  "simpleURL u =
     (let s = drop 7 u; host = takeWhile (\<lambda>c. c \<noteq> CHR ''/'') s; rest = drop (length host) s;
          p = takeWhile (\<lambda>c. c \<noteq> CHR ''?'') rest
      in Ok \<lparr>up_Host = host, up_Path = p, up_RawQuery = drop (Suc (length p)) rest\<rparr>)"

definition decimal :: "string \<Rightarrow> 64 word gores" where
  "decimal s = (if list_all isDigit s then Ok (word_of_nat (digitsVal s)) else Err (errNew ''invalid character''))"

definition variantDef :: "string \<Rightarrow> string \<Rightarrow> strategy \<Rightarrow> mockDefinition" where
  "variantDef key val strat =
     NewDefinition ''$'' [queryConstraint [(key, [val])], pathConstraint ''/request'' None] (Some strat) CallsNoConstraint"

definition demoBackend :: Mocks where
  "demoBackend =
     [(''backend'', (NewServiceMock ''backend'' (Some (NewDefinition ''$'' []
         (Some (basedOnRequestReply
           [variantDef ''key'' ''value1'' (constantReply ''1'' 200 []), variantDef ''key'' ''value2'' (constantReply ''22'' 200 []),
            variantDef ''value'' ''3'' (templateReply (TQuery ''value'' TDone) 200 []),
            variantDef ''value'' ''4'' (templateReply (TJson (\<lambda>j. TDone ''10'')) 200 [])])) CallsNoConstraint)))
       \<lparr>sm_listener := Some ''127.0.0.1:9000''\<rparr>)]"

definition firstError :: "goerror option list \<Rightarrow> goerror option" where
  "firstError es = (case filter (\<lambda>e. e \<noteq> None) es of [] \<Rightarrow> None | e # _ \<Rightarrow> e)"

section \<open>Properties\<close>

text \<open>
  C11. The service that makes four requests at the same time answers the same under every schedule,
  when the mock of its backend has no sequences: the goroutines can always run to their end, and when
  they have stopped the reply is the sum of the four values, with the wrap-around of 64 bits, if every
  request succeeded, and otherwise status 500 with the text of the error of a request that failed. The
  group is assumed to return the first error that a goroutine returned.
\<close>

theorem concurrent_total:
  assumes "statelessMocks ms" and "(groupStep N L)\<^sup>*\<^sup>* (groupStart (doRequests E value addr) ms) s"
    and "\<forall>es. wait es = (case filter (\<lambda>e. e \<noteq> None) es of [] \<Rightarrow> None | e # _ \<Rightarrow> e)"
  shows "(\<exists>s'. (groupStep N L)\<^sup>*\<^sup>* s s' \<and> allStopped s') \<and>
    (allStopped s \<longrightarrow>
      (let rs = map (resultOf N L ms) (doRequests E value addr) in
        if \<forall>r \<in> set rs. snd r = None
        then doReply X wait s = [Write (''{'' @ quoted ''total'' @ '':'' @ itoa (sint (sum_list (map fst rs))) @ ''}'')]
        else \<exists>e. Some e \<in> snd ` set rs \<and> doReply X wait s = [WriteHeader 500, Write (ex_errText X e)]))"
proof -
  let ?ps = "doRequests E value addr"
  have "\<exists>s'. (groupStep N L)\<^sup>*\<^sup>* s s' \<and> allStopped s'" by (rule group_finishes)
  moreover have "let rs = map (resultOf N L ms) ?ps in
        if \<forall>r \<in> set rs. snd r = None
        then doReply X wait s = [Write (''{'' @ quoted ''total'' @ '':'' @ itoa (sint (sum_list (map fst rs))) @ ''}'')]
        else \<exists>e. Some e \<in> snd ` set rs \<and> doReply X wait s = [WriteHeader 500, Write (ex_errText X e)]" if "allStopped s"
  proof -
    have eq: "gr_total s = sum_list (map fst (map (resultOf N L ms) ?ps))" "mset (gr_errs s) = mset (map snd (map (resultOf N L ms) ?ps))"
      using groupSteps_sum [OF assms(2,1)] groupSum_stopped [OF that, of N L ms] groupSum_start [of N L ms ?ps] by (simp_all add: o_def)
    then have errs: "set (gr_errs s) = snd ` set (map (resultOf N L ms) ?ps)" by (metis mset_eq_setD set_map)
    show ?thesis
    proof (cases "filter (\<lambda>e. e \<noteq> None) (gr_errs s)")
      case Nil
      then have "\<forall>e \<in> set (gr_errs s). e = None" by (simp add: filter_empty_conv)
      with errs Nil eq(1) assms(3) show ?thesis by (auto simp: Let_def doReply_def)
    next
      case (Cons e0 rest)
      then have "e0 \<in> set (filter (\<lambda>e. e \<noteq> None) (gr_errs s))" by simp
      then obtain e where e: "e0 = Some e" "Some e \<in> set (gr_errs s)" by auto
      with errs have "\<not> (\<forall>r \<in> set (map (resultOf N L ms) ?ps). snd r = None)" by force
      with e errs Cons assms(3) show ?thesis by (auto simp: Let_def doReply_def)
    qed
  qed
  ultimately show ?thesis by blast
qed

theorem concurrent_total_witness:
  "\<exists>s. (groupStep exampleNet exampleLibs)\<^sup>*\<^sup>* (groupStart (doRequests (exampleEnv\<lparr>he_urlParse := simpleURL\<rparr>) decimal ''127.0.0.1:9000'') demoBackend) s
     \<and> doReply exampleX firstError s = [Write (''{'' @ quoted ''total'' @ '':36}'')]"
proof -
  let ?ps = "doRequests (exampleEnv\<lparr>he_urlParse := simpleURL\<rparr>) decimal ''127.0.0.1:9000''"
  have st: "statelessMocks demoBackend"
    by (simp add: statelessMocks_def mocksStatic_def demoBackend_def currentDef_def NewServiceMock_def NewDefinition_def variantDef_def)
  obtain s where s: "(groupStep exampleNet exampleLibs)\<^sup>*\<^sup>* (groupStart ?ps demoBackend) s" "allStopped s"
    using group_finishes by blast
  have w: "\<forall>es. firstError es = (case filter (\<lambda>e. e \<noteq> None) es of [] \<Rightarrow> None | e # _ \<Rightarrow> e)" by (simp add: firstError_def)
  have rs: "map (resultOf exampleNet exampleLibs demoBackend) ?ps = [(1, None), (22, None), (3, None), (10, None)]" by code_simp
  have "itoa (sint (sum_list (map fst [(1 :: 64 word, None :: goerror option), (22, None), (3, None), (10, None)]))) = ''36''" by code_simp
  with concurrent_total [OF st s(1) w, of exampleX] s rs show ?thesis by (intro exI [of _ s]) (simp add: Let_def)
qed

end
