(* ===== verification/Spec2Isabelle.thy ===== *)
theory Spec2Isabelle
  imports CompareQuery XmlParsing Concurrency SharedDefinitions RunState RequestSpec GrpcTransport Allure2Spec FixturesAerospike FixturesRedisSpec CommandSpec Allure1Steps
    TestClone GrpcDescriptors Allure2Store ExampleServices
begin

text \<open>
  Verification of gonkey, a tool that runs API tests written in YAML: a test sends a request to a
  service over HTTP or gRPC, against databases filled with fixtures and with the services it calls
  replaced by mocks, and checks the response, the database and the calls of the mocks.

  \<^bold>\<open>The program and its theories.\<close> Paths are below \<open>src/\<close>.

  \<^item> Shared: \<open>Prelude\<close> has the outcome of a Go call (\<open>res\<close>: a value, an error or a panic), sequencing
    and loops (\<open>rbind\<close>, \<open>mapM\<close>, \<open>foldM\<close>) and Go maps as association lists. \<open>GoStrings\<close> has the
    string functions the program uses, on bytes. \<open>Values\<close> has decoded JSON and YAML (\<open>jval\<close>, \<open>yval\<close>),
    errors (\<open>goerror\<close>, one constructor for each error type, with formats and arguments) and state
    threading (\<open>sbind\<close>). \<open>Http\<close> has requests, headers and queries.

  \<^item> \<open>compare/\<close>: \<open>Compare\<close> is \<open>compare.go\<close> with all its options; \<open>CompareSpec\<close> gives the meaning of an
    expected value (\<open>conforms\<close>) and shows that a clean comparison means exactly that, where the
    greedy matching of unordered arrays is sound but incomplete, that comparisons end, and that
    \<open>failFast\<close> only cuts the list of differences. \<open>CompareQuery\<close> is \<open>compare_query.go\<close>.
    \<open>XmlParsing\<close> is \<open>xmlparsing/parser.go\<close>.

  \<^item> \<open>mocks/\<close>: \<open>MockConstraints\<close> (\<open>request_constraint.go\<close>), \<open>MockDefs\<close> (\<open>definition.go\<close>,
    \<open>reply_strategy.go\<close>, \<open>template_reply_strategy.go\<close>), \<open>MockService\<close> (\<open>service_mock.go\<close>, \<open>mocks.go\<close>),
    \<open>MockLoader\<close> (\<open>loader.go\<close>), \<open>GrpcMock\<close> (\<open>grpc/\<close>: the mock, its handler and its loader),
    \<open>GrpcDescriptors\<close> (\<open>grpc/\<close>: descriptors with their cache, conversion of bodies, codec). \<open>RunningContext\<close> is the contract of
    everything that is reset before a test and asked for its errors after it; definitions, services
    and gRPC mocks interpret it. \<open>MockSpec\<close> and \<open>MockLoaderSpec\<close> show how requests are dispatched,
    what is reported, and that the configuration language can express every tree of definitions.

  \<^item> \<open>models/\<close> and \<open>testloader/yaml_file/\<close>: \<open>Models\<close> has tests, results and errors of checks;
    \<open>TestLoader\<close> makes tests from definitions and cases and walks the directory; \<open>TestLoaderSpec\<close>
    says which tests and files result. \<open>TestClone\<close> has \<open>Clone\<close> on a store of objects: which fields
    the copy of a test shares with it, and which it has for itself with the maps inside them.

  \<^item> \<open>variables/\<close>: \<open>Variables\<close> is the store, the substitution and the values taken from responses;
    \<open>VariablesSpec\<close> shows that substitution is simultaneous when values have no braces.

  \<^item> \<open>checker/\<close>: \<open>Checkers\<close> has the checkers for bodies, headers, databases, gRPC and OpenAPI, their
    contract (\<open>result_checker\<close>: a checker only extends the database part of a result), and what
    each accepts.

  \<^item> \<open>runner/\<close>: \<open>Runner\<close> executes a test and a run (\<open>runner.go\<close>, \<open>transport.go\<close>, \<open>console_handler.go\<close>);
    \<open>RunnerSpec\<close> has the summary, the focus, and that tests do not see the mocks' state of earlier
    tests. \<open>RunState\<close> has the well-formedness of the state across tests. \<open>SharedDefinitions\<close> runs tests
    that share mock definitions, which the substitution of variables changes in place: it shows when
    this cannot be seen, and what happens otherwise. \<open>Concurrency\<close> has the requests of a service that
    calls several mocks at once, as a step relation. \<open>CmdRunner\<close> is \<open>cmd_runner/\<close>. \<open>Request\<close> and \<open>RequestSpec\<close> are the HTTP transport (\<open>request.go\<close>, \<open>http_transport.go\<close>),
    \<open>GrpcTransport\<close> is \<open>grpc_transport.go\<close>: connections are channels that can be open or closed, the
    server and the files may differ from call to call, and the contract \<open>transport\<close> says when the
    result of a call does not depend on earlier calls; it is interpreted for both transports.

  \<^item> Whole systems: \<open>ClosedLoop\<close> puts a service under test between the HTTP transport and the mocks: the
    service is a program that calls the mocks and reacts to their answers, and it keeps a state
    between tests. It shows that the runner stops when fixtures cannot be loaded, before the service
    is called, that a test of such a system has the outcome of the runner's model for the answer the
    service gives, and has the contract
    \<open>tested_service\<close> of a service with an invariant, interpreted for the services below.
    \<open>StatelessMocks\<close> shows that mocks without sequences answer the same under every schedule.

  \<^item> \<open>examples/\<close>: \<open>TrafficLights\<close> is \<open>traffic-lights-demo\<close>, as a service and as the memory accesses of
    concurrent requests under its read-write lock; \<open>ExampleServices\<close> has the others, among them
    \<open>mock-based-on-request\<close> with its goroutines as a step relation against the mocked backend.

  \<^item> \<open>fixtures/\<close>: \<open>Fixtures\<close> reads the files with inheritance and templates, \<open>FixturesSql\<close> has the
    statements and the transaction for PostgreSQL and MySQL, several databases and the choice of a
    loader; \<open>FixturesSpec\<close> has the contracts \<open>sql_literal\<close> and \<open>sql_loader\<close> with an interpretation
    for each database, the order of the statements and their form, and what a load leaves in the
    database: everything or nothing in PostgreSQL, while MySQL keeps what was done, because
    \<open>TRUNCATE\<close> commits. \<open>FixturesAerospike\<close> reuses the
    reading of files for \<open>aerospike.go\<close> and \<open>storage/aerospike\<close>. \<open>FixturesRedis\<close> and
    \<open>FixturesRedisSpec\<close> are \<open>fixtures/redis/\<close>: parsing, extension of records, the pipelines and what
    the server holds after them.

  \<^item> \<open>output/\<close>: \<open>Allure2\<close>, \<open>Allure2Output\<close> and \<open>Allure2Spec\<close> are the Allure 2 report, \<open>Allure2Store\<close> its steps behind pointers into arrays, \<open>Outputs\<close> the
    console, the output of Go tests and the Allure 1 report, \<open>ResultText\<close> the text of a result in the
    first two, \<open>Allure1Steps\<close> the steps of Allure 1 in a store of shared objects.

  \<^item> \<open>main.go\<close>, \<open>runner/runner_testing.go\<close>, \<open>runner/runner_multidb.go\<close>: \<open>EntryPoints\<close> and
    \<open>EntryPointsSpec\<close>, with the contract \<open>test_handler\<close> between the runner and what receives the
    outcomes, interpreted for the command and for Go tests. \<open>Command\<close> composes them with the runner,
    the loader and the outputs to the three programs as wholes; \<open>CommandSpec\<close> has the exit status, the
    verdicts of subtests and the addresses of mocks in the environment.

  This theory adds what spans components: a mock from its YAML to the errors it reports, and case
  arguments followed by variables.

  \<^bold>\<open>How code is represented.\<close> Structs are records, tagged unions datatypes, functions are total and
  executable. A method that changes its receiver returns it; where several values point to the
  same object (the default definition of a service, a shared map of variables, the mock definitions
  of the cases of a test) the model says so at the definition. \<open>Run\<close> takes the tests as values, which
  is exact for tests that share no mock definitions with markers; \<open>RunGroups\<close> is the general case. Errors and panics are values; an \<open>xs[i]\<close> that may be out of range is a branch with
  \<open>Panic\<close>. Strings are byte strings. The \<open>int\<close> of Go is \<open>int\<close> with its largest value written out
  where a number is parsed; \<open>float64\<close> is its 64-bit pattern. Go maps are association lists; where the
  source ranges over a map the model takes the order of the list, and the statements hold for
  every list.

  \<^bold>\<open>Parameters.\<close> Code outside the repository is a parameter of the definitions that use it: regular
  expressions, \<open>text/template\<close> where users write the templates, JSON, YAML and XML decoders, gjson, the network, databases, files,
  scripts, random identifiers, the headers that \<open>net/http\<close> adds, \<open>errgroup\<close>. Hypotheses on them are stated in the theorems and satisfied by the
  instances in the witnesses.

  \<^bold>\<open>Termination.\<close> \<open>compareBranch\<close> ends because the values shrink, loading SQL and Aerospike fixtures
  because there are finitely many files and each is read once (files may inherit from each other),
  the other loops by structural recursion or the length of the text. The only bound is the depth
  of inheritance of Redis fixtures, where the source may recurse forever: a bound above the depth
  is shown to be enough when inheritance is well-founded, and none is enough for a file that
  inherits from itself.

  \<^bold>\<open>Not modelled.\<close> Sleeping and deadlines of requests in \<open>runner/\<close>; serving and stopping the gRPC server and
  registering its reflection service, which are calls of the gRPC library; parsing the command line; times in reports; listening on the ports of the example services; generated code.
\<close>

section \<open>From the YAML of a test to the mock it configures\<close>

lemma endService_run:
  assumes "currentDef m = Some d"
  shows "snd (endService realloc (fst (runRequests (ServeHTTP L) xs m))) =
    Ok (map (\<lambda>e. EMock e (sm_name m))
      (sm_errors m @ concat (map (\<lambda>o'. okErrors (snd o')) (snd (runRequests (Execute L) xs d)))
       @ EndRunningContext (fst (runRequests (Execute L) xs d))))"
  unfolding service_run [OF assms] using assms by (simp add: endService_def Let_def)

lemma currentDef_SetDefinition: "currentDef (SetDefinition (Some d) m) = Some (SetServiceName (sm_name m) d)"
  by (simp add: currentDef_def SetDefinition_def)

text \<open>
  C4. The YAML of a test is what the mocked service enforces, for fresh trees of definitions with
  method, path, header and nop constraints without regular expressions and any nesting of the
  constant, nop, drop, URI, method, sequence and request-based strategies (\<open>loadable\<close>; body, JSON,
  XML and query constraints and the file, template and fail strategies are not covered): loading the
  YAML form of such a tree into a known service succeeds, and for every sequence of requests the errors
  the service reports at the end of the test are the ones it already had, then the errors of the
  single requests under that tree, in order, then the differences in the numbers of calls, each
  with the name of the service.
\<close>

theorem loaded_mock_governs_service:
  assumes "loadable ''$'' d" and "Service ms name = Some m"
  shows "\<exists>ms' m'. loadMocks L [(name, showDef d)] ms = (ms', Ok ()) \<and> Service ms' name = Some m' \<and>
    snd (endService realloc (fst (runRequests (ServeHTTP L) xs m'))) =
      Ok (map (\<lambda>e. EMock e (sm_name m))
        (sm_errors m @ concat (map (\<lambda>o'. okErrors (snd o')) (snd (runRequests (Execute L) xs (SetServiceName (sm_name m) d))))
         @ EndRunningContext (fst (runRequests (Execute L) xs (SetServiceName (sm_name m) d)))))"
proof -
  let ?m = "SetDefinition (Some d) m"
  have load: "loadMocks L [(name, showDef d)] ms = (AList.update name ?m ms, Ok ())"
    using assms(2) loadDefinition_show(1) [OF assms(1)] by simp
  have "Service (AList.update name ?m ms) name = Some ?m" by (simp add: Service_def)
  moreover have "sm_name ?m = sm_name m" "sm_errors ?m = sm_errors m" by (simp_all add: SetDefinition_def)
  ultimately show ?thesis
    using load endService_run [OF currentDef_SetDefinition [of d m], of realloc L xs] by auto
qed

theorem loaded_mock_governs_service_witness:
  "\<exists>ms' m'. loadMocks exampleLibs [(''a'', showDef (NewDefinition ''$'' [methodConstraint ''GET''] (Some nopReply) 1))] (NewNop [''a'']) = (ms', Ok ())
     \<and> Service ms' ''a'' = Some m'
     \<and> snd (endService True (fst (runRequests (ServeHTTP exampleLibs) [exampleExchange ''GET'' ''/'' [], exampleExchange ''GET'' ''/'' []] m')))
       = Ok [EMock (ECalls ''$'' 1 2 ''a'') ''a'']"
proof -
  let ?d = "NewDefinition ''$'' [methodConstraint ''GET''] (Some nopReply) 1"
  let ?m = "NewServiceMock ''a'' (Some (NewDefinition ''$'' [] (Some failReply) CallsNoConstraint))"
  let ?xs = "[exampleExchange ''GET'' ''/'' [], exampleExchange ''GET'' ''/'' []]"
  have l: "loadable ''$'' ?d" by code_simp
  have s: "Service (NewNop [''a'']) ''a'' = Some ?m" by (simp add: NewNop_def Service_def)
  have e: "map (\<lambda>e. EMock e (sm_name ?m))
        (sm_errors ?m @ concat (map (\<lambda>o'. okErrors (snd o')) (snd (runRequests (Execute exampleLibs) ?xs (SetServiceName (sm_name ?m) ?d))))
         @ EndRunningContext (fst (runRequests (Execute exampleLibs) ?xs (SetServiceName (sm_name ?m) ?d))))
      = [EMock (ECalls ''$'' 1 2 ''a'') ''a'']" by code_simp
  from loaded_mock_governs_service [OF l s, of exampleLibs True ?xs, unfolded e] show ?thesis .
qed

section \<open>From the template of a case to the text of its test\<close>

text \<open>
  C14. Case arguments and variables do not interfere: the loader executes a text as a template of
  the case arguments with the variable markers protected, the runner later replaces the markers.
  For a text without template actions the two steps together replace every marker by the value
  of its variable and change nothing else, except that the white space before the dollar sign of
  an undefined variable becomes one blank. Conditions: the text is made of markers and of pieces
  without opening double braces (\<open>wfTok\<close>); the substitute that protects the markers does not occur
  in the text (\<open>protectFree\<close>; it would be turned into the beginning of a marker); no value of a
  variable has an opening brace (\<open>brace_free\<close>); the variables are stored under their names
  (\<open>vars_wf\<close>). The template engine is assumed to copy a text that contains no opening braces.
\<close>

theorem case_arguments_then_variables:
  assumes "\<forall>s a. \<not> contains s ''{{'' \<longrightarrow> exec s a = Ok s" and "list_all wfTok ts" and "protectFree ts"
    and "vars_wf vs" and "brace_free (valueOf getenv vs)"
  shows "\<exists>s. substituteArgs exec (concat (map render ts)) args = Ok s \<and>
    perform getenv vs s = concat (map (\<lambda>t. substTok (valueOf getenv vs) (normTok t)) ts)"
proof -
  have "list_all wfTok (map normTok ts)"
    using assms(2) by (induction ts rule: markerNames.induct) (auto simp: rxSpace_def)
  from perform_renders [OF assms(4,5) this] substituteArgs_renders [OF assms(1-3), of args] show ?thesis
    by (simp add: o_def)
qed

theorem case_arguments_then_variables_witness:
  "\<exists>s. substituteArgs (\<lambda>s a. Ok s) ''Hello! id: {{$id}}, other: {{   $x }}!!'' [] = Ok s \<and>
     perform (\<lambda>_. []) (loadVars [(''id'', ''7'')] []) s = ''Hello! id: 7, other: {{ $x }}!!''"
proof -
  let ?vs = "loadVars [(''id'', ''7'')] []"
  let ?ts = "[Txt ''Hello! id: '', Marker [] ''id'' [], Txt '', other: '', Marker ''   '' ''x'' '' '', Txt ''!!'']"
  have wf: "vars_wf ?vs" by (rule vars_wf_loadVars) (simp add: vars_wf_def)
  have bf: "brace_free (valueOf (\<lambda>_. []) ?vs)"
    by (simp add: brace_free_def valueOf_def getVar_def loadVars_def NewVariable_def NewFromEnvironment_def)
  have ts: "list_all wfTok ?ts" "protectFree ?ts" by code_simp+
  have r: "''Hello! id: {{$id}}, other: {{   $x }}!!'' = concat (map render ?ts)" by simp
  have s: "concat (map (\<lambda>t. substTok (valueOf (\<lambda>_. []) ?vs) (normTok t)) ?ts) = ''Hello! id: 7, other: {{ $x }}!!''" by code_simp
  show ?thesis
    unfolding r using case_arguments_then_variables [OF _ ts wf bf, of "\<lambda>s a. Ok s" "[]", unfolded s] by simp
qed

end
